(* ===== verification/Prelude.thy ===== *)
theory Prelude
  imports Main "HOL-Library.Multiset" "HOL-Library.List_Lexorder" "HOL-Library.Char_ord"
begin

text \<open>
  What every component of the development shares: the names of the model's base types, the
  fact collections, pointers into Go slices (an index found by a forward scan, a write at
  that index), and \<open>sort.Slice\<close> with the interface its comparison functions satisfy.
\<close>

section \<open>Base types and fact collections\<close>

text \<open>An instant is a number of nanoseconds since the Unix epoch, a duration a number of
  nanoseconds; a Go string is a list of bytes.\<close>

type_synonym time = int
type_synonym duration = int

named_theorems frame_simps "what an operation leaves unchanged"
named_theorems lookup_simps "how a lookup reads through an update"
named_theorems branch_defs "definitions a branch-by-branch proof unfolds"

section \<open>Pointers into slices\<close>

text \<open>
  Go's \<open>for i := range xs { if p(xs[i]) { return &xs[i] } }; return nil\<close>: the pointer is
  the index of the first match, \<open>nil\<close> is \<^term>\<open>None\<close>. A write through the pointer is
  \<open>list_update\<close> at that index.
\<close>

fun findIdx :: "('a \<Rightarrow> bool) \<Rightarrow> 'a list \<Rightarrow> nat option" where
  "findIdx p [] = None"
| "findIdx p (x # xs) = (if p x then Some 0 else map_option Suc (findIdx p xs))"

definition modifyAt :: "nat \<Rightarrow> ('a \<Rightarrow> 'a) \<Rightarrow> 'a list \<Rightarrow> 'a list" where
  "modifyAt i f xs = (if i < length xs then xs[i := f (xs ! i)] else xs)"

lemma findIdx_SomeD: "findIdx p xs = Some i \<Longrightarrow> i < length xs \<and> p (xs ! i)"
  by (induction xs arbitrary: i) (auto split: if_splits)

lemma findIdx_first: "findIdx p xs = Some i \<Longrightarrow> j < i \<Longrightarrow> \<not> p (xs ! j)"
proof (induction xs arbitrary: i j)
  case (Cons x xs)
  then show ?case by (cases j) (auto split: if_splits)
qed simp

lemma findIdx_None_iff: "findIdx p xs = None \<longleftrightarrow> (\<forall>x \<in> set xs. \<not> p x)"
  by (induction xs) auto

lemma findIdx_NoneD: "findIdx p xs = None \<Longrightarrow> x \<in> set xs \<Longrightarrow> \<not> p x"
  by (simp add: findIdx_None_iff)

lemma findIdx_length: "findIdx p xs = Some i \<Longrightarrow> i < length xs"
  using findIdx_SomeD by fast

lemma findIdx_sat: "findIdx p xs = Some i \<Longrightarrow> p (xs ! i)"
  using findIdx_SomeD by fast

lemma findIdx_in_set: "findIdx p xs = Some i \<Longrightarrow> xs ! i \<in> set xs"
  by (simp add: findIdx_length)

lemma findIdx_append:
  "findIdx p (xs @ ys) =
     (case findIdx p xs of Some i \<Rightarrow> Some i | None \<Rightarrow> map_option ((+) (length xs)) (findIdx p ys))"
  by (induction xs) (cases "findIdx p ys"; auto split: option.splits)+

lemma findIdx_append_Some [lookup_simps]:
  "findIdx p xs = Some i \<Longrightarrow> findIdx p (xs @ ys) = Some i"
  by (simp add: findIdx_append)

lemma length_modifyAt [simp]: "length (modifyAt i f xs) = length xs"
  by (simp add: modifyAt_def)

lemma modifyAt_nth:
  "j < length xs \<Longrightarrow> modifyAt i f xs ! j = (if i = j then f (xs ! j) else xs ! j)"
  by (auto simp: modifyAt_def)

lemma set_modifyAt_subset: "set (modifyAt i f xs) \<subseteq> set xs \<union> f ` set xs"
  by (auto simp: modifyAt_def dest!: set_update_subset_insert [THEN subsetD])

lemma list_all_modifyAt:
  "list_all P xs \<Longrightarrow> (\<And>x. x \<in> set xs \<Longrightarrow> P x \<Longrightarrow> P (f x)) \<Longrightarrow> list_all P (modifyAt i f xs)"
  using set_modifyAt_subset [of i f xs] by (auto simp: list_all_iff)

lemma map_modifyAt:
  "(\<And>x. g (f x) = g x) \<Longrightarrow> map g (modifyAt i f xs) = map g xs"
  by (rule nth_equalityI) (auto simp: modifyAt_nth)

text \<open>A scan sees the same pointer after a write that does not touch what it compares.\<close>

lemma findIdx_map_eq: "map p xs = map p ys \<Longrightarrow> findIdx p xs = findIdx p ys"
proof (induction xs arbitrary: ys)
  case (Cons x xs)
  then show ?case by (cases ys) auto
qed simp

lemma findIdx_modifyAt [lookup_simps]:
  "(\<And>x. p (f x) = p x) \<Longrightarrow> findIdx p (modifyAt i f xs) = findIdx p xs"
  by (rule findIdx_map_eq) (rule map_modifyAt)

lemma findIdx_map [lookup_simps]:
  "(\<And>x. p (f x) = p x) \<Longrightarrow> findIdx p (map f xs) = findIdx p xs"
  by (rule findIdx_map_eq) simp

section \<open>sort.Slice\<close>

text \<open>
  Go sorts slices of at most twelve elements by insertion from the right, and documents the
  order of equal elements as unspecified beyond that. The model is the insertion sort; every
  theorem about it holds of any sort that returns an ordered permutation.
\<close>

fun insertBack :: "('a \<Rightarrow> 'a \<Rightarrow> bool) \<Rightarrow> 'a \<Rightarrow> 'a list \<Rightarrow> 'a list" where
  "insertBack lt x [] = [x]"
| "insertBack lt x (y # ys) = (if lt x y then y # insertBack lt x ys else x # y # ys)"

definition sortSlice :: "('a \<Rightarrow> 'a \<Rightarrow> bool) \<Rightarrow> 'a list \<Rightarrow> 'a list" where
  "sortSlice lt xs = rev (foldl (\<lambda>acc x. insertBack lt x acc) [] xs)"

lemma mset_insertBack [simp]: "mset (insertBack lt x ys) = add_mset x (mset ys)"
  by (induction ys) auto

lemma mset_foldl_insertBack:
  "mset (foldl (\<lambda>acc x. insertBack lt x acc) acc xs) = mset acc + mset xs"
  by (induction xs arbitrary: acc) auto

lemma mset_sortSlice [simp]: "mset (sortSlice lt xs) = mset xs"
  by (simp add: sortSlice_def mset_foldl_insertBack)

lemma set_sortSlice [simp]: "set (sortSlice lt xs) = set xs"
  by (metis mset_sortSlice set_mset_mset)

lemma length_sortSlice [simp]: "length (sortSlice lt xs) = length xs"
  by (metis mset_sortSlice size_mset)

lemma sortSlice_Nil_iff [simp]: "sortSlice lt xs = [] \<longleftrightarrow> xs = []"
  by (metis length_sortSlice length_0_conv)

lemma sortSlice_Nil [simp]: "sortSlice lt [] = []"
  by simp

lemma distinct_sortSlice [simp]: "distinct (sortSlice lt xs) = distinct xs"
  by (metis mset_sortSlice mset_eq_imp_distinct_iff)

text \<open>The contract of a comparison passed to \<open>sort.Slice\<close>: a strict weak order.\<close>

locale slice_order =
  fixes lt :: "'a \<Rightarrow> 'a \<Rightarrow> bool"
  assumes irrefl: "\<not> lt x x"
    and trans: "lt x y \<Longrightarrow> lt y z \<Longrightarrow> lt x z"
    and weak: "lt x z \<Longrightarrow> lt x y \<or> lt y z"
begin

lemma asym: "lt x y \<Longrightarrow> \<not> lt y x"
  using irrefl trans by blast

lemma not_less_trans: "\<not> lt y x \<Longrightarrow> \<not> lt z y \<Longrightarrow> \<not> lt z x"
  using weak by blast

lemma set_insertBack: "set (insertBack lt x ys) = insert x (set ys)"
  by (induction ys) auto

lemma sorted_insertBack:
  "sorted_wrt (\<lambda>a b. \<not> lt a b) ys \<Longrightarrow> sorted_wrt (\<lambda>a b. \<not> lt a b) (insertBack lt x ys)"
proof (induction ys)
  case (Cons y ys)
  show ?case
  proof (cases "lt x y")
    case True
    with Cons show ?thesis by (auto simp: set_insertBack dest: asym)
  next
    case False
    with Cons.prems show ?thesis by (auto dest: weak [of _ _ y])
  qed
qed simp

lemma sorted_foldl:
  "sorted_wrt (\<lambda>a b. \<not> lt a b) acc \<Longrightarrow>
   sorted_wrt (\<lambda>a b. \<not> lt a b) (foldl (\<lambda>acc x. insertBack lt x acc) acc xs)"
  by (induction xs arbitrary: acc) (auto intro: sorted_insertBack)

theorem sortSlice_sorted: "sorted_wrt (\<lambda>a b. \<not> lt b a) (sortSlice lt xs)"
  by (simp add: sortSlice_def sorted_wrt_rev sorted_foldl)

theorem sortSlice_head:
  assumes "sortSlice lt xs = y # ys" and "x \<in> set xs"
  shows "\<not> lt x y"
proof -
  have "x \<in> set (y # ys)" using assms by (metis set_sortSlice)
  moreover have "\<forall>z \<in> set ys. \<not> lt z y"
    using sortSlice_sorted [of xs] assms(1) by simp
  ultimately show ?thesis using irrefl by auto
qed

end

section \<open>Normalisers\<close>

text \<open>
  The configuration of the program is normalised wherever it enters: every normaliser puts
  its input into a canonical range and leaves canonical input alone, hence is idempotent.
\<close>

locale normaliser =
  fixes norm :: "'a \<Rightarrow> 'a" and canonical :: "'a \<Rightarrow> bool"
  assumes norm_canonical: "canonical (norm x)"
    and norm_fixes: "canonical x \<Longrightarrow> norm x = x"
begin

lemma norm_idem: "norm (norm x) = norm x"
  by (rule norm_fixes) (rule norm_canonical)

lemma norm_fixpoint_iff: "norm x = x \<longleftrightarrow> canonical x"
  using norm_canonical norm_fixes by metis

end

end
