(* ===== verification/GoStrings.thy ===== *)
theory GoStrings
  imports Prelude
begin

text \<open>
  The functions of Go's \<open>strings\<close>, \<open>encoding/hex\<close>, \<open>encoding/base64\<close>, \<open>unicode/utf8\<close>
  and \<open>net\<close> packages the program calls, on byte strings, with the lemmas their callers
  need: trimming is a normaliser, splitting and joining are inverse, the base64 codec round
  trips. What needs the Unicode case tables is a parameter, used only off the ASCII path.
\<close>

section \<open>Bytes\<close>

definition isASCII :: "string \<Rightarrow> bool" where
  "isASCII s = list_all (\<lambda>c. of_char c < (128::nat)) s"

definition lowerByte :: "char \<Rightarrow> char" where
  "lowerByte c = (let n = of_char c :: nat in if 65 \<le> n \<and> n \<le> 90 then char_of (n + 32) else c)"

definition upperByte :: "char \<Rightarrow> char" where
  "upperByte c = (let n = of_char c :: nat in if 97 \<le> n \<and> n \<le> 122 then char_of (n - 32) else c)"

definition isDigit :: "char \<Rightarrow> bool" where
  "isDigit c = (let n = of_char c :: nat in 48 \<le> n \<and> n \<le> 57)"

definition digitValue :: "char \<Rightarrow> nat" where
  "digitValue c = of_char c - 48"

text \<open>Case mapping beyond ASCII is table driven: a parameter of the model.\<close>

record unicode =
  uni_lower :: "string \<Rightarrow> string"
  uni_upper :: "string \<Rightarrow> string"
  uni_fold :: "string \<Rightarrow> string \<Rightarrow> bool"

definition toLower :: "'a unicode_scheme \<Rightarrow> string \<Rightarrow> string" where
  "toLower U s = (if isASCII s then map lowerByte s else uni_lower U s)"

definition toUpper :: "'a unicode_scheme \<Rightarrow> string \<Rightarrow> string" where
  "toUpper U s = (if isASCII s then map upperByte s else uni_upper U s)"

definition equalFold :: "'a unicode_scheme \<Rightarrow> string \<Rightarrow> string \<Rightarrow> bool" where
  "equalFold U s t =
     (if isASCII s \<and> isASCII t then map lowerByte s = map lowerByte t else uni_fold U s t)"

lemma lowerByte_idem [simp]: "lowerByte (lowerByte c) = lowerByte c"
proof -
  have "of_char (char_of (n + 32) :: char) = n + 32" if "n \<le> 90" for n :: nat
    using that by simp
  then show ?thesis by (auto simp: lowerByte_def Let_def)
qed

lemma of_char_lowerByte_ASCII: "of_char c < (128::nat) \<Longrightarrow> of_char (lowerByte c) < (128::nat)"
  by (simp add: lowerByte_def Let_def)

lemma isASCII_map_lowerByte: "isASCII s \<Longrightarrow> isASCII (map lowerByte s)"
  by (auto simp: isASCII_def list_all_iff of_char_lowerByte_ASCII)

lemma toLower_idem_ASCII: "isASCII s \<Longrightarrow> toLower U (toLower U s) = toLower U s"
  by (simp add: toLower_def isASCII_map_lowerByte)

lemma equalFold_refl_ASCII: "isASCII s \<Longrightarrow> equalFold U s s"
  by (simp add: equalFold_def)

section \<open>Prefixes, splitting, joining\<close>

fun hasPrefix :: "string \<Rightarrow> string \<Rightarrow> bool" where
  "hasPrefix s [] = True"
| "hasPrefix [] (p # ps) = False"
| "hasPrefix (c # s) (p # ps) = (c = p \<and> hasPrefix s ps)"

definition hasSuffix :: "string \<Rightarrow> string \<Rightarrow> bool" where
  "hasSuffix s p = hasPrefix (rev s) (rev p)"

definition trimPrefix :: "string \<Rightarrow> string \<Rightarrow> string" where
  "trimPrefix s p = (if hasPrefix s p then drop (length p) s else s)"

definition trimSuffix :: "string \<Rightarrow> string \<Rightarrow> string" where
  "trimSuffix s p = (if hasSuffix s p then take (length s - length p) s else s)"

fun contains :: "string \<Rightarrow> string \<Rightarrow> bool" where
  "contains [] p = (p = [])"
| "contains (c # s) p = (hasPrefix (c # s) p \<or> contains s p)"

fun splitOn :: "char \<Rightarrow> string \<Rightarrow> string list" where
  "splitOn c [] = [[]]"
| "splitOn c (x # xs) =
     (if x = c then [] # splitOn c xs
      else (case splitOn c xs of [] \<Rightarrow> [[x]] | y # ys \<Rightarrow> (x # y) # ys))"

fun joinWith :: "string \<Rightarrow> string list \<Rightarrow> string" where
  "joinWith sep [] = []"
| "joinWith sep [x] = x"
| "joinWith sep (x # y # ys) = x @ sep @ joinWith sep (y # ys)"

text \<open>\<open>strings.FieldsFunc\<close>: the maximal runs of bytes that are no separator.\<close>

fun fieldsAux :: "(char \<Rightarrow> bool) \<Rightarrow> string \<Rightarrow> string \<Rightarrow> string list" where
  "fieldsAux sep cur [] = (if cur = [] then [] else [rev cur])"
| "fieldsAux sep cur (c # cs) =
     (if sep c then (if cur = [] then fieldsAux sep [] cs else rev cur # fieldsAux sep [] cs)
      else fieldsAux sep (c # cur) cs)"

definition fieldsFunc :: "(char \<Rightarrow> bool) \<Rightarrow> string \<Rightarrow> string list" where
  "fieldsFunc sep s = fieldsAux sep [] s"

definition trimRightSet :: "string \<Rightarrow> string \<Rightarrow> string" where
  "trimRightSet cutset s = rev (dropWhile (\<lambda>c. c \<in> set cutset) (rev s))"

definition trimSet :: "string \<Rightarrow> string \<Rightarrow> string" where
  "trimSet cutset s = trimRightSet cutset (dropWhile (\<lambda>c. c \<in> set cutset) s)"

definition replaceByte :: "char \<Rightarrow> char \<Rightarrow> string \<Rightarrow> string" where
  "replaceByte a b s = map (\<lambda>c. if c = a then b else c) s"

lemma hasPrefix_iff: "hasPrefix s p \<longleftrightarrow> (\<exists>t. s = p @ t)"
  by (induction s p rule: hasPrefix.induct) auto

lemma hasPrefix_length: "hasPrefix s p \<Longrightarrow> length p \<le> length s"
  by (auto simp: hasPrefix_iff)

lemma hasPrefix_append: "hasPrefix s p \<Longrightarrow> hasPrefix (s @ t) p"
  by (auto simp: hasPrefix_iff)

lemma contains_iff: "contains s p \<longleftrightarrow> (\<exists>u v. s = u @ p @ v)"
proof (induction s)
  case (Cons c s)
  note IH = Cons.IH
  show ?case
  proof
    assume "contains (c # s) p"
    then consider "hasPrefix (c # s) p" | "contains s p" by auto
    then show "\<exists>u v. c # s = u @ p @ v"
    proof cases
      case 1
      then show ?thesis by (auto simp: hasPrefix_iff intro: exI [of _ "[]"])
    next
      case 2
      then obtain u v where "s = u @ p @ v" using Cons.IH by auto
      then have "c # s = (c # u) @ p @ v" by simp
      then show ?thesis by blast
    qed
  next
    assume "\<exists>u v. c # s = u @ p @ v"
    then obtain u v where uv: "c # s = u @ p @ v" by auto
    then show "contains (c # s) p"
    proof (cases u)
      case Nil
      with uv have "hasPrefix (c # s) p" by (auto simp: hasPrefix_iff)
      then show ?thesis by simp
    next
      case (Cons d u')
      with uv have "s = u' @ p @ v" by simp
      then show ?thesis using IH by auto
    qed
  qed
qed simp

lemma splitOn_nonempty [simp]: "splitOn c s \<noteq> []"
  by (cases s) (auto split: list.splits)

lemma splitOn_no_sep: "c \<notin> set s \<Longrightarrow> splitOn c s = [s]"
  by (induction s) auto

lemma splitOn_append: "c \<notin> set s \<Longrightarrow> splitOn c (s @ c # t) = s # splitOn c t"
  by (induction s) auto

lemma splitOn_pieces: "p \<in> set (splitOn c s) \<Longrightarrow> c \<notin> set p"
proof (induction s arbitrary: p)
  case (Cons x xs)
  obtain y ys where "splitOn c xs = y # ys"
    using splitOn_nonempty by (metis list.exhaust)
  with Cons show ?case by (auto split: if_splits)
qed simp

lemma joinWith_Cons: "xs \<noteq> [] \<Longrightarrow> joinWith sep (x # xs) = x @ sep @ joinWith sep xs"
  by (cases xs) auto

lemma join_splitOn: "joinWith [c] (splitOn c s) = s"
proof (induction s)
  case (Cons x xs)
  obtain y ys where ys: "splitOn c xs = y # ys"
    using splitOn_nonempty by (metis list.exhaust)
  with Cons show ?case by (cases ys) auto
qed simp

lemma splitOn_joinWith:
  "xs \<noteq> [] \<Longrightarrow> (\<And>x. x \<in> set xs \<Longrightarrow> c \<notin> set x) \<Longrightarrow> splitOn c (joinWith [c] xs) = xs"
proof (induction xs)
  case (Cons x xs)
  show ?case
  proof (cases "xs = []")
    case True
    with Cons show ?thesis by (simp add: splitOn_no_sep)
  next
    case False
    with Cons show ?thesis by (simp add: joinWith_Cons splitOn_append)
  qed
qed simp

lemma fieldsAux_pieces:
  "f \<in> set (fieldsAux sep cur s) \<Longrightarrow> \<forall>c \<in> set cur. \<not> sep c \<Longrightarrow>
   f \<noteq> [] \<and> (\<forall>c \<in> set f. \<not> sep c)"
proof (induction s arbitrary: cur)
  case Nil
  then show ?case by (cases "cur = []") auto
next
  case (Cons a s)
  show ?case
  proof (cases "sep a")
    case True
    show ?thesis
    proof (cases "f \<in> set (fieldsAux sep [] s)")
      case True
      then show ?thesis by (rule Cons.IH) simp
    next
      case False
      with Cons.prems \<open>sep a\<close> have "f = rev cur" "cur \<noteq> []"
        by (simp_all split: if_splits)
      with Cons.prems(2) show ?thesis by simp
    qed
  next
    case False
    have "f \<in> set (fieldsAux sep (a # cur) s)" using Cons.prems(1) False by simp
    then show ?thesis by (rule Cons.IH) (use Cons.prems(2) False in simp)
  qed
qed

lemma trimRightSet_last: "trimRightSet cutset s \<noteq> [] \<Longrightarrow> last (trimRightSet cutset s) \<notin> set cutset"
  using hd_dropWhile [of "\<lambda>c. c \<in> set cutset" "rev s"] by (simp add: trimRightSet_def last_rev)

lemma trimRightSet_idem: "trimRightSet cutset (trimRightSet cutset s) = trimRightSet cutset s"
  by (simp add: trimRightSet_def)

section \<open>strings.TrimSpace\<close>

text \<open>The UTF-8 encodings of the runes with the Unicode White_Space property.\<close>

definition spaceRunes :: "string list" where
  "spaceRunes =
    [[CHR 0x09], [CHR 0x0A], [CHR 0x0B], [CHR 0x0C], [CHR 0x0D], [CHR 0x20],
     [CHR 0xC2, CHR 0x85], [CHR 0xC2, CHR 0xA0], [CHR 0xE1, CHR 0x9A, CHR 0x80],
     [CHR 0xE2, CHR 0x80, CHR 0x80], [CHR 0xE2, CHR 0x80, CHR 0x81],
     [CHR 0xE2, CHR 0x80, CHR 0x82], [CHR 0xE2, CHR 0x80, CHR 0x83],
     [CHR 0xE2, CHR 0x80, CHR 0x84], [CHR 0xE2, CHR 0x80, CHR 0x85],
     [CHR 0xE2, CHR 0x80, CHR 0x86], [CHR 0xE2, CHR 0x80, CHR 0x87],
     [CHR 0xE2, CHR 0x80, CHR 0x88], [CHR 0xE2, CHR 0x80, CHR 0x89],
     [CHR 0xE2, CHR 0x80, CHR 0x8A], [CHR 0xE2, CHR 0x80, CHR 0xA8],
     [CHR 0xE2, CHR 0x80, CHR 0xA9], [CHR 0xE2, CHR 0x80, CHR 0xAF],
     [CHR 0xE2, CHR 0x81, CHR 0x9F], [CHR 0xE3, CHR 0x80, CHR 0x80]]"

definition leadingRune :: "string list \<Rightarrow> string \<Rightarrow> string option" where
  "leadingRune ws s = List.find (\<lambda>w. w \<noteq> [] \<and> hasPrefix s w) ws"

function stripLeading :: "string list \<Rightarrow> string \<Rightarrow> string" where
  "stripLeading ws s =
     (case leadingRune ws s of None \<Rightarrow> s | Some w \<Rightarrow> stripLeading ws (drop (length w) s))"
  by pat_completeness auto
termination
  by (relation "measure (\<lambda>(ws, s). length s)")
     (auto simp: leadingRune_def find_Some_iff intro!: diff_less dest!: hasPrefix_length)

declare stripLeading.simps [simp del]

definition trimLeftSpace :: "string \<Rightarrow> string" where
  "trimLeftSpace s = stripLeading spaceRunes s"

definition trimRightSpace :: "string \<Rightarrow> string" where
  "trimRightSpace s = rev (stripLeading (map rev spaceRunes) (rev s))"

definition trimSpace :: "string \<Rightarrow> string" where
  "trimSpace s = trimRightSpace (trimLeftSpace s)"

text \<open>Canonical: no white space at either end.\<close>

definition trimmed :: "string \<Rightarrow> bool" where
  "trimmed s \<longleftrightarrow> leadingRune spaceRunes s = None \<and> leadingRune (map rev spaceRunes) (rev s) = None"

lemma leadingRune_None_prefix:
  assumes "leadingRune ws (s @ t) = None"
  shows "leadingRune ws s = None"
  using assms by (auto simp: leadingRune_def find_None_iff dest: hasPrefix_append)

lemma stripLeading_stop: "leadingRune ws s = None \<Longrightarrow> stripLeading ws s = s"
  by (simp add: stripLeading.simps)

lemma leadingRune_stripLeading [simp]: "leadingRune ws (stripLeading ws s) = None"
proof (induction ws s rule: stripLeading.induct)
  case (1 ws s)
  then show ?case
    by (cases "leadingRune ws s") (simp_all add: stripLeading.simps [of ws s])
qed

lemma stripLeading_suffix: "\<exists>t. s = t @ stripLeading ws s"
proof (induction ws s rule: stripLeading.induct)
  case (1 ws s)
  show ?case
  proof (cases "leadingRune ws s")
    case None
    then show ?thesis by (simp add: stripLeading_stop)
  next
    case (Some w)
    then obtain t where "drop (length w) s = t @ stripLeading ws (drop (length w) s)"
      using "1.IH" by auto
    then have "s = (take (length w) s @ t) @ stripLeading ws s"
      using Some by (subst stripLeading.simps) (metis append_assoc append_take_drop_id option.simps(5))
    then show ?thesis ..
  qed
qed

lemma trimRightSpace_prefix: "\<exists>t. s = trimRightSpace s @ t"
proof -
  obtain t where "rev s = t @ stripLeading (map rev spaceRunes) (rev s)"
    using stripLeading_suffix by blast
  then have "s = rev (stripLeading (map rev spaceRunes) (rev s)) @ rev t"
    by (metis rev_append rev_rev_ident)
  then show ?thesis unfolding trimRightSpace_def by blast
qed

lemma trimmed_trimSpace: "trimmed (trimSpace s)"
proof -
  obtain t where t: "trimLeftSpace s = trimRightSpace (trimLeftSpace s) @ t"
    using trimRightSpace_prefix by blast
  have "leadingRune spaceRunes (trimLeftSpace s) = None"
    by (simp add: trimLeftSpace_def)
  then have "leadingRune spaceRunes (trimRightSpace (trimLeftSpace s)) = None"
    using t leadingRune_None_prefix by metis
  then show ?thesis by (simp add: trimmed_def trimSpace_def trimRightSpace_def)
qed

lemma trimSpace_trimmed: "trimmed s \<Longrightarrow> trimSpace s = s"
  by (simp add: trimmed_def trimSpace_def trimLeftSpace_def trimRightSpace_def stripLeading_stop)

interpretation trim_space: normaliser trimSpace trimmed
  by unfold_locales (simp_all add: trimmed_trimSpace trimSpace_trimmed)

lemmas trimSpace_idem [simp] = trim_space.norm_idem

lemma trimmed_Nil [simp]: "trimmed []"
  by (simp add: trimmed_def leadingRune_def find_None_iff)
     (auto elim: hasPrefix.elims)

lemma trimSpace_Nil [simp]: "trimSpace [] = []"
  by (simp add: trimSpace_trimmed)

section \<open>Numbers, hexadecimal, UTF-8\<close>

fun showNat :: "nat \<Rightarrow> string" where
  "showNat n = (if n < 10 then [char_of (48 + n)] else showNat (n div 10) @ [char_of (48 + n mod 10)])"

declare showNat.simps [simp del]

definition showInt :: "int \<Rightarrow> string" where
  "showInt i = (if i < 0 then CHR ''-'' # showNat (nat (- i)) else showNat (nat i))"

text \<open>At least \<open>w\<close> digits, as the fields of a \<open>time.Format\<close> layout are written.\<close>

definition padInt :: "nat \<Rightarrow> int \<Rightarrow> string" where
  "padInt w i =
     (let ds = showNat (nat \<bar>i\<bar>); z = replicate (w - length ds) (CHR ''0'') @ ds
      in if i < 0 then CHR ''-'' # z else z)"

definition hexDigit :: "nat \<Rightarrow> char" where
  "hexDigit n = ''0123456789abcdef'' ! (n mod 16)"

fun hexEncode :: "string \<Rightarrow> string" where
  "hexEncode [] = []"
| "hexEncode (c # cs) = hexDigit (of_char c div 16) # hexDigit (of_char c mod 16) # hexEncode cs"

definition utf8Rune :: "nat \<Rightarrow> string" where
  "utf8Rune n =
     (if n < 0x80 then [char_of n]
      else if n < 0x800 then [char_of (0xC0 + n div 64), char_of (0x80 + n mod 64)]
      else if n < 0x10000 then
        [char_of (0xE0 + n div 4096), char_of (0x80 + n div 64 mod 64), char_of (0x80 + n mod 64)]
      else
        [char_of (0xF0 + n div 262144), char_of (0x80 + n div 4096 mod 64),
         char_of (0x80 + n div 64 mod 64), char_of (0x80 + n mod 64)])"

definition utf8 :: "nat list \<Rightarrow> string" where
  "utf8 runes = concat (map utf8Rune runes)"

lemma length_hexEncode: "length (hexEncode s) = 2 * length s"
  by (induction s) auto

lemma hexDigit_inj: "m < 16 \<Longrightarrow> n < 16 \<Longrightarrow> hexDigit m = hexDigit n \<Longrightarrow> m = n"
proof -
  assume m: "m < 16" and n: "n < 16" and eq: "hexDigit m = hexDigit n"
  have "distinct ''0123456789abcdef''" by simp
  then show "m = n"
    using m n eq by (auto simp: hexDigit_def nth_eq_iff_index_eq)
qed

lemma hexEncode_inj: "hexEncode s = hexEncode t \<Longrightarrow> s = t"
proof (induction s arbitrary: t)
  case Nil
  then show ?case by (cases t) auto
next
  case (Cons c s)
  then obtain d t' where t: "t = d # t'" by (cases t) auto
  have lt: "of_char x div 16 < (16::nat)" for x :: char
    using nat_of_char_less_256 [of x] by (simp add: less_mult_imp_div_less)
  have "of_char c div 16 = (of_char d div 16 :: nat)" "of_char c mod 16 = (of_char d mod 16 :: nat)"
    using Cons.prems t lt [of c] lt [of d]
      hexDigit_inj [of "of_char c mod 16" "of_char d mod 16"]
    by (auto dest: hexDigit_inj)
  then have "of_char c = (of_char d :: nat)"
    by (metis div_mult_mod_eq)
  then show ?case using Cons t by simp
qed
end
