(* ===== verification/Codec.thy ===== *)
theory Codec
  imports GoStrings
begin

text \<open>
  The encodings the tokens, keys and identifiers of the program go through: base64 (the URL
  alphabet without padding, and the standard alphabet with padding) and the timestamp layout
  of generated identifiers. The codec interface is stated once and interpreted on both
  alphabets' unpadded forms; the token theories use it through the interpretation.
\<close>

section \<open>encoding/base64\<close>

definition urlAlphabet :: string where
  "urlAlphabet = ''ABCDEFGHIJKLMNOPQRSTUVWXYZabcdefghijklmnopqrstuvwxyz0123456789-_''"

definition stdAlphabet :: string where
  "stdAlphabet = ''ABCDEFGHIJKLMNOPQRSTUVWXYZabcdefghijklmnopqrstuvwxyz0123456789+/''"

text \<open>The sextets of a byte string: the last group may be one or two bytes short.\<close>

fun sextets :: "nat list \<Rightarrow> nat list" where
  "sextets [] = []"
| "sextets [a] = [a div 4, a mod 4 * 16]"
| "sextets [a, b] = [a div 4, a mod 4 * 16 + b div 16, b mod 16 * 4]"
| "sextets (a # b # c # r) =
     [a div 4, a mod 4 * 16 + b div 16, b mod 16 * 4 + c div 64, c mod 64] @ sextets r"

text \<open>Decoding ignores the unused low bits of the last group, as the non-strict decoder does,
  and refuses a lone sextet.\<close>

fun unsextets :: "nat list \<Rightarrow> nat list option" where
  "unsextets [] = Some []"
| "unsextets [a] = None"
| "unsextets [a, b] = Some [a * 4 + b div 16]"
| "unsextets [a, b, c] = Some [a * 4 + b div 16, b mod 16 * 16 + c div 4]"
| "unsextets (a # b # c # d # r) =
     map_option (\<lambda>t. [a * 4 + b div 16, b mod 16 * 16 + c div 4, c mod 4 * 64 + d] @ t) (unsextets r)"

definition sextetOf :: "string \<Rightarrow> char \<Rightarrow> nat option" where
  "sextetOf alphabet c = findIdx (\<lambda>x. x = c) alphabet"

fun allSome :: "'a option list \<Rightarrow> 'a list option" where
  "allSome [] = Some []"
| "allSome (None # xs) = None"
| "allSome (Some x # xs) = map_option ((#) x) (allSome xs)"

definition rawEncode :: "string \<Rightarrow> string \<Rightarrow> string" where
  "rawEncode alphabet s = map (\<lambda>n. alphabet ! n) (sextets (map of_char s))"

definition rawDecode :: "string \<Rightarrow> string \<Rightarrow> string option" where
  "rawDecode alphabet s =
     (case allSome (map (sextetOf alphabet)
             (filter (\<lambda>c. c \<noteq> CHR 0x0A \<and> c \<noteq> CHR 0x0D) s)) of
        None \<Rightarrow> None
      | Some ns \<Rightarrow> map_option (map char_of) (unsextets ns))"

definition rawURLEncode :: "string \<Rightarrow> string" where
  "rawURLEncode s = rawEncode urlAlphabet s"

definition rawURLDecode :: "string \<Rightarrow> string option" where
  "rawURLDecode s = rawDecode urlAlphabet s"

definition stdEncode :: "string \<Rightarrow> string" where
  "stdEncode s =
     (let e = rawEncode stdAlphabet s in e @ replicate ((4 - length e mod 4) mod 4) (CHR ''=''))"

subsection \<open>Round trip\<close>

lemma allSome_map_Some [simp]: "allSome (map Some xs) = Some xs"
  by (induction xs) auto

lemma group_4_16:
  fixes a b :: nat
  assumes "b < 256"
  shows "a div 4 * 4 + (a mod 4 * 16 + b div 16) div 16 = a"
    and "(a mod 4 * 16 + b div 16) mod 16 = b div 16"
    and "a mod 4 * 16 + b div 16 < 64"
proof -
  have lt: "b div 16 < 16" using assms by (simp add: less_mult_imp_div_less)
  then have "(a mod 4 * 16 + b div 16) div 16 = a mod 4" by simp
  then show "a div 4 * 4 + (a mod 4 * 16 + b div 16) div 16 = a" by (metis div_mult_mod_eq)
  show "(a mod 4 * 16 + b div 16) mod 16 = b div 16" using lt by simp
  have "a mod 4 < 4" by simp
  with lt show "a mod 4 * 16 + b div 16 < 64" by linarith
qed

lemma group_16_4:
  fixes b c :: nat
  assumes "c < 256"
  shows "b div 16 * 16 + (b mod 16 * 4 + c div 64) div 4 = b"
    and "(b mod 16 * 4 + c div 64) mod 4 = c div 64"
    and "b mod 16 * 4 + c div 64 < 64"
proof -
  have lt: "c div 64 < 4" using assms by (simp add: less_mult_imp_div_less)
  then have "(b mod 16 * 4 + c div 64) div 4 = b mod 16" by simp
  then show "b div 16 * 16 + (b mod 16 * 4 + c div 64) div 4 = b" by (metis div_mult_mod_eq)
  show "(b mod 16 * 4 + c div 64) mod 4 = c div 64" using lt by simp
  have "b mod 16 < 16" by simp
  with lt show "b mod 16 * 4 + c div 64 < 64" by linarith
qed

lemma byte_quotients:
  fixes b :: nat
  assumes "b < 256"
  shows "b div 4 < 64" and "b div 16 < 16" and "b div 64 < 4"
    and "b mod 4 * 16 < 64" and "b mod 16 * 4 < 64" and "b mod 64 < 64"
  using assms by (simp_all add: less_mult_imp_div_less)

lemmas base64_groups = group_4_16 group_16_4 byte_quotients

lemma unsextets_sextets: "\<forall>n \<in> set ns. n < 256 \<Longrightarrow> unsextets (sextets ns) = Some ns"
proof (induction ns rule: sextets.induct)
  case (3 a b)
  then have "a < 256" "b < 256" by simp_all
  then show ?case by (simp add: base64_groups(1,2,8) div_less mod_less)
next
  case (4 a b c r)
  then have "a < 256" "b < 256" "c < 256" and "unsextets (sextets r) = Some r" by simp_all
  then show ?case
    by (simp add: base64_groups(8,9) group_4_16(1,2) group_16_4(1,2) del: div_mult_self3 div_mult_self4)
qed simp_all

lemma sextets_less_64: "\<forall>n \<in> set ns. n < 256 \<Longrightarrow> list_all (\<lambda>m. m < 64) (sextets ns)"
  by (induction ns rule: sextets.induct) (use base64_groups in simp_all)

lemma sextetOf_nth:
  assumes "distinct alphabet" and "n < length alphabet"
  shows "sextetOf alphabet (alphabet ! n) = Some n"
proof (cases "findIdx (\<lambda>x. x = alphabet ! n) alphabet")
  case None
  then show ?thesis using assms(2) by (auto simp: findIdx_None_iff)
next
  case (Some i)
  then have "i < length alphabet" "alphabet ! i = alphabet ! n"
    by (auto dest: findIdx_SomeD)
  then show ?thesis
    using assms Some by (simp add: sextetOf_def nth_eq_iff_index_eq)
qed

lemma rawEncode_alphabet:
  assumes "length alphabet = 64"
  shows "set (rawEncode alphabet s) \<subseteq> set alphabet"
proof
  fix c assume "c \<in> set (rawEncode alphabet s)"
  then obtain n where "n \<in> set (sextets (map of_char s))" and c: "c = alphabet ! n"
    by (auto simp: rawEncode_def)
  then have "n < 64" using sextets_less_64 [of "map of_char s"] by (auto simp: list_all_iff)
  then show "c \<in> set alphabet" using assms c by simp
qed

lemma rawDecode_rawEncode:
  assumes len: "length alphabet = 64" and dist: "distinct alphabet"
    and nl: "CHR 0x0A \<notin> set alphabet" "CHR 0x0D \<notin> set alphabet"
  shows "rawDecode alphabet (rawEncode alphabet s) = Some s"
proof -
  let ?ns = "sextets (map of_char s) :: nat list"
  have "filter (\<lambda>c. c \<noteq> CHR 0x0A \<and> c \<noteq> CHR 0x0D) (rawEncode alphabet s) = rawEncode alphabet s"
    using rawEncode_alphabet [OF len] nl by (auto intro!: filter_True)
  moreover have "map (sextetOf alphabet) (rawEncode alphabet s) = map Some ?ns"
    using sextets_less_64 [of "map of_char s"] len dist
    by (auto simp: rawEncode_def list_all_iff intro!: sextetOf_nth)
  ultimately show ?thesis
    by (simp add: rawDecode_def unsextets_sextets comp_def)
qed

text \<open>The interface of a text encoding, as the tokens rely on it: decoding inverts encoding,
  and an encoded string avoids the token separator.\<close>

locale text_codec =
  fixes enc :: "string \<Rightarrow> string" and dec :: "string \<Rightarrow> string option"
  assumes dec_enc: "dec (enc s) = Some s"
    and enc_no_dot: "CHR ''.'' \<notin> set (enc s)"
begin

lemma enc_inj: "enc s = enc t \<Longrightarrow> s = t"
  using dec_enc by (metis option.inject)

lemma split_two: "splitOn (CHR ''.'') (enc a @ ''.'' @ enc b) = [enc a, enc b]"
  by (simp add: splitOn_append splitOn_no_sep enc_no_dot)

lemma split_three:
  "splitOn (CHR ''.'') (enc a @ ''.'' @ enc b @ ''.'' @ enc c) = [enc a, enc b, enc c]"
  by (simp add: splitOn_append splitOn_no_sep enc_no_dot)

end

lemma urlAlphabet_facts:
  "length urlAlphabet = 64" "distinct urlAlphabet"
  "CHR 0x0A \<notin> set urlAlphabet" "CHR 0x0D \<notin> set urlAlphabet" "CHR ''.'' \<notin> set urlAlphabet"
  by (simp_all add: urlAlphabet_def)

interpretation b64url: text_codec rawURLEncode rawURLDecode
proof
  show "rawURLDecode (rawURLEncode s) = Some s" for s
    by (simp add: rawURLDecode_def rawURLEncode_def rawDecode_rawEncode urlAlphabet_facts)
  show "CHR ''.'' \<notin> set (rawURLEncode s)" for s
    using rawEncode_alphabet [OF urlAlphabet_facts(1)] urlAlphabet_facts(5)
    by (auto simp: rawURLEncode_def)
qed

text \<open>\<open>StdEncoding.DecodeString\<close>: line breaks are skipped; the rest is whole groups of four, the last of
  which may end in one or two padding bytes.\<close>

definition stdDecode :: "string \<Rightarrow> string option" where
  "stdDecode s =
     (let t = filter (\<lambda>c. c \<noteq> CHR 0x0A \<and> c \<noteq> CHR 0x0D) s;
          body = takeWhile (\<lambda>c. c \<noteq> CHR ''='') t;
          padding = dropWhile (\<lambda>c. c \<noteq> CHR ''='') t
      in if length t mod 4 = 0 \<and> (padding = [] \<or> padding = ''='' \<or> padding = ''=='')
         then rawDecode stdAlphabet body else None)"

lemma stdAlphabet_facts:
  "length stdAlphabet = 64" "distinct stdAlphabet"
  "CHR 0x0A \<notin> set stdAlphabet" "CHR 0x0D \<notin> set stdAlphabet" "CHR ''='' \<notin> set stdAlphabet"
  "CHR ''.'' \<notin> set stdAlphabet"
  by (simp_all add: stdAlphabet_def)

lemma length_sextets_mod: "length (sextets ns) mod 4 \<noteq> 1"
  by (induction ns rule: sextets.induct) simp_all

lemma padding_amount:
  assumes "(n::nat) mod 4 \<noteq> 1"
  shows "(4 - n mod 4) mod 4 \<le> 2 \<and> (n + (4 - n mod 4) mod 4) mod 4 = 0"
proof -
  have "n mod 4 < 4" by simp
  then consider "n mod 4 = 0" | "n mod 4 = 2" | "n mod 4 = 3" using assms by linarith
  then show ?thesis by cases (simp_all, presburger+)
qed

lemma stdEncode_shape:
  "\<exists>k. k \<le> 2 \<and> (length (rawEncode stdAlphabet s) + k) mod 4 = 0 \<and>
     stdEncode s = rawEncode stdAlphabet s @ replicate k (CHR ''='')"
proof -
  let ?n = "length (rawEncode stdAlphabet s)" and ?k = "(4 - length (rawEncode stdAlphabet s) mod 4) mod 4"
  have "?n mod 4 \<noteq> 1" using length_sextets_mod by (simp add: rawEncode_def)
  from padding_amount [OF this] have "?k \<le> 2 \<and> (?n + ?k) mod 4 = 0" .
  then show ?thesis by (intro exI [where x = ?k]) (simp add: stdEncode_def Let_def)
qed

interpretation b64std: text_codec stdEncode stdDecode
proof
  fix s
  let ?e = "rawEncode stdAlphabet s"
  have e: "set ?e \<subseteq> set stdAlphabet" by (rule rawEncode_alphabet [OF stdAlphabet_facts(1)])
  obtain k where k: "k \<le> 2" "(length ?e + k) mod 4 = 0" "stdEncode s = ?e @ replicate k (CHR ''='')"
    using stdEncode_shape [of s] by (elim exE conjE) (rule that)
  have clean: "\<forall>c \<in> set ?e. c \<noteq> CHR 0x0A \<and> c \<noteq> CHR 0x0D \<and> c \<noteq> CHR ''=''"
    using e stdAlphabet_facts(3-5) by blast
  then have "filter (\<lambda>c. c \<noteq> CHR 0x0A \<and> c \<noteq> CHR 0x0D) ?e = ?e" by (intro filter_True) blast
  then have "filter (\<lambda>c. c \<noteq> CHR 0x0A \<and> c \<noteq> CHR 0x0D) (stdEncode s) = stdEncode s"
    by (simp add: k(3) filter_replicate)
  moreover have "takeWhile (\<lambda>c. c \<noteq> CHR ''='') (stdEncode s) = ?e"
    unfolding k(3) using clean by (subst takeWhile_append2) (auto simp: takeWhile_replicate)
  moreover have "dropWhile (\<lambda>c. c \<noteq> CHR ''='') (stdEncode s) = replicate k (CHR ''='')"
    unfolding k(3) using clean by (subst dropWhile_append2) (auto simp: dropWhile_replicate)
  moreover have "replicate k (CHR ''='') = [] \<or> replicate k (CHR ''='') = ''='' \<or>
      replicate k (CHR ''='') = ''==''"
    using k(1) by (cases k; cases "k - 1") (auto simp: numeral_2_eq_2)
  moreover have "rawDecode stdAlphabet ?e = Some s"
    by (simp add: rawDecode_rawEncode stdAlphabet_facts)
  ultimately show "stdDecode (stdEncode s) = Some s"
    using k clean by (auto simp: stdDecode_def Let_def)
  show "CHR ''.'' \<notin> set (stdEncode s)"
    using e stdAlphabet_facts(6) by (auto simp: k(3))
qed

text \<open>Text without white space, which trimming leaves alone: what both encodings produce.\<close>

definition visibleText :: "string \<Rightarrow> bool" where
  "visibleText s \<longleftrightarrow> (\<forall>c \<in> set s. 32 < (of_char c :: nat) \<and> (of_char c :: nat) < 128)"

lemma not_leading:
  assumes v: "visibleText s" and ws: "\<forall>w \<in> set ws. w \<noteq> [] \<longrightarrow> (of_char (hd w) :: nat) \<le> 32 \<or> (of_char (hd w) :: nat) \<ge> 128"
  shows "leadingRune ws s = None"
proof -
  have "\<not> hasPrefix s w" if w: "w \<in> set ws" "w \<noteq> []" for w
  proof
    assume "hasPrefix s w"
    then have "hd w \<in> set s" using w(2) by (cases w) (auto simp: hasPrefix_iff)
    with v have "32 < (of_char (hd w) :: nat) \<and> (of_char (hd w) :: nat) < 128" by (simp add: visibleText_def)
    moreover have "(of_char (hd w) :: nat) \<le> 32 \<or> (of_char (hd w) :: nat) \<ge> 128" using ws w by blast
    ultimately show False by linarith
  qed
  then show ?thesis by (auto simp: leadingRune_def find_None_iff)
qed

lemma trimSpace_visible: "visibleText s \<Longrightarrow> trimSpace s = s"
  by (rule trimSpace_trimmed, unfold trimmed_def, intro conjI not_leading)
     (simp_all add: visibleText_def spaceRunes_def)

lemma rawEncode_visible: "visibleText alphabet \<Longrightarrow> length alphabet = 64 \<Longrightarrow> visibleText (rawEncode alphabet s)"
  using rawEncode_alphabet by (fastforce simp: visibleText_def)

lemma alphabets_visible: "visibleText stdAlphabet" "visibleText urlAlphabet"
  by (simp_all add: visibleText_def stdAlphabet_def urlAlphabet_def)

lemma rawURLEncode_visible: "visibleText (rawURLEncode s)"
  by (simp add: rawURLEncode_def rawEncode_visible alphabets_visible urlAlphabet_facts)

lemma stdEncode_bytes: "set (stdEncode s) \<subseteq> insert (CHR ''='') (set stdAlphabet)"
  using rawEncode_alphabet [OF stdAlphabet_facts(1), of s] by (auto simp: stdEncode_def Let_def)

lemma stdEncode_visible: "visibleText (stdEncode s)"
  using stdEncode_bytes [of s] alphabets_visible(1) by (force simp: visibleText_def)

lemma stdEncode_no_prefix:
  "trimPrefix (stdEncode s) ''ed25519:'' = stdEncode s" "trimPrefix (stdEncode s) ''lgpk_'' = stdEncode s"
proof -
  have "CHR '':'' \<notin> insert (CHR ''='') (set stdAlphabet)" "CHR ''_'' \<notin> insert (CHR ''='') (set stdAlphabet)"
    by (simp_all add: stdAlphabet_def)
  then have "CHR '':'' \<notin> set (stdEncode s)" "CHR ''_'' \<notin> set (stdEncode s)"
    using stdEncode_bytes by blast+
  then show "trimPrefix (stdEncode s) ''ed25519:'' = stdEncode s" "trimPrefix (stdEncode s) ''lgpk_'' = stdEncode s"
    by (auto simp: trimPrefix_def hasPrefix_iff)
qed

section \<open>Timestamps of identifiers\<close>

text \<open>The proleptic Gregorian date of a day number counted from 1970-01-01, as Go's
  \<open>time\<close> package computes it.\<close>

definition civilFromDays :: "int \<Rightarrow> int \<times> int \<times> int" where
  "civilFromDays d =
     (let z = d + 719468;
          era = z div 146097;
          doe = z mod 146097;
          yoe = (doe - doe div 1460 + doe div 36524 - doe div 146096) div 365;
          doy = doe - (365 * yoe + yoe div 4 - yoe div 100);
          mp = (5 * doy + 2) div 153;
          day = doy - (153 * mp + 2) div 5 + 1;
          mon = (if mp < 10 then mp + 3 else mp - 9);
          year = yoe + era * 400 + (if mon \<le> 2 then 1 else 0)
      in (year, mon, day))"

definition unixSeconds :: "time \<Rightarrow> int" where
  "unixSeconds t = t div 1000000000"

text \<open>\<open>t.UTC().Format("20060102150405")\<close>\<close>

definition formatStamp :: "time \<Rightarrow> string" where
  "formatStamp t =
     (let secs = unixSeconds t;
          (y, m, d) = civilFromDays (secs div 86400);
          sod = secs mod 86400
      in padInt 4 y @ padInt 2 m @ padInt 2 d @
         padInt 2 (sod div 3600) @ padInt 2 (sod mod 3600 div 60) @ padInt 2 (sod mod 60))"

end
