(* ===== verification/Types.thy ===== *)
theory Types
  imports Codec
begin

text \<open>
  The data model of internal/licensecore/types.go: one record per Go struct, one field per
  struct field, in the source's order and with the source's names behind a short prefix.
  A pointer field is an option, a slice a list, a timestamp an instant; \<open>map[string]any\<close> is
  an association list of dynamically typed values, \<^term>\<open>None\<close> for the nil map.
\<close>

text \<open>Values of Go's dynamic type \<open>any\<close>, as far as the program builds or inspects them.
  \<open>GStrs\<close> is \<open>[]string\<close>, which a type switch tells apart from \<open>[]any\<close> (\<open>GList\<close>).\<close>

datatype gval =
    GNil
  | GStr string
  | GInt int
  | GBool bool
  | GFloat string
  | GTime time
  | GStrs "string list"
  | GList "gval list"
  | GMap "(string \<times> gval) list"

type_synonym gmap = "(string \<times> gval) list"

text \<open>The optional dynamic values the program stores: a nil pointer is a nil value.\<close>

definition gOptBool :: "bool option \<Rightarrow> gval" where
  "gOptBool b = (case b of None \<Rightarrow> GNil | Some v \<Rightarrow> GBool v)"

definition gOptTime :: "time option \<Rightarrow> gval" where
  "gOptTime t = (case t of None \<Rightarrow> GNil | Some v \<Rightarrow> GTime v)"

record Admin =
  adm_ID :: string
  adm_Account :: string
  adm_Name :: string
  adm_PasswordHash :: string
  adm_Status :: string
  adm_CreatedAt :: time
  adm_UpdatedAt :: time

record App =
  app_ID :: string
  app_AppKey :: string
  app_Name :: string
  app_Description :: string
  app_OwnerTeam :: string
  app_Status :: string
  app_CreatedAt :: time
  app_UpdatedAt :: time

record AppRelease =
  rel_ID :: string
  rel_AppID :: string
  rel_Platform :: string
  rel_Version :: string
  rel_BuildNumber :: int
  rel_Channel :: string
  rel_Status :: string
  rel_SignerThumbprint :: string
  rel_MainBinaryHash :: string
  rel_ResourceManifestHash :: string
  rel_BusinessManifestSHA256 :: string
  rel_ProtectedDBSchemaHash :: string
  rel_ProtectedDBTablesHash :: string
  rel_AssetsManifestSHA256 :: string
  rel_WorkflowManifestSHA256 :: string
  rel_DownloadURL :: string
  rel_PackageSHA256 :: string
  rel_Mandatory :: bool
  rel_MinSupportedVersion :: string
  rel_RolloutPercent :: int
  rel_ReleaseNotes :: string
  rel_CreatedAt :: time

record SDKKey =
  sdk_ID :: string
  sdk_AppID :: string
  sdk_PublicKey :: string
  sdk_SecretHash :: string
  sdk_KeyPrefix :: string
  sdk_Status :: string
  sdk_LastUsedAt :: "time option"
  sdk_CreatedAt :: time
  sdk_RotatedAt :: "time option"

record SDKKeyView =
  sdkv_ID :: string
  sdkv_AppID :: string
  sdkv_PublicKey :: string
  sdkv_KeyPrefix :: string
  sdkv_Status :: string
  sdkv_LastUsedAt :: "time option"
  sdkv_CreatedAt :: time
  sdkv_RotatedAt :: "time option"

record License =
  lic_ID :: string
  lic_LicenseKeyHash :: string
  lic_LicenseKeyPrefix :: string
  lic_AppID :: string
  lic_PlanName :: string
  lic_OwnerType :: string
  lic_OwnerRef :: string
  lic_MaxDevices :: int
  lic_Entitlements :: "string list"
  lic_ExpiresAt :: time
  lic_Status :: string
  lic_CreatedAt :: time
  lic_UpdatedAt :: time

record CapabilityPolicy =
  pol_AppID :: string
  pol_Capability :: string
  pol_RequiredEntitlement :: string
  pol_Mode :: string
  pol_Message :: string
  pol_LimitsJSON :: "gmap option"
  pol_CreatedAt :: time
  pol_UpdatedAt :: time

record Device =
  dev_ID :: string
  dev_DeviceFingerprintHash :: string
  dev_InstallIDHash :: string
  dev_Platform :: string
  dev_OSVersion :: string
  dev_MachineNameHash :: string
  dev_RiskScore :: int
  dev_Status :: string
  dev_FirstSeenAt :: time
  dev_LastSeenAt :: time

record Activation =
  act_ID :: string
  act_LicenseID :: string
  act_DeviceID :: string
  act_AppID :: string
  act_ActivationStatus :: string
  act_ActivatedAt :: time
  act_LastVerifiedAt :: time
  act_DeactivatedAt :: "time option"

record IntegrityReport =
  ir_ID :: string
  ir_AppID :: string
  ir_DeviceID :: string
  ir_ReleaseID :: string
  ir_VerifySessionID :: string
  ir_Platform :: string
  ir_AppVersion :: string
  ir_MainBinaryHash :: string
  ir_SignerThumbprint :: string
  ir_BusinessManifestSHA256 :: string
  ir_BusinessManifestSignatureValid :: "bool option"
  ir_ProtectedDBSchemaHash :: string
  ir_ProtectedDBTablesHash :: string
  ir_AssetsManifestSHA256 :: string
  ir_WorkflowManifestSHA256 :: string
  ir_BusinessIntegrityStatus :: string
  ir_BusinessIntegrityErrors :: "string list"
  ir_DBEncryptionStatus :: string
  ir_DBEncryptionErrors :: "string list"
  ir_DebuggerDetected :: bool
  ir_SuspiciousModules :: "string list"
  ir_VMIndicators :: "string list"
  ir_CreatedAt :: time

record RiskEvent =
  risk_ID :: string
  risk_AppID :: string
  risk_DeviceID :: string
  risk_LicenseID :: string
  risk_EventType :: string
  risk_Severity :: string
  risk_Action :: string
  risk_Summary :: string
  risk_Metadata :: "gmap option"
  risk_CreatedAt :: time
  risk_ResolvedAt :: "time option"

record AuditLog =
  aud_ID :: string
  aud_AdminID :: string
  aud_Action :: string
  aud_TargetType :: string
  aud_TargetID :: string
  aud_IP :: string
  aud_UserAgent :: string
  aud_Metadata :: "gmap option"
  aud_CreatedAt :: time

record SystemSettings =
  set_DefaultTokenTTLMinutes :: int
  set_MediumRiskTokenTTLMinutes :: int
  set_OfflineGraceDays :: int
  set_DefaultMaxDevices :: int
  set_DefaultLicenseDays :: int
  set_AuditLogRetentionDays :: int
  set_MFARequired :: bool
  set_SensitiveActionConfirm :: bool
  set_UpdatedAt :: time

record Data =
  data_Admins :: "Admin list"
  data_Apps :: "App list"
  data_Releases :: "AppRelease list"
  data_SDKKeys :: "SDKKey list"
  data_Licenses :: "License list"
  data_CapabilityPolicies :: "CapabilityPolicy list"
  data_Devices :: "Device list"
  data_Activations :: "Activation list"
  data_IntegrityReports :: "IntegrityReport list"
  data_RiskEvents :: "RiskEvent list"
  data_AuditLogs :: "AuditLog list"
  data_Settings :: SystemSettings

record Challenge =
  chg_ID :: string
  chg_Nonce :: string
  chg_AppID :: string
  chg_InstallID :: string
  chg_ExpiresAt :: time
  chg_CreatedAt :: time

record DeviceInfo =
  di_InstallID :: string
  di_Fingerprint :: string
  di_OS :: string
  di_OSVersion :: string
  di_MachineNameHash :: string

record IntegrityRequest =
  iq_AppVersion :: string
  iq_MainBinaryHash :: string
  iq_SignerThumbprint :: string
  iq_BusinessManifestSHA256 :: string
  iq_BusinessManifestSignatureValid :: "bool option"
  iq_ProtectedDBSchemaHash :: string
  iq_ProtectedDBTablesHash :: string
  iq_AssetsManifestSHA256 :: string
  iq_WorkflowManifestSHA256 :: string
  iq_BusinessIntegrityStatus :: string
  iq_BusinessIntegrityErrors :: "string list"
  iq_DBEncryptionStatus :: string
  iq_DBEncryptionErrors :: "string list"
  iq_DebuggerDetected :: bool
  iq_SuspiciousModules :: "string list"
  iq_VMIndicators :: "string list"

record RiskResult =
  rr_Level :: string
  rr_Score :: int
  rr_Actions :: "string list"

record UpdateInfo =
  upd_Available :: bool
  upd_Required :: bool
  upd_LatestVersion :: string
  upd_DownloadURL :: string
  upd_PackageSHA256 :: string
  upd_ReleaseNotes :: string

record CapabilityDecision =
  dec_Capability :: string
  dec_RequiredEntitlement :: string
  dec_ConfiguredMode :: string
  dec_EffectiveMode :: string
  dec_Allowed :: bool
  dec_Reason :: string
  dec_Message :: string
  dec_LimitsJSON :: "gmap option"

record CapabilityPolicyBundle =
  cb_AppID :: string
  cb_LicenseID :: string
  cb_DeviceID :: string
  cb_Entitlements :: "string list"
  cb_Decisions :: "CapabilityDecision list"
  cb_IssuedAt :: int
  cb_ExpiresAt :: int

record SignedCapabilityPolicyBundle =
  scb_Alg :: string
  scb_KeyType :: string
  scb_Bundle :: CapabilityPolicyBundle
  scb_Signature :: string

record VerifyResponse =
  vr_Allowed :: bool
  vr_Code :: string
  vr_Message :: string
  vr_LicenseToken :: string
  vr_ExpiresAt :: "time option"
  vr_OfflineGraceUntil :: "time option"
  vr_Entitlements :: "string list"
  vr_CapabilityPolicy :: "SignedCapabilityPolicyBundle option"
  vr_DeviceStatus :: string
  vr_Risk :: RiskResult
  vr_Update :: "UpdateInfo option"

record OnboardingStep =
  step_ID :: string
  step_Label :: string
  step_Status :: string
  step_Source :: string
  step_Evidence :: "gmap option"

record OnboardingResponse =
  onb_AppID :: string
  onb_App :: App
  onb_ClientEndpoint :: string
  onb_HasActiveSDKKey :: bool
  onb_HasRelease :: bool
  onb_HasLicense :: bool
  onb_LatestRelease :: "AppRelease option"
  onb_LatestDevice :: "Device option"
  onb_LatestIntegrityReport :: "IntegrityReport option"
  onb_LatestRiskEvent :: "RiskEvent option"
  onb_OfflineGraceDays :: int
  onb_Steps :: "OnboardingStep list"
  onb_GeneratedAt :: time

record DiagnosticFinding =
  fnd_Scope :: string
  fnd_Status :: string
  fnd_Code :: string
  fnd_Message :: string
  fnd_Evidence :: "gmap option"

record AuthorizationDiagnosticResponse =
  diag_AppID :: string
  diag_App :: "App option"
  diag_License :: "License option"
  diag_Device :: "Device option"
  diag_Activation :: "Activation option"
  diag_Release :: "AppRelease option"
  diag_CapabilityPolicy :: "CapabilityPolicy option"
  diag_CapabilityDecision :: "CapabilityDecision option"
  diag_LatestIntegrityReport :: "IntegrityReport option"
  diag_LatestRiskEvent :: "RiskEvent option"
  diag_LatestCapabilityDeny :: "RiskEvent option"
  diag_Update :: "UpdateInfo option"
  diag_Findings :: "DiagnosticFinding list"
  diag_GeneratedAt :: time

record LicenseTokenClaims =
  tok_Iss :: string
  tok_AppID :: string
  tok_LicenseID :: string
  tok_DeviceID :: string
  tok_Entitlements :: "string list"
  tok_IssuedAt :: int
  tok_ExpiresAt :: int
  tok_OfflineGraceUntil :: int

end
