(* ===== verification/ServerState.thy ===== *)
theory ServerState
  imports Types
begin

text \<open>
  The server of internal/licensecore/server.go as a state: its record, the libraries it calls
  as parameters, the inputs of one request (clock readings, random bytes, outcomes of saving),
  HTTP requests and responses, and the operations every handler shares: identifiers, saving,
  risk events and audit entries.

  A handler runs under the server's mutex, so one request is a function from the state before
  it to the state after it. Each call of \<open>time.Now\<close>, \<open>rand.Read\<close> and \<open>store.Save\<close> on a
  path of a handler has a number of its own, in program order: \<open>env_now e k\<close> is the reading
  the k-th site sees, so no two readings are assumed equal.
\<close>

section \<open>Libraries\<close>

text \<open>SHA-256, Ed25519, bcrypt, the JSON codec, the error texts of the base64 decoder and the
  \<open>%q\<close> verb are parameters; \<^term>\<open>Inl\<close> is the error
  text such a call returns.\<close>

record golib = unicode +
  lib_sha256 :: "string \<Rightarrow> string"
  lib_sign :: "string \<Rightarrow> string \<Rightarrow> string"
  lib_verify :: "string \<Rightarrow> string \<Rightarrow> string \<Rightarrow> bool"
  lib_bcrypt_compare :: "string \<Rightarrow> string \<Rightarrow> bool"
  lib_bcrypt_generate :: "string \<Rightarrow> string \<Rightarrow> string + string"
  lib_marshal_claims :: "LicenseTokenClaims \<Rightarrow> string + string"
  lib_unmarshal_claims :: "string \<Rightarrow> string + LicenseTokenClaims"
  lib_marshal_bundle :: "CapabilityPolicyBundle \<Rightarrow> string + string"
  lib_base64_error :: "string \<Rightarrow> string"
  lib_quote :: "string \<Rightarrow> string"

definition hashString :: "golib \<Rightarrow> string \<Rightarrow> string" where
  "hashString L value = hexEncode (lib_sha256 L value)"

section \<open>The server's state\<close>

record AdminSession =
  ses_AdminID :: string
  ses_ExpiresAt :: time

record rateLimitState =
  rl_WindowStart :: time
  rl_Failures :: int

text \<open>\<open>srv_store\<close> is what the store would load: \<^term>\<open>None\<close> is \<open>ErrStoreNotFound\<close>.\<close>

record Server =
  srv_data :: Data
  srv_store :: "Data option"
  srv_publicKey :: string
  srv_privateKey :: string
  srv_challenges :: "string \<rightharpoonup> Challenge"
  srv_adminSessions :: "string \<rightharpoonup> AdminSession"
  srv_corsAllowedOrigins :: "string list"
  srv_publicBaseURL :: string
  srv_rateLimits :: "string \<rightharpoonup> rateLimitState"
  srv_rateLimitWindow :: duration
  srv_rateLimitFailures :: int

section \<open>Requests and responses\<close>

record env =
  env_now :: "nat \<Rightarrow> time"
  env_rand :: "nat \<Rightarrow> nat \<Rightarrow> char"
  env_save :: "nat \<Rightarrow> (string \<times> Data option) option"

record Request =
  req_Method :: string
  req_Path :: string
  req_RemoteAddr :: string
  req_Host :: string
  req_TLS :: bool
  req_Header :: "string \<Rightarrow> string"
  req_Query :: "string \<Rightarrow> string"

text \<open>A JSON body as the handlers build it: dynamic values, ad hoc objects, and the structs
  of the data model.\<close>

datatype payload =
    PVal gval
  | PObject "(string \<times> payload) list"
  | PVerify VerifyResponse
  | PRisk RiskResult
  | PDecision CapabilityDecision
  | PApp App
  | PApps "App list"
  | PRelease AppRelease
  | PReleases "AppRelease list"
  | PLicense License
  | PLicenses "License list"
  | PDevice Device
  | PDevices "Device list"
  | PRiskEvent RiskEvent
  | PRiskEvents "RiskEvent list"
  | PAuditLogs "AuditLog list"
  | PSettings SystemSettings
  | PPolicies "CapabilityPolicy list"
  | PSDKKey SDKKeyView
  | PSDKKeys "SDKKeyView list"
  | POnboarding OnboardingResponse
  | PDiagnostic AuthorizationDiagnosticResponse
  | PNoBody

record Response =
  rsp_status :: nat
  rsp_body :: payload

definition writeJSON :: "nat \<Rightarrow> payload \<Rightarrow> Response" where
  "writeJSON status value = \<lparr>rsp_status = status, rsp_body = value\<rparr>"

definition writeError :: "nat \<Rightarrow> string \<Rightarrow> string \<Rightarrow> Response" where
  "writeError status code message =
     writeJSON status
       (PObject [(''error'', PObject [(''code'', PVal (GStr code)), (''message'', PVal (GStr message))])])"

definition errorCode :: "Response \<Rightarrow> string option" where
  "errorCode r =
     (case rsp_body r of
        PObject [(k, PObject [(c, PVal (GStr code)), (m, PVal (GStr message))])] \<Rightarrow>
          if k = ''error'' \<and> c = ''code'' then Some code else None
      | _ \<Rightarrow> None)"

lemma errorCode_writeError [simp]: "errorCode (writeError st c m) = Some c"
  by (simp add: errorCode_def writeError_def writeJSON_def)

lemma rsp_writeJSON [simp]:
  "rsp_status (writeJSON st b) = st" "rsp_body (writeJSON st b) = b"
  by (simp_all add: writeJSON_def)

text \<open>\<open>decodeJSON\<close>: the body is either the decoded request or the decoder's error text.\<close>

definition decodeJSON ::
  "string + 'req \<Rightarrow> ('req \<Rightarrow> Server \<Rightarrow> Server \<times> Response) \<Rightarrow> Server \<Rightarrow> Server \<times> Response" where
  "decodeJSON body k s =
     (case body of
        Inl err \<Rightarrow> (s, writeError 400 ''INVALID_JSON'' err)
      | Inr req \<Rightarrow> k req s)"

text \<open>The zero \<open>time.Time\<close> is midnight of 1 January of the year 1.\<close>

definition zeroTime :: time where
  "zeroTime = -62135596800 * 1000000000"

definition isZeroTime :: "time \<Rightarrow> bool" where
  "isZeroTime t \<longleftrightarrow> t = zeroTime"

section \<open>Identifiers\<close>

definition randBytes :: "env \<Rightarrow> nat \<Rightarrow> nat \<Rightarrow> string" where
  "randBytes e k n = map (env_rand e k) [0..<n]"

definition randomString :: "env \<Rightarrow> nat \<Rightarrow> nat \<Rightarrow> string" where
  "randomString e k n = rawURLEncode (randBytes e k n)"

definition newID :: "env \<Rightarrow> nat \<Rightarrow> string \<Rightarrow> string" where
  "newID e k prefix =
     prefix @ ''_'' @ formatStamp (env_now e k) @ ''_'' @ randomString e k 8"

definition generateLicenseKey :: "golib \<Rightarrow> env \<Rightarrow> nat \<Rightarrow> string" where
  "generateLicenseKey L e k =
     ''LG-'' @ toUpper L (take 4 (randomString e k 4)) @ ''-'' @
     toUpper L (take 4 (randomString e (k + 1) 4)) @ ''-'' @
     toUpper L (take 4 (randomString e (k + 2) 4))"

definition licensePrefix :: "string \<Rightarrow> string" where
  "licensePrefix key = (if length key \<le> 12 then key else take 12 key)"

section \<open>Saving\<close>

definition updData :: "(Data \<Rightarrow> Data) \<Rightarrow> Server \<Rightarrow> Server" where
  "updData f s = s\<lparr>srv_data := f (srv_data s)\<rparr>"

definition saveLocked :: "env \<Rightarrow> nat \<Rightarrow> Server \<Rightarrow> Server \<times> string option" where
  "saveLocked e k s =
     (case env_save e k of
        None \<Rightarrow> (s\<lparr>srv_store := Some (srv_data s)\<rparr>, None)
      | Some (err, left) \<Rightarrow> (s\<lparr>srv_store := left\<rparr>, Some err))"

text \<open>The store interface as the server relies on it: a save that reports no error is what a
  later load returns, and saving changes nothing else.\<close>

locale data_store =
  fixes save :: "'e \<Rightarrow> 's \<Rightarrow> 's \<times> string option"
    and load :: "'s \<Rightarrow> 'd option"
    and live :: "'s \<Rightarrow> 'd"
  assumes save_ok: "save e s = (s', None) \<Longrightarrow> load s' = Some (live s)"
    and save_live: "live (fst (save e s)) = live s"
begin

lemma saved_is_live: "save e s = (s', None) \<Longrightarrow> load s' = Some (live s')"
  using save_ok save_live by (metis fst_conv)

lemma not_persisted_failed: "load (fst (save e s)) \<noteq> Some (live s) \<Longrightarrow> snd (save e s) \<noteq> None"
  using save_ok by (metis prod.collapse)

end

interpretation store: data_store "\<lambda>(e, k). saveLocked e k" srv_store srv_data
  by unfold_locales (auto simp: saveLocked_def split: option.splits)

lemma fst_saveLocked_sel [simp, frame_simps]:
  "srv_data (fst (saveLocked e k s)) = srv_data s"
  "srv_publicKey (fst (saveLocked e k s)) = srv_publicKey s"
  "srv_privateKey (fst (saveLocked e k s)) = srv_privateKey s"
  "srv_challenges (fst (saveLocked e k s)) = srv_challenges s"
  "srv_adminSessions (fst (saveLocked e k s)) = srv_adminSessions s"
  "srv_rateLimits (fst (saveLocked e k s)) = srv_rateLimits s"
  "srv_rateLimitWindow (fst (saveLocked e k s)) = srv_rateLimitWindow s"
  "srv_rateLimitFailures (fst (saveLocked e k s)) = srv_rateLimitFailures s"
  "srv_corsAllowedOrigins (fst (saveLocked e k s)) = srv_corsAllowedOrigins s"
  "srv_publicBaseURL (fst (saveLocked e k s)) = srv_publicBaseURL s"
  by (auto simp: saveLocked_def split: option.splits)

lemma updData_sel [simp, frame_simps]:
  "srv_data (updData f s) = f (srv_data s)"
  "srv_store (updData f s) = srv_store s"
  "srv_publicKey (updData f s) = srv_publicKey s"
  "srv_privateKey (updData f s) = srv_privateKey s"
  "srv_challenges (updData f s) = srv_challenges s"
  "srv_adminSessions (updData f s) = srv_adminSessions s"
  "srv_rateLimits (updData f s) = srv_rateLimits s"
  "srv_rateLimitWindow (updData f s) = srv_rateLimitWindow s"
  "srv_rateLimitFailures (updData f s) = srv_rateLimitFailures s"
  "srv_corsAllowedOrigins (updData f s) = srv_corsAllowedOrigins s"
  "srv_publicBaseURL (updData f s) = srv_publicBaseURL s"
  by (simp_all add: updData_def)

section \<open>Risk events\<close>

definition addRiskEventLocked ::
  "env \<Rightarrow> nat \<Rightarrow> string \<Rightarrow> string \<Rightarrow> string \<Rightarrow> string \<Rightarrow> string \<Rightarrow> string \<Rightarrow> string \<Rightarrow> gmap option
   \<Rightarrow> Server \<Rightarrow> Server" where
  "addRiskEventLocked e k appID deviceID licenseID eventType severity action summary metadata =
     updData (\<lambda>d. d\<lparr>data_RiskEvents := data_RiskEvents d @
       [\<lparr>risk_ID = newID e k ''risk'', risk_AppID = appID, risk_DeviceID = deviceID,
         risk_LicenseID = licenseID, risk_EventType = eventType, risk_Severity = severity,
         risk_Action = action, risk_Summary = summary, risk_Metadata = metadata,
         risk_CreatedAt = env_now e (k + 1), risk_ResolvedAt = None\<rparr>]\<rparr>)"

section \<open>Client addresses\<close>

text \<open>\<open>net.SplitHostPort\<close>, the host part or an error.\<close>

definition lastIndex :: "char \<Rightarrow> string \<Rightarrow> nat option" where
  "lastIndex c s = map_option (\<lambda>i. length s - 1 - i) (findIdx (\<lambda>x. x = c) (rev s))"

definition splitHost :: "string \<Rightarrow> string option" where
  "splitHost hp =
     (case lastIndex CHR '':'' hp of
        None \<Rightarrow> None
      | Some i \<Rightarrow>
          (if take 1 hp = ''['' then
             (case findIdx (\<lambda>c. c = CHR '']'') hp of
                None \<Rightarrow> None
              | Some end0 \<Rightarrow>
                  if end0 + 1 = i \<and> CHR ''['' \<notin> set (drop 1 hp) \<and> CHR '']'' \<notin> set (drop (end0 + 1) hp)
                  then Some (drop 1 (take end0 hp)) else None)
           else if CHR '':'' \<in> set (take i hp) \<or> CHR ''['' \<in> set hp \<or> CHR '']'' \<in> set hp then None
           else Some (take i hp)))"

definition clientAddr :: "Request \<Rightarrow> string" where
  "clientAddr r =
     (case splitHost (trimSpace (req_RemoteAddr r)) of
        Some host \<Rightarrow> if host \<noteq> [] then host else trimSpace (req_RemoteAddr r)
      | None \<Rightarrow> trimSpace (req_RemoteAddr r))"

definition clientIP :: "Request \<Rightarrow> string" where
  "clientIP r =
     (let forwarded = req_Header r ''X-Forwarded-For'' in
      if forwarded \<noteq> [] then trimSpace (hd (splitOn (CHR '','') forwarded))
      else (case splitHost (req_RemoteAddr r) of None \<Rightarrow> req_RemoteAddr r | Some host \<Rightarrow> host))"

definition bearerToken :: "Request \<Rightarrow> string" where
  "bearerToken r =
     (let auth = req_Header r ''Authorization''; token = trimPrefix auth ''Bearer '' in
      if token = [] \<or> token = auth then [] else token)"

end
