(* ===== verification/Entities.thy ===== *)
theory Entities
  imports ServerState
begin

text \<open>
  The lookups of server.go over the server's data: every \<open>find...Locked\<close> scans a slice for
  its first match and returns a pointer into it (here an index), every \<open>latest...Locked\<close> a
  copy of a most recent element. The lemmas say what a returned pointer or copy is.
\<close>

section \<open>Pointers into the data\<close>

definition findAdminByAccountLocked :: "golib \<Rightarrow> string \<Rightarrow> Server \<Rightarrow> nat option" where
  "findAdminByAccountLocked L account0 s =
     (let account = toLower L (trimSpace account0)
      in findIdx (\<lambda>a. equalFold L (adm_Account a) account) (data_Admins (srv_data s)))"

definition findAdminByIDLocked :: "string \<Rightarrow> Server \<Rightarrow> nat option" where
  "findAdminByIDLocked i s = findIdx (\<lambda>a. adm_ID a = i) (data_Admins (srv_data s))"

definition invalidateAdminSessionsExceptLocked :: "string \<Rightarrow> string \<Rightarrow> Server \<Rightarrow> Server" where
  "invalidateAdminSessionsExceptLocked adminID keepToken s =
     s\<lparr>srv_adminSessions := (\<lambda>token. case srv_adminSessions s token of
          None \<Rightarrow> None
        | Some session \<Rightarrow>
            if ses_AdminID session = adminID \<and> token \<noteq> keepToken then None else Some session)\<rparr>"

definition findAppLocked :: "string \<Rightarrow> Server \<Rightarrow> nat option" where
  "findAppLocked appID s =
     findIdx (\<lambda>a. app_AppKey a = appID \<or> app_ID a = appID) (data_Apps (srv_data s))"

definition licensesForAppLocked :: "string \<Rightarrow> Server \<Rightarrow> License list" where
  "licensesForAppLocked appID s = filter (\<lambda>l. lic_AppID l = appID) (data_Licenses (srv_data s))"

definition findLicenseByKeyLocked :: "golib \<Rightarrow> string \<Rightarrow> Server \<Rightarrow> nat option" where
  "findLicenseByKeyLocked L key s =
     findIdx (\<lambda>l. lic_LicenseKeyHash l = hashString L key) (data_Licenses (srv_data s))"

definition findLicenseByIDLocked :: "string \<Rightarrow> Server \<Rightarrow> nat option" where
  "findLicenseByIDLocked i s = findIdx (\<lambda>l. lic_ID l = i) (data_Licenses (srv_data s))"

definition activeSDKKeyForAppLocked :: "string \<Rightarrow> Server \<Rightarrow> nat option" where
  "activeSDKKeyForAppLocked appID s =
     findIdx (\<lambda>k. sdk_AppID k = appID \<and> sdk_Status k = ''active'') (data_SDKKeys (srv_data s))"

definition findDeviceByFingerprintLocked :: "string \<Rightarrow> Server \<Rightarrow> nat option" where
  "findDeviceByFingerprintLocked fingerprintHash s =
     findIdx (\<lambda>d. dev_DeviceFingerprintHash d = fingerprintHash) (data_Devices (srv_data s))"

definition findDeviceByIDLocked :: "string \<Rightarrow> Server \<Rightarrow> nat option" where
  "findDeviceByIDLocked i s = findIdx (\<lambda>d. dev_ID d = i) (data_Devices (srv_data s))"

definition findDeviceByInstallHashLocked :: "string \<Rightarrow> Server \<Rightarrow> nat option" where
  "findDeviceByInstallHashLocked installIDHash s =
     findIdx (\<lambda>d. dev_InstallIDHash d = installIDHash) (data_Devices (srv_data s))"

definition findActivationLocked :: "string \<Rightarrow> string \<Rightarrow> Server \<Rightarrow> nat option" where
  "findActivationLocked licenseID deviceID s =
     findIdx (\<lambda>a. act_LicenseID a = licenseID \<and> act_DeviceID a = deviceID)
       (data_Activations (srv_data s))"

definition findRiskEventByIDLocked :: "string \<Rightarrow> Server \<Rightarrow> nat option" where
  "findRiskEventByIDLocked i s = findIdx (\<lambda>v. risk_ID v = i) (data_RiskEvents (srv_data s))"

text \<open>The number of distinct devices with an active activation of a license.\<close>

definition activeDevices :: "string \<Rightarrow> Activation list \<Rightarrow> string list" where
  "activeDevices licenseID acts =
     map act_DeviceID (filter (\<lambda>a. act_LicenseID a = licenseID \<and> act_ActivationStatus a = ''active'') acts)"

definition activeDeviceCountLocked :: "string \<Rightarrow> Server \<Rightarrow> int" where
  "activeDeviceCountLocked licenseID s =
     int (length (remdups (activeDevices licenseID (data_Activations (srv_data s)))))"

section \<open>Copies of the most recent element\<close>

text \<open>The loop keeps the first of the elements with the greatest time.\<close>

definition laterOf :: "('a \<Rightarrow> time) \<Rightarrow> 'a option \<Rightarrow> 'a \<Rightarrow> 'a option" where
  "laterOf f latest x =
     (case latest of None \<Rightarrow> Some x | Some y \<Rightarrow> if f x > f y then Some x else Some y)"

definition scanLatest :: "('a \<Rightarrow> time) \<Rightarrow> ('a \<Rightarrow> bool) \<Rightarrow> 'a list \<Rightarrow> 'a option" where
  "scanLatest f keep xs = foldl (\<lambda>latest x. if keep x then laterOf f latest x else latest) None xs"

definition latestActivationForLicenseLocked :: "string \<Rightarrow> Server \<Rightarrow> Activation option" where
  "latestActivationForLicenseLocked licenseID s =
     scanLatest act_LastVerifiedAt (\<lambda>a. act_LicenseID a = licenseID) (data_Activations (srv_data s))"

definition latestDeviceForAppLocked :: "string \<Rightarrow> Server \<Rightarrow> Device option" where
  "latestDeviceForAppLocked appID s =
     (let known = map act_DeviceID (filter (\<lambda>a. act_AppID a = appID) (data_Activations (srv_data s))) @
                  map ir_DeviceID (filter (\<lambda>r. ir_AppID r = appID) (data_IntegrityReports (srv_data s)))
      in scanLatest dev_LastSeenAt (\<lambda>d. List.member known (dev_ID d)) (data_Devices (srv_data s)))"

definition latestIntegrityReportForAppLocked :: "string \<Rightarrow> Server \<Rightarrow> IntegrityReport option" where
  "latestIntegrityReportForAppLocked appID s =
     scanLatest ir_CreatedAt (\<lambda>r. ir_AppID r = appID) (data_IntegrityReports (srv_data s))"

definition latestIntegrityReportForDiagnosticLocked ::
  "string \<Rightarrow> Device option \<Rightarrow> Server \<Rightarrow> IntegrityReport option" where
  "latestIntegrityReportForDiagnosticLocked appID device s =
     (case device of
        None \<Rightarrow> latestIntegrityReportForAppLocked appID s
      | Some d \<Rightarrow> scanLatest ir_CreatedAt (\<lambda>r. ir_AppID r = appID \<and> ir_DeviceID r = dev_ID d)
                   (data_IntegrityReports (srv_data s)))"

definition latestRiskEventForAppLocked :: "string \<Rightarrow> Server \<Rightarrow> RiskEvent option" where
  "latestRiskEventForAppLocked appID s =
     scanLatest risk_CreatedAt (\<lambda>v. risk_AppID v = appID) (data_RiskEvents (srv_data s))"

definition metadataString :: "gmap option \<Rightarrow> string \<Rightarrow> string" where
  "metadataString metadata key =
     (case metadata of
        None \<Rightarrow> []
      | Some m \<Rightarrow> (case map_of m key of Some (GStr v) \<Rightarrow> v | _ \<Rightarrow> []))"

definition latestRiskEventForDiagnosticLocked ::
  "string \<Rightarrow> string \<Rightarrow> string \<Rightarrow> string \<Rightarrow> string \<Rightarrow> Server \<Rightarrow> RiskEvent option" where
  "latestRiskEventForDiagnosticLocked appID licenseID deviceID eventType capability s =
     scanLatest risk_CreatedAt
       (\<lambda>v. risk_AppID v = appID \<and>
            (licenseID = [] \<or> risk_LicenseID v = licenseID) \<and>
            (deviceID = [] \<or> risk_DeviceID v = deviceID) \<and>
            (eventType = [] \<or> risk_EventType v = eventType) \<and>
            (capability = [] \<or> metadataString (risk_Metadata v) ''capability'' = capability))
       (data_RiskEvents (srv_data s))"

definition activationCountForAppLocked :: "string \<Rightarrow> Server \<Rightarrow> int" where
  "activationCountForAppLocked appID s =
     int (length (filter (\<lambda>a. act_AppID a = appID) (data_Activations (srv_data s))))"

definition hasActivationForAppLocked :: "string \<Rightarrow> Server \<Rightarrow> bool" where
  "hasActivationForAppLocked appID s \<longleftrightarrow> activationCountForAppLocked appID s > 0"

section \<open>SDK keys as the API shows them\<close>

definition sdkKeyPrefix :: "string \<Rightarrow> string" where
  "sdkKeyPrefix secret = (if length secret \<le> 16 then secret else take 16 secret)"

definition newSDKKey ::
  "golib \<Rightarrow> env \<Rightarrow> nat \<Rightarrow> string \<Rightarrow> string \<Rightarrow> time \<Rightarrow> bool \<Rightarrow> SDKKey \<times> string" where
  "newSDKKey L e k appID publicKey now rotated =
     (let secret = ''lgsk_'' @ randomString e k 32
      in (\<lparr>sdk_ID = newID e (k + 1) ''sdk'', sdk_AppID = appID, sdk_PublicKey = publicKey,
           sdk_SecretHash = hashString L secret, sdk_KeyPrefix = sdkKeyPrefix secret,
           sdk_Status = ''active'', sdk_LastUsedAt = None, sdk_CreatedAt = now,
           sdk_RotatedAt = (if rotated then Some now else None)\<rparr>, secret))"

definition sdkKeyView :: "SDKKey \<Rightarrow> SDKKeyView" where
  "sdkKeyView key =
     \<lparr>sdkv_ID = sdk_ID key, sdkv_AppID = sdk_AppID key, sdkv_PublicKey = sdk_PublicKey key,
      sdkv_KeyPrefix = sdk_KeyPrefix key, sdkv_Status = sdk_Status key,
      sdkv_LastUsedAt = sdk_LastUsedAt key, sdkv_CreatedAt = sdk_CreatedAt key,
      sdkv_RotatedAt = sdk_RotatedAt key\<rparr>"

definition sdkKeyViewsForAppLocked :: "string \<Rightarrow> Server \<Rightarrow> SDKKeyView list" where
  "sdkKeyViewsForAppLocked appID s =
     sortSlice (\<lambda>a b. sdkv_CreatedAt a > sdkv_CreatedAt b)
       (map sdkKeyView (filter (\<lambda>k. sdk_AppID k = appID) (data_SDKKeys (srv_data s))))"

section \<open>Lemmas\<close>

lemma laterOf_notNone [simp]: "laterOf f latest x \<noteq> None"
  by (simp add: laterOf_def split: option.split)

lemma foldl_laterOf:
  "foldl (\<lambda>latest x. if keep x then laterOf f latest x else latest) latest xs = Some r \<Longrightarrow>
   (r \<in> set xs \<and> keep r \<or> latest = Some r) \<and>
   (\<forall>x \<in> set xs. keep x \<longrightarrow> f x \<le> f r) \<and> (\<forall>y. latest = Some y \<longrightarrow> f y \<le> f r)"
proof (induction xs arbitrary: latest)
  case (Cons x xs)
  let ?l = "if keep x then laterOf f latest x else latest"
  have "foldl (\<lambda>latest x. if keep x then laterOf f latest x else latest) ?l xs = Some r"
    using Cons.prems by simp
  from Cons.IH [OF this]
  show ?case
    by (cases latest) (auto simp: laterOf_def split: if_splits)
qed simp

lemma scanLatest_SomeD:
  "scanLatest f keep xs = Some r \<Longrightarrow> r \<in> set xs \<and> keep r \<and> (\<forall>x \<in> set xs. keep x \<longrightarrow> f x \<le> f r)"
  unfolding scanLatest_def by (drule foldl_laterOf) simp

lemma foldl_laterOf_notNone:
  "latest \<noteq> None \<Longrightarrow> foldl (\<lambda>latest x. if keep x then laterOf f latest x else latest) latest xs \<noteq> None"
proof (induction xs arbitrary: latest)
  case (Cons x xs)
  have "(if keep x then laterOf f latest x else latest) \<noteq> None"
    using Cons.prems laterOf_notNone [of f latest x] by (cases "keep x") simp_all
  from Cons.IH [OF this] show ?case by (simp only: foldl_Cons not_False_eq_True)
qed simp

lemma scanLatest_None_iff: "scanLatest f keep xs = None \<longleftrightarrow> (\<forall>x \<in> set xs. \<not> keep x)"
  unfolding scanLatest_def
proof (induction xs)
  case (Cons x xs)
  then show ?case
    using foldl_laterOf_notNone [of "laterOf f None x" keep f xs] by simp
qed simp

lemma activeDeviceCount_card:
  "activeDeviceCountLocked licenseID s =
     int (card {d. \<exists>a \<in> set (data_Activations (srv_data s)).
                   act_LicenseID a = licenseID \<and> act_ActivationStatus a = ''active'' \<and> act_DeviceID a = d})"
proof -
  have "set (activeDevices licenseID (data_Activations (srv_data s))) =
          {d. \<exists>a \<in> set (data_Activations (srv_data s)).
              act_LicenseID a = licenseID \<and> act_ActivationStatus a = ''active'' \<and> act_DeviceID a = d}"
    by (auto simp: activeDevices_def)
  then show ?thesis
    by (simp add: activeDeviceCountLocked_def length_remdups_card_conv)
qed

lemma invalidate_sel [simp, frame_simps]:
  "srv_data (invalidateAdminSessionsExceptLocked a k s) = srv_data s"
  "srv_store (invalidateAdminSessionsExceptLocked a k s) = srv_store s"
  "srv_challenges (invalidateAdminSessionsExceptLocked a k s) = srv_challenges s"
  "srv_rateLimits (invalidateAdminSessionsExceptLocked a k s) = srv_rateLimits s"
  "srv_publicKey (invalidateAdminSessionsExceptLocked a k s) = srv_publicKey s"
  "srv_privateKey (invalidateAdminSessionsExceptLocked a k s) = srv_privateKey s"
  "srv_rateLimitWindow (invalidateAdminSessionsExceptLocked a k s) = srv_rateLimitWindow s"
  "srv_rateLimitFailures (invalidateAdminSessionsExceptLocked a k s) = srv_rateLimitFailures s"
  by (simp_all add: invalidateAdminSessionsExceptLocked_def)

text \<open>A secret is never part of a view; the views are the keys of the app.\<close>

lemma set_sdkKeyViews:
  "set (sdkKeyViewsForAppLocked appID s) =
     sdkKeyView ` {k \<in> set (data_SDKKeys (srv_data s)). sdk_AppID k = appID}"
  by (simp add: sdkKeyViewsForAppLocked_def)

end
