(* ===== verification/Settings.thy ===== *)
theory Settings
  imports ServerState
begin

text \<open>
  System settings (server.go, \<open>defaultSystemSettings\<close>, \<open>normalizeSystemSettings\<close>,
  \<open>settingsLocked\<close>, the clamps): every read of the settings goes through the normaliser, so
  the token lifetimes, grace period and defaults the handlers use are always in range.
\<close>

definition clampPercent :: "int \<Rightarrow> int" where
  "clampPercent value = (if value < 0 then 0 else if value > 100 then 100 else value)"

definition clampInt :: "int \<Rightarrow> int \<Rightarrow> int \<Rightarrow> int" where
  "clampInt value lo hi = (if value < lo then lo else if value > hi then hi else value)"

definition defaultSystemSettings :: "time \<Rightarrow> SystemSettings" where
  "defaultSystemSettings now =
     \<lparr>set_DefaultTokenTTLMinutes = 12 * 60,
      set_MediumRiskTokenTTLMinutes = 30,
      set_OfflineGraceDays = 7,
      set_DefaultMaxDevices = 3,
      set_DefaultLicenseDays = 365,
      set_AuditLogRetentionDays = 365,
      set_MFARequired = False,
      set_SensitiveActionConfirm = False,
      set_UpdatedAt = now\<rparr>"

text \<open>The first half replaces missing values by the defaults.\<close>

definition fillSettings :: "time \<Rightarrow> SystemSettings \<Rightarrow> SystemSettings" where
  "fillSettings now settings =
     (let d = defaultSystemSettings now;
          s1 = (if set_DefaultTokenTTLMinutes settings \<le> 0
                then settings\<lparr>set_DefaultTokenTTLMinutes := set_DefaultTokenTTLMinutes d\<rparr> else settings);
          s2 = (if set_MediumRiskTokenTTLMinutes s1 \<le> 0
                then s1\<lparr>set_MediumRiskTokenTTLMinutes := set_MediumRiskTokenTTLMinutes d\<rparr> else s1);
          s3 = (if set_OfflineGraceDays s2 < 0
                then s2\<lparr>set_OfflineGraceDays := set_OfflineGraceDays d\<rparr> else s2);
          s4 = (if set_DefaultMaxDevices s3 \<le> 0
                then s3\<lparr>set_DefaultMaxDevices := set_DefaultMaxDevices d\<rparr> else s3);
          s5 = (if set_DefaultLicenseDays s4 \<le> 0
                then s4\<lparr>set_DefaultLicenseDays := set_DefaultLicenseDays d\<rparr> else s4);
          s6 = (if set_AuditLogRetentionDays s5 \<le> 0
                then s5\<lparr>set_AuditLogRetentionDays := set_AuditLogRetentionDays d\<rparr> else s5)
      in if set_UpdatedAt s6 = zeroTime then s6\<lparr>set_UpdatedAt := now\<rparr> else s6)"

definition normalizeSystemSettings :: "time \<Rightarrow> SystemSettings \<Rightarrow> SystemSettings" where
  "normalizeSystemSettings now settings =
     (let s0 = fillSettings now settings;
          s1 = s0\<lparr>set_DefaultTokenTTLMinutes := clampInt (set_DefaultTokenTTLMinutes s0) 5 (30 * 24 * 60)\<rparr>;
          s2 = s1\<lparr>set_MediumRiskTokenTTLMinutes :=
                   clampInt (set_MediumRiskTokenTTLMinutes s1) 5 (set_DefaultTokenTTLMinutes s1)\<rparr>;
          s3 = s2\<lparr>set_OfflineGraceDays := clampInt (set_OfflineGraceDays s2) 0 30\<rparr>;
          s4 = s3\<lparr>set_DefaultMaxDevices := clampInt (set_DefaultMaxDevices s3) 1 1000\<rparr>;
          s5 = s4\<lparr>set_DefaultLicenseDays := clampInt (set_DefaultLicenseDays s4) 1 3650\<rparr>;
          s6 = s5\<lparr>set_AuditLogRetentionDays := clampInt (set_AuditLogRetentionDays s5) 7 3650\<rparr>
      in s6)"

definition settingsLocked :: "time \<Rightarrow> Server \<Rightarrow> SystemSettings" where
  "settingsLocked now s = normalizeSystemSettings now (data_Settings (srv_data s))"

text \<open>The canonical settings.\<close>

definition settingsInRange :: "SystemSettings \<Rightarrow> bool" where
  "settingsInRange st \<longleftrightarrow>
     5 \<le> set_DefaultTokenTTLMinutes st \<and> set_DefaultTokenTTLMinutes st \<le> 43200 \<and>
     5 \<le> set_MediumRiskTokenTTLMinutes st \<and>
     set_MediumRiskTokenTTLMinutes st \<le> set_DefaultTokenTTLMinutes st \<and>
     0 \<le> set_OfflineGraceDays st \<and> set_OfflineGraceDays st \<le> 30 \<and>
     1 \<le> set_DefaultMaxDevices st \<and> set_DefaultMaxDevices st \<le> 1000 \<and>
     1 \<le> set_DefaultLicenseDays st \<and> set_DefaultLicenseDays st \<le> 3650 \<and>
     7 \<le> set_AuditLogRetentionDays st \<and> set_AuditLogRetentionDays st \<le> 3650"

definition settingsOK :: "time \<Rightarrow> SystemSettings \<Rightarrow> bool" where
  "settingsOK now st \<longleftrightarrow> settingsInRange st \<and> (set_UpdatedAt st = zeroTime \<longrightarrow> now = zeroTime)"

lemma clampInt_bounds: "lo \<le> hi \<Longrightarrow> lo \<le> clampInt v lo hi \<and> clampInt v lo hi \<le> hi"
  by (simp add: clampInt_def)

lemma clampInt_id: "lo \<le> v \<Longrightarrow> v \<le> hi \<Longrightarrow> clampInt v lo hi = v"
  by (simp add: clampInt_def)

lemma clampPercent_bounds: "0 \<le> clampPercent v \<and> clampPercent v \<le> 100"
  by (simp add: clampPercent_def)

interpretation percent: normaliser clampPercent "\<lambda>v. 0 \<le> v \<and> v \<le> 100"
  by unfold_locales (simp_all add: clampPercent_def)

lemma normalizeSystemSettings_sel:
  "set_DefaultTokenTTLMinutes (normalizeSystemSettings now st) =
     clampInt (if set_DefaultTokenTTLMinutes st \<le> 0 then 720 else set_DefaultTokenTTLMinutes st) 5 43200"
  "set_MediumRiskTokenTTLMinutes (normalizeSystemSettings now st) =
     clampInt (if set_MediumRiskTokenTTLMinutes st \<le> 0 then 30 else set_MediumRiskTokenTTLMinutes st) 5
       (set_DefaultTokenTTLMinutes (normalizeSystemSettings now st))"
  "set_OfflineGraceDays (normalizeSystemSettings now st) =
     clampInt (if set_OfflineGraceDays st < 0 then 7 else set_OfflineGraceDays st) 0 30"
  "set_DefaultMaxDevices (normalizeSystemSettings now st) =
     clampInt (if set_DefaultMaxDevices st \<le> 0 then 3 else set_DefaultMaxDevices st) 1 1000"
  "set_DefaultLicenseDays (normalizeSystemSettings now st) =
     clampInt (if set_DefaultLicenseDays st \<le> 0 then 365 else set_DefaultLicenseDays st) 1 3650"
  "set_AuditLogRetentionDays (normalizeSystemSettings now st) =
     clampInt (if set_AuditLogRetentionDays st \<le> 0 then 365 else set_AuditLogRetentionDays st) 7 3650"
  "set_UpdatedAt (normalizeSystemSettings now st) =
     (if set_UpdatedAt st = zeroTime then now else set_UpdatedAt st)"
  "set_MFARequired (normalizeSystemSettings now st) = set_MFARequired st"
  "set_SensitiveActionConfirm (normalizeSystemSettings now st) = set_SensitiveActionConfirm st"
  by (simp_all add: normalizeSystemSettings_def fillSettings_def defaultSystemSettings_def Let_def)

lemma normalize_in_range: "settingsInRange (normalizeSystemSettings now st)"
  unfolding settingsInRange_def normalizeSystemSettings_sel
  by (simp add: clampInt_def)

interpretation settings: normaliser "normalizeSystemSettings now" "settingsOK now" for now
proof
  show "settingsOK now (normalizeSystemSettings now x)" for x
    by (auto simp: settingsOK_def normalize_in_range normalizeSystemSettings_sel)
  show "normalizeSystemSettings now x = x" if "settingsOK now x" for x
  proof (rule SystemSettings.equality)
    show "set_UpdatedAt (normalizeSystemSettings now x) = set_UpdatedAt x"
      using that by (auto simp: settingsOK_def normalizeSystemSettings_sel)
  qed (use that in \<open>simp_all add: settingsOK_def settingsInRange_def normalizeSystemSettings_sel
         clampInt_id\<close>)
qed

lemma settingsLocked_in_range: "settingsInRange (settingsLocked now s)"
  by (simp add: settingsLocked_def normalize_in_range)

end
