(* ===== verification/Releases.thy ===== *)
theory Releases
  imports Settings "HOL-Library.Word"
begin

unbundle bit_operations_syntax

text \<open>
  Releases of an application (server.go): the comparison of version strings, the lookup of a
  release by version, by id and of the latest one, the staged rollout, and the update advice a
  client gets. Go's \<open>int\<close> is 64 bits wide: version components are words, because a component
  is accumulated digit by digit and can wrap around.
\<close>

section \<open>Version strings\<close>

definition versionSeparator :: "char \<Rightarrow> bool" where
  "versionSeparator r \<longleftrightarrow> r = CHR ''.'' \<or> r = CHR ''-'' \<or> r = CHR ''_'' \<or> r = CHR ''+''"

fun scanNumber :: "64 word \<Rightarrow> bool \<Rightarrow> string \<Rightarrow> 64 word \<times> bool" where
  "scanNumber number found [] = (number, found)"
| "scanNumber number found (r # rs) =
     (if \<not> isDigit r then (number, found)
      else scanNumber (number * 10 + of_nat (digitValue r)) True rs)"

definition splitVersionParts :: "string \<Rightarrow> 64 word list" where
  "splitVersionParts value =
     concat (map (\<lambda>part. let (number, found) = scanNumber 0 False part in if found then [number] else [])
       (fieldsFunc versionSeparator value))"

text \<open>One turn of the comparison loop per index; a missing component counts as 0.\<close>

fun compareParts :: "64 word list \<Rightarrow> 64 word list \<Rightarrow> int" where
  "compareParts [] [] = 0"
| "compareParts (l # ls) [] =
     (if sint l < 0 then -1 else if sint l > 0 then 1 else compareParts ls [])"
| "compareParts [] (r # rs) =
     (if 0 < sint r then -1 else if 0 > sint r then 1 else compareParts [] rs)"
| "compareParts (l # ls) (r # rs) =
     (if sint l < sint r then -1 else if sint l > sint r then 1 else compareParts ls rs)"

definition compareVersionStrings :: "string \<Rightarrow> string \<Rightarrow> int" where
  "compareVersionStrings left right = compareParts (splitVersionParts left) (splitVersionParts right)"

subsection \<open>The comparison is the lexicographic order of the padded components\<close>

definition component :: "64 word list \<Rightarrow> nat \<Rightarrow> int" where
  "component ws i = (if i < length ws then sint (ws ! i) else 0)"

lemma component_simps [simp]:
  "component [] i = 0"
  "component (w # ws) 0 = sint w"
  "component (w # ws) (Suc i) = component ws i"
  by (simp_all add: component_def)

definition firstDiff :: "(nat \<Rightarrow> int) \<Rightarrow> (nat \<Rightarrow> int) \<Rightarrow> nat \<Rightarrow> bool" where
  "firstDiff f g k \<longleftrightarrow> f k < g k \<and> (\<forall>j < k. f j = g j)"

lemma firstDiff_0: "f 0 < g 0 \<Longrightarrow> firstDiff f g 0"
  by (simp add: firstDiff_def)

lemma firstDiff_Suc: "f 0 = g 0 \<Longrightarrow> firstDiff f g (Suc k) \<longleftrightarrow> firstDiff (\<lambda>i. f (Suc i)) (\<lambda>i. g (Suc i)) k"
  by (auto simp: firstDiff_def less_Suc_eq_0_disj)

lemma firstDiff_cases:
  "(\<exists>k. firstDiff f g k) \<longleftrightarrow>
   f 0 < g 0 \<or> f 0 = g 0 \<and> (\<exists>k. firstDiff (\<lambda>i. f (Suc i)) (\<lambda>i. g (Suc i)) k)"
proof
  assume "\<exists>k. firstDiff f g k"
  then obtain k where k: "firstDiff f g k" ..
  show "f 0 < g 0 \<or> f 0 = g 0 \<and> (\<exists>k. firstDiff (\<lambda>i. f (Suc i)) (\<lambda>i. g (Suc i)) k)"
  proof (cases k)
    case 0
    then show ?thesis using k by (simp add: firstDiff_def)
  next
    case (Suc m)
    then have "f 0 = g 0" using k by (simp add: firstDiff_def)
    then show ?thesis using k Suc by (auto simp: firstDiff_Suc)
  qed
next
  assume "f 0 < g 0 \<or> f 0 = g 0 \<and> (\<exists>k. firstDiff (\<lambda>i. f (Suc i)) (\<lambda>i. g (Suc i)) k)"
  then show "\<exists>k. firstDiff f g k"
    using firstDiff_0 firstDiff_Suc by blast
qed

lemma no_firstDiff_zero: "\<not> firstDiff (\<lambda>i. 0) (\<lambda>i. 0) k"
  by (simp add: firstDiff_def)

lemma compareParts_less: "compareParts ls rs = -1 \<longleftrightarrow> (\<exists>k. firstDiff (component ls) (component rs) k)"
  by (induction ls rs rule: compareParts.induct)
     (subst firstDiff_cases, simp add: no_firstDiff_zero)+

lemma compareParts_flip: "compareParts rs ls = - compareParts ls rs"
  by (induction ls rs rule: compareParts.induct) auto

lemma compareParts_range: "compareParts ls rs \<in> {-1, 0, 1}"
  by (induction ls rs rule: compareParts.induct) auto

lemma firstDiff_trans: "firstDiff f g j \<Longrightarrow> firstDiff g h k \<Longrightarrow> firstDiff f h (min j k)"
  by (cases j k rule: linorder_cases) (auto simp: firstDiff_def)

lemma compareParts_less_trans:
  "compareParts xs ys = -1 \<Longrightarrow> compareParts ys zs = -1 \<Longrightarrow> compareParts xs zs = -1"
  by (auto simp: compareParts_less dest: firstDiff_trans)

lemma all_nat_Suc: "(\<forall>i. P i) \<longleftrightarrow> P 0 \<and> (\<forall>i. P (Suc i))"
  by (metis not0_implies_Suc)

lemma compareParts_zero: "compareParts xs ys = 0 \<longleftrightarrow> (\<forall>i. component xs i = component ys i)"
  by (induction xs ys rule: compareParts.induct) (subst all_nat_Suc, simp, linarith?)+

lemma compareParts_le_trans:
  assumes "compareParts xs ys \<le> 0" and "compareParts ys zs \<le> 0"
  shows "compareParts xs zs \<le> 0"
proof -
  have cmp: "compareParts as bs \<le> 0 \<longleftrightarrow> compareParts as bs = -1 \<or> compareParts as bs = 0" for as bs
    using compareParts_range [of as bs] by auto
  have cong: "component as = component as' \<Longrightarrow> component bs = component bs' \<Longrightarrow>
      compareParts as bs = -1 \<longleftrightarrow> compareParts as' bs' = -1" for as as' bs bs'
    by (simp add: compareParts_less)
  have eq: "compareParts as bs = 0 \<longleftrightarrow> component as = component bs" for as bs
    by (auto simp: compareParts_zero)
  show ?thesis
    using assms compareParts_less_trans [of xs ys zs] cong [of xs ys zs zs] cong [of xs xs ys zs]
    by (auto simp: cmp eq)
qed

text \<open>Parsed versions form a preorder: \<open>1.2\<close> and \<open>1.2.0\<close> are equivalent, not equal.\<close>

datatype version = Version (versionParts: "64 word list")

instantiation version :: preorder
begin

definition less_eq_version :: "version \<Rightarrow> version \<Rightarrow> bool" where
  "less_eq_version v w \<longleftrightarrow> compareParts (versionParts v) (versionParts w) \<le> 0"

definition less_version :: "version \<Rightarrow> version \<Rightarrow> bool" where
  "less_version v w \<longleftrightarrow> compareParts (versionParts v) (versionParts w) < 0"

instance
proof
  fix u v w :: version
  show "v < w \<longleftrightarrow> v \<le> w \<and> \<not> w \<le> v"
    using compareParts_flip [of "versionParts v" "versionParts w"]
    by (auto simp: less_eq_version_def less_version_def)
  show "v \<le> v"
    using compareParts_flip [of "versionParts v" "versionParts v"] by (simp add: less_eq_version_def)
  show "u \<le> v \<Longrightarrow> v \<le> w \<Longrightarrow> u \<le> w"
    unfolding less_eq_version_def by (rule compareParts_le_trans)
qed

end

definition parseVersion :: "string \<Rightarrow> version" where
  "parseVersion s = Version (splitVersionParts s)"

lemma compareVersionStrings_order:
  "compareVersionStrings a b < 0 \<longleftrightarrow> parseVersion a < parseVersion b"
  "compareVersionStrings a b \<le> 0 \<longleftrightarrow> parseVersion a \<le> parseVersion b"
  by (simp_all add: compareVersionStrings_def parseVersion_def less_version_def less_eq_version_def)

section \<open>Looking releases up\<close>

definition releaseMatches :: "string \<Rightarrow> string \<Rightarrow> string \<Rightarrow> AppRelease \<Rightarrow> bool" where
  "releaseMatches appID platform version r \<longleftrightarrow>
     rel_AppID r = appID \<and> rel_Platform r = platform \<and> rel_Version r = version"

text \<open>The scan returns at once on a blocked release and remembers the first other match.\<close>

fun scanRelease ::
  "(AppRelease \<Rightarrow> bool) \<Rightarrow> AppRelease option \<Rightarrow> AppRelease list \<Rightarrow> AppRelease option" where
  "scanRelease match fallback [] = fallback"
| "scanRelease match fallback (release # rs) =
     (if match release then
        (if rel_Status release = ''blocked'' then Some release
         else scanRelease match (case fallback of None \<Rightarrow> Some release | Some f \<Rightarrow> Some f) rs)
      else scanRelease match fallback rs)"

definition findReleaseLocked :: "string \<Rightarrow> string \<Rightarrow> string \<Rightarrow> Server \<Rightarrow> AppRelease option" where
  "findReleaseLocked appID platform version s =
     scanRelease (releaseMatches appID platform version) None (data_Releases (srv_data s))"

definition findReleaseByIDLocked :: "string \<Rightarrow> string \<Rightarrow> Server \<Rightarrow> nat option" where
  "findReleaseByIDLocked appID releaseID s =
     findIdx (\<lambda>r. rel_AppID r = appID \<and> rel_ID r = releaseID) (data_Releases (srv_data s))"

definition releasesForAppLocked :: "string \<Rightarrow> Server \<Rightarrow> AppRelease list" where
  "releasesForAppLocked appID s = filter (\<lambda>r. rel_AppID r = appID) (data_Releases (srv_data s))"

definition releaseLess :: "AppRelease \<Rightarrow> AppRelease \<Rightarrow> bool" where
  "releaseLess a b =
     (if rel_BuildNumber a = rel_BuildNumber b then rel_CreatedAt a > rel_CreatedAt b
      else rel_BuildNumber a > rel_BuildNumber b)"

definition latestReleaseFromItems :: "AppRelease list \<Rightarrow> AppRelease option" where
  "latestReleaseFromItems releases =
     (case sortSlice releaseLess releases of [] \<Rightarrow> None | r # rs \<Rightarrow> Some r)"

definition latestReleaseLocked :: "string \<Rightarrow> string \<Rightarrow> Server \<Rightarrow> AppRelease option" where
  "latestReleaseLocked appID platform s =
     (case sortSlice releaseLess
             (filter (\<lambda>r. rel_AppID r = appID \<and> rel_Platform r = platform \<and> rel_Status r = ''active'')
                (data_Releases (srv_data s))) of
        [] \<Rightarrow> None
      | r # rs \<Rightarrow> Some r)"

definition isBelowMinSupportedLocked :: "string \<Rightarrow> string \<Rightarrow> string \<Rightarrow> string \<Rightarrow> Server \<Rightarrow> bool" where
  "isBelowMinSupportedLocked appID platform currentVersion minSupportedVersion s =
     (if minSupportedVersion = [] then False
      else (case (findReleaseLocked appID platform currentVersion s,
                  findReleaseLocked appID platform minSupportedVersion s) of
              (Some current, Some minimum) \<Rightarrow>
                if rel_BuildNumber current \<noteq> 0 \<and> rel_BuildNumber minimum \<noteq> 0
                then rel_BuildNumber current < rel_BuildNumber minimum
                else compareVersionStrings currentVersion minSupportedVersion < 0
            | _ \<Rightarrow> compareVersionStrings currentVersion minSupportedVersion < 0))"

section \<open>Staged rollout\<close>

text \<open>\<open>hash/crc32.ChecksumIEEE\<close>.\<close>

fun crcBits :: "nat \<Rightarrow> 32 word \<Rightarrow> 32 word" where
  "crcBits 0 c = c"
| "crcBits (Suc n) c =
     crcBits n (if bit c 0 then drop_bit 1 c XOR 0xEDB88320 else drop_bit 1 c)"

definition crcByte :: "32 word \<Rightarrow> char \<Rightarrow> 32 word" where
  "crcByte c b = crcBits 8 (c XOR of_nat (of_char b))"

definition crc32 :: "string \<Rightarrow> 32 word" where
  "crc32 s = NOT (foldl crcByte (NOT 0) s)"

definition rolloutBucket :: "string \<Rightarrow> string \<Rightarrow> string \<Rightarrow> string \<Rightarrow> int" where
  "rolloutBucket appID platform releaseID deviceID =
     int (unat (crc32 (appID @ ''|'' @ platform @ ''|'' @ releaseID @ ''|'' @ deviceID)) mod 100)"

definition releaseInRollout :: "string \<Rightarrow> string \<Rightarrow> string \<Rightarrow> string \<Rightarrow> int \<Rightarrow> bool" where
  "releaseInRollout appID platform releaseID deviceID rolloutPercent0 =
     (let rolloutPercent = clampPercent rolloutPercent0 in
      if rolloutPercent \<ge> 100 then True
      else if rolloutPercent \<le> 0 \<or> deviceID = [] then False
      else rolloutBucket appID platform releaseID deviceID < rolloutPercent)"

definition updateInfoLocked :: "string \<Rightarrow> string \<Rightarrow> string \<Rightarrow> string \<Rightarrow> Server \<Rightarrow> UpdateInfo option" where
  "updateInfoLocked appID platform currentVersion deviceID s =
     (if currentVersion = [] then None
      else (case latestReleaseLocked appID platform s of
              None \<Rightarrow> None
            | Some latest \<Rightarrow>
                if rel_Version latest = [] \<or> rel_Version latest = currentVersion then None
                else
                  (let required = rel_Mandatory latest \<or>
                         isBelowMinSupportedLocked appID platform currentVersion
                           (rel_MinSupportedVersion latest) s
                   in if \<not> required \<and>
                         \<not> releaseInRollout appID platform (rel_ID latest) deviceID (rel_RolloutPercent latest)
                      then None
                      else Some \<lparr>upd_Available = True, upd_Required = required,
                                 upd_LatestVersion = rel_Version latest,
                                 upd_DownloadURL = rel_DownloadURL latest,
                                 upd_PackageSHA256 = rel_PackageSHA256 latest,
                                 upd_ReleaseNotes = rel_ReleaseNotes latest\<rparr>)))"

definition missingReleaseIntegrityFields :: "AppRelease \<Rightarrow> string list" where
  "missingReleaseIntegrityFields release =
     (if rel_BuildNumber release \<le> 0 then [''build_number''] else []) @
     map fst (filter (\<lambda>(name, value). trimSpace value = [])
       [(''main_binary_hash'', rel_MainBinaryHash release),
        (''signer_thumbprint'', rel_SignerThumbprint release),
        (''package_sha256'', rel_PackageSHA256 release),
        (''business_manifest_sha256'', rel_BusinessManifestSHA256 release),
        (''protected_db_schema_hash'', rel_ProtectedDBSchemaHash release),
        (''protected_db_tables_hash'', rel_ProtectedDBTablesHash release),
        (''assets_manifest_sha256'', rel_AssetsManifestSHA256 release),
        (''workflow_manifest_sha256'', rel_WorkflowManifestSHA256 release),
        (''download_url'', rel_DownloadURL release)])"

definition releaseBusinessManifestSHA256 :: "AppRelease option \<Rightarrow> string" where
  "releaseBusinessManifestSHA256 release =
     (case release of
        None \<Rightarrow> []
      | Some r \<Rightarrow>
          if trimSpace (rel_BusinessManifestSHA256 r) \<noteq> [] then trimSpace (rel_BusinessManifestSHA256 r)
          else trimSpace (rel_ResourceManifestHash r))"

section \<open>Lemmas\<close>

interpretation release_order: slice_order releaseLess
  by unfold_locales (auto simp: releaseLess_def split: if_splits)

lemma scanRelease_blocked:
  "r \<in> set rs \<Longrightarrow> match r \<Longrightarrow> rel_Status r = ''blocked'' \<Longrightarrow>
   \<exists>b. scanRelease match fb rs = Some b \<and> match b \<and> rel_Status b = ''blocked'' \<and> b \<in> set rs"
  by (induction rs arbitrary: fb) (auto split: option.splits)

lemma scanRelease_unblocked:
  "\<forall>r \<in> set rs. match r \<longrightarrow> rel_Status r \<noteq> ''blocked'' \<Longrightarrow>
   scanRelease match fb rs = (case fb of Some f \<Rightarrow> Some f | None \<Rightarrow> List.find match rs)"
  by (induction rs arbitrary: fb) (auto split: option.splits)

lemma scanRelease_SomeD:
  "scanRelease match None rs = Some r \<Longrightarrow> match r \<and> r \<in> set rs"
proof (cases "\<exists>b \<in> set rs. match b \<and> rel_Status b = ''blocked''")
  case True
  then show "scanRelease match None rs = Some r \<Longrightarrow> match r \<and> r \<in> set rs"
    using scanRelease_blocked by (metis option.inject)
next
  case False
  then show "scanRelease match None rs = Some r \<Longrightarrow> match r \<and> r \<in> set rs"
    by (auto simp: scanRelease_unblocked find_Some_iff)
qed

lemma scanRelease_None_iff: "scanRelease match None rs = None \<longleftrightarrow> (\<forall>r \<in> set rs. \<not> match r)"
proof (cases "\<exists>b \<in> set rs. match b \<and> rel_Status b = ''blocked''")
  case True
  then show ?thesis using scanRelease_blocked by (metis option.simps(3))
next
  case False
  then show ?thesis by (auto simp: scanRelease_unblocked find_None_iff)
qed

lemma latestReleaseLocked_SomeD:
  assumes "latestReleaseLocked appID platform s = Some r"
  shows "r \<in> set (data_Releases (srv_data s)) \<and> rel_AppID r = appID \<and> rel_Platform r = platform \<and>
         rel_Status r = ''active'' \<and>
         (\<forall>q \<in> set (data_Releases (srv_data s)). rel_AppID q = appID \<longrightarrow> rel_Platform q = platform \<longrightarrow>
            rel_Status q = ''active'' \<longrightarrow> \<not> releaseLess q r)"
proof -
  let ?P = "\<lambda>r. rel_AppID r = appID \<and> rel_Platform r = platform \<and> rel_Status r = ''active''"
  let ?rs = "filter ?P (data_Releases (srv_data s))"
  obtain rest where sorted: "sortSlice releaseLess ?rs = r # rest"
    using assms by (cases "sortSlice releaseLess ?rs") (simp_all add: latestReleaseLocked_def)
  have "r \<in> set ?rs" using arg_cong [OF sorted, of set] by simp
  moreover have "\<forall>q \<in> set ?rs. \<not> releaseLess q r"
    using release_order.sortSlice_head [OF sorted] by blast
  ultimately show ?thesis by auto
qed

lemma latestReleaseLocked_None_iff:
  "latestReleaseLocked appID platform s = None \<longleftrightarrow>
   (\<forall>q \<in> set (data_Releases (srv_data s)).
      \<not> (rel_AppID q = appID \<and> rel_Platform q = platform \<and> rel_Status q = ''active''))"
proof -
  let ?rs = "filter (\<lambda>r. rel_AppID r = appID \<and> rel_Platform r = platform \<and> rel_Status r = ''active'')
               (data_Releases (srv_data s))"
  have "latestReleaseLocked appID platform s = None \<longleftrightarrow> sortSlice releaseLess ?rs = []"
    by (cases "sortSlice releaseLess ?rs") (simp_all add: latestReleaseLocked_def)
  then show ?thesis by (simp add: filter_empty_conv)
qed

lemma rolloutBucket_range: "0 \<le> rolloutBucket a p r d \<and> rolloutBucket a p r d < 100"
  by (simp add: rolloutBucket_def)

lemma crc32_check_value: "crc32 ''123456789'' = 0xCBF43926"
  by code_simp

end
