(* ===== verification/Policies.thy ===== *)
theory Policies
  imports ServerState
begin

text \<open>
  Capability policies (server.go): validation and normalisation of an administrator's policy,
  the keyed store of policies with its upsert and default seeding, and the decision a client
  gets for a capability under its license's entitlements.
\<close>

section \<open>Normalising a policy\<close>

definition normalizeCapabilityPolicyMode :: "golib \<Rightarrow> string \<Rightarrow> string" where
  "normalizeCapabilityPolicyMode L mode =
     (let m = toLower L (trimSpace mode) in if m = [] then ''block'' else m)"

definition validCapabilityPolicyMode :: "string \<Rightarrow> bool" where
  "validCapabilityPolicyMode mode \<longleftrightarrow>
     mode \<in> {''allow'', ''block'', ''hide'', ''readonly'', ''degrade'', ''watermark'', ''warn''}"

definition cloneLimitsJSON :: "gmap option \<Rightarrow> gmap option" where
  "cloneLimitsJSON input =
     (case input of None \<Rightarrow> None | Some m \<Rightarrow> Some (map (\<lambda>(key, value). (key, value)) m))"

definition normalizeCapabilityPolicy ::
  "golib \<Rightarrow> string \<Rightarrow> CapabilityPolicy \<Rightarrow> time \<Rightarrow> string + CapabilityPolicy" where
  "normalizeCapabilityPolicy L appID item now =
     (let capability = trimSpace (pol_Capability item);
          requiredEntitlement = trimSpace (pol_RequiredEntitlement item);
          mode = normalizeCapabilityPolicyMode L (pol_Mode item)
      in if capability = [] then Inl ''capability is required''
         else if requiredEntitlement = [] then Inl ''required_entitlement is required''
         else if \<not> validCapabilityPolicyMode mode then Inl (''unsupported mode '' @ lib_quote L (pol_Mode item))
         else Inr \<lparr>pol_AppID = appID, pol_Capability = capability,
                   pol_RequiredEntitlement = requiredEntitlement, pol_Mode = mode,
                   pol_Message = trimSpace (pol_Message item),
                   pol_LimitsJSON = (case cloneLimitsJSON (pol_LimitsJSON item) of
                                       None \<Rightarrow> Some [] | Some m \<Rightarrow> Some m),
                   pol_CreatedAt = now, pol_UpdatedAt = now\<rparr>)"

definition isVisionFlowAppKey :: "golib \<Rightarrow> string \<Rightarrow> bool" where
  "isVisionFlowAppKey L appID =
     (let a = toLower L (trimSpace appID)
      in a = ''app_visionflow_windows_prod'' \<or> hasPrefix a ''app_visionflow_'')"

definition visionFlowDefaults :: "(string \<times> string \<times> string \<times> string) list" where
  "visionFlowDefaults =
     [(''automation.run'', ''visionflow.automation'', ''block'',
       utf8 [0x5f53, 0x524d, 0x20, 0x4c, 0x69, 0x63, 0x65, 0x6e, 0x73, 0x65, 0x20, 0x672a, 0x5305, 0x542b, 0x81ea, 0x52a8, 0x5316, 0x4efb, 0x52a1, 0x80fd, 0x529b]),
      (''automation.resume'', ''visionflow.automation'', ''block'',
       utf8 [0x5f53, 0x524d, 0x20, 0x4c, 0x69, 0x63, 0x65, 0x6e, 0x73, 0x65, 0x20, 0x672a, 0x5305, 0x542b, 0x4efb, 0x52a1, 0x6062, 0x590d, 0x80fd, 0x529b]),
      (''automation.batch'', ''visionflow.batch'', ''block'',
       utf8 [0x5f53, 0x524d, 0x20, 0x4c, 0x69, 0x63, 0x65, 0x6e, 0x73, 0x65, 0x20, 0x672a, 0x5305, 0x542b, 0x6279, 0x91cf, 0x4efb, 0x52a1, 0x80fd, 0x529b]),
      (''script.execute'', ''visionflow.automation'', ''block'',
       utf8 [0x5f53, 0x524d, 0x20, 0x4c, 0x69, 0x63, 0x65, 0x6e, 0x73, 0x65, 0x20, 0x672a, 0x5305, 0x542b, 0x811a, 0x672c, 0x6267, 0x884c, 0x80fd, 0x529b]),
      (''export.video'', ''visionflow.export'', ''watermark'',
       utf8 [0x5f53, 0x524d, 0x20, 0x4c, 0x69, 0x63, 0x65, 0x6e, 0x73, 0x65, 0x20, 0x672a, 0x5305, 0x542b, 0x65e0, 0x6c34, 0x5370, 0x5bfc, 0x51fa, 0x80fd, 0x529b]),
      (''plugin.install'', ''visionflow.plugin'', ''block'',
       utf8 [0x5f53, 0x524d, 0x20, 0x4c, 0x69, 0x63, 0x65, 0x6e, 0x73, 0x65, 0x20, 0x672a, 0x5305, 0x542b, 0x63d2, 0x4ef6, 0x5b89, 0x88c5, 0x80fd, 0x529b]),
      (''update.skipMandatory'', ''visionflow.update'', ''block'',
       utf8 [0x5f53, 0x524d, 0x20, 0x4c, 0x69, 0x63, 0x65, 0x6e, 0x73, 0x65, 0x20, 0x4e0d, 0x5141, 0x8bb8, 0x8df3, 0x8fc7, 0x5f3a, 0x5236, 0x66f4, 0x65b0])]"

definition defaultVisionFlowCapabilityPolicies :: "string \<Rightarrow> time \<Rightarrow> CapabilityPolicy list" where
  "defaultVisionFlowCapabilityPolicies appID now =
     map (\<lambda>(capability, entitlement, mode, message).
            \<lparr>pol_AppID = appID, pol_Capability = capability, pol_RequiredEntitlement = entitlement,
             pol_Mode = mode, pol_Message = message, pol_LimitsJSON = Some [],
             pol_CreatedAt = now, pol_UpdatedAt = now\<rparr>)
       visionFlowDefaults"

section \<open>The policy table\<close>

definition policyKey :: "CapabilityPolicy \<Rightarrow> string \<times> string" where
  "policyKey p = (pol_AppID p, pol_Capability p)"

definition policyMatches :: "string \<Rightarrow> string \<Rightarrow> CapabilityPolicy \<Rightarrow> bool" where
  "policyMatches appID capability p \<longleftrightarrow> pol_AppID p = appID \<and> pol_Capability p = capability"

definition findPolicyIn :: "string \<Rightarrow> string \<Rightarrow> CapabilityPolicy list \<Rightarrow> CapabilityPolicy option" where
  "findPolicyIn appID capability ps =
     map_option (\<lambda>i. ps ! i) (findIdx (policyMatches appID capability) ps)"

definition findCapabilityPolicyLocked :: "string \<Rightarrow> string \<Rightarrow> Server \<Rightarrow> CapabilityPolicy option" where
  "findCapabilityPolicyLocked appID capability s =
     findPolicyIn appID capability (data_CapabilityPolicies (srv_data s))"

text \<open>One turn of the upsert loop, on the table.\<close>

definition upsertPolicy :: "golib \<Rightarrow> CapabilityPolicy \<Rightarrow> CapabilityPolicy list \<Rightarrow> CapabilityPolicy list" where
  "upsertPolicy L policy0 table =
     (let policy1 = policy0\<lparr>pol_Mode := normalizeCapabilityPolicyMode L (pol_Mode policy0)\<rparr>;
          policy = (if pol_LimitsJSON policy1 = None then policy1\<lparr>pol_LimitsJSON := Some []\<rparr> else policy1);
          stamp = (\<lambda>p. if isZeroTime (pol_CreatedAt p) then p\<lparr>pol_CreatedAt := pol_UpdatedAt p\<rparr> else p)
      in case findIdx (policyMatches (pol_AppID policy) (pol_Capability policy)) table of
           Some i \<Rightarrow> table[i := stamp (policy\<lparr>pol_CreatedAt := pol_CreatedAt (table ! i)\<rparr>)]
         | None \<Rightarrow> table @ [stamp policy])"

definition upsertCapabilityPoliciesLocked :: "golib \<Rightarrow> CapabilityPolicy list \<Rightarrow> Server \<Rightarrow> Server" where
  "upsertCapabilityPoliciesLocked L policies s =
     updData (\<lambda>d. d\<lparr>data_CapabilityPolicies :=
       foldl (\<lambda>table p. upsertPolicy L p table) (data_CapabilityPolicies d) policies\<rparr>) s"

fun seedPolicies :: "string \<Rightarrow> CapabilityPolicy list \<Rightarrow> CapabilityPolicy list \<Rightarrow> CapabilityPolicy list \<times> nat" where
  "seedPolicies appID [] table = (table, 0)"
| "seedPolicies appID (p # ps) table =
     (if findPolicyIn appID (pol_Capability p) table \<noteq> None then seedPolicies appID ps table
      else (let (table', added) = seedPolicies appID ps (table @ [p]) in (table', Suc added)))"

definition ensureDefaultVisionFlowPoliciesLocked :: "string \<Rightarrow> time \<Rightarrow> Server \<Rightarrow> Server \<times> nat" where
  "ensureDefaultVisionFlowPoliciesLocked appID now s =
     (let (table, added) = seedPolicies appID (defaultVisionFlowCapabilityPolicies appID now)
                             (data_CapabilityPolicies (srv_data s))
      in (updData (\<lambda>d. d\<lparr>data_CapabilityPolicies := table\<rparr>) s, added))"

definition policyLess :: "CapabilityPolicy \<Rightarrow> CapabilityPolicy \<Rightarrow> bool" where
  "policyLess p q \<longleftrightarrow> pol_Capability p < pol_Capability q"

definition capabilityPoliciesForAppLocked :: "string \<Rightarrow> Server \<Rightarrow> CapabilityPolicy list" where
  "capabilityPoliciesForAppLocked appID s =
     sortSlice policyLess (filter (\<lambda>p. pol_AppID p = appID) (data_CapabilityPolicies (srv_data s)))"

section \<open>Decisions\<close>

definition hasEntitlement :: "string list \<Rightarrow> string \<Rightarrow> bool" where
  "hasEntitlement entitlements required =
     (let r = trimSpace required in if r = [] then True else List.member entitlements r)"

definition capabilityDecision ::
  "golib \<Rightarrow> CapabilityPolicy option \<Rightarrow> string list \<Rightarrow> string \<Rightarrow> CapabilityDecision" where
  "capabilityDecision L policy entitlements capability =
     (case policy of
        None \<Rightarrow>
          \<lparr>dec_Capability = capability, dec_RequiredEntitlement = [], dec_ConfiguredMode = ''block'',
           dec_EffectiveMode = ''block'', dec_Allowed = False, dec_Reason = ''unknown_capability'',
           dec_Message = ''Capability is not registered'', dec_LimitsJSON = None\<rparr>
      | Some p \<Rightarrow>
          (let mode0 = normalizeCapabilityPolicyMode L (pol_Mode p);
               mode = (if validCapabilityPolicyMode mode0 then mode0 else ''block'');
               decision =
                 \<lparr>dec_Capability = pol_Capability p, dec_RequiredEntitlement = pol_RequiredEntitlement p,
                  dec_ConfiguredMode = mode, dec_EffectiveMode = [], dec_Allowed = False,
                  dec_Reason = [], dec_Message = pol_Message p,
                  dec_LimitsJSON = cloneLimitsJSON (pol_LimitsJSON p)\<rparr>
           in if hasEntitlement entitlements (pol_RequiredEntitlement p)
              then decision\<lparr>dec_Allowed := True, dec_EffectiveMode := ''allow''\<rparr>
              else decision\<lparr>dec_Allowed := False, dec_Reason := ''missing_entitlement'',
                     dec_EffectiveMode := (if mode = ''allow'' then ''block'' else mode)\<rparr>))"

definition addCapabilityDenyRiskEventLocked ::
  "env \<Rightarrow> nat \<Rightarrow> string \<Rightarrow> string \<Rightarrow> string \<Rightarrow> CapabilityDecision \<Rightarrow> Server \<Rightarrow> Server" where
  "addCapabilityDenyRiskEventLocked e k appID deviceID licenseID decision =
     (let severity = (if dec_EffectiveMode decision \<in> {''warn'', ''watermark'', ''degrade''}
                      then ''low'' else ''medium'');
          action = (if dec_EffectiveMode decision = [] then ''deny'' else dec_EffectiveMode decision)
      in addRiskEventLocked e k appID deviceID licenseID ''capability_denied'' severity action
           (utf8 [0x80fd, 0x529b, 0x6388, 0x6743, 0x88ab, 0x62d2, 0x7edd])
           (Some [(''capability'', GStr (dec_Capability decision)),
                  (''required_entitlement'', GStr (dec_RequiredEntitlement decision)),
                  (''configured_mode'', GStr (dec_ConfiguredMode decision)),
                  (''effective_mode'', GStr (dec_EffectiveMode decision)),
                  (''reason'', GStr (dec_Reason decision))]))"

section \<open>Lookups in the policy table\<close>

lemma policyMatches_key: "policyMatches a c p \<longleftrightarrow> policyKey p = (a, c)"
  by (auto simp: policyMatches_def policyKey_def)

lemma findPolicyIn_SomeD:
  "findPolicyIn a c ps = Some p \<Longrightarrow> p \<in> set ps \<and> pol_AppID p = a \<and> pol_Capability p = c"
  by (auto simp: findPolicyIn_def policyMatches_def dest!: findIdx_SomeD)

lemma findPolicyIn_None_iff:
  "findPolicyIn a c ps = None \<longleftrightarrow> (a, c) \<notin> policyKey ` set ps"
  by (force simp: findPolicyIn_def findIdx_None_iff policyMatches_key)

lemma findPolicyIn_append:
  "findPolicyIn a c (ps @ qs) =
     (case findPolicyIn a c ps of Some p \<Rightarrow> Some p | None \<Rightarrow> findPolicyIn a c qs)"
  by (cases "findIdx (policyMatches a c) qs")
     (auto simp: findPolicyIn_def findIdx_append nth_append dest: findIdx_length split: option.splits)

lemma findPolicyIn_Nil [simp]: "findPolicyIn a c [] = None"
  by (simp add: findPolicyIn_def)

lemma findPolicyIn_Cons:
  "findPolicyIn a c (p # ps) = (if policyKey p = (a, c) then Some p else findPolicyIn a c ps)"
  by (auto simp: findPolicyIn_def policyMatches_key option.map_comp comp_def)

text \<open>What a policy is stored as, given what the table held under its key.\<close>

definition storedPolicy :: "golib \<Rightarrow> CapabilityPolicy \<Rightarrow> CapabilityPolicy option \<Rightarrow> CapabilityPolicy" where
  "storedPolicy L p old =
     (let created = (case old of None \<Rightarrow> pol_CreatedAt p | Some q \<Rightarrow> pol_CreatedAt q)
      in p\<lparr>pol_Mode := normalizeCapabilityPolicyMode L (pol_Mode p),
           pol_LimitsJSON := Some (case pol_LimitsJSON p of None \<Rightarrow> [] | Some m \<Rightarrow> m),
           pol_CreatedAt := (if isZeroTime created then pol_UpdatedAt p else created)\<rparr>)"

lemma policyKey_storedPolicy [simp]: "policyKey (storedPolicy L p old) = policyKey p"
  by (simp add: storedPolicy_def policyKey_def Let_def)

lemma storedPolicy_sel [simp]:
  "pol_AppID (storedPolicy L p old) = pol_AppID p"
  "pol_Capability (storedPolicy L p old) = pol_Capability p"
  "pol_RequiredEntitlement (storedPolicy L p old) = pol_RequiredEntitlement p"
  by (simp_all add: storedPolicy_def Let_def)

lemma upsertPolicy_eq:
  "upsertPolicy L p table =
     (case findIdx (policyMatches (pol_AppID p) (pol_Capability p)) table of
        Some i \<Rightarrow> table[i := storedPolicy L p (Some (table ! i))]
      | None \<Rightarrow> table @ [storedPolicy L p None])"
  by (cases p; cases "pol_LimitsJSON p")
     (auto simp: upsertPolicy_def storedPolicy_def Let_def split: option.splits)

lemma map_policyKey_upsert:
  "map policyKey (upsertPolicy L p table) =
     (if findPolicyIn (pol_AppID p) (pol_Capability p) table = None
      then map policyKey table @ [policyKey p] else map policyKey table)"
proof (cases "findIdx (policyMatches (pol_AppID p) (pol_Capability p)) table")
  case None
  then show ?thesis by (simp add: upsertPolicy_eq findPolicyIn_def)
next
  case (Some i)
  then have i: "i < length table" "policyKey (table ! i) = policyKey p"
    by (auto dest!: findIdx_SomeD simp: policyMatches_key policyKey_def)
  then have "(map policyKey table)[i := policyKey p] = map policyKey table"
    by (metis list_update_id nth_map)
  then show ?thesis using Some i by (simp add: upsertPolicy_eq findPolicyIn_def map_update)
qed

lemma findPolicyIn_upsert:
  "findPolicyIn a c (upsertPolicy L p table) =
     (if policyKey p = (a, c) then Some (storedPolicy L p (findPolicyIn a c table))
      else findPolicyIn a c table)"
proof (cases "findIdx (policyMatches (pol_AppID p) (pol_Capability p)) table")
  case None
  then have "findPolicyIn (pol_AppID p) (pol_Capability p) table = None"
    by (simp add: findPolicyIn_def)
  with None show ?thesis
    by (auto simp: upsertPolicy_eq findPolicyIn_append findPolicyIn_Cons policyKey_def
        split: option.splits)
next
  case (Some i)
  note i = findIdx_SomeD [OF Some]
  have scan: "findIdx (policyMatches a c) (upsertPolicy L p table) = findIdx (policyMatches a c) table"
  proof (rule findIdx_map_eq)
    have "map (policyMatches a c) xs = map (\<lambda>k. k = (a, c)) (map policyKey xs)" for xs
      by (simp add: policyMatches_key)
    moreover have "map policyKey (upsertPolicy L p table) = map policyKey table"
      using Some by (simp add: map_policyKey_upsert findPolicyIn_def)
    ultimately show "map (policyMatches a c) (upsertPolicy L p table) = map (policyMatches a c) table"
      by metis
  qed
  show ?thesis
  proof (cases "policyKey p = (a, c)")
    case True
    then have "findIdx (policyMatches a c) table = Some i" using Some by (simp add: policyKey_def)
    then show ?thesis using True Some i scan
      by (simp add: findPolicyIn_def upsertPolicy_eq)
  next
    case False
    have "upsertPolicy L p table ! j = table ! j" if "findIdx (policyMatches a c) table = Some j" for j
    proof -
      have "j \<noteq> i" using False i findIdx_SomeD [OF that] by (auto simp: policyMatches_key policyKey_def)
      then show ?thesis using Some by (simp add: upsertPolicy_eq)
    qed
    then show ?thesis using False scan
      by (cases "findIdx (policyMatches a c) table") (simp_all add: findPolicyIn_def)
  qed
qed

text \<open>The interface of a keyed table: reading through a write.\<close>

locale keyed_table =
  fixes look :: "'k \<Rightarrow> 't \<Rightarrow> 'v option"
    and put :: "'v \<Rightarrow> 't \<Rightarrow> 't"
    and key :: "'v \<Rightarrow> 'k"
    and stored :: "'v \<Rightarrow> 'v option \<Rightarrow> 'v"
  assumes look_put: "look k (put v t) = (if key v = k then Some (stored v (look k t)) else look k t)"
begin

definition puts :: "'v list \<Rightarrow> 't \<Rightarrow> 't" where
  "puts vs t = foldl (\<lambda>t v. put v t) t vs"

lemma puts_append: "puts (vs @ [v]) t = put v (puts vs t)"
  by (simp add: puts_def)

theorem look_puts:
  "look k (puts vs t) = foldl (\<lambda>old v. if key v = k then Some (stored v old) else old) (look k t) vs"
  by (induction vs rule: rev_induct) (simp_all add: puts_append look_put, simp_all add: puts_def)

lemma look_puts_other: "k \<notin> key ` set vs \<Longrightarrow> look k (puts vs t) = look k t"
  by (induction vs rule: rev_induct) (auto simp: puts_append look_put, auto simp: puts_def)

lemma look_puts_last:
  "key v = k \<Longrightarrow> k \<notin> key ` set ws \<Longrightarrow>
   look k (puts (vs @ v # ws) t) = Some (stored v (look k (puts vs t)))"
proof -
  assume v: "key v = k" and ws: "k \<notin> key ` set ws"
  have "puts (vs @ v # ws) t = puts ws (put v (puts vs t))"
    by (simp add: puts_def)
  then show ?thesis using v ws by (simp add: look_puts_other look_put)
qed

end

interpretation policies: keyed_table
  "\<lambda>(a, c) table. findPolicyIn a c table" "upsertPolicy L" policyKey "storedPolicy L" for L
  by unfold_locales (auto simp: findPolicyIn_upsert split: prod.splits)

lemma upsertCapabilityPolicies_puts:
  "data_CapabilityPolicies (srv_data (upsertCapabilityPoliciesLocked L ps s)) =
     policies.puts L ps (data_CapabilityPolicies (srv_data s))"
  by (simp add: upsertCapabilityPoliciesLocked_def policies.puts_def)

lemma distinct_upsert:
  "distinct (map policyKey table) \<Longrightarrow> distinct (map policyKey (upsertPolicy L p table))"
  by (auto simp: map_policyKey_upsert findPolicyIn_None_iff policyKey_def)

lemma distinct_upserts:
  "distinct (map policyKey table) \<Longrightarrow>
   distinct (map policyKey (foldl (\<lambda>table p. upsertPolicy L p table) table ps))"
  by (induction ps arbitrary: table) (simp_all add: distinct_upsert)

section \<open>Seeding\<close>

lemma seedPolicies_prefix: "\<exists>ext. fst (seedPolicies appID ps table) = table @ ext \<and>
    snd (seedPolicies appID ps table) = length ext \<and> set ext \<subseteq> set ps"
proof (induction ps arbitrary: table)
  case (Cons p ps)
  show ?case
  proof (cases "findPolicyIn appID (pol_Capability p) table = None")
    case True
    obtain ext where "fst (seedPolicies appID ps (table @ [p])) = (table @ [p]) @ ext"
      "snd (seedPolicies appID ps (table @ [p])) = length ext" "set ext \<subseteq> set ps"
      using Cons.IH by blast
    then show ?thesis
      using True by (intro exI [of _ "p # ext"]) (auto simp: case_prod_beta)
  next
    case False
    then show ?thesis using Cons.IH [of table] by auto
  qed
qed simp

lemma seedPolicies_keeps:
  "findPolicyIn a c table = Some q \<Longrightarrow> findPolicyIn a c (fst (seedPolicies appID ps table)) = Some q"
  using seedPolicies_prefix [of appID ps table] by (auto simp: findPolicyIn_append)

lemma seedPolicies_complete:
  "p \<in> set ps \<Longrightarrow> \<forall>q \<in> set ps. pol_AppID q = appID \<Longrightarrow>
   findPolicyIn appID (pol_Capability p) (fst (seedPolicies appID ps table)) \<noteq> None"
proof (induction ps arbitrary: table)
  case (Cons q ps)
  show ?case
  proof (cases "p = q")
    case True
    show ?thesis
    proof (cases "findPolicyIn appID (pol_Capability q) table")
      case None
      have "findPolicyIn appID (pol_Capability q) (table @ [q]) = Some q"
        using None Cons.prems(2) by (simp add: findPolicyIn_append findPolicyIn_Cons policyKey_def)
      then show ?thesis using None True
        by (auto simp: case_prod_beta dest: seedPolicies_keeps)
    next
      case (Some r)
      then show ?thesis using True by (auto dest: seedPolicies_keeps)
    qed
  next
    case False
    then show ?thesis using Cons by (auto simp: case_prod_beta)
  qed
qed simp

lemma seedPolicies_noop:
  "\<forall>p \<in> set ps. findPolicyIn appID (pol_Capability p) table \<noteq> None \<Longrightarrow> seedPolicies appID ps table = (table, 0)"
  by (induction ps) auto

lemma distinct_seedPolicies:
  "distinct (map policyKey table) \<Longrightarrow> \<forall>q \<in> set ps. pol_AppID q = appID \<Longrightarrow>
   distinct (map policyKey (fst (seedPolicies appID ps table)))"
proof (induction ps arbitrary: table)
  case (Cons p ps)
  then show ?case
    by (auto simp: case_prod_beta findPolicyIn_None_iff policyKey_def)
qed simp

lemma defaults_appID: "p \<in> set (defaultVisionFlowCapabilityPolicies appID now) \<Longrightarrow> pol_AppID p = appID"
  by (auto simp: defaultVisionFlowCapabilityPolicies_def)

lemma ensureDefault_sel [simp, frame_simps]:
  "srv_challenges (fst (ensureDefaultVisionFlowPoliciesLocked a t s)) = srv_challenges s"
  "srv_adminSessions (fst (ensureDefaultVisionFlowPoliciesLocked a t s)) = srv_adminSessions s"
  "data_Licenses (srv_data (fst (ensureDefaultVisionFlowPoliciesLocked a t s))) = data_Licenses (srv_data s)"
  "data_Activations (srv_data (fst (ensureDefaultVisionFlowPoliciesLocked a t s))) = data_Activations (srv_data s)"
  "data_Releases (srv_data (fst (ensureDefaultVisionFlowPoliciesLocked a t s))) = data_Releases (srv_data s)"
  "data_Apps (srv_data (fst (ensureDefaultVisionFlowPoliciesLocked a t s))) = data_Apps (srv_data s)"
  by (simp_all add: ensureDefaultVisionFlowPoliciesLocked_def case_prod_beta)

section \<open>Ordering and decisions\<close>

interpretation policy_order: slice_order policyLess
  by unfold_locales (auto simp: policyLess_def)

lemma member_iff_set: "List.member xs x \<longleftrightarrow> x \<in> set xs"
  by simp

lemma normalizeMode_nonempty: "normalizeCapabilityPolicyMode L m \<noteq> []"
  by (simp add: normalizeCapabilityPolicyMode_def Let_def)

lemma hasEntitlement_iff:
  "hasEntitlement ents r \<longleftrightarrow> trimSpace r = [] \<or> trimSpace r \<in> set ents"
  by (simp add: hasEntitlement_def Let_def)

end
