(* ===== verification/Integrity.thy ===== *)
theory Integrity
  imports Releases Policies
begin

text \<open>
  The integrity evaluation of server.go (\<open>evaluateIntegrityLocked\<close>, \<open>newIntegrityReport\<close> and
  their helpers): the release a client claims to run and what it reports of itself are turned
  into a risk score, a level, a list of actions and a denial, with one risk event per finding.
\<close>

section \<open>The client's input\<close>

record clientVerificationInput =
  cvi_AppID :: string
  cvi_Platform :: string
  cvi_LicenseKey :: string
  cvi_LicenseToken :: string
  cvi_ChallengeID :: string
  cvi_Nonce :: string
  cvi_Device :: DeviceInfo
  cvi_Integrity :: IntegrityRequest
  cvi_IsActivation :: bool

definition dbEncryptionStatusFailed :: "golib \<Rightarrow> string \<Rightarrow> bool" where
  "dbEncryptionStatusFailed L status \<longleftrightarrow>
     toLower L (trimSpace status) \<in>
       {''failed'', ''error'', ''key_missing'', ''key_unavailable'', ''key_unreadable'',
        ''migration_failed'', ''plaintext'', ''plaintext_fallback'', ''disabled''}"

definition businessIntegrityFailed :: "golib \<Rightarrow> string \<Rightarrow> bool" where
  "businessIntegrityFailed L status \<longleftrightarrow>
     toLower L (trimSpace status) \<in> {''failed'', ''invalid'', ''tampered''}"

fun uniqueAux :: "string list \<Rightarrow> string list \<Rightarrow> string list" where
  "uniqueAux seen [] = []"
| "uniqueAux seen (item # items) =
     (if List.member seen item then uniqueAux seen items else item # uniqueAux (item # seen) items)"

definition uniqueStrings :: "string list \<Rightarrow> string list" where
  "uniqueStrings items = uniqueAux [] items"

section \<open>The evaluation\<close>

text \<open>The local variables of the evaluation; the server is threaded because every finding
  appends a risk event.\<close>

record evalState =
  ev_score :: int
  ev_deny :: bool
  ev_actions :: "string list"
  ev_server :: Server

text \<open>One finding: points, whether it denies, the actions it adds and the event it records.
  The k-th finding of the function has the sites \<open>2k\<close> and \<open>2k + 1\<close> after the base.\<close>

definition finding ::
  "env \<Rightarrow> nat \<Rightarrow> string \<times> string \<times> string \<Rightarrow> bool \<Rightarrow> int \<Rightarrow> bool \<Rightarrow> string list \<Rightarrow>
   string \<Rightarrow> string \<Rightarrow> string \<Rightarrow> string \<Rightarrow> gmap option \<Rightarrow> evalState \<Rightarrow> evalState" where
  "finding e k ids cond points denies acts eventType severity action summary metadata a =
     (if cond then
        a\<lparr>ev_score := ev_score a + points,
          ev_deny := (if denies then True else ev_deny a),
          ev_actions := ev_actions a @ acts,
          ev_server := addRiskEventLocked e k (fst ids) (fst (snd ids)) (snd (snd ids))
                         eventType severity action summary metadata (ev_server a)\<rparr>
      else a)"

definition evaluateRelease ::
  "golib \<Rightarrow> env \<Rightarrow> nat \<Rightarrow> string \<times> string \<times> string \<Rightarrow> IntegrityRequest \<Rightarrow> AppRelease \<Rightarrow> evalState \<Rightarrow> evalState" where
  "evaluateRelease L e k ids q r a0 =
     (let a1 = finding e (k + 2) ids (rel_Status r = ''blocked'') 85 True [''deny'']
                 ''app_version_blocked'' ''high'' ''deny''
                 (utf8 [0x5f53, 0x524d, 0x7248, 0x672c, 0x5df2, 0x88ab, 0x540e, 0x53f0, 0x963b, 0x6b62])
                 (Some [(''version'', GStr (iq_AppVersion q))]) a0;
          a2 = finding e (k + 4) ids (rel_Status r = ''deprecated'') 35 False
                 [''shorten_token_ttl'', ''update_recommended'']
                 ''app_version_deprecated'' ''medium'' ''challenge''
                 (utf8 [0x5f53, 0x524d, 0x7248, 0x672c, 0x5df2, 0x6807, 0x8bb0, 0x4e3a, 0x8fc7, 0x65f6])
                 (Some [(''version'', GStr (iq_AppVersion q))]) a1;
          a3 = finding e (k + 6) ids
                 (rel_MainBinaryHash r \<noteq> [] \<and> iq_MainBinaryHash q \<noteq> [] \<and>
                  \<not> equalFold L (rel_MainBinaryHash r) (iq_MainBinaryHash q)) 90 True [''deny'']
                 ''binary_hash_mismatch'' ''high'' ''deny''
                 (utf8 [0x4e3b, 0x7a0b, 0x5e8f, 0x20, 0x68, 0x61, 0x73, 0x68, 0x20, 0x4e0e, 0x53d1, 0x5e03, 0x7248, 0x672c, 0x4e0d, 0x5339, 0x914d])
                 (Some [(''expected'', GStr (rel_MainBinaryHash r)), (''actual'', GStr (iq_MainBinaryHash q))]) a2;
          a4 = finding e (k + 8) ids
                 (rel_SignerThumbprint r \<noteq> [] \<and> iq_SignerThumbprint q \<noteq> [] \<and>
                  \<not> equalFold L (rel_SignerThumbprint r) (iq_SignerThumbprint q)) 80 True [''deny'']
                 ''signature_mismatch'' ''high'' ''deny''
                 (utf8 [0x7b7e, 0x540d, 0x8bc1, 0x4e66, 0x6307, 0x7eb9, 0x4e0d, 0x5339, 0x914d])
                 (Some [(''expected'', GStr (rel_SignerThumbprint r)), (''actual'', GStr (iq_SignerThumbprint q))]) a3;
          expectedBusinessManifest = releaseBusinessManifestSHA256 (Some r);
          a5 = finding e (k + 10) ids
                 (expectedBusinessManifest \<noteq> [] \<and>
                  \<not> equalFold L expectedBusinessManifest (iq_BusinessManifestSHA256 q)) 90 True [''deny'']
                 ''business_manifest_mismatch'' ''high'' ''deny''
                 (utf8 [0x4e1a, 0x52a1, 0x20, 0x6d, 0x61, 0x6e, 0x69, 0x66, 0x65, 0x73, 0x74, 0x20, 0x68, 0x61, 0x73, 0x68, 0x20, 0x4e0e, 0x53d1, 0x5e03, 0x7248, 0x672c, 0x4e0d, 0x5339, 0x914d])
                 (Some [(''expected'', GStr expectedBusinessManifest),
                        (''actual'', GStr (iq_BusinessManifestSHA256 q)), (''release_id'', GStr (rel_ID r))]) a4;
          a6 = finding e (k + 12) ids
                 (rel_ProtectedDBSchemaHash r \<noteq> [] \<and>
                  \<not> equalFold L (rel_ProtectedDBSchemaHash r) (iq_ProtectedDBSchemaHash q)) 85 True [''deny'']
                 ''protected_db_definition_mismatch'' ''high'' ''deny''
                 (utf8 [0x53d7, 0x4fdd, 0x62a4, 0x20, 0x44, 0x42, 0x20, 0x73, 0x63, 0x68, 0x65, 0x6d, 0x61, 0x20, 0x68, 0x61, 0x73, 0x68, 0x20, 0x4e0e, 0x53d1, 0x5e03, 0x7248, 0x672c, 0x4e0d, 0x5339, 0x914d])
                 (Some [(''field'', GStr ''protected_db_schema_hash''),
                        (''expected'', GStr (rel_ProtectedDBSchemaHash r)),
                        (''actual'', GStr (iq_ProtectedDBSchemaHash q)), (''release_id'', GStr (rel_ID r))]) a5;
          a7 = finding e (k + 14) ids
                 (rel_ProtectedDBTablesHash r \<noteq> [] \<and>
                  \<not> equalFold L (rel_ProtectedDBTablesHash r) (iq_ProtectedDBTablesHash q)) 85 True [''deny'']
                 ''protected_db_definition_mismatch'' ''high'' ''deny''
                 (utf8 [0x53d7, 0x4fdd, 0x62a4, 0x20, 0x44, 0x42, 0x20, 0x74, 0x61, 0x62, 0x6c, 0x65, 0x73, 0x20, 0x68, 0x61, 0x73, 0x68, 0x20, 0x4e0e, 0x53d1, 0x5e03, 0x7248, 0x672c, 0x4e0d, 0x5339, 0x914d])
                 (Some [(''field'', GStr ''protected_db_tables_hash''),
                        (''expected'', GStr (rel_ProtectedDBTablesHash r)),
                        (''actual'', GStr (iq_ProtectedDBTablesHash q)), (''release_id'', GStr (rel_ID r))]) a6;
          a8 = finding e (k + 16) ids
                 (rel_AssetsManifestSHA256 r \<noteq> [] \<and>
                  \<not> equalFold L (rel_AssetsManifestSHA256 r) (iq_AssetsManifestSHA256 q)) 85 True [''deny'']
                 ''asset_manifest_mismatch'' ''high'' ''deny''
                 (utf8 [0x61, 0x73, 0x73, 0x65, 0x74, 0x73, 0x20, 0x6d, 0x61, 0x6e, 0x69, 0x66, 0x65, 0x73, 0x74, 0x20, 0x68, 0x61, 0x73, 0x68, 0x20, 0x4e0e, 0x53d1, 0x5e03, 0x7248, 0x672c, 0x4e0d, 0x5339, 0x914d])
                 (Some [(''expected'', GStr (rel_AssetsManifestSHA256 r)),
                        (''actual'', GStr (iq_AssetsManifestSHA256 q)), (''release_id'', GStr (rel_ID r))]) a7;
          a9 = finding e (k + 18) ids
                 (rel_WorkflowManifestSHA256 r \<noteq> [] \<and>
                  \<not> equalFold L (rel_WorkflowManifestSHA256 r) (iq_WorkflowManifestSHA256 q)) 85 True [''deny'']
                 ''workflow_manifest_mismatch'' ''high'' ''deny''
                 (utf8 [0x77, 0x6f, 0x72, 0x6b, 0x66, 0x6c, 0x6f, 0x77, 0x20, 0x6d, 0x61, 0x6e, 0x69, 0x66, 0x65, 0x73, 0x74, 0x20, 0x68, 0x61, 0x73, 0x68, 0x20, 0x4e0e, 0x53d1, 0x5e03, 0x7248, 0x672c, 0x4e0d, 0x5339, 0x914d])
                 (Some [(''expected'', GStr (rel_WorkflowManifestSHA256 r)),
                        (''actual'', GStr (iq_WorkflowManifestSHA256 q)), (''release_id'', GStr (rel_ID r))]) a8
      in a9)"

definition evaluateReported ::
  "golib \<Rightarrow> env \<Rightarrow> nat \<Rightarrow> string \<times> string \<times> string \<Rightarrow> IntegrityRequest \<Rightarrow> evalState \<Rightarrow> evalState" where
  "evaluateReported L e k ids q a0 =
     (let a1 = finding e (k + 20) ids (iq_BusinessManifestSignatureValid q = Some False) 90 True [''deny'']
                 ''business_manifest_signature_invalid'' ''high'' ''deny''
                 (utf8 [0x4e1a, 0x52a1, 0x20, 0x6d, 0x61, 0x6e, 0x69, 0x66, 0x65, 0x73, 0x74, 0x20, 0x7b7e, 0x540d, 0x65e0, 0x6548])
                 (Some [(''business_manifest_sha256'', GStr (iq_BusinessManifestSHA256 q))]) a0;
          a2 = finding e (k + 22) ids (businessIntegrityFailed L (iq_BusinessIntegrityStatus q)) 85 True [''deny'']
                 ''business_integrity_failed'' ''high'' ''deny''
                 (utf8 [0x4e1a, 0x52a1, 0x5b8c, 0x6574, 0x6027, 0x81ea, 0x68c0, 0x5931, 0x8d25])
                 (Some [(''status'', GStr (iq_BusinessIntegrityStatus q)),
                        (''errors'', GStrs (iq_BusinessIntegrityErrors q))]) a1;
          a3 = finding e (k + 24) ids (dbEncryptionStatusFailed L (iq_DBEncryptionStatus q)) 85 True [''deny'']
                 ''db_encryption_failed'' ''high'' ''deny''
                 (utf8 [0x672c, 0x5730, 0x20, 0x44, 0x42, 0x20, 0x52a0, 0x5bc6, 0x6216, 0x5bc6, 0x94a5, 0x8bfb, 0x53d6, 0x5931, 0x8d25])
                 (Some [(''status'', GStr (iq_DBEncryptionStatus q)),
                        (''errors'', GStrs (iq_DBEncryptionErrors q))]) a2;
          a4 = finding e (k + 26) ids (iq_DebuggerDetected q) 40 False [''shorten_token_ttl'']
                 ''debugger_detected'' ''medium'' ''challenge''
                 (utf8 [0x68c0, 0x6d4b, 0x5230, 0x8c03, 0x8bd5, 0x5668]) None a3;
          a5 = finding e (k + 28) ids (iq_SuspiciousModules q \<noteq> [])
                 (20 + int (length (iq_SuspiciousModules q)) * 8) False [''review'']
                 ''suspicious_module_loaded'' ''medium'' ''review''
                 (utf8 [0x68c0, 0x6d4b, 0x5230, 0x53ef, 0x7591, 0x6a21, 0x5757])
                 (Some [(''modules'', GStrs (iq_SuspiciousModules q))]) a4;
          a6 = finding e (k + 30) ids (iq_VMIndicators q \<noteq> []) 12 False [''log'']
                 ''vm_indicator'' ''low'' ''allow''
                 (utf8 [0x68c0, 0x6d4b, 0x5230, 0x865a, 0x62df, 0x5316, 0x73af, 0x5883, 0x4fe1, 0x53f7])
                 (Some [(''indicators'', GStrs (iq_VMIndicators q))]) a5
      in a6)"

definition riskLevel :: "int \<Rightarrow> string" where
  "riskLevel score = (if score \<ge> 80 then ''high'' else if score \<ge> 45 then ''medium'' else ''low'')"

definition evaluateFindings ::
  "golib \<Rightarrow> env \<Rightarrow> nat \<Rightarrow> string \<times> string \<times> string \<Rightarrow> IntegrityRequest \<Rightarrow> AppRelease option \<Rightarrow> Server \<Rightarrow> evalState" where
  "evaluateFindings L e k ids q exactRelease s =
     (let a0 = \<lparr>ev_score = 10, ev_deny = False, ev_actions = [], ev_server = s\<rparr>;
          a1 = (if iq_AppVersion q = [] then a0
                else (case exactRelease of
                        None \<Rightarrow> finding e k ids True 20 False [''review'']
                                  ''unknown_app_version'' ''medium'' ''review''
                                  (utf8 [0x5ba2, 0x6237, 0x7aef, 0x7248, 0x672c, 0x672a, 0x5728, 0x540e, 0x53f0, 0x767b, 0x8bb0])
                                  (Some [(''version'', GStr (iq_AppVersion q))]) a0
                      | Some r \<Rightarrow> evaluateRelease L e k ids q r a0))
      in evaluateReported L e k ids q a1)"

definition evaluateIntegrityLocked ::
  "golib \<Rightarrow> env \<Rightarrow> nat \<Rightarrow> string \<Rightarrow> string \<Rightarrow> string \<Rightarrow> clientVerificationInput \<Rightarrow> Server
   \<Rightarrow> Server \<times> RiskResult \<times> AppRelease option \<times> bool" where
  "evaluateIntegrityLocked L e k appID deviceID licenseID input s =
     (let q = cvi_Integrity input;
          exactRelease = (if iq_AppVersion q \<noteq> []
                          then findReleaseLocked appID (cvi_Platform input) (iq_AppVersion q) s else None);
          a = evaluateFindings L e k (appID, deviceID, licenseID) q exactRelease s;
          score = (if ev_score a > 100 then 100 else ev_score a);
          level = riskLevel score;
          actions1 = (if ev_actions a = [] then [''allow''] else ev_actions a);
          actions2 = (if level = ''high'' \<and> \<not> ev_deny a then actions1 @ [''shorten_token_ttl''] else actions1)
      in (ev_server a,
          \<lparr>rr_Level = level, rr_Score = score, rr_Actions = uniqueStrings actions2\<rparr>,
          exactRelease, ev_deny a))"

definition newIntegrityReport ::
  "env \<Rightarrow> nat \<Rightarrow> string \<Rightarrow> string \<Rightarrow> string \<Rightarrow> IntegrityRequest \<Rightarrow> AppRelease option \<Rightarrow> IntegrityReport" where
  "newIntegrityReport e k appID deviceID platform q release =
     \<lparr>ir_ID = newID e k ''ir'', ir_AppID = appID, ir_DeviceID = deviceID,
      ir_ReleaseID = (case release of None \<Rightarrow> [] | Some r \<Rightarrow> rel_ID r),
      ir_VerifySessionID = [], ir_Platform = platform,
      ir_AppVersion = iq_AppVersion q, ir_MainBinaryHash = iq_MainBinaryHash q,
      ir_SignerThumbprint = iq_SignerThumbprint q,
      ir_BusinessManifestSHA256 = iq_BusinessManifestSHA256 q,
      ir_BusinessManifestSignatureValid = iq_BusinessManifestSignatureValid q,
      ir_ProtectedDBSchemaHash = iq_ProtectedDBSchemaHash q,
      ir_ProtectedDBTablesHash = iq_ProtectedDBTablesHash q,
      ir_AssetsManifestSHA256 = iq_AssetsManifestSHA256 q,
      ir_WorkflowManifestSHA256 = iq_WorkflowManifestSHA256 q,
      ir_BusinessIntegrityStatus = iq_BusinessIntegrityStatus q,
      ir_BusinessIntegrityErrors = iq_BusinessIntegrityErrors q,
      ir_DBEncryptionStatus = iq_DBEncryptionStatus q,
      ir_DBEncryptionErrors = iq_DBEncryptionErrors q,
      ir_DebuggerDetected = iq_DebuggerDetected q,
      ir_SuspiciousModules = iq_SuspiciousModules q,
      ir_VMIndicators = iq_VMIndicators q,
      ir_CreatedAt = env_now e (k + 1)\<rparr>"

definition addIntegrityReport :: "IntegrityReport \<Rightarrow> Server \<Rightarrow> Server" where
  "addIntegrityReport report s =
     updData (\<lambda>d. d\<lparr>data_IntegrityReports := data_IntegrityReports d @ [report]\<rparr>) s"

definition integrityRequestHasEvidence :: "IntegrityRequest \<Rightarrow> bool" where
  "integrityRequestHasEvidence q \<longleftrightarrow>
     iq_AppVersion q \<noteq> [] \<or> iq_MainBinaryHash q \<noteq> [] \<or> iq_SignerThumbprint q \<noteq> [] \<or>
     iq_BusinessManifestSHA256 q \<noteq> [] \<or> iq_BusinessManifestSignatureValid q \<noteq> None \<or>
     iq_ProtectedDBSchemaHash q \<noteq> [] \<or> iq_ProtectedDBTablesHash q \<noteq> [] \<or>
     iq_AssetsManifestSHA256 q \<noteq> [] \<or> iq_WorkflowManifestSHA256 q \<noteq> [] \<or>
     iq_BusinessIntegrityStatus q \<noteq> [] \<or> iq_BusinessIntegrityErrors q \<noteq> [] \<or>
     iq_DBEncryptionStatus q \<noteq> [] \<or> iq_DBEncryptionErrors q \<noteq> [] \<or>
     iq_DebuggerDetected q \<or> iq_SuspiciousModules q \<noteq> [] \<or> iq_VMIndicators q \<noteq> []"

section \<open>Findings only append risk events\<close>

definition riskExtends :: "Server \<Rightarrow> RiskEvent list \<Rightarrow> Server \<Rightarrow> bool" where
  "riskExtends s evs s' \<longleftrightarrow> s' = updData (\<lambda>d. d\<lparr>data_RiskEvents := data_RiskEvents d @ evs\<rparr>) s"

lemma riskExtends_refl: "riskExtends s [] s"
  by (simp add: riskExtends_def updData_def)

lemma riskExtends_add:
  "riskExtends s evs s' \<Longrightarrow>
   \<exists>v. riskExtends s (evs @ [v]) (addRiskEventLocked e k a d l et sev act sm md s') \<and>
       risk_AppID v = a \<and> risk_DeviceID v = d \<and> risk_LicenseID v = l \<and> risk_EventType v = et \<and>
       risk_Severity v = sev \<and> risk_Action v = act"
  by (auto simp: riskExtends_def addRiskEventLocked_def updData_def)

lemma riskExtends_sel:
  assumes "riskExtends s evs s'"
  shows "srv_store s' = srv_store s" "srv_challenges s' = srv_challenges s"
    "srv_adminSessions s' = srv_adminSessions s" "srv_rateLimits s' = srv_rateLimits s"
    "srv_rateLimitWindow s' = srv_rateLimitWindow s" "srv_rateLimitFailures s' = srv_rateLimitFailures s"
    "srv_publicKey s' = srv_publicKey s" "srv_privateKey s' = srv_privateKey s"
    "srv_corsAllowedOrigins s' = srv_corsAllowedOrigins s" "srv_publicBaseURL s' = srv_publicBaseURL s"
    "data_Admins (srv_data s') = data_Admins (srv_data s)"
    "data_Apps (srv_data s') = data_Apps (srv_data s)"
    "data_Releases (srv_data s') = data_Releases (srv_data s)"
    "data_SDKKeys (srv_data s') = data_SDKKeys (srv_data s)"
    "data_Licenses (srv_data s') = data_Licenses (srv_data s)"
    "data_CapabilityPolicies (srv_data s') = data_CapabilityPolicies (srv_data s)"
    "data_Devices (srv_data s') = data_Devices (srv_data s)"
    "data_Activations (srv_data s') = data_Activations (srv_data s)"
    "data_IntegrityReports (srv_data s') = data_IntegrityReports (srv_data s)"
    "data_AuditLogs (srv_data s') = data_AuditLogs (srv_data s)"
    "data_Settings (srv_data s') = data_Settings (srv_data s)"
    "data_RiskEvents (srv_data s') = data_RiskEvents (srv_data s) @ evs"
  using assms by (simp_all add: riskExtends_def)

text \<open>The invariant of the evaluation: the score never falls below 10, a denial has scored at
  least 90, put \<open>deny\<close> among the actions and recorded an event with the action \<open>deny\<close>.\<close>

definition evalOK :: "Server \<Rightarrow> string \<times> string \<times> string \<Rightarrow> evalState \<Rightarrow> bool" where
  "evalOK s ids a \<longleftrightarrow>
     (\<exists>evs. riskExtends s evs (ev_server a) \<and>
        (\<forall>v \<in> set evs. (risk_AppID v, risk_DeviceID v, risk_LicenseID v) = ids) \<and>
        10 \<le> ev_score a \<and>
        (ev_actions a = [] \<longleftrightarrow> evs = []) \<and>
        (ev_deny a \<longleftrightarrow> (\<exists>v \<in> set evs. risk_Action v = ''deny'')) \<and>
        (ev_deny a \<longleftrightarrow> ''deny'' \<in> set (ev_actions a)) \<and>
        (ev_deny a \<longrightarrow> 90 \<le> ev_score a))"

lemma evalOK_start: "evalOK s ids \<lparr>ev_score = 10, ev_deny = False, ev_actions = [], ev_server = s\<rparr>"
  by (auto simp: evalOK_def intro: exI [of _ "[]"] riskExtends_refl)

lemma evalOK_finding:
  assumes "evalOK s ids a" and "0 \<le> points" and "acts \<noteq> []"
    and "denies \<longleftrightarrow> action = ''deny''" and "denies \<longleftrightarrow> ''deny'' \<in> set acts" and "denies \<longrightarrow> 80 \<le> points"
  shows "evalOK s ids (finding e k ids cond points denies acts et sev action sm md a)"
proof (cases cond)
  case True
  obtain evs where evs: "riskExtends s evs (ev_server a)"
      "\<forall>v \<in> set evs. (risk_AppID v, risk_DeviceID v, risk_LicenseID v) = ids"
      "10 \<le> ev_score a" "ev_deny a \<longleftrightarrow> (\<exists>v \<in> set evs. risk_Action v = ''deny'')"
      "ev_deny a \<longleftrightarrow> ''deny'' \<in> set (ev_actions a)" "ev_deny a \<longrightarrow> 90 \<le> ev_score a"
    using assms(1) by (auto simp: evalOK_def)
  obtain v where v: "riskExtends s (evs @ [v]) (addRiskEventLocked e k (fst ids) (fst (snd ids))
        (snd (snd ids)) et sev action sm md (ev_server a))"
      "risk_AppID v = fst ids" "risk_DeviceID v = fst (snd ids)" "risk_LicenseID v = snd (snd ids)"
      "risk_Action v = action"
    using riskExtends_add [OF evs(1)] by metis
  show ?thesis
    unfolding evalOK_def finding_def
    using True evs v assms(2-) by (intro exI [of _ "evs @ [v]"]) auto
next
  case False
  then show ?thesis using assms(1) by (simp add: finding_def)
qed

lemma evalOK_evaluateRelease: "evalOK s ids a \<Longrightarrow> evalOK s ids (evaluateRelease L e k ids q r a)"
  unfolding evaluateRelease_def Let_def by (intro evalOK_finding) simp_all

lemma evalOK_evaluateReported: "evalOK s ids a \<Longrightarrow> evalOK s ids (evaluateReported L e k ids q a)"
  unfolding evaluateReported_def Let_def by (intro evalOK_finding) simp_all

section \<open>What denies\<close>

lemma ev_deny_finding [simp]:
  "ev_deny (finding e k ids cond points denies acts et sev action sm md a) \<longleftrightarrow>
   ev_deny a \<or> (cond \<and> denies)"
  by (simp add: finding_def)

lemma ev_score_finding [simp]:
  "ev_score (finding e k ids cond points denies acts et sev action sm md a) =
   ev_score a + (if cond then points else 0)"
  by (simp add: finding_def)

text \<open>The specification: which release facts and which reports are violations.\<close>

definition hashMismatch :: "golib \<Rightarrow> string \<Rightarrow> string \<Rightarrow> bool" where
  "hashMismatch L expected actual \<longleftrightarrow> expected \<noteq> [] \<and> \<not> equalFold L expected actual"

definition releaseViolation :: "golib \<Rightarrow> AppRelease \<Rightarrow> IntegrityRequest \<Rightarrow> bool" where
  "releaseViolation L r q \<longleftrightarrow>
     rel_Status r = ''blocked'' \<or>
     iq_MainBinaryHash q \<noteq> [] \<and> hashMismatch L (rel_MainBinaryHash r) (iq_MainBinaryHash q) \<or>
     iq_SignerThumbprint q \<noteq> [] \<and> hashMismatch L (rel_SignerThumbprint r) (iq_SignerThumbprint q) \<or>
     hashMismatch L (releaseBusinessManifestSHA256 (Some r)) (iq_BusinessManifestSHA256 q) \<or>
     hashMismatch L (rel_ProtectedDBSchemaHash r) (iq_ProtectedDBSchemaHash q) \<or>
     hashMismatch L (rel_ProtectedDBTablesHash r) (iq_ProtectedDBTablesHash q) \<or>
     hashMismatch L (rel_AssetsManifestSHA256 r) (iq_AssetsManifestSHA256 q) \<or>
     hashMismatch L (rel_WorkflowManifestSHA256 r) (iq_WorkflowManifestSHA256 q)"

definition reportedViolation :: "golib \<Rightarrow> IntegrityRequest \<Rightarrow> bool" where
  "reportedViolation L q \<longleftrightarrow>
     iq_BusinessManifestSignatureValid q = Some False \<or>
     businessIntegrityFailed L (iq_BusinessIntegrityStatus q) \<or>
     dbEncryptionStatusFailed L (iq_DBEncryptionStatus q)"

lemma ev_deny_evaluateRelease:
  "ev_deny (evaluateRelease L e k ids q r a) \<longleftrightarrow> ev_deny a \<or> releaseViolation L r q"
  unfolding evaluateRelease_def Let_def releaseViolation_def hashMismatch_def by simp blast

lemma ev_deny_evaluateReported:
  "ev_deny (evaluateReported L e k ids q a) \<longleftrightarrow> ev_deny a \<or> reportedViolation L q"
  unfolding evaluateReported_def Let_def reportedViolation_def by simp

lemma set_uniqueAux: "set (uniqueAux seen xs) = set xs - set seen"
  by (induction xs arbitrary: seen) auto

lemma distinct_uniqueAux: "distinct (uniqueAux seen xs)"
  by (induction xs arbitrary: seen) (auto simp: set_uniqueAux)

lemma set_uniqueStrings [simp]: "set (uniqueStrings xs) = set xs"
  by (simp add: uniqueStrings_def set_uniqueAux)

lemma distinct_uniqueStrings [simp]: "distinct (uniqueStrings xs)"
  by (simp add: uniqueStrings_def distinct_uniqueAux)

lemma evalOK_evaluateFindings: "evalOK s ids (evaluateFindings L e k ids q r s)"
  unfolding evaluateFindings_def Let_def
  by (rule evalOK_evaluateReported)
     (auto intro!: evalOK_start evalOK_finding evalOK_evaluateRelease split: option.split)

lemma ev_deny_evaluateFindings:
  "ev_deny (evaluateFindings L e k ids q exact s) \<longleftrightarrow>
   (iq_AppVersion q \<noteq> [] \<and> (\<exists>r. exact = Some r \<and> releaseViolation L r q)) \<or> reportedViolation L q"
  by (auto simp: evaluateFindings_def Let_def ev_deny_evaluateReported ev_deny_evaluateRelease
      split: option.split)

text \<open>The release a client claims to run.\<close>

definition claimedRelease :: "string \<Rightarrow> clientVerificationInput \<Rightarrow> Server \<Rightarrow> AppRelease option" where
  "claimedRelease appID input s =
     (if iq_AppVersion (cvi_Integrity input) \<noteq> []
      then findReleaseLocked appID (cvi_Platform input) (iq_AppVersion (cvi_Integrity input)) s else None)"

definition integrityViolation :: "golib \<Rightarrow> string \<Rightarrow> clientVerificationInput \<Rightarrow> Server \<Rightarrow> bool" where
  "integrityViolation L appID input s \<longleftrightarrow>
     (case claimedRelease appID input s of
        None \<Rightarrow> False | Some r \<Rightarrow> releaseViolation L r (cvi_Integrity input)) \<or>
     reportedViolation L (cvi_Integrity input)"

lemma evaluateIntegrityLocked_eq:
  fixes appID deviceID licenseID :: string
  defines "a \<equiv> \<lambda>L e k input s. evaluateFindings L e k (appID, deviceID, licenseID) (cvi_Integrity input)
                   (claimedRelease appID input s) s"
  shows "fst (evaluateIntegrityLocked L e k appID deviceID licenseID input s) = ev_server (a L e k input s)"
    and "snd (snd (snd (evaluateIntegrityLocked L e k appID deviceID licenseID input s))) =
         ev_deny (a L e k input s)"
    and "fst (snd (snd (evaluateIntegrityLocked L e k appID deviceID licenseID input s))) =
         claimedRelease appID input s"
    and "rr_Score (fst (snd (evaluateIntegrityLocked L e k appID deviceID licenseID input s))) =
         min 100 (ev_score (a L e k input s))"
  by (simp_all add: evaluateIntegrityLocked_def claimedRelease_def a_def Let_def)

lemma evaluateIntegrityLocked_deny:
  "evaluateIntegrityLocked L e k appID deviceID licenseID input s = (s', risk, release, deny) \<Longrightarrow>
   deny \<longleftrightarrow> integrityViolation L appID input s"
  using evaluateIntegrityLocked_eq(2) [of L e k appID deviceID licenseID input s]
  by (auto simp: ev_deny_evaluateFindings integrityViolation_def claimedRelease_def split: option.splits if_splits)

lemma evaluateIntegrity_evalOK:
  assumes "evaluateIntegrityLocked L e k appID deviceID licenseID input s = (s', risk, release, deny)"
  obtains a where "evalOK s (appID, deviceID, licenseID) a" and "s' = ev_server a" and "deny = ev_deny a"
    and "release = claimedRelease appID input s"
    and "rr_Score risk = min 100 (ev_score a)" and "rr_Level risk = riskLevel (rr_Score risk)"
    and "set (rr_Actions risk) =
      (if ev_actions a = [] then {''allow''} else set (ev_actions a)) \<union>
      (if rr_Level risk = ''high'' \<and> \<not> deny then {''shorten_token_ttl''} else {})"
    and "distinct (rr_Actions risk)"
proof -
  let ?a = "evaluateFindings L e k (appID, deviceID, licenseID) (cvi_Integrity input)
              (claimedRelease appID input s) s"
  have eq: "s' = ev_server ?a" "deny = ev_deny ?a" "release = claimedRelease appID input s"
      "risk = fst (snd (evaluateIntegrityLocked L e k appID deviceID licenseID input s))"
    using evaluateIntegrityLocked_eq [of L e k appID deviceID licenseID input s] assms by simp_all
  show thesis
    by (rule that [OF evalOK_evaluateFindings eq(1-3)], unfold eq(4))
       (simp_all add: evaluateIntegrityLocked_def claimedRelease_def [symmetric] Let_def eq(2))
qed

end
