(* ===== verification/Tokens.thy ===== *)
theory Tokens
  imports Policies
begin

text \<open>
  License tokens (internal/licensecore/token.go) and the signed capability policy bundle
  (server.go): a token is three base64 parts, header, claims and the Ed25519 signature of the
  first two. JSON, signing and verification are library parameters; what the code relies on
  is stated as hypotheses where it is used.
\<close>

definition tokenHeader :: string where
  "tokenHeader = ''{\"alg\":\"EdDSA\",\"typ\":\"LG-LICENSE\"}''"

definition SignLicenseToken :: "golib \<Rightarrow> string \<Rightarrow> LicenseTokenClaims \<Rightarrow> string + string" where
  "SignLicenseToken L privateKey claims =
     (case lib_marshal_claims L claims of
        Inl err \<Rightarrow> Inl err
      | Inr payloadJSON \<Rightarrow>
          (let headerPart = rawURLEncode tokenHeader;
               payloadPart = rawURLEncode payloadJSON;
               signingInput = headerPart @ ''.'' @ payloadPart;
               signature = lib_sign L privateKey signingInput
           in Inr (signingInput @ ''.'' @ rawURLEncode signature)))"

definition errTokenExpired :: string where
  "errTokenExpired = ''license token expired''"

text \<open>The failure carries the error text and, for an expired token, the claims as well.\<close>

definition VerifyLicenseToken ::
  "golib \<Rightarrow> string \<Rightarrow> string \<Rightarrow> bool \<Rightarrow> time \<Rightarrow> (string \<times> LicenseTokenClaims option) + LicenseTokenClaims" where
  "VerifyLicenseToken L publicKey token allowExpired now =
     (case splitOn (CHR ''.'') token of
        [p0, p1, p2] \<Rightarrow>
          (let signingInput = p0 @ ''.'' @ p1 in
           case rawURLDecode p2 of
             None \<Rightarrow> Inl (lib_base64_error L p2, None)
           | Some signature \<Rightarrow>
               if \<not> lib_verify L publicKey signingInput signature
               then Inl (''invalid token signature'', None)
               else (case rawURLDecode p1 of
                       None \<Rightarrow> Inl (lib_base64_error L p1, None)
                     | Some payload \<Rightarrow>
                         (case lib_unmarshal_claims L payload of
                            Inl err \<Rightarrow> Inl (err, None)
                          | Inr claims \<Rightarrow>
                              if \<not> allowExpired \<and> unixSeconds now > tok_ExpiresAt claims
                              then Inl (errTokenExpired, Some claims)
                              else Inr claims)))
      | _ \<Rightarrow> Inl (''invalid token format'', None))"

section \<open>The signed policy bundle\<close>

definition signCapabilityPolicyBundle :: "golib \<Rightarrow> string \<Rightarrow> CapabilityPolicyBundle \<Rightarrow> string + string" where
  "signCapabilityPolicyBundle L privateKey bundle =
     (case lib_marshal_bundle L bundle of
        Inl err \<Rightarrow> Inl err
      | Inr payload \<Rightarrow> Inr (rawURLEncode (lib_sign L privateKey payload)))"

definition signedCapabilityPolicyBundleLocked ::
  "golib \<Rightarrow> env \<Rightarrow> nat \<Rightarrow> string \<Rightarrow> string \<Rightarrow> string \<Rightarrow> string list \<Rightarrow> time \<Rightarrow> Server
   \<Rightarrow> string + SignedCapabilityPolicyBundle option" where
  "signedCapabilityPolicyBundleLocked L e k appID licenseID deviceID entitlements expiresAt s =
     (let policies = capabilityPoliciesForAppLocked appID s in
      if policies = [] then Inr None
      else
        (let decisions = map (\<lambda>p. capabilityDecision L (Some p) entitlements (pol_Capability p)) policies;
             bundle = \<lparr>cb_AppID = appID, cb_LicenseID = licenseID, cb_DeviceID = deviceID,
                       cb_Entitlements = entitlements, cb_Decisions = decisions,
                       cb_IssuedAt = unixSeconds (env_now e k), cb_ExpiresAt = unixSeconds expiresAt\<rparr>
         in case signCapabilityPolicyBundle L (srv_privateKey s) bundle of
              Inl err \<Rightarrow> Inl err
            | Inr signature \<Rightarrow>
                Inr (Some \<lparr>scb_Alg = ''EdDSA'', scb_KeyType = ''Ed25519'', scb_Bundle = bundle,
                           scb_Signature = signature\<rparr>)))"

definition publicKeyString :: "Server \<Rightarrow> string" where
  "publicKeyString s = stdEncode (srv_publicKey s)"

section \<open>Lemmas\<close>

lemma SignLicenseToken_parts:
  assumes "SignLicenseToken L priv c = Inr token"
  obtains payload where "lib_marshal_claims L c = Inr payload"
    and "splitOn (CHR ''.'') token =
      [rawURLEncode tokenHeader, rawURLEncode payload,
       rawURLEncode (lib_sign L priv (rawURLEncode tokenHeader @ ''.'' @ rawURLEncode payload))]"
proof (cases "lib_marshal_claims L c")
  case (Inr payload)
  let ?h = "rawURLEncode tokenHeader" and ?p = "rawURLEncode payload"
  have "token = ?h @ ''.'' @ ?p @ ''.'' @ rawURLEncode (lib_sign L priv (?h @ ''.'' @ ?p))"
    using assms Inr by (simp add: SignLicenseToken_def Let_def)
  then show thesis
    using that Inr b64url.split_three by simp
qed (use assms in \<open>simp add: SignLicenseToken_def\<close>)

lemma VerifyLicenseToken_InrD:
  assumes "VerifyLicenseToken L pub token allowExpired now = Inr claims"
  shows "\<exists>p0 p1 p2 signature payload.
    splitOn (CHR ''.'') token = [p0, p1, p2] \<and> rawURLDecode p2 = Some signature \<and>
    lib_verify L pub (p0 @ ''.'' @ p1) signature \<and> rawURLDecode p1 = Some payload \<and>
    lib_unmarshal_claims L payload = Inr claims \<and>
    (allowExpired \<or> unixSeconds now \<le> tok_ExpiresAt claims)"
  using assms unfolding VerifyLicenseToken_def Let_def
  by (auto split: list.splits option.splits sum.splits if_splits)

text \<open>A signed token verifies under a matching key, until it expires. The hypotheses are the
  documented behaviour of Ed25519 and of the JSON codec.\<close>

definition signatureScheme :: "golib \<Rightarrow> string \<Rightarrow> string \<Rightarrow> bool" where
  "signatureScheme L priv pub \<longleftrightarrow> (\<forall>m. lib_verify L pub m (lib_sign L priv m))"

definition claimsRoundTrip :: "golib \<Rightarrow> LicenseTokenClaims \<Rightarrow> bool" where
  "claimsRoundTrip L c \<longleftrightarrow> (\<forall>p. lib_marshal_claims L c = Inr p \<longrightarrow> lib_unmarshal_claims L p = Inr c)"

lemma verify_signed:
  assumes "SignLicenseToken L priv c = Inr token" and "signatureScheme L priv pub" and "claimsRoundTrip L c"
  shows "VerifyLicenseToken L pub token allowExpired now =
    (if \<not> allowExpired \<and> unixSeconds now > tok_ExpiresAt c then Inl (errTokenExpired, Some c) else Inr c)"
proof -
  obtain payload where p: "lib_marshal_claims L c = Inr payload"
    and parts: "splitOn (CHR ''.'') token =
      [rawURLEncode tokenHeader, rawURLEncode payload,
       rawURLEncode (lib_sign L priv (rawURLEncode tokenHeader @ ''.'' @ rawURLEncode payload))]"
    by (rule SignLicenseToken_parts [OF assms(1)])
  have "lib_unmarshal_claims L payload = Inr c"
    using assms(3) p by (simp add: claimsRoundTrip_def)
  then show ?thesis
    using assms(2) by (simp add: VerifyLicenseToken_def Let_def parts b64url.dec_enc signatureScheme_def)
qed

end
