(* ===== verification/Challenges.thy ===== *)
theory Challenges
  imports ServerState
begin

text \<open>
  One-time challenges (server.go, \<open>validateChallengeLocked\<close>, \<open>cleanupExpiredChallengesLocked\<close>):
  a client first obtains a challenge and must present it, once, with every activation or
  verification. The interface is that of a one-time ticket.
\<close>

definition challengeExpired :: "time \<Rightarrow> Challenge \<Rightarrow> bool" where
  "challengeExpired now c \<longleftrightarrow> now > chg_ExpiresAt c"

definition cleanupExpiredChallengesLocked :: "time \<Rightarrow> Server \<Rightarrow> Server" where
  "cleanupExpiredChallengesLocked now s =
     s\<lparr>srv_challenges := (\<lambda>cid'. case srv_challenges s cid' of
          None \<Rightarrow> None
        | Some c \<Rightarrow> if challengeExpired now c then None else Some c)\<rparr>"

definition validateChallengeLocked ::
  "string \<Rightarrow> string \<Rightarrow> string \<Rightarrow> string \<Rightarrow> time \<Rightarrow> Server \<Rightarrow> Server \<times> string option" where
  "validateChallengeLocked appID installID challengeID nonce now s =
     (case srv_challenges s challengeID of
        None \<Rightarrow> (cleanupExpiredChallengesLocked now s, Some ''challenge not found'')
      | Some challenge \<Rightarrow>
          (let s1 = s\<lparr>srv_challenges := (srv_challenges s)(challengeID := None)\<rparr>;
               s2 = cleanupExpiredChallengesLocked now s1
           in if challengeExpired now challenge then (s2, Some ''challenge expired'')
              else if chg_AppID challenge \<noteq> appID \<or> chg_InstallID challenge \<noteq> installID
                      \<or> chg_Nonce challenge \<noteq> nonce
              then (s2, Some ''challenge fields do not match request'')
              else (s2, None)))"

lemma cleanup_sel [simp, frame_simps]:
  "srv_data (cleanupExpiredChallengesLocked t s) = srv_data s"
  "srv_store (cleanupExpiredChallengesLocked t s) = srv_store s"
  "srv_publicKey (cleanupExpiredChallengesLocked t s) = srv_publicKey s"
  "srv_privateKey (cleanupExpiredChallengesLocked t s) = srv_privateKey s"
  "srv_adminSessions (cleanupExpiredChallengesLocked t s) = srv_adminSessions s"
  "srv_rateLimits (cleanupExpiredChallengesLocked t s) = srv_rateLimits s"
  "srv_rateLimitWindow (cleanupExpiredChallengesLocked t s) = srv_rateLimitWindow s"
  "srv_rateLimitFailures (cleanupExpiredChallengesLocked t s) = srv_rateLimitFailures s"
  "srv_corsAllowedOrigins (cleanupExpiredChallengesLocked t s) = srv_corsAllowedOrigins s"
  "srv_publicBaseURL (cleanupExpiredChallengesLocked t s) = srv_publicBaseURL s"
  by (simp_all add: cleanupExpiredChallengesLocked_def)

lemma validateChallenge_sel [simp, frame_simps]:
  "srv_data (fst (validateChallengeLocked a i c n t s)) = srv_data s"
  "srv_store (fst (validateChallengeLocked a i c n t s)) = srv_store s"
  "srv_publicKey (fst (validateChallengeLocked a i c n t s)) = srv_publicKey s"
  "srv_privateKey (fst (validateChallengeLocked a i c n t s)) = srv_privateKey s"
  "srv_adminSessions (fst (validateChallengeLocked a i c n t s)) = srv_adminSessions s"
  "srv_rateLimits (fst (validateChallengeLocked a i c n t s)) = srv_rateLimits s"
  "srv_rateLimitWindow (fst (validateChallengeLocked a i c n t s)) = srv_rateLimitWindow s"
  "srv_rateLimitFailures (fst (validateChallengeLocked a i c n t s)) = srv_rateLimitFailures s"
  "srv_corsAllowedOrigins (fst (validateChallengeLocked a i c n t s)) = srv_corsAllowedOrigins s"
  "srv_publicBaseURL (fst (validateChallengeLocked a i c n t s)) = srv_publicBaseURL s"
  by (simp_all add: validateChallengeLocked_def Let_def split: option.split)

lemma cleanup_Some_iff:
  "srv_challenges (cleanupExpiredChallengesLocked now s) cid' = Some c \<longleftrightarrow>
   srv_challenges s cid' = Some c \<and> \<not> challengeExpired now c"
  by (auto simp: cleanupExpiredChallengesLocked_def split: option.splits)

lemma validateChallenge_challenges:
  "srv_challenges (fst (validateChallengeLocked a i cid n now s)) cid' =
     (case srv_challenges s cid' of
        None \<Rightarrow> None
      | Some c \<Rightarrow> if cid' = cid \<or> challengeExpired now c then None else Some c)"
  by (auto simp: validateChallengeLocked_def cleanupExpiredChallengesLocked_def Let_def
      split: option.splits)

lemma validateChallenge_ok_iff:
  "snd (validateChallengeLocked a i cid n now s) = None \<longleftrightarrow>
   (\<exists>c. srv_challenges s cid = Some c \<and> now \<le> chg_ExpiresAt c \<and>
        chg_AppID c = a \<and> chg_InstallID c = i \<and> chg_Nonce c = n)"
  by (auto simp: validateChallengeLocked_def challengeExpired_def Let_def split: option.splits)

text \<open>One-time tickets: a successful redemption needs the ticket and consumes it, and no
  redemption makes a ticket appear. A strict ticket is consumed whatever the outcome.\<close>

locale one_time_ticket =
  fixes present :: "'s \<Rightarrow> 'k \<Rightarrow> bool"
    and redeem :: "'a \<Rightarrow> 'k \<Rightarrow> 's \<Rightarrow> 's \<times> 'err option"
  assumes consumed: "snd (redeem a k s) = None \<Longrightarrow> \<not> present (fst (redeem a k s)) k"
    and needed: "snd (redeem a k s) = None \<Longrightarrow> present s k"
    and none_appear: "present (fst (redeem a k s)) j \<Longrightarrow> present s j"
begin

fun outcomes :: "('a \<times> 'k) list \<Rightarrow> 's \<Rightarrow> ('k \<times> bool) list" where
  "outcomes [] s = []"
| "outcomes ((a, k) # rs) s = (k, snd (redeem a k s) = None) # outcomes rs (fst (redeem a k s))"

lemma absent_fails: "\<not> present s k \<Longrightarrow> (k, True) \<notin> set (outcomes rs s)"
proof (induction rs arbitrary: s)
  case (Cons r rs)
  obtain a j where r: "r = (a, j)" by (cases r)
  have "(k, True) \<notin> set (outcomes rs (fst (redeem a j s)))"
    using Cons none_appear by blast
  moreover have "\<not> (j = k \<and> snd (redeem a j s) = None)"
    using Cons.prems needed by blast
  ultimately show ?case by (auto simp: r)
qed simp

theorem at_most_once: "length (filter (\<lambda>x. x = (k, True)) (outcomes rs s)) \<le> 1"
proof (induction rs arbitrary: s)
  case (Cons r rs)
  obtain a j where r: "r = (a, j)" by (cases r)
  show ?case
  proof (cases "j = k \<and> snd (redeem a j s) = None")
    case True
    then have "(k, True) \<notin> set (outcomes rs (fst (redeem a j s)))"
      using absent_fails consumed by blast
    then have "filter (\<lambda>x. x = (k, True)) (outcomes rs (fst (redeem a j s))) = []"
      by (auto simp: filter_empty_conv)
    then show ?thesis using True by (simp add: r)
  next
    case False
    then show ?thesis using Cons.IH [of "fst (redeem a j s)"] by (auto simp: r)
  qed
qed simp

end

locale strict_ticket = one_time_ticket +
  assumes consumed_always: "\<not> present (fst (redeem a k s)) k"
begin

lemma second_try_fails: "snd (redeem b k (fst (redeem a k s))) \<noteq> None"
  using consumed_always needed by blast

end

definition challengePresent :: "Server \<Rightarrow> string \<Rightarrow> bool" where
  "challengePresent s cid' \<longleftrightarrow> srv_challenges s cid' \<noteq> None"

interpretation ticket: strict_ticket challengePresent
  "\<lambda>(appID, installID, nonce, now) cid s. validateChallengeLocked appID installID cid nonce now s"
  by unfold_locales
     (auto simp: challengePresent_def validateChallenge_challenges validateChallenge_ok_iff
        split: option.splits if_splits)

end
