(* ===== verification/RateLimit.thy ===== *)
theory RateLimit
  imports ServerState
begin

text \<open>
  The failure rate limiter of server.go (\<open>isRateLimitedLocked\<close>, \<open>recordRateLimitFailureLocked\<close>,
  \<open>resetRateLimitLocked\<close> and their keys): a counter of failures per key and window. The lemmas
  give its exact behaviour over a sequence of failures, and its interface as a locale.
\<close>

text \<open>\<open>time.Time.Sub\<close> saturates at the bounds of a 64-bit duration.\<close>

definition maxDuration :: duration where "maxDuration = 2 ^ 63 - 1"
definition minDuration :: duration where "minDuration = - (2 ^ 63)"

definition timeSub :: "time \<Rightarrow> time \<Rightarrow> duration" where
  "timeSub t u = max minDuration (min maxDuration (t - u))"

definition isRateLimitedLocked :: "string \<Rightarrow> time \<Rightarrow> Server \<Rightarrow> bool" where
  "isRateLimitedLocked key now s =
     (if srv_rateLimitFailures s \<le> 0 \<or> srv_rateLimitWindow s \<le> 0 then False
      else (case srv_rateLimits s key of
              None \<Rightarrow> False
            | Some st \<Rightarrow>
                if timeSub now (rl_WindowStart st) \<ge> srv_rateLimitWindow s then False
                else rl_Failures st \<ge> srv_rateLimitFailures s))"

definition recordRateLimitFailureLocked :: "string \<Rightarrow> time \<Rightarrow> Server \<Rightarrow> Server" where
  "recordRateLimitFailureLocked key now s =
     (if srv_rateLimitFailures s \<le> 0 \<or> srv_rateLimitWindow s \<le> 0 then s
      else
        (let st = (case srv_rateLimits s key of
                     None \<Rightarrow> \<lparr>rl_WindowStart = now, rl_Failures = 0\<rparr>
                   | Some st \<Rightarrow>
                       if timeSub now (rl_WindowStart st) \<ge> srv_rateLimitWindow s
                       then \<lparr>rl_WindowStart = now, rl_Failures = 0\<rparr> else st)
         in s\<lparr>srv_rateLimits := (srv_rateLimits s)(key \<mapsto> st\<lparr>rl_Failures := rl_Failures st + 1\<rparr>)\<rparr>))"

definition resetRateLimitLocked :: "string \<Rightarrow> Server \<Rightarrow> Server" where
  "resetRateLimitLocked key s = s\<lparr>srv_rateLimits := (srv_rateLimits s)(key := None)\<rparr>"

definition setFailureRateLimit :: "int \<Rightarrow> duration \<Rightarrow> Server \<Rightarrow> Server" where
  "setFailureRateLimit maxFailures window s =
     s\<lparr>srv_rateLimitFailures := maxFailures, srv_rateLimitWindow := window,
       srv_rateLimits := Map.empty\<rparr>"

definition rateLimitKey :: "golib \<Rightarrow> string list \<Rightarrow> string" where
  "rateLimitKey L parts =
     joinWith ''|''
       (map (\<lambda>part. let p = toLower L (trimSpace part) in if p = [] then ''-'' else p) parts)"

section \<open>What the operations leave alone\<close>

lemma recordRateLimitFailure_sel [simp, frame_simps]:
  "srv_data (recordRateLimitFailureLocked k t s) = srv_data s"
  "srv_store (recordRateLimitFailureLocked k t s) = srv_store s"
  "srv_publicKey (recordRateLimitFailureLocked k t s) = srv_publicKey s"
  "srv_privateKey (recordRateLimitFailureLocked k t s) = srv_privateKey s"
  "srv_challenges (recordRateLimitFailureLocked k t s) = srv_challenges s"
  "srv_adminSessions (recordRateLimitFailureLocked k t s) = srv_adminSessions s"
  "srv_rateLimitWindow (recordRateLimitFailureLocked k t s) = srv_rateLimitWindow s"
  "srv_rateLimitFailures (recordRateLimitFailureLocked k t s) = srv_rateLimitFailures s"
  "srv_corsAllowedOrigins (recordRateLimitFailureLocked k t s) = srv_corsAllowedOrigins s"
  "srv_publicBaseURL (recordRateLimitFailureLocked k t s) = srv_publicBaseURL s"
  by (simp_all add: recordRateLimitFailureLocked_def Let_def)

lemma resetRateLimit_sel [simp, frame_simps]:
  "srv_data (resetRateLimitLocked k s) = srv_data s"
  "srv_store (resetRateLimitLocked k s) = srv_store s"
  "srv_publicKey (resetRateLimitLocked k s) = srv_publicKey s"
  "srv_privateKey (resetRateLimitLocked k s) = srv_privateKey s"
  "srv_challenges (resetRateLimitLocked k s) = srv_challenges s"
  "srv_adminSessions (resetRateLimitLocked k s) = srv_adminSessions s"
  "srv_rateLimitWindow (resetRateLimitLocked k s) = srv_rateLimitWindow s"
  "srv_rateLimitFailures (resetRateLimitLocked k s) = srv_rateLimitFailures s"
  "srv_corsAllowedOrigins (resetRateLimitLocked k s) = srv_corsAllowedOrigins s"
  "srv_publicBaseURL (resetRateLimitLocked k s) = srv_publicBaseURL s"
  by (simp_all add: resetRateLimitLocked_def)

lemma isRateLimited_updData [simp]: "isRateLimitedLocked k t (updData f s) = isRateLimitedLocked k t s"
  by (simp add: isRateLimitedLocked_def split: option.split)

section \<open>The limiter's interface\<close>

text \<open>Keys are independent, a reset unblocks, a recorded failure never unblocks.\<close>

locale keyed_limiter =
  fixes limited :: "'k \<Rightarrow> time \<Rightarrow> 's \<Rightarrow> bool"
    and record_failure :: "'k \<Rightarrow> time \<Rightarrow> 's \<Rightarrow> 's"
    and reset :: "'k \<Rightarrow> 's \<Rightarrow> 's"
  assumes reset_unblocks: "\<not> limited k t (reset k s)"
    and reset_frame: "j \<noteq> k \<Longrightarrow> limited j t (reset k s) = limited j t s"
    and record_frame: "j \<noteq> k \<Longrightarrow> limited j t (record_failure k u s) = limited j t s"
    and record_keeps: "limited k t s \<Longrightarrow> limited k t (record_failure k t s)"
begin

definition failures :: "('k \<times> time) list \<Rightarrow> 's \<Rightarrow> 's" where
  "failures evs s = foldl (\<lambda>s (k, t). record_failure k t s) s evs"

lemma failures_Nil [simp]: "failures [] s = s"
  by (simp add: failures_def)

lemma failures_Cons [simp]: "failures ((k, t) # evs) s = failures evs (record_failure k t s)"
  by (simp add: failures_def)

lemma failures_other_keys: "j \<notin> fst ` set evs \<Longrightarrow> limited j t (failures evs s) = limited j t s"
proof (induction evs arbitrary: s)
  case (Cons ev evs)
  then show ?case by (cases ev) (auto simp: record_frame)
qed simp

lemma fresh_after_reset: "k \<notin> fst ` set evs \<Longrightarrow> \<not> limited k t (failures evs (reset k s))"
  by (simp add: failures_other_keys reset_unblocks)

end

interpretation limiter:
  keyed_limiter isRateLimitedLocked recordRateLimitFailureLocked resetRateLimitLocked
proof
  show "\<not> isRateLimitedLocked k t (resetRateLimitLocked k s)" for k t s
    by (simp add: isRateLimitedLocked_def resetRateLimitLocked_def)
  show "isRateLimitedLocked j t (resetRateLimitLocked k s) = isRateLimitedLocked j t s"
    if "j \<noteq> k" for j k t s
    using that by (simp add: isRateLimitedLocked_def resetRateLimitLocked_def split: option.split)
  show "isRateLimitedLocked j t (recordRateLimitFailureLocked k u s) = isRateLimitedLocked j t s"
    if "j \<noteq> k" for j k t u s
    using that by (simp add: isRateLimitedLocked_def recordRateLimitFailureLocked_def Let_def
        split: option.split)
  show "isRateLimitedLocked k t (recordRateLimitFailureLocked k t s)"
    if "isRateLimitedLocked k t s" for k t s
    using that
    by (auto simp: isRateLimitedLocked_def recordRateLimitFailureLocked_def Let_def
        split: option.splits if_splits)
qed

section \<open>Counting within a window\<close>

definition withinWindow :: "time \<Rightarrow> Server \<Rightarrow> time \<Rightarrow> bool" where
  "withinWindow start s t \<longleftrightarrow> timeSub t start < srv_rateLimitWindow s"

definition limiterOn :: "Server \<Rightarrow> bool" where
  "limiterOn s \<longleftrightarrow> 0 < srv_rateLimitFailures s \<and> 0 < srv_rateLimitWindow s"

lemma record_within:
  assumes "limiterOn s" "srv_rateLimits s key = Some \<lparr>rl_WindowStart = w, rl_Failures = n\<rparr>"
    and "withinWindow w s t"
  shows "srv_rateLimits (recordRateLimitFailureLocked key t s) key =
           Some \<lparr>rl_WindowStart = w, rl_Failures = n + 1\<rparr>"
  using assms by (simp add: recordRateLimitFailureLocked_def limiterOn_def withinWindow_def)

lemma record_starts:
  assumes "limiterOn s" and "srv_rateLimits s key = None"
  shows "srv_rateLimits (recordRateLimitFailureLocked key t s) key =
           Some \<lparr>rl_WindowStart = t, rl_Failures = 1\<rparr>"
  using assms by (simp add: recordRateLimitFailureLocked_def limiterOn_def)

lemma record_many_within:
  assumes "limiterOn s" "srv_rateLimits s key = Some \<lparr>rl_WindowStart = w, rl_Failures = n\<rparr>"
    and "\<forall>t \<in> set ts. withinWindow w s t"
  shows "srv_rateLimits (foldl (\<lambda>s t. recordRateLimitFailureLocked key t s) s ts) key =
           Some \<lparr>rl_WindowStart = w, rl_Failures = n + int (length ts)\<rparr>"
  using assms
proof (induction ts arbitrary: s n)
  case (Cons t ts)
  let ?s = "recordRateLimitFailureLocked key t s"
  have "srv_rateLimits (foldl (\<lambda>s t. recordRateLimitFailureLocked key t s) ?s ts) key =
          Some \<lparr>rl_WindowStart = w, rl_Failures = (n + 1) + int (length ts)\<rparr>"
  proof (rule Cons.IH)
    show "limiterOn ?s" using Cons.prems(1) by (simp add: limiterOn_def)
    show "srv_rateLimits ?s key = Some \<lparr>rl_WindowStart = w, rl_Failures = n + 1\<rparr>"
      using Cons.prems by (simp add: record_within)
    show "\<forall>t \<in> set ts. withinWindow w ?s t"
      using Cons.prems(3) by (simp add: withinWindow_def)
  qed
  then show ?case by (simp add: algebra_simps)
qed simp

lemma foldl_record_config [simp]:
  "srv_rateLimitFailures (foldl (\<lambda>s t. recordRateLimitFailureLocked key t s) s ts) = srv_rateLimitFailures s"
  "srv_rateLimitWindow (foldl (\<lambda>s t. recordRateLimitFailureLocked key t s) s ts) = srv_rateLimitWindow s"
  by (induction ts arbitrary: s) simp_all

lemma limited_by_count:
  assumes "limiterOn s" and "srv_rateLimits s key = None" and "ts = t0 # rest"
    and "\<forall>t \<in> set rest. withinWindow t0 s t"
  shows "isRateLimitedLocked key now (foldl (\<lambda>s t. recordRateLimitFailureLocked key t s) s ts)
         \<longleftrightarrow> withinWindow t0 s now \<and> srv_rateLimitFailures s \<le> int (length ts)"
proof -
  let ?s1 = "recordRateLimitFailureLocked key t0 s"
  have "srv_rateLimits (foldl (\<lambda>s t. recordRateLimitFailureLocked key t s) ?s1 rest) key =
          Some \<lparr>rl_WindowStart = t0, rl_Failures = 1 + int (length rest)\<rparr>"
    by (rule record_many_within)
       (use assms in \<open>simp_all add: limiterOn_def withinWindow_def record_starts\<close>)
  then show ?thesis
    using assms(1,3) by (auto simp: isRateLimitedLocked_def limiterOn_def withinWindow_def)
qed

end
