(* ===== verification/Samples.thy ===== *)
theory Samples
  imports Entities Integrity Tokens Challenges RateLimit
begin

text \<open>
  A small deployment: one app, one license, two devices and their activations, with every
  library parameter instantiated by a concrete function. The witnesses of the development
  apply the theorems to it, so their hypotheses are seen to hold together.
\<close>

text \<open>The parameters. The digest is the value itself; a signature is the message under the
  key's name, so verification with the same key succeeds and with another one fails. Claims
  are written as their three identifiers; the reader adds the entitlements and the times the
  deployment gives every token.\<close>

definition sampleMarshal :: "LicenseTokenClaims \<Rightarrow> string + string" where
  "sampleMarshal c = Inr (joinWith ''/'' [tok_AppID c, tok_LicenseID c, tok_DeviceID c])"

definition sampleClaims :: "string \<Rightarrow> string \<Rightarrow> string \<Rightarrow> LicenseTokenClaims" where
  "sampleClaims appID licenseID deviceID =
     \<lparr>tok_Iss = ''license-guard'', tok_AppID = appID, tok_LicenseID = licenseID,
      tok_DeviceID = deviceID, tok_Entitlements = [''export''], tok_IssuedAt = 1000,
      tok_ExpiresAt = 2800, tok_OfflineGraceUntil = 605800\<rparr>"

definition sampleUnmarshal :: "string \<Rightarrow> string + LicenseTokenClaims" where
  "sampleUnmarshal text =
     (case splitOn (CHR ''/'') text of
        [a, l, d] \<Rightarrow> Inr (sampleClaims a l d)
      | _ \<Rightarrow> Inl ''unexpected end of JSON input'')"

definition sampleLib :: golib where
  "sampleLib =
     \<lparr>uni_lower = (\<lambda>s. s), uni_upper = (\<lambda>s. s), uni_fold = (\<lambda>s t. s = t),
      lib_sha256 = (\<lambda>s. s),
      lib_sign = (\<lambda>key message. key @ '':'' @ message),
      lib_verify = (\<lambda>key message signature. signature = key @ '':'' @ message),
      lib_bcrypt_compare = (\<lambda>hash password. hash = ''bcrypt:'' @ password),
      lib_bcrypt_generate = (\<lambda>r password. Inr (''bcrypt:'' @ password)),
      lib_marshal_claims = sampleMarshal,
      lib_unmarshal_claims = sampleUnmarshal,
      lib_marshal_bundle = (\<lambda>b. Inr (cb_DeviceID b)),
      lib_base64_error = (\<lambda>s. ''illegal base64 data''),
      lib_quote = (\<lambda>s. s)\<rparr>"

definition sampleEnv :: env where
  "sampleEnv = \<lparr>env_now = (\<lambda>k. 1000000000000), env_rand = (\<lambda>k n. CHR ''r''), env_save = (\<lambda>k. None)\<rparr>"

definition sampleRequest :: Request where
  "sampleRequest =
     \<lparr>req_Method = ''POST'', req_Path = ''/'', req_RemoteAddr = ''10.0.0.1:5000'', req_Host = ''host'',
      req_TLS = False, req_Header = (\<lambda>h. []), req_Query = (\<lambda>q. [])\<rparr>"

definition sampleApp :: App where
  "sampleApp =
     \<lparr>app_ID = ''app_1'', app_AppKey = ''demo'', app_Name = ''Demo'', app_Description = [],
      app_OwnerTeam = [], app_Status = ''active'', app_CreatedAt = 0, app_UpdatedAt = 0\<rparr>"

definition sampleLicense :: License where
  "sampleLicense =
     \<lparr>lic_ID = ''lic_1'', lic_LicenseKeyHash = hashString sampleLib ''LG-1'', lic_LicenseKeyPrefix = ''LG-1'',
      lic_AppID = ''demo'', lic_PlanName = ''team'', lic_OwnerType = ''org'', lic_OwnerRef = ''o'',
      lic_MaxDevices = 1, lic_Entitlements = [''export''], lic_ExpiresAt = 2000000000000,
      lic_Status = ''active'', lic_CreatedAt = 0, lic_UpdatedAt = 0\<rparr>"

definition sampleDevice :: "string \<Rightarrow> Device" where
  "sampleDevice name =
     \<lparr>dev_ID = ''dev_'' @ name, dev_DeviceFingerprintHash = hashString sampleLib name,
      dev_InstallIDHash = hashString sampleLib (''inst_'' @ name), dev_Platform = ''windows'',
      dev_OSVersion = ''10'', dev_MachineNameHash = [], dev_RiskScore = 10, dev_Status = ''active'',
      dev_FirstSeenAt = 0, dev_LastSeenAt = 0\<rparr>"

definition sampleActivation :: "string \<Rightarrow> string \<Rightarrow> Activation" where
  "sampleActivation name status =
     \<lparr>act_ID = ''act_'' @ name, act_LicenseID = ''lic_1'', act_DeviceID = ''dev_'' @ name,
      act_AppID = ''demo'', act_ActivationStatus = status, act_ActivatedAt = 0, act_LastVerifiedAt = 0,
      act_DeactivatedAt = (if status = ''active'' then None else Some 0)\<rparr>"

definition sampleChallenge :: "string \<Rightarrow> Challenge" where
  "sampleChallenge name =
     \<lparr>chg_ID = ''chg_1'', chg_Nonce = ''nonce'', chg_AppID = ''demo'', chg_InstallID = ''inst_'' @ name,
      chg_ExpiresAt = 1500000000000, chg_CreatedAt = 0\<rparr>"

definition sampleData :: "Device list \<Rightarrow> Activation list \<Rightarrow> Data" where
  "sampleData devices acts =
     \<lparr>data_Admins = [], data_Apps = [sampleApp], data_Releases = [], data_SDKKeys = [],
      data_Licenses = [sampleLicense], data_CapabilityPolicies = [], data_Devices = devices,
      data_Activations = acts, data_IntegrityReports = [], data_RiskEvents = [], data_AuditLogs = [],
      data_Settings = (defaultSystemSettings 0)\<lparr>set_DefaultTokenTTLMinutes := 30\<rparr>\<rparr>"

text \<open>A server holding the given data and one open challenge for an installation.\<close>

definition sampleServer :: "Data \<Rightarrow> string \<Rightarrow> Server" where
  "sampleServer d name =
     \<lparr>srv_data = d, srv_store = None, srv_publicKey = ''key'', srv_privateKey = ''key'',
      srv_challenges = [''chg_1'' \<mapsto> sampleChallenge name], srv_adminSessions = Map.empty,
      srv_corsAllowedOrigins = [], srv_publicBaseURL = [], srv_rateLimits = Map.empty,
      srv_rateLimitWindow = 60000000000, srv_rateLimitFailures = 5\<rparr>"

definition noEvidence :: IntegrityRequest where
  "noEvidence =
     \<lparr>iq_AppVersion = [], iq_MainBinaryHash = [], iq_SignerThumbprint = [],
      iq_BusinessManifestSHA256 = [], iq_BusinessManifestSignatureValid = None,
      iq_ProtectedDBSchemaHash = [], iq_ProtectedDBTablesHash = [], iq_AssetsManifestSHA256 = [],
      iq_WorkflowManifestSHA256 = [], iq_BusinessIntegrityStatus = [], iq_BusinessIntegrityErrors = [],
      iq_DBEncryptionStatus = [], iq_DBEncryptionErrors = [], iq_DebuggerDetected = False,
      iq_SuspiciousModules = [], iq_VMIndicators = []\<rparr>"

definition sampleInput :: "string \<Rightarrow> clientVerificationInput" where
  "sampleInput name =
     \<lparr>cvi_AppID = ''demo'', cvi_Platform = ''windows'', cvi_LicenseKey = ''LG-1'', cvi_LicenseToken = [],
      cvi_ChallengeID = ''chg_1'', cvi_Nonce = ''nonce'',
      cvi_Device = \<lparr>di_InstallID = ''inst_'' @ name, di_Fingerprint = name, di_OS = ''windows'',
                    di_OSVersion = ''11'', di_MachineNameHash = ''m''\<rparr>,
      cvi_Integrity = noEvidence, cvi_IsActivation = True\<rparr>"

text \<open>A token of the deployment for a device.\<close>

definition sampleToken :: "string \<Rightarrow> string" where
  "sampleToken name =
     (case SignLicenseToken sampleLib ''key'' (sampleClaims ''demo'' ''lic_1'' (''dev_'' @ name)) of
        Inr token \<Rightarrow> token | Inl err \<Rightarrow> [])"

text \<open>A license for one device: device b holds the only active activation, device a was
  deactivated before.\<close>

definition sampleStale :: Server where
  "sampleStale =
     sampleServer (sampleData [sampleDevice ''a'', sampleDevice ''b'']
       [sampleActivation ''a'' ''deactivated'', sampleActivation ''b'' ''active'']) ''a''"

text \<open>A license for one device, with one known device and no activation yet.\<close>

definition sampleFresh :: Server where
  "sampleFresh = sampleServer (sampleData [sampleDevice ''a''] []) ''a''"

end
