(* ===== verification/ComponentProps.thy ===== *)
theory ComponentProps
  imports Samples
begin

text \<open>
  The guarantees of the components the handlers are built from: tokens, the integrity
  evaluation, releases and versions, capability policies, settings and the rate limiter.
\<close>

section \<open>Tokens\<close>

text \<open>C23: Round trip. A license token signed with a private key is accepted under the matching
  public key and yields the signed claims, until its expiry; after it, the claims are still
  returned, with the expiry error, unless expired tokens are allowed.\<close>

theorem token_roundtrip:
  assumes "SignLicenseToken L priv c = Inr token" and "signatureScheme L priv pub" and "claimsRoundTrip L c"
  shows "VerifyLicenseToken L pub token allowExpired now =
    (if \<not> allowExpired \<and> unixSeconds now > tok_ExpiresAt c then Inl (errTokenExpired, Some c) else Inr c)"
  using assms by (rule verify_signed)

lemma sample_scheme: "signatureScheme sampleLib k k"
  by (simp add: signatureScheme_def sampleLib_def)

lemma sample_roundTrip: "claimsRoundTrip sampleLib (sampleClaims ''demo'' ''lic_1'' ''dev_a'')"
  by (simp add: claimsRoundTrip_def sampleLib_def sampleMarshal_def sampleUnmarshal_def sampleClaims_def)

lemma sample_token:
  "SignLicenseToken sampleLib ''key'' (sampleClaims ''demo'' ''lic_1'' (''dev_'' @ name)) = Inr (sampleToken name)"
proof -
  have "\<exists>t. SignLicenseToken sampleLib ''key'' (sampleClaims ''demo'' ''lic_1'' (''dev_'' @ name)) = Inr t"
    by (simp add: SignLicenseToken_def sampleLib_def sampleMarshal_def Let_def)
  then show ?thesis by (auto simp: sampleToken_def)
qed

lemma token_roundtrip_witness:
  "VerifyLicenseToken sampleLib ''key'' (sampleToken ''a'') False 2000000000000 =
     Inr (sampleClaims ''demo'' ''lic_1'' ''dev_a'')"
  using token_roundtrip [OF sample_token [of "''a''", simplified] sample_scheme sample_roundTrip, of False 2000000000000]
  by (simp add: sampleClaims_def unixSeconds_def)

text \<open>An accepted token has three parts, its third part decodes to a signature of exactly the
  first two that verifies under the server's key, its claims are those of the second part, and
  it has not expired unless expired tokens were allowed.\<close>

theorem token_accepted_only_if_signed:
  assumes "VerifyLicenseToken L pub token allowExpired now = Inr claims"
  shows "\<exists>p0 p1 p2 signature payload.
    token = p0 @ ''.'' @ p1 @ ''.'' @ p2 \<and> rawURLDecode p2 = Some signature \<and>
    lib_verify L pub (p0 @ ''.'' @ p1) signature \<and> rawURLDecode p1 = Some payload \<and>
    lib_unmarshal_claims L payload = Inr claims \<and>
    (allowExpired \<or> unixSeconds now \<le> tok_ExpiresAt claims)"
proof -
  obtain p0 p1 p2 signature payload where p:
    "splitOn (CHR ''.'') token = [p0, p1, p2]" "rawURLDecode p2 = Some signature"
    "lib_verify L pub (p0 @ ''.'' @ p1) signature" "rawURLDecode p1 = Some payload"
    "lib_unmarshal_claims L payload = Inr claims" "allowExpired \<or> unixSeconds now \<le> tok_ExpiresAt claims"
    using VerifyLicenseToken_InrD [OF assms] by blast
  have "token = joinWith ''.'' (splitOn (CHR ''.'') token)" by (simp add: join_splitOn)
  then have "token = p0 @ ''.'' @ p1 @ ''.'' @ p2" using p(1) by simp
  then show ?thesis using p by blast
qed

lemma token_accepted_only_if_signed_witness:
  "\<exists>p0 p1 p2. sampleToken ''a'' = p0 @ ''.'' @ p1 @ ''.'' @ p2"
proof -
  have "VerifyLicenseToken sampleLib ''key'' (sampleToken ''a'') False 2000000000000 =
      Inr (sampleClaims ''demo'' ''lic_1'' ''dev_a'')"
    using verify_signed [OF sample_token [of "''a''", simplified] sample_scheme sample_roundTrip, of False 2000000000000]
    by (simp add: sampleClaims_def unixSeconds_def)
  from token_accepted_only_if_signed [OF this] show ?thesis by blast
qed

section \<open>Integrity\<close>

text \<open>C16: The evaluation denies exactly the violations: the claimed release is blocked, or one of
  its seven recorded hashes and fingerprints contradicts the report (the first two only when the
  client reports a value), or the client reports an invalid manifest signature, failed business
  integrity or failed database encryption. Points alone never deny.\<close>

theorem integrity_denies_violations:
  assumes "evaluateIntegrityLocked L e k appID deviceID licenseID input s = (s', risk, release, deny)"
  shows "deny \<longleftrightarrow> integrityViolation L appID input s"
  using assms by (rule evaluateIntegrityLocked_deny)

definition sampleTampered :: clientVerificationInput where
  "sampleTampered = (sampleInput ''a'')\<lparr>cvi_Integrity := noEvidence\<lparr>iq_DBEncryptionStatus := ''Plaintext''\<rparr>\<rparr>"

lemma sampleTampered_violation: "integrityViolation sampleLib ''demo'' sampleTampered sampleFresh"
  by (simp add: integrityViolation_def reportedViolation_def dbEncryptionStatusFailed_def sampleTampered_def
      noEvidence_def) code_simp

lemma integrity_denies_violations_witness:
  "snd (snd (snd (evaluateIntegrityLocked sampleLib sampleEnv 0 ''demo'' ''dev_a'' ''lic_1'' sampleTampered sampleFresh)))"
proof -
  obtain s' risk release deny where run: "evaluateIntegrityLocked sampleLib sampleEnv 0 ''demo'' ''dev_a'' ''lic_1''
      sampleTampered sampleFresh = (s', risk, release, deny)" by (metis prod_cases4)
  show ?thesis using integrity_denies_violations [OF run] sampleTampered_violation by (simp add: run)
qed

text \<open>C17: The verdict is consistent. The score lies between 10 and 100 and determines the level;
  the actions are distinct and contain \<open>deny\<close> exactly when the evaluation denies; a denial is
  always high risk and leaves a risk event with action \<open>deny\<close>; every event it records names
  the app, device and license it evaluated, and nothing else of the server changes.\<close>

theorem integrity_verdict_consistent:
  assumes "evaluateIntegrityLocked L e k appID deviceID licenseID input s = (s', risk, release, deny)"
  shows "10 \<le> rr_Score risk \<and> rr_Score risk \<le> 100 \<and> rr_Level risk = riskLevel (rr_Score risk) \<and>
    distinct (rr_Actions risk) \<and> (deny \<longleftrightarrow> ''deny'' \<in> set (rr_Actions risk)) \<and>
    (deny \<longrightarrow> rr_Level risk = ''high'') \<and>
    (\<exists>evs. s' = updData (\<lambda>d. d\<lparr>data_RiskEvents := data_RiskEvents d @ evs\<rparr>) s \<and>
       (deny \<longleftrightarrow> (\<exists>v \<in> set evs. risk_Action v = ''deny'')) \<and>
       (\<forall>v \<in> set evs. risk_AppID v = appID \<and> risk_DeviceID v = deviceID \<and> risk_LicenseID v = licenseID))"
proof -
  obtain a where a: "evalOK s (appID, deviceID, licenseID) a" "s' = ev_server a" "deny = ev_deny a"
    "rr_Score risk = min 100 (ev_score a)" "rr_Level risk = riskLevel (rr_Score risk)"
    "set (rr_Actions risk) =
      (if ev_actions a = [] then {''allow''} else set (ev_actions a)) \<union>
      (if rr_Level risk = ''high'' \<and> \<not> deny then {''shorten_token_ttl''} else {})"
    "distinct (rr_Actions risk)"
    by (rule evaluateIntegrity_evalOK [OF assms])
  then obtain evs where evs: "riskExtends s evs (ev_server a)"
    "\<forall>v \<in> set evs. (risk_AppID v, risk_DeviceID v, risk_LicenseID v) = (appID, deviceID, licenseID)"
    "10 \<le> ev_score a" "ev_deny a \<longleftrightarrow> (\<exists>v \<in> set evs. risk_Action v = ''deny'')"
    "ev_deny a \<longleftrightarrow> ''deny'' \<in> set (ev_actions a)" "ev_deny a \<longrightarrow> 90 \<le> ev_score a"
    unfolding evalOK_def by blast
  have "deny \<longleftrightarrow> ''deny'' \<in> set (rr_Actions risk)"
    using a(3,6) evs(5) by auto
  moreover have "deny \<longrightarrow> rr_Level risk = ''high''"
    using a(3,4,5) evs(6) by (auto simp: riskLevel_def)
  moreover have "s' = updData (\<lambda>d. d\<lparr>data_RiskEvents := data_RiskEvents d @ evs\<rparr>) s \<and>
       (deny \<longleftrightarrow> (\<exists>v \<in> set evs. risk_Action v = ''deny'')) \<and>
       (\<forall>v \<in> set evs. risk_AppID v = appID \<and> risk_DeviceID v = deviceID \<and> risk_LicenseID v = licenseID)"
    using a(2,3) evs(1,2,4) by (simp add: riskExtends_def)
  moreover have "10 \<le> rr_Score risk" "rr_Score risk \<le> 100" using a(4) evs(3) by simp_all
  ultimately show ?thesis using a(5,7) by blast
qed

lemma integrity_verdict_consistent_witness:
  "rr_Level (fst (snd (evaluateIntegrityLocked sampleLib sampleEnv 0 ''demo'' ''dev_a'' ''lic_1''
      sampleTampered sampleFresh))) = ''high''"
proof -
  obtain s' risk release deny where run: "evaluateIntegrityLocked sampleLib sampleEnv 0 ''demo'' ''dev_a'' ''lic_1''
      sampleTampered sampleFresh = (s', risk, release, deny)" by (metis prod_cases4)
  have deny using evaluateIntegrityLocked_deny [OF run] sampleTampered_violation by simp
  then have "rr_Level risk = ''high''" using integrity_verdict_consistent [OF run] by blast
  then show ?thesis by (simp add: run)
qed

section \<open>Releases\<close>

text \<open>C24: Looking a release up by version prefers a blocked one: if any registered release of the
  app, platform and version is blocked, a blocked one is returned, whatever their order; an
  answer is always a registered match, and there is none only if nothing matches.\<close>

theorem blocked_release_wins:
  "(\<forall>r \<in> set (data_Releases (srv_data s)). releaseMatches appID platform version r \<longrightarrow> rel_Status r = ''blocked'' \<longrightarrow>
      (\<exists>b. findReleaseLocked appID platform version s = Some b \<and> rel_Status b = ''blocked'')) \<and>
   (\<forall>r. findReleaseLocked appID platform version s = Some r \<longrightarrow>
      r \<in> set (data_Releases (srv_data s)) \<and> releaseMatches appID platform version r) \<and>
   (findReleaseLocked appID platform version s = None \<longleftrightarrow>
      (\<forall>r \<in> set (data_Releases (srv_data s)). \<not> releaseMatches appID platform version r))"
  using scanRelease_blocked [of _ "data_Releases (srv_data s)" "releaseMatches appID platform version"]
  unfolding findReleaseLocked_def scanRelease_None_iff by (blast dest: scanRelease_SomeD)

definition sampleRelease :: "string \<Rightarrow> int \<Rightarrow> string \<Rightarrow> AppRelease" where
  "sampleRelease version build status =
     \<lparr>rel_ID = ''rel_'' @ version, rel_AppID = ''demo'', rel_Platform = ''windows'', rel_Version = version,
      rel_BuildNumber = build, rel_Channel = ''stable'', rel_Status = status, rel_SignerThumbprint = [],
      rel_MainBinaryHash = [], rel_ResourceManifestHash = [], rel_BusinessManifestSHA256 = [],
      rel_ProtectedDBSchemaHash = [], rel_ProtectedDBTablesHash = [], rel_AssetsManifestSHA256 = [],
      rel_WorkflowManifestSHA256 = [], rel_DownloadURL = [], rel_PackageSHA256 = [], rel_Mandatory = True,
      rel_MinSupportedVersion = [], rel_RolloutPercent = 100, rel_ReleaseNotes = [], rel_CreatedAt = 0\<rparr>"

definition sampleReleased :: Server where
  "sampleReleased =
     updData (\<lambda>d. d\<lparr>data_Releases := [sampleRelease ''1.0'' 1 ''active'', sampleRelease ''1.0'' 1 ''blocked'',
                                       sampleRelease ''1.1'' 2 ''active'']\<rparr>) sampleFresh"

lemma sampleReleased_releases:
  "data_Releases (srv_data sampleReleased) =
     [sampleRelease ''1.0'' 1 ''active'', sampleRelease ''1.0'' 1 ''blocked'', sampleRelease ''1.1'' 2 ''active'']"
  by (simp add: sampleReleased_def)

lemma blocked_release_wins_witness:
  "\<exists>b. findReleaseLocked ''demo'' ''windows'' ''1.0'' sampleReleased = Some b \<and> rel_Status b = ''blocked''"
proof -
  have "sampleRelease ''1.0'' 1 ''blocked'' \<in> set (data_Releases (srv_data sampleReleased))"
    by (simp add: sampleReleased_releases)
  moreover have "releaseMatches ''demo'' ''windows'' ''1.0'' (sampleRelease ''1.0'' 1 ''blocked'')"
    by (simp add: releaseMatches_def sampleRelease_def)
  ultimately show ?thesis
    using blocked_release_wins [of sampleReleased "''demo''" "''windows''" "''1.0''"]
    by (fastforce simp: sampleRelease_def)
qed

text \<open>C25: Update advice. Advice is given exactly when the app has an active release for the
  platform whose version differs from the reported one and either the update is required
  (mandatory, or the client is below the minimum supported version) or the device is in the
  rollout; it then carries the version of an active release such that no other active release
  has a greater build number, or the same one and a later creation time.\<close>

theorem update_advice:
  "(updateInfoLocked appID platform current deviceID s = None \<longleftrightarrow>
     current = [] \<or>
     (\<forall>latest. latestReleaseLocked appID platform s = Some latest \<longrightarrow>
        rel_Version latest = [] \<or> rel_Version latest = current \<or>
        (\<not> rel_Mandatory latest \<and>
         \<not> isBelowMinSupportedLocked appID platform current (rel_MinSupportedVersion latest) s \<and>
         \<not> releaseInRollout appID platform (rel_ID latest) deviceID (rel_RolloutPercent latest)))) \<and>
   (\<forall>u. updateInfoLocked appID platform current deviceID s = Some u \<longrightarrow>
      upd_LatestVersion u \<noteq> current \<and>
      (\<exists>r \<in> set (data_Releases (srv_data s)). rel_AppID r = appID \<and> rel_Platform r = platform \<and>
         rel_Status r = ''active'' \<and> rel_Version r = upd_LatestVersion u \<and>
         (upd_Required u \<longleftrightarrow> rel_Mandatory r \<or>
            isBelowMinSupportedLocked appID platform current (rel_MinSupportedVersion r) s) \<and>
         (\<forall>q \<in> set (data_Releases (srv_data s)). rel_AppID q = appID \<longrightarrow> rel_Platform q = platform \<longrightarrow>
            rel_Status q = ''active'' \<longrightarrow> \<not> releaseLess q r)))"
proof (cases "latestReleaseLocked appID platform s")
  case None
  then show ?thesis by (simp add: updateInfoLocked_def)
next
  case (Some latest)
  note latest = latestReleaseLocked_SomeD [OF Some]
  have best: "\<exists>r \<in> set (data_Releases (srv_data s)). rel_AppID r = appID \<and> rel_Platform r = platform \<and>
         rel_Status r = ''active'' \<and> rel_Version r = upd_LatestVersion u \<and>
         (upd_Required u \<longleftrightarrow> rel_Mandatory r \<or>
            isBelowMinSupportedLocked appID platform current (rel_MinSupportedVersion r) s) \<and>
         (\<forall>q \<in> set (data_Releases (srv_data s)). rel_AppID q = appID \<longrightarrow> rel_Platform q = platform \<longrightarrow>
            rel_Status q = ''active'' \<longrightarrow> \<not> releaseLess q r)"
    if "updateInfoLocked appID platform current deviceID s = Some u" for u
    using that Some latest by (intro bexI [of _ latest]) (auto simp: updateInfoLocked_def Let_def split: if_splits)
  have other: "upd_LatestVersion u \<noteq> current"
    if "updateInfoLocked appID platform current deviceID s = Some u" for u
    using that Some by (auto simp: updateInfoLocked_def Let_def split: if_splits)
  have none: "updateInfoLocked appID platform current deviceID s = None \<longleftrightarrow>
     current = [] \<or> rel_Version latest = [] \<or> rel_Version latest = current \<or>
        (\<not> rel_Mandatory latest \<and>
         \<not> isBelowMinSupportedLocked appID platform current (rel_MinSupportedVersion latest) s \<and>
         \<not> releaseInRollout appID platform (rel_ID latest) deviceID (rel_RolloutPercent latest))"
    using Some by (auto simp: updateInfoLocked_def Let_def)
  show ?thesis
    by (intro conjI allI impI best other) (simp_all only: none Some option.inject simp_thms)
qed

lemma update_advice_witness:
  "updateInfoLocked ''demo'' ''windows'' ''1.0'' ''dev_a'' sampleReleased \<noteq> None"
proof -
  have latest: "latestReleaseLocked ''demo'' ''windows'' sampleReleased = Some (sampleRelease ''1.1'' 2 ''active'')"
    by (simp add: latestReleaseLocked_def sampleReleased_releases) code_simp
  show ?thesis
    using update_advice [of "''demo''" "''windows''" "''1.0''" "''dev_a''" sampleReleased] latest
    by (simp add: sampleRelease_def)
qed

text \<open>C26: Staged rollout. Raising the percentage never takes the release away from a device,
  100 percent and above reaches every device, 0 percent and below reaches none.\<close>

theorem rollout_monotone:
  "(p \<le> q \<longrightarrow> releaseInRollout appID platform releaseID deviceID p \<longrightarrow>
      releaseInRollout appID platform releaseID deviceID q) \<and>
   (p \<ge> 100 \<longrightarrow> releaseInRollout appID platform releaseID deviceID p) \<and>
   (p \<le> 0 \<longrightarrow> \<not> releaseInRollout appID platform releaseID deviceID p)"
  using rolloutBucket_range [of appID platform releaseID deviceID]
  by (auto simp: releaseInRollout_def clampPercent_def Let_def split: if_splits)

lemma rollout_monotone_witness:
  "releaseInRollout ''demo'' ''windows'' ''r'' ''d'' 100 \<and> \<not> releaseInRollout ''demo'' ''windows'' ''r'' ''d'' 0"
  using rollout_monotone [of 100 100 "''demo''" "''windows''" "''r''" "''d''"]
    rollout_monotone [of 0 0 "''demo''" "''windows''" "''r''" "''d''"] by simp

section \<open>Versions\<close>

text \<open>C27: Version comparison is the lexicographic order of the numeric components, a missing
  component counting as zero: the result is negative exactly if at the first differing position
  the left component is smaller, zero exactly if no position differs, swapping the arguments
  flips it, and \<open>not greater\<close> is transitive.\<close>

theorem version_order:
  "(compareVersionStrings a b = -1 \<longleftrightarrow>
      (\<exists>k. component (splitVersionParts a) k < component (splitVersionParts b) k \<and>
         (\<forall>j < k. component (splitVersionParts a) j = component (splitVersionParts b) j))) \<and>
   (compareVersionStrings a b = 0 \<longleftrightarrow>
      (\<forall>k. component (splitVersionParts a) k = component (splitVersionParts b) k)) \<and>
   compareVersionStrings b a = - compareVersionStrings a b \<and>
   (compareVersionStrings a b \<le> 0 \<and> compareVersionStrings b c \<le> 0 \<longrightarrow> compareVersionStrings a c \<le> 0)"
  using compareParts_less [of "splitVersionParts a" "splitVersionParts b"]
    compareParts_zero [of "splitVersionParts a" "splitVersionParts b"]
    compareParts_flip [of "splitVersionParts b" "splitVersionParts a"]
    compareParts_le_trans [of "splitVersionParts a" "splitVersionParts b" "splitVersionParts c"]
  unfolding compareVersionStrings_def firstDiff_def by blast

lemma version_order_witness:
  "compareVersionStrings ''1.9'' ''1.10'' = -1 \<and> compareVersionStrings ''1.9'' ''2'' \<le> 0"
proof -
  have "compareVersionStrings ''1.9'' ''1.10'' = -1" "compareVersionStrings ''1.10'' ''2'' = -1"
    by code_simp+
  then show ?thesis using version_order [of "''1.9''" "''1.10''" "''2''"] by linarith
qed

text \<open>A component is accumulated in a 64-bit integer without an overflow check, so a
  component of 20 digits can wrap around: a version whose first component is two to the power
  64 plus one counts as version 1 and is ordered before version 2.\<close>

theorem version_component_wraps:
  "splitVersionParts ''18446744073709551617'' = [1] \<and>
   compareVersionStrings ''18446744073709551617'' ''2'' = -1"
  by code_simp

section \<open>Capability policies\<close>

text \<open>A decision allows a capability exactly when a policy for it is registered and the
  license holds the entitlement it requires (a blank requirement counts as held); the
  effective mode of a refusal is never \<open>allow\<close> and always one of the documented modes, so an
  \<open>allow\<close> policy and an unknown mode both refuse with \<open>block\<close>.\<close>

theorem capability_decision_sound:
  "(dec_Allowed (capabilityDecision L policy entitlements capability) \<longleftrightarrow>
      (\<exists>p. policy = Some p \<and> (trimSpace (pol_RequiredEntitlement p) = [] \<or>
              trimSpace (pol_RequiredEntitlement p) \<in> set entitlements))) \<and>
   (dec_EffectiveMode (capabilityDecision L policy entitlements capability) = ''allow'' \<longleftrightarrow>
      dec_Allowed (capabilityDecision L policy entitlements capability)) \<and>
   validCapabilityPolicyMode (dec_EffectiveMode (capabilityDecision L policy entitlements capability))"
proof (cases policy)
  case None
  then show ?thesis by (simp add: capabilityDecision_def validCapabilityPolicyMode_def)
next
  case (Some p)
  then show ?thesis
    by (auto simp: capabilityDecision_def Let_def hasEntitlement_iff validCapabilityPolicyMode_def)
qed

text \<open>Storing a batch of policies: the last policy of the batch for a key is the one found
  afterwards, with its mode normalised and the creation time of the policy it replaces; keys
  outside the batch keep their policies; and the table never holds two policies for one app
  and capability if it did not before.\<close>

theorem upsert_last_wins:
  assumes "(pol_AppID p, pol_Capability p) \<notin> policyKey ` set later"
  shows "findCapabilityPolicyLocked (pol_AppID p) (pol_Capability p)
           (upsertCapabilityPoliciesLocked L (earlier @ p # later) s) =
         Some (storedPolicy L p (findCapabilityPolicyLocked (pol_AppID p) (pol_Capability p)
                 (upsertCapabilityPoliciesLocked L earlier s))) \<and>
    ((a, c) \<notin> policyKey ` set (earlier @ p # later) \<longrightarrow>
       findCapabilityPolicyLocked a c (upsertCapabilityPoliciesLocked L (earlier @ p # later) s) =
       findCapabilityPolicyLocked a c s) \<and>
    (distinct (map policyKey (data_CapabilityPolicies (srv_data s))) \<longrightarrow>
       distinct (map policyKey (data_CapabilityPolicies
         (srv_data (upsertCapabilityPoliciesLocked L (earlier @ p # later) s)))))"
proof (intro conjI impI)
  let ?table = "data_CapabilityPolicies (srv_data s)"
  show "findCapabilityPolicyLocked (pol_AppID p) (pol_Capability p)
           (upsertCapabilityPoliciesLocked L (earlier @ p # later) s) =
         Some (storedPolicy L p (findCapabilityPolicyLocked (pol_AppID p) (pol_Capability p)
                 (upsertCapabilityPoliciesLocked L earlier s)))"
    using policies.look_puts_last [of p "(pol_AppID p, pol_Capability p)" later L earlier ?table] assms
    by (simp add: findCapabilityPolicyLocked_def upsertCapabilityPolicies_puts policyKey_def)
  show "findCapabilityPolicyLocked a c (upsertCapabilityPoliciesLocked L (earlier @ p # later) s) =
       findCapabilityPolicyLocked a c s" if "(a, c) \<notin> policyKey ` set (earlier @ p # later)"
    using policies.look_puts_other [OF that, of L ?table]
    by (simp add: findCapabilityPolicyLocked_def upsertCapabilityPolicies_puts)
  show "distinct (map policyKey (data_CapabilityPolicies
         (srv_data (upsertCapabilityPoliciesLocked L (earlier @ p # later) s))))"
    if "distinct (map policyKey ?table)"
    using distinct_upserts [OF that, of L "earlier @ p # later"]
    by (simp add: upsertCapabilityPoliciesLocked_def)
qed

definition samplePolicy :: "string \<Rightarrow> CapabilityPolicy" where
  "samplePolicy mode =
     \<lparr>pol_AppID = ''demo'', pol_Capability = ''export'', pol_RequiredEntitlement = ''export'',
      pol_Mode = mode, pol_Message = [], pol_LimitsJSON = None, pol_CreatedAt = 1, pol_UpdatedAt = 1\<rparr>"

lemma upsert_last_wins_witness:
  "map_option pol_Mode (findCapabilityPolicyLocked ''demo'' ''export''
     (upsertCapabilityPoliciesLocked sampleLib [samplePolicy ''block'', samplePolicy '' Warn ''] sampleFresh)) =
   Some ''warn''"
proof -
  have "normalizeCapabilityPolicyMode sampleLib '' Warn '' = ''warn''" by code_simp
  then show ?thesis
    using upsert_last_wins [of "samplePolicy '' Warn ''" "[]" sampleLib "[samplePolicy ''block'']" sampleFresh]
    by (simp add: samplePolicy_def storedPolicy_def Let_def)
qed

text \<open>C28: Seeding the default policies is complete and idempotent: afterwards every default
  capability of the app has a policy, policies that were there are unchanged, and seeding
  again adds nothing.\<close>

theorem seeding_complete_idempotent:
  "(\<forall>p \<in> set (defaultVisionFlowCapabilityPolicies appID now).
      findCapabilityPolicyLocked appID (pol_Capability p)
        (fst (ensureDefaultVisionFlowPoliciesLocked appID now s)) \<noteq> None) \<and>
   (\<forall>a c q. findCapabilityPolicyLocked a c s = Some q \<longrightarrow>
      findCapabilityPolicyLocked a c (fst (ensureDefaultVisionFlowPoliciesLocked appID now s)) = Some q) \<and>
   snd (ensureDefaultVisionFlowPoliciesLocked appID later
          (fst (ensureDefaultVisionFlowPoliciesLocked appID now s))) = 0"
proof -
  let ?ps = "\<lambda>t. defaultVisionFlowCapabilityPolicies appID t"
  let ?t = "fst (seedPolicies appID (?ps now) (data_CapabilityPolicies (srv_data s)))"
  have found: "findCapabilityPolicyLocked a c (fst (ensureDefaultVisionFlowPoliciesLocked appID now s)) =
      findPolicyIn a c ?t" for a c
    by (simp add: findCapabilityPolicyLocked_def ensureDefaultVisionFlowPoliciesLocked_def case_prod_beta)
  have complete: "\<forall>p \<in> set (?ps now). findPolicyIn appID (pol_Capability p) ?t \<noteq> None"
    using seedPolicies_complete defaults_appID by blast
  have "pol_Capability ` set (?ps later) = pol_Capability ` set (?ps now)"
    by (simp add: defaultVisionFlowCapabilityPolicies_def image_image case_prod_beta)
  then have "\<forall>p \<in> set (?ps later). findPolicyIn appID (pol_Capability p) ?t \<noteq> None"
  proof (intro ballI)
    fix p assume "p \<in> set (?ps later)"
    then have "pol_Capability p \<in> pol_Capability ` set (?ps now)"
      using \<open>pol_Capability ` set (?ps later) = _\<close> by blast
    then show "findPolicyIn appID (pol_Capability p) ?t \<noteq> None" using complete by auto
  qed
  then have noop: "seedPolicies appID (?ps later) ?t = (?t, 0)"
    by (rule seedPolicies_noop)
  have "data_CapabilityPolicies (srv_data (fst (ensureDefaultVisionFlowPoliciesLocked appID now s))) = ?t"
    by (simp add: ensureDefaultVisionFlowPoliciesLocked_def case_prod_beta)
  then have "snd (ensureDefaultVisionFlowPoliciesLocked appID later
          (fst (ensureDefaultVisionFlowPoliciesLocked appID now s))) = 0"
    by (simp add: ensureDefaultVisionFlowPoliciesLocked_def [of _ later] noop)
  moreover have "findPolicyIn a c ?t = Some q" if "findCapabilityPolicyLocked a c s = Some q" for a c q
    using seedPolicies_keeps that by (simp add: findCapabilityPolicyLocked_def)
  ultimately show ?thesis using complete unfolding found by blast
qed

lemma seeding_complete_idempotent_witness:
  "findCapabilityPolicyLocked ''app_visionflow_x'' ''export.video''
     (fst (ensureDefaultVisionFlowPoliciesLocked ''app_visionflow_x'' 5 sampleFresh)) \<noteq> None"
proof -
  have "\<exists>p \<in> set (defaultVisionFlowCapabilityPolicies ''app_visionflow_x'' 5). pol_Capability p = ''export.video''"
    by (simp add: defaultVisionFlowCapabilityPolicies_def visionFlowDefaults_def)
  then obtain p where p: "p \<in> set (defaultVisionFlowCapabilityPolicies ''app_visionflow_x'' 5)"
      "pol_Capability p = ''export.video''" ..
  show ?thesis
    using seeding_complete_idempotent [of "''app_visionflow_x''" 5 sampleFresh, THEN conjunct1, THEN bspec, OF p(1)]
    unfolding p(2) .
qed

section \<open>Settings and the rate limiter\<close>

text \<open>C29: The settings every handler reads are in range whatever is stored (token lifetimes from
  five minutes to thirty days, the medium-risk lifetime never above the default one, the grace
  period at most thirty days, limits positive), and normalising them again changes nothing.\<close>

theorem settings_in_range:
  "settingsInRange (settingsLocked now s) \<and>
   normalizeSystemSettings now (settingsLocked now s) = settingsLocked now s"
  using settingsLocked_in_range settings.norm_idem by (simp add: settingsLocked_def)

text \<open>The limiter counts exactly: after failures of one key at the times \<open>t0 # rest\<close>, all
  within the window that starts at \<open>t0\<close>, the key is limited at a time \<open>now\<close> exactly if \<open>now\<close> is
  in that window and at least \<open>rateLimitFailures\<close> failures were recorded; other keys are not
  affected, and a reset clears the key.\<close>

theorem limiter_counts:
  assumes "limiterOn s" and "srv_rateLimits s key = None" and "\<forall>t \<in> set rest. withinWindow t0 s t"
  shows "(isRateLimitedLocked key now (foldl (\<lambda>s t. recordRateLimitFailureLocked key t s) s (t0 # rest)) \<longleftrightarrow>
      withinWindow t0 s now \<and> srv_rateLimitFailures s \<le> int (length (t0 # rest))) \<and>
    (other \<noteq> key \<longrightarrow> isRateLimitedLocked other now (recordRateLimitFailureLocked key t0 s) =
        isRateLimitedLocked other now s) \<and>
    \<not> isRateLimitedLocked key now (resetRateLimitLocked key s)"
  using limited_by_count [OF assms(1,2) refl assms(3), of now] limiter.record_frame [of other key now t0 s]
    limiter.reset_unblocks [of key now s] by blast

lemma limiter_counts_witness:
  "isRateLimitedLocked ''k'' 9 (foldl (\<lambda>s t. recordRateLimitFailureLocked ''k'' t s) sampleFresh (1 # [2, 3, 4, 5])) \<and>
   \<not> isRateLimitedLocked ''k'' 9 (foldl (\<lambda>s t. recordRateLimitFailureLocked ''k'' t s) sampleFresh (1 # [2, 3, 4]))"
proof -
  have s: "limiterOn sampleFresh" "srv_rateLimits sampleFresh ''k'' = None"
    "srv_rateLimitFailures sampleFresh = 5" "srv_rateLimitWindow sampleFresh = 60000000000"
    by (simp_all add: limiterOn_def sampleFresh_def sampleServer_def)
  show ?thesis
    using limiter_counts [OF s(1,2), of "[2, 3, 4, 5]" 1 9] limiter_counts [OF s(1,2), of "[2, 3, 4]" 1 9] s(3,4)
    by (simp add: withinWindow_def timeSub_def maxDuration_def minDuration_def del: foldl_Cons)
qed

end
