(* ===== verification/AuditLog.thy ===== *)
theory AuditLog
  imports Entities
begin

text \<open>
  The audit log of server.go (\<open>auditLocked\<close>, \<open>sanitizeAuditMetadata\<close> and its helpers): every
  administrative change is recorded with the administrator, the target and the client, and
  values under sensitive keys are replaced at every depth.
\<close>

definition auditMarkers :: "string list" where
  "auditMarkers =
     [''password'', ''secret'', ''token'', ''private_key'', ''signing_key'', ''database_url'', ''license_key'']"

definition isSensitiveAuditKey :: "golib \<Rightarrow> string \<Rightarrow> bool" where
  "isSensitiveAuditKey L key0 =
     (let key = toLower L (trimSpace key0) in
      if key = ''license_key_prefix'' \<or> key = ''key_prefix'' then False
      else list_ex (\<lambda>marker. contains key marker) auditMarkers)"

lemma size_snd_entry: "(k, v) \<in> set m \<Longrightarrow> size v < Suc (size_list (size_prod f size) m)"
  by (induction m) auto

function sanitizeAuditValue :: "golib \<Rightarrow> string \<Rightarrow> gval \<Rightarrow> gval" where
  "sanitizeAuditValue L key value =
     (if isSensitiveAuditKey L key then GStr ''[redacted]''
      else (case value of
              GMap m \<Rightarrow> GMap (map (\<lambda>(k, v). (k, sanitizeAuditValue L k v)) m)
            | GList items \<Rightarrow> GList (map (\<lambda>item. sanitizeAuditValue L [] item) items)
            | _ \<Rightarrow> value))"
  by pat_completeness auto
termination
proof (relation "measure (\<lambda>(L, key, va). size va)")
  fix L :: golib and key k :: string and va v :: gval and m :: gmap and entry :: "string \<times> gval"
  assume "va = GMap m" "entry \<in> set m" "(k, v) = entry"
  then have "size v < size va"
    using size_snd_entry [of k v m "\<lambda>x. 0"] by (auto simp: size_list_conv_sum_list)
  then show "((L, k, v), (L, key, va)) \<in> measure (\<lambda>(L, key, va). size va)" by simp
next
  fix L :: golib and key :: string and va item :: gval and items :: "gval list"
  assume "va = GList items" "item \<in> set items"
  then show "((L, [], item), (L, key, va)) \<in> measure (\<lambda>(L, key, va). size va)"
    by (auto dest: size_list_estimation' [where f = size])
qed simp

declare sanitizeAuditValue.simps [simp del]

definition sanitizeAuditMetadata :: "golib \<Rightarrow> gmap option \<Rightarrow> gmap option" where
  "sanitizeAuditMetadata L metadata =
     (case metadata of
        None \<Rightarrow> None
      | Some m \<Rightarrow> Some (map (\<lambda>(key, value). (key, sanitizeAuditValue L key value)) m))"

definition auditLocked ::
  "golib \<Rightarrow> env \<Rightarrow> nat \<Rightarrow> string \<Rightarrow> string \<Rightarrow> string \<Rightarrow> string \<Rightarrow> Request \<Rightarrow> gmap option \<Rightarrow> Server \<Rightarrow> Server" where
  "auditLocked L e k adminID action targetType targetID r metadata =
     updData (\<lambda>d. d\<lparr>data_AuditLogs := data_AuditLogs d @
       [\<lparr>aud_ID = newID e k ''audit'', aud_AdminID = adminID, aud_Action = action,
         aud_TargetType = targetType, aud_TargetID = targetID, aud_IP = clientIP r,
         aud_UserAgent = req_Header r ''User-Agent'',
         aud_Metadata = sanitizeAuditMetadata L metadata, aud_CreatedAt = env_now e (k + 1)\<rparr>]\<rparr>)"

lemma audit_sel [simp, frame_simps]:
  "srv_store (auditLocked L e k ad ac tt ti r md s) = srv_store s"
  "srv_challenges (auditLocked L e k ad ac tt ti r md s) = srv_challenges s"
  "srv_adminSessions (auditLocked L e k ad ac tt ti r md s) = srv_adminSessions s"
  "srv_rateLimits (auditLocked L e k ad ac tt ti r md s) = srv_rateLimits s"
  "srv_rateLimitWindow (auditLocked L e k ad ac tt ti r md s) = srv_rateLimitWindow s"
  "srv_rateLimitFailures (auditLocked L e k ad ac tt ti r md s) = srv_rateLimitFailures s"
  "srv_publicKey (auditLocked L e k ad ac tt ti r md s) = srv_publicKey s"
  "srv_privateKey (auditLocked L e k ad ac tt ti r md s) = srv_privateKey s"
  "srv_publicBaseURL (auditLocked L e k ad ac tt ti r md s) = srv_publicBaseURL s"
  "srv_corsAllowedOrigins (auditLocked L e k ad ac tt ti r md s) = srv_corsAllowedOrigins s"
  "data_Admins (srv_data (auditLocked L e k ad ac tt ti r md s)) = data_Admins (srv_data s)"
  "data_Apps (srv_data (auditLocked L e k ad ac tt ti r md s)) = data_Apps (srv_data s)"
  "data_Releases (srv_data (auditLocked L e k ad ac tt ti r md s)) = data_Releases (srv_data s)"
  "data_SDKKeys (srv_data (auditLocked L e k ad ac tt ti r md s)) = data_SDKKeys (srv_data s)"
  "data_Licenses (srv_data (auditLocked L e k ad ac tt ti r md s)) = data_Licenses (srv_data s)"
  "data_CapabilityPolicies (srv_data (auditLocked L e k ad ac tt ti r md s)) = data_CapabilityPolicies (srv_data s)"
  "data_Devices (srv_data (auditLocked L e k ad ac tt ti r md s)) = data_Devices (srv_data s)"
  "data_Activations (srv_data (auditLocked L e k ad ac tt ti r md s)) = data_Activations (srv_data s)"
  "data_IntegrityReports (srv_data (auditLocked L e k ad ac tt ti r md s)) = data_IntegrityReports (srv_data s)"
  "data_RiskEvents (srv_data (auditLocked L e k ad ac tt ti r md s)) = data_RiskEvents (srv_data s)"
  "data_Settings (srv_data (auditLocked L e k ad ac tt ti r md s)) = data_Settings (srv_data s)"
  by (simp_all add: auditLocked_def)

text \<open>The specification: no sensitive key is left with its value, at any depth of maps and
  lists.\<close>

fun redacted :: "golib \<Rightarrow> gval \<Rightarrow> bool" where
  "redacted L (GMap m) \<longleftrightarrow>
     list_all (\<lambda>(k, v). (isSensitiveAuditKey L k \<longrightarrow> v = GStr ''[redacted]'') \<and> redacted L v) m"
| "redacted L (GList items) \<longleftrightarrow> list_all (redacted L) items"
| "redacted L v \<longleftrightarrow> True"

lemma redacted_GStr [simp]: "redacted L (GStr v)"
  by simp

lemma sanitize_sensitive: "isSensitiveAuditKey L key \<Longrightarrow> sanitizeAuditValue L key v = GStr ''[redacted]''"
  by (simp add: sanitizeAuditValue.simps)

lemma sanitize_redacts: "redacted L (sanitizeAuditValue L key v)"
proof (induction L key v rule: sanitizeAuditValue.induct)
  case (1 L key va)
  show ?case
  proof (cases "isSensitiveAuditKey L key")
    case True
    then show ?thesis by (simp add: sanitize_sensitive)
  next
    case False
    then show ?thesis
    proof (cases va)
      case (GList items)
      have "sanitizeAuditValue L key va = GList (map (sanitizeAuditValue L []) items)"
        using False GList by (subst sanitizeAuditValue.simps) simp
      then show ?thesis using 1(1) [OF False GList] by (simp add: list_all_iff)
    next
      case (GMap m)
      have "sanitizeAuditValue L key va = GMap (map (\<lambda>(k, v). (k, sanitizeAuditValue L k v)) m)"
        using False GMap by (subst sanitizeAuditValue.simps) simp
      then show ?thesis using 1(2) [OF False GMap]
        by (fastforce simp: list_all_iff sanitize_sensitive)
    qed (subst sanitizeAuditValue.simps, simp)+
  qed
qed

lemma sanitizeAuditMetadata_redacts:
  "sanitizeAuditMetadata L metadata = Some m \<Longrightarrow> redacted L (GMap m)"
  by (auto simp: sanitizeAuditMetadata_def list_all_iff sanitize_redacts sanitize_sensitive split: option.splits)

end
