(* ===== verification/Verification.thy ===== *)
theory Verification
  imports Samples
begin

text \<open>
  Activation and online verification (server.go, \<open>processClientVerification\<close>, \<open>handleActivate\<close>,
  \<open>handleVerify\<close>). The handler is a sequence of guards, each with an early return; the model
  has one definition per group of guards, whose \<open>Inl\<close> is the state and the response of an early
  return and whose \<open>Inr\<close> is what the next group works with.

  Clock and save sites of one request: 0 and 1 the rate limiter of a malformed request, 2 the
  rate limiter, 3 the challenge, 4 a recorded failure, 5 the expiry of the license, 6 a save
  before a denial, 7 and 8 a risk event, 9 the device's last contact, 10 and 11 a new device,
  12 to 14 the activation, 15 to 46 the integrity evaluation, 47 the device, 48 and 49 the
  report, 50 to 54 the token and the policy bundle, 55 the final save, 56 the clock of the token's
  verification.
\<close>

section \<open>Requests\<close>

record VerifyRequest =
  vq_AppID :: string
  vq_Platform :: string
  vq_LicenseKey :: string
  vq_LicenseToken :: string
  vq_ChallengeID :: string
  vq_Nonce :: string
  vq_Device :: DeviceInfo
  vq_Integrity :: IntegrityRequest

definition clientVerificationRateLimitKey :: "golib \<Rightarrow> clientVerificationInput \<Rightarrow> Request \<Rightarrow> string" where
  "clientVerificationRateLimitKey L input r =
     (let endpoint = (if cvi_IsActivation input then ''activate'' else ''verify'')
      in rateLimitKey L [endpoint, cvi_AppID input, di_InstallID (cvi_Device input), clientAddr r])"

definition deniedResponse :: "string \<Rightarrow> string \<Rightarrow> RiskResult \<Rightarrow> VerifyResponse" where
  "deniedResponse code message risk =
     \<lparr>vr_Allowed = False, vr_Code = code, vr_Message = message, vr_LicenseToken = [],
      vr_ExpiresAt = None, vr_OfflineGraceUntil = None, vr_Entitlements = [],
      vr_CapabilityPolicy = None, vr_DeviceStatus = [], vr_Risk = risk, vr_Update = None\<rparr>"

definition writeDenied :: "string \<Rightarrow> string \<Rightarrow> RiskResult \<Rightarrow> Response" where
  "writeDenied code message risk = writeJSON 200 (PVerify (deniedResponse code message risk))"

definition riskResult :: "string \<Rightarrow> int \<Rightarrow> string list \<Rightarrow> RiskResult" where
  "riskResult level score actions = \<lparr>rr_Level = level, rr_Score = score, rr_Actions = actions\<rparr>"

text \<open>\<open>writeVerificationDenied\<close>: the failure counts against the client.\<close>

definition writeVerificationDenied ::
  "env \<Rightarrow> string \<Rightarrow> string \<Rightarrow> string \<Rightarrow> RiskResult \<Rightarrow> Server \<Rightarrow> Server \<times> Response" where
  "writeVerificationDenied e rateKey code message risk s =
     (recordRateLimitFailureLocked rateKey (env_now e 4) s, writeDenied code message risk)"

text \<open>A denial that is recorded as a risk event and saved first; the save's error is ignored.\<close>

definition denyWithRiskEvent ::
  "env \<Rightarrow> string \<Rightarrow> string \<times> string \<times> string \<Rightarrow> string \<Rightarrow> string \<Rightarrow> string \<Rightarrow> gmap option \<Rightarrow>
   string \<Rightarrow> string \<Rightarrow> RiskResult \<Rightarrow> Server \<Rightarrow> Server \<times> Response" where
  "denyWithRiskEvent e rateKey ids eventType severity summary metadata code message risk s =
     (let s1 = addRiskEventLocked e 7 (fst ids) (fst (snd ids)) (snd (snd ids))
                 eventType severity ''deny'' summary metadata s;
          s2 = fst (saveLocked e 6 s1)
      in writeVerificationDenied e rateKey code message risk s2)"

section \<open>The guards\<close>

text \<open>The app and the license: pointers to both and the claims of a token, when one was sent.\<close>

definition verificationApp ::
  "env \<Rightarrow> string \<Rightarrow> clientVerificationInput \<Rightarrow> Server \<Rightarrow> (Server \<times> Response) + App" where
  "verificationApp e rateKey input s =
     (case findAppLocked (cvi_AppID input) s of
        None \<Rightarrow> Inl (writeVerificationDenied e rateKey ''APP_NOT_ACTIVE'' (utf8 [0x5e94, 0x7528, 0x4e0d, 0x5b58, 0x5728, 0x6216, 0x5df2, 0x505c, 0x7528])
                 (riskResult ''high'' 90 [''deny'']) s)
      | Some i \<Rightarrow>
          (let app = data_Apps (srv_data s) ! i in
           if app_Status app \<noteq> ''active''
           then Inl (writeVerificationDenied e rateKey ''APP_NOT_ACTIVE'' (utf8 [0x5e94, 0x7528, 0x4e0d, 0x5b58, 0x5728, 0x6216, 0x5df2, 0x505c, 0x7528])
                 (riskResult ''high'' 90 [''deny'']) s)
           else Inr app))"

definition verificationLicense ::
  "golib \<Rightarrow> env \<Rightarrow> string \<Rightarrow> clientVerificationInput \<Rightarrow> Server \<Rightarrow>
   (Server \<times> Response) + nat option \<times> LicenseTokenClaims option" where
  "verificationLicense L e rateKey input s =
     (if cvi_LicenseKey input \<noteq> [] then Inr (findLicenseByKeyLocked L (cvi_LicenseKey input) s, None)
      else if cvi_LicenseToken input \<noteq> [] then
        (case VerifyLicenseToken L (srv_publicKey s) (cvi_LicenseToken input) True (env_now e 56) of
           Inl err \<Rightarrow> Inl (writeVerificationDenied e rateKey ''INVALID_TOKEN'' (utf8 [0x6388, 0x6743, 0x20, 0x74, 0x6f, 0x6b, 0x65, 0x6e, 0x20, 0x65e0, 0x6548])
                      (riskResult ''medium'' 55 [''deny'']) s)
         | Inr claims \<Rightarrow> Inr (findLicenseByIDLocked (tok_LicenseID claims) s, Some claims))
      else Inl (writeVerificationDenied e rateKey ''LICENSE_REQUIRED'' (utf8 [0x9700, 0x8981, 0x20, 0x6c, 0x69, 0x63, 0x65, 0x6e, 0x73, 0x65, 0x5f, 0x6b, 0x65, 0x79, 0x20, 0x6216, 0x20, 0x6c, 0x69, 0x63, 0x65, 0x6e, 0x73, 0x65, 0x5f, 0x74, 0x6f, 0x6b, 0x65, 0x6e])
                  (riskResult ''medium'' 55 [''deny'']) s))"

definition verificationLicenseState ::
  "golib \<Rightarrow> env \<Rightarrow> string \<Rightarrow> App \<Rightarrow> nat option \<Rightarrow> LicenseTokenClaims option \<Rightarrow> Server \<Rightarrow>
   (Server \<times> Response) + License" where
  "verificationLicenseState L e rateKey app lic0 tokenClaims s =
     (case lic0 of
        None \<Rightarrow> Inl (writeVerificationDenied e rateKey ''INVALID_LICENSE'' (utf8 [0x6388, 0x6743, 0x4e0d, 0x5b58, 0x5728, 0x6216, 0x4e0d, 0x5c5e, 0x4e8e, 0x5f53, 0x524d, 0x5e94, 0x7528])
                 (riskResult ''high'' 82 [''deny'']) s)
      | Some i \<Rightarrow>
          (let lic = data_Licenses (srv_data s) ! i in
           if lic_AppID lic \<noteq> app_AppKey app then
             Inl (writeVerificationDenied e rateKey ''INVALID_LICENSE'' (utf8 [0x6388, 0x6743, 0x4e0d, 0x5b58, 0x5728, 0x6216, 0x4e0d, 0x5c5e, 0x4e8e, 0x5f53, 0x524d, 0x5e94, 0x7528])
                 (riskResult ''high'' 82 [''deny'']) s)
           else if lic_Status lic \<noteq> ''active'' then
             Inl (writeVerificationDenied e rateKey (''LICENSE_'' @ toUpper L (lic_Status lic)) (utf8 [0x6388, 0x6743, 0x4e0d, 0x53ef, 0x7528])
                 (riskResult ''high'' 85 [''deny'']) s)
           else if env_now e 5 > lic_ExpiresAt lic then
             (let s1 = updData (\<lambda>d. d\<lparr>data_Licenses := modifyAt i (\<lambda>l. l\<lparr>lic_Status := ''expired''\<rparr>)
                                                         (data_Licenses d)\<rparr>) s;
                  s2 = fst (saveLocked e 6 s1)
              in Inl (writeVerificationDenied e rateKey ''LICENSE_EXPIRED'' (utf8 [0x6388, 0x6743, 0x5df2, 0x8fc7, 0x671f])
                 (riskResult ''medium'' 65 [''deny'']) s2))
           else (case tokenClaims of
                   None \<Rightarrow> Inr lic
                 | Some claims \<Rightarrow>
                     if tok_AppID claims \<noteq> app_AppKey app then
                       Inl (denyWithRiskEvent e rateKey (app_AppKey app, [], lic_ID lic)
                              ''token_app_mismatch'' ''high'' (utf8 [0x6388, 0x6743, 0x20, 0x74, 0x6f, 0x6b, 0x65, 0x6e, 0x20, 0x4e0d, 0x5c5e, 0x4e8e, 0x5f53, 0x524d, 0x5e94, 0x7528])
                              (Some [(''token_app_id'', GStr (tok_AppID claims))])
                              ''TOKEN_APP_MISMATCH'' (utf8 [0x6388, 0x6743, 0x20, 0x74, 0x6f, 0x6b, 0x65, 0x6e, 0x20, 0x4e0d, 0x5c5e, 0x4e8e, 0x5f53, 0x524d, 0x5e94, 0x7528])
                              (riskResult ''high'' 92 [''deny'']) s)
                     else Inr lic)))"

definition findOrCreateDeviceLocked ::
  "golib \<Rightarrow> env \<Rightarrow> clientVerificationInput \<Rightarrow> Server \<Rightarrow> Server \<times> nat" where
  "findOrCreateDeviceLocked L e input s =
     (let dev = cvi_Device input; fingerprintHash = hashString L (di_Fingerprint dev) in
      case findDeviceByFingerprintLocked fingerprintHash s of
        Some i \<Rightarrow>
          (updData (\<lambda>d. d\<lparr>data_Devices := modifyAt i
             (\<lambda>x. x\<lparr>dev_OSVersion := di_OSVersion dev,
                    dev_MachineNameHash := hashString L (di_MachineNameHash dev),
                    dev_LastSeenAt := env_now e 9\<rparr>) (data_Devices d)\<rparr>) s, i)
      | None \<Rightarrow>
          (let now = env_now e 10;
               device = \<lparr>dev_ID = newID e 11 ''dev'', dev_DeviceFingerprintHash = fingerprintHash,
                         dev_InstallIDHash = hashString L (di_InstallID dev),
                         dev_Platform = cvi_Platform input, dev_OSVersion = di_OSVersion dev,
                         dev_MachineNameHash = hashString L (di_MachineNameHash dev),
                         dev_RiskScore = 10, dev_Status = ''active'',
                         dev_FirstSeenAt = now, dev_LastSeenAt = now\<rparr>
           in (updData (\<lambda>d. d\<lparr>data_Devices := data_Devices d @ [device]\<rparr>) s,
               length (data_Devices (srv_data s)))))"

definition verificationDevice ::
  "env \<Rightarrow> string \<Rightarrow> App \<Rightarrow> License \<Rightarrow> LicenseTokenClaims option \<Rightarrow> nat \<Rightarrow> Server \<Rightarrow>
   (Server \<times> Response) + Device" where
  "verificationDevice e rateKey app lic tokenClaims i s =
     (let device = data_Devices (srv_data s) ! i in
      if dev_Status device = ''blocked'' then
        Inl (denyWithRiskEvent e rateKey (app_AppKey app, dev_ID device, lic_ID lic)
               ''device_blocked'' ''high'' (utf8 [0x8bbe, 0x5907, 0x5df2, 0x88ab, 0x540e, 0x53f0, 0x5c01, 0x7981]) None
               ''DEVICE_BLOCKED'' (utf8 [0x8bbe, 0x5907, 0x5df2, 0x5c01, 0x7981]) (riskResult ''high'' 90 [''deny'']) s)
      else (case tokenClaims of
              None \<Rightarrow> Inr device
            | Some claims \<Rightarrow>
                if tok_DeviceID claims \<noteq> dev_ID device then
                  Inl (denyWithRiskEvent e rateKey (app_AppKey app, dev_ID device, lic_ID lic)
                         ''token_device_mismatch'' ''high'' (utf8 [0x6388, 0x6743, 0x20, 0x74, 0x6f, 0x6b, 0x65, 0x6e, 0x20, 0x4e0e, 0x5f53, 0x524d, 0x8bbe, 0x5907, 0x4e0d, 0x5339, 0x914d])
                         (Some [(''token_device_id'', GStr (tok_DeviceID claims))])
                         ''TOKEN_DEVICE_MISMATCH'' (utf8 [0x6388, 0x6743, 0x20, 0x74, 0x6f, 0x6b, 0x65, 0x6e, 0x20, 0x4e0e, 0x5f53, 0x524d, 0x8bbe, 0x5907, 0x4e0d, 0x5339, 0x914d])
                         (riskResult ''high'' 92 [''deny'']) s)
                else Inr device))"

definition verificationActivation ::
  "env \<Rightarrow> string \<Rightarrow> App \<Rightarrow> License \<Rightarrow> Device \<Rightarrow> LicenseTokenClaims option \<Rightarrow> Server \<Rightarrow>
   (Server \<times> Response) + Server" where
  "verificationActivation e rateKey app lic device tokenClaims s =
     (let ids = (app_AppKey app, dev_ID device, lic_ID lic);
          activation = findActivationLocked (lic_ID lic) (dev_ID device) s
      in if tokenClaims \<noteq> None \<and>
            (case activation of None \<Rightarrow> True
             | Some i \<Rightarrow> act_ActivationStatus (data_Activations (srv_data s) ! i) \<noteq> ''active'')
         then Inl (denyWithRiskEvent e rateKey ids
                     ''token_activation_inactive'' ''medium'' (utf8 [0x6388, 0x6743, 0x20, 0x74, 0x6f, 0x6b, 0x65, 0x6e, 0x20, 0x5bf9, 0x5e94, 0x7684, 0x6fc0, 0x6d3b, 0x5df2, 0x505c, 0x7528]) None
                     ''TOKEN_DEACTIVATED'' (utf8 [0x6388, 0x6743, 0x20, 0x74, 0x6f, 0x6b, 0x65, 0x6e, 0x20, 0x5df2, 0x505c, 0x7528, 0xff0c, 0x8bf7, 0x91cd, 0x65b0, 0x6fc0, 0x6d3b])
                     (riskResult ''medium'' 60 [''deny'']) s)
         else (case activation of
                 None \<Rightarrow>
                   if activeDeviceCountLocked (lic_ID lic) s \<ge> lic_MaxDevices lic then
                     Inl (denyWithRiskEvent e rateKey ids
                            ''device_limit_exceeded'' ''medium'' (utf8 [0x6388, 0x6743, 0x7ed1, 0x5b9a, 0x8bbe, 0x5907, 0x6570, 0x5df2, 0x8fbe, 0x5230, 0x4e0a, 0x9650])
                            (Some [(''max_devices'', GInt (lic_MaxDevices lic))])
                            ''DEVICE_LIMIT_EXCEEDED'' (utf8 [0x6388, 0x6743, 0x7ed1, 0x5b9a, 0x8bbe, 0x5907, 0x6570, 0x5df2, 0x8fbe, 0x5230, 0x4e0a, 0x9650])
                            (riskResult ''medium'' 58 [''review'']) s)
                   else
                     (let now = env_now e 12;
                          new = \<lparr>act_ID = newID e 13 ''act'', act_LicenseID = lic_ID lic,
                                 act_DeviceID = dev_ID device, act_AppID = app_AppKey app,
                                 act_ActivationStatus = ''active'', act_ActivatedAt = now,
                                 act_LastVerifiedAt = now, act_DeactivatedAt = None\<rparr>
                      in Inr (updData (\<lambda>d. d\<lparr>data_Activations := data_Activations d @ [new]\<rparr>) s))
               | Some i \<Rightarrow>
                   Inr (updData (\<lambda>d. d\<lparr>data_Activations := modifyAt i
                          (\<lambda>a. a\<lparr>act_ActivationStatus := ''active'', act_LastVerifiedAt := env_now e 14\<rparr>)
                          (data_Activations d)\<rparr>) s)))"

section \<open>The evaluation and the token\<close>

text \<open>The integrity evaluation, the device's score and the report; the last component is the
  denial.\<close>

definition verificationIntegrity ::
  "golib \<Rightarrow> env \<Rightarrow> App \<Rightarrow> License \<Rightarrow> Device \<Rightarrow> nat \<Rightarrow> clientVerificationInput \<Rightarrow> Server \<Rightarrow>
   Server \<times> RiskResult \<times> bool" where
  "verificationIntegrity L e app lic device i input s =
     (case evaluateIntegrityLocked L e 15 (app_AppKey app) (dev_ID device) (lic_ID lic) input s of
        (s1, risk, release, deny) \<Rightarrow>
          (let s2 = updData (\<lambda>d. d\<lparr>data_Devices := modifyAt i
                      (\<lambda>x. x\<lparr>dev_RiskScore := rr_Score risk, dev_LastSeenAt := env_now e 47\<rparr>)
                      (data_Devices d)\<rparr>) s1;
               s3 = addIntegrityReport (newIntegrityReport e 48 (app_AppKey app) (dev_ID device)
                      (cvi_Platform input) (cvi_Integrity input) release) s2
           in (s3, risk, deny)))"

definition minutes :: "int \<Rightarrow> duration" where "minutes n = n * 60 * 1000000000"
definition days :: "int \<Rightarrow> duration" where "days n = n * 24 * 3600 * 1000000000"

definition tokenTTLMinutes :: "SystemSettings \<Rightarrow> RiskResult \<Rightarrow> int" where
  "tokenTTLMinutes settings risk =
     (if rr_Level risk = ''medium'' \<or> rr_Level risk = ''high''
      then set_MediumRiskTokenTTLMinutes settings else set_DefaultTokenTTLMinutes settings)"

definition verificationClaims ::
  "env \<Rightarrow> App \<Rightarrow> License \<Rightarrow> Device \<Rightarrow> time \<Rightarrow> time \<Rightarrow> LicenseTokenClaims" where
  "verificationClaims e app lic device expiresAt graceUntil =
     \<lparr>tok_Iss = ''license-guard'', tok_AppID = app_AppKey app, tok_LicenseID = lic_ID lic,
      tok_DeviceID = dev_ID device, tok_Entitlements = lic_Entitlements lic,
      tok_IssuedAt = unixSeconds (env_now e 53), tok_ExpiresAt = unixSeconds expiresAt,
      tok_OfflineGraceUntil = unixSeconds graceUntil\<rparr>"

definition verificationIssue ::
  "golib \<Rightarrow> env \<Rightarrow> string \<Rightarrow> App \<Rightarrow> License \<Rightarrow> Device \<Rightarrow> RiskResult \<Rightarrow> clientVerificationInput \<Rightarrow>
   Server \<Rightarrow> Server \<times> Response" where
  "verificationIssue L e rateKey app lic device risk input s =
     (let settings = settingsLocked (env_now e 50) s;
          expiresAt = env_now e 51 + minutes (tokenTTLMinutes settings risk);
          graceUntil = env_now e 52 + days (set_OfflineGraceDays settings)
      in case SignLicenseToken L (srv_privateKey s)
                (verificationClaims e app lic device expiresAt graceUntil) of
           Inl err \<Rightarrow> (s, writeError 500 ''TOKEN_SIGN_FAILED'' err)
         | Inr token \<Rightarrow>
             (case signedCapabilityPolicyBundleLocked L e 54 (app_AppKey app) (lic_ID lic)
                     (dev_ID device) (lic_Entitlements lic) expiresAt s of
                Inl err \<Rightarrow> (s, writeError 500 ''POLICY_SIGN_FAILED'' err)
              | Inr capabilityPolicy \<Rightarrow>
                  (case saveLocked e 55 s of
                     (s1, Some err) \<Rightarrow> (s1, writeError 500 ''SAVE_FAILED'' err)
                   | (s1, None) \<Rightarrow>
                       (let s2 = resetRateLimitLocked rateKey s1
                        in (s2, writeJSON 200 (PVerify
                              \<lparr>vr_Allowed = True, vr_Code = [], vr_Message = [],
                               vr_LicenseToken = token, vr_ExpiresAt = Some expiresAt,
                               vr_OfflineGraceUntil = Some graceUntil,
                               vr_Entitlements = lic_Entitlements lic,
                               vr_CapabilityPolicy = capabilityPolicy,
                               vr_DeviceStatus = dev_Status device, vr_Risk = risk,
                               vr_Update = updateInfoLocked (app_AppKey app) (cvi_Platform input)
                                 (iq_AppVersion (cvi_Integrity input)) (dev_ID device) s2\<rparr>))))))"

section \<open>The handler\<close>

definition malformedVerification :: "clientVerificationInput \<Rightarrow> bool" where
  "malformedVerification input \<longleftrightarrow>
     cvi_AppID input = [] \<or> cvi_ChallengeID input = [] \<or> cvi_Nonce input = [] \<or>
     di_InstallID (cvi_Device input) = [] \<or> di_Fingerprint (cvi_Device input) = []"

text \<open>What follows the guards on the license: the device, the activation, the evaluation and
  the token.\<close>

definition verifyOnDevice ::
  "golib \<Rightarrow> env \<Rightarrow> string \<Rightarrow> App \<Rightarrow> License \<Rightarrow> LicenseTokenClaims option \<Rightarrow> clientVerificationInput \<Rightarrow>
   Server \<Rightarrow> Server \<times> Response" where
  "verifyOnDevice L e rateKey app lic tokenClaims input s =
     (case findOrCreateDeviceLocked L e input s of
        (s1, i) \<Rightarrow>
          (case verificationDevice e rateKey app lic tokenClaims i s1 of
             Inl out \<Rightarrow> out
           | Inr device \<Rightarrow>
               (case verificationActivation e rateKey app lic device tokenClaims s1 of
                  Inl out \<Rightarrow> out
                | Inr s2 \<Rightarrow>
                    (case verificationIntegrity L e app lic device i input s2 of
                       (s3, risk, deny) \<Rightarrow>
                         if deny then
                           (let s4 = fst (saveLocked e 6 s3);
                                s5 = recordRateLimitFailureLocked rateKey (env_now e 4) s4
                            in (s5, writeDenied ''INTEGRITY_FAILED'' (utf8 [0x5b8c, 0x6574, 0x6027, 0x9a8c, 0x8bc1, 0x5931, 0x8d25]) risk))
                         else verificationIssue L e rateKey app lic device risk input s3))))"

definition processClientVerification ::
  "golib \<Rightarrow> env \<Rightarrow> Request \<Rightarrow> clientVerificationInput \<Rightarrow> Server \<Rightarrow> Server \<times> Response" where
  "processClientVerification L e r input s =
     (let rateKey = clientVerificationRateLimitKey L input r in
      if malformedVerification input then
        (if isRateLimitedLocked rateKey (env_now e 0) s
         then (s, writeError 429 ''RATE_LIMITED'' ''too many failed attempts, try again later'')
         else (recordRateLimitFailureLocked rateKey (env_now e 1) s,
               writeError 400 ''INVALID_REQUEST''
                 ''app_id, challenge, nonce and device identifiers are required''))
      else if isRateLimitedLocked rateKey (env_now e 2) s
      then (s, writeError 429 ''RATE_LIMITED'' ''too many failed attempts, try again later'')
      else
        (case validateChallengeLocked (cvi_AppID input) (di_InstallID (cvi_Device input))
                (cvi_ChallengeID input) (cvi_Nonce input) (env_now e 3) s of
           (s1, Some err) \<Rightarrow>
             writeVerificationDenied e rateKey ''CHALLENGE_INVALID'' err
               (riskResult ''medium'' 50 [''deny'']) s1
         | (s1, None) \<Rightarrow>
             (case verificationApp e rateKey input s1 of
                Inl out \<Rightarrow> out
              | Inr app \<Rightarrow>
                  (case verificationLicense L e rateKey input s1 of
                     Inl out \<Rightarrow> out
                   | Inr (lic0, tokenClaims) \<Rightarrow>
                       (case verificationLicenseState L e rateKey app lic0 tokenClaims s1 of
                          Inl out \<Rightarrow> out
                        | Inr lic \<Rightarrow> verifyOnDevice L e rateKey app lic tokenClaims input s1)))))"

definition verificationInput :: "VerifyRequest \<Rightarrow> bool \<Rightarrow> clientVerificationInput" where
  "verificationInput q activation =
     \<lparr>cvi_AppID = vq_AppID q,
      cvi_Platform = (if vq_Platform q = [] then ''windows'' else vq_Platform q),
      cvi_LicenseKey = vq_LicenseKey q,
      cvi_LicenseToken = (if activation then [] else vq_LicenseToken q),
      cvi_ChallengeID = vq_ChallengeID q, cvi_Nonce = vq_Nonce q, cvi_Device = vq_Device q,
      cvi_Integrity = vq_Integrity q, cvi_IsActivation = activation\<rparr>"

definition handleActivate ::
  "golib \<Rightarrow> env \<Rightarrow> Request \<Rightarrow> string + VerifyRequest \<Rightarrow> Server \<Rightarrow> Server \<times> Response" where
  "handleActivate L e r body =
     decodeJSON body (\<lambda>q. processClientVerification L e r (verificationInput q True))"

definition handleVerify ::
  "golib \<Rightarrow> env \<Rightarrow> Request \<Rightarrow> string + VerifyRequest \<Rightarrow> Server \<Rightarrow> Server \<times> Response" where
  "handleVerify L e r body =
     decodeJSON body (\<lambda>q. processClientVerification L e r (verificationInput q False))"

section \<open>Frames\<close>

lemma writeVerificationDenied_sel [simp, frame_simps]:
  "srv_data (fst (writeVerificationDenied e k c m r s)) = srv_data s"
  "srv_store (fst (writeVerificationDenied e k c m r s)) = srv_store s"
  "srv_challenges (fst (writeVerificationDenied e k c m r s)) = srv_challenges s"
  "srv_adminSessions (fst (writeVerificationDenied e k c m r s)) = srv_adminSessions s"
  "srv_rateLimitWindow (fst (writeVerificationDenied e k c m r s)) = srv_rateLimitWindow s"
  "srv_rateLimitFailures (fst (writeVerificationDenied e k c m r s)) = srv_rateLimitFailures s"
  "srv_rateLimits (fst (writeVerificationDenied e k c m r s)) =
     srv_rateLimits (recordRateLimitFailureLocked k (env_now e 4) s)"
  "snd (writeVerificationDenied e k c m r s) = writeDenied c m r"
  by (simp_all add: writeVerificationDenied_def)

lemma addRiskEvent_sel [simp, frame_simps]:
  "srv_store (addRiskEventLocked e k a d l et sev act sm md s) = srv_store s"
  "srv_challenges (addRiskEventLocked e k a d l et sev act sm md s) = srv_challenges s"
  "srv_adminSessions (addRiskEventLocked e k a d l et sev act sm md s) = srv_adminSessions s"
  "srv_rateLimits (addRiskEventLocked e k a d l et sev act sm md s) = srv_rateLimits s"
  "srv_rateLimitWindow (addRiskEventLocked e k a d l et sev act sm md s) = srv_rateLimitWindow s"
  "srv_rateLimitFailures (addRiskEventLocked e k a d l et sev act sm md s) = srv_rateLimitFailures s"
  "srv_publicKey (addRiskEventLocked e k a d l et sev act sm md s) = srv_publicKey s"
  "srv_privateKey (addRiskEventLocked e k a d l et sev act sm md s) = srv_privateKey s"
  "data_Apps (srv_data (addRiskEventLocked e k a d l et sev act sm md s)) = data_Apps (srv_data s)"
  "data_Licenses (srv_data (addRiskEventLocked e k a d l et sev act sm md s)) = data_Licenses (srv_data s)"
  "data_Devices (srv_data (addRiskEventLocked e k a d l et sev act sm md s)) = data_Devices (srv_data s)"
  "data_Activations (srv_data (addRiskEventLocked e k a d l et sev act sm md s)) = data_Activations (srv_data s)"
  "data_Releases (srv_data (addRiskEventLocked e k a d l et sev act sm md s)) = data_Releases (srv_data s)"
  "data_Settings (srv_data (addRiskEventLocked e k a d l et sev act sm md s)) = data_Settings (srv_data s)"
  by (simp_all add: addRiskEventLocked_def)

text \<open>What a recorded failure does depends on the limiter's table and configuration only.\<close>

lemma recordRateLimitFailure_cong:
  "srv_rateLimits s = srv_rateLimits t \<Longrightarrow> srv_rateLimitWindow s = srv_rateLimitWindow t \<Longrightarrow>
   srv_rateLimitFailures s = srv_rateLimitFailures t \<Longrightarrow>
   srv_rateLimits (recordRateLimitFailureLocked k now s) = srv_rateLimits (recordRateLimitFailureLocked k now t)"
  by (cases "srv_rateLimits t k") (simp_all add: recordRateLimitFailureLocked_def Let_def)

text \<open>The parts of the server the verification never writes, and those of its data.\<close>

definition sameConfig :: "Server \<Rightarrow> Server \<Rightarrow> bool" where
  "sameConfig s t \<longleftrightarrow> srv_adminSessions s = srv_adminSessions t \<and>
     srv_rateLimitWindow s = srv_rateLimitWindow t \<and> srv_rateLimitFailures s = srv_rateLimitFailures t \<and>
     srv_publicKey s = srv_publicKey t \<and> srv_privateKey s = srv_privateKey t \<and>
     data_Admins (srv_data s) = data_Admins (srv_data t) \<and>
     data_Apps (srv_data s) = data_Apps (srv_data t) \<and>
     data_Releases (srv_data s) = data_Releases (srv_data t) \<and>
     data_SDKKeys (srv_data s) = data_SDKKeys (srv_data t) \<and>
     data_CapabilityPolicies (srv_data s) = data_CapabilityPolicies (srv_data t) \<and>
     data_AuditLogs (srv_data s) = data_AuditLogs (srv_data t) \<and>
     data_Settings (srv_data s) = data_Settings (srv_data t)"

lemma sameConfig_trans: "sameConfig s t \<Longrightarrow> sameConfig t u \<Longrightarrow> sameConfig s u"
  by (simp add: sameConfig_def)

section \<open>Outcomes\<close>

definition verificationAllowed :: "Response \<Rightarrow> bool" where
  "verificationAllowed resp \<longleftrightarrow> (case rsp_body resp of PVerify v \<Rightarrow> vr_Allowed v | _ \<Rightarrow> False)"

definition verificationDenied :: "Response \<Rightarrow> bool" where
  "verificationDenied resp \<longleftrightarrow> (case rsp_body resp of PVerify v \<Rightarrow> \<not> vr_Allowed v | _ \<Rightarrow> False)"

lemma writeDenied_outcome [simp]:
  "\<not> verificationAllowed (writeDenied c m r)" "verificationDenied (writeDenied c m r)"
  by (simp_all add: verificationAllowed_def verificationDenied_def writeDenied_def deniedResponse_def)

lemma writeError_outcome [simp]:
  "\<not> verificationAllowed (writeError st c m)" "\<not> verificationDenied (writeError st c m)"
  by (simp_all add: verificationAllowed_def verificationDenied_def writeError_def writeJSON_def)

text \<open>An early return of a guard: denied, the failure recorded, the challenges and the
  activations as they were.\<close>

definition deniedFrom :: "env \<Rightarrow> string \<Rightarrow> Server \<Rightarrow> Server \<times> Response \<Rightarrow> bool" where
  "deniedFrom e rateKey s out \<longleftrightarrow>
     verificationDenied (snd out) \<and> \<not> verificationAllowed (snd out) \<and>
     srv_challenges (fst out) = srv_challenges s \<and>
     data_Activations (srv_data (fst out)) = data_Activations (srv_data s) \<and>
     srv_rateLimitWindow (fst out) = srv_rateLimitWindow s \<and>
     srv_rateLimitFailures (fst out) = srv_rateLimitFailures s \<and>
     srv_rateLimits (fst out) = srv_rateLimits (recordRateLimitFailureLocked rateKey (env_now e 4) s)"

lemma deniedFrom_via:
  assumes "srv_challenges s1 = srv_challenges s" "srv_rateLimits s1 = srv_rateLimits s"
    "srv_rateLimitWindow s1 = srv_rateLimitWindow s" "srv_rateLimitFailures s1 = srv_rateLimitFailures s"
    "data_Activations (srv_data s1) = data_Activations (srv_data s)"
  shows "deniedFrom e k s (writeVerificationDenied e k c m r s1)"
  using assms recordRateLimitFailure_cong [of s1 s] by (simp add: deniedFrom_def)

lemma deniedFrom_plain: "deniedFrom e k s (writeVerificationDenied e k c m r s)"
  by (rule deniedFrom_via) simp_all

lemma deniedFrom_riskEvent: "deniedFrom e k s (denyWithRiskEvent e k ids et sev sm md c m r s)"
  unfolding denyWithRiskEvent_def Let_def by (rule deniedFrom_via) simp_all

lemma verificationApp_Inl:
  "verificationApp e k input s = Inl out \<Longrightarrow> deniedFrom e k s out"
  by (auto simp: verificationApp_def Let_def deniedFrom_plain split: option.splits if_splits)

lemma verificationApp_Inr:
  "verificationApp e k input s = Inr app \<Longrightarrow>
   \<exists>i. findAppLocked (cvi_AppID input) s = Some i \<and> app = data_Apps (srv_data s) ! i \<and>
       app_Status app = ''active''"
  by (auto simp: verificationApp_def Let_def split: option.splits if_splits)

lemma verificationLicense_Inl:
  "verificationLicense L e k input s = Inl out \<Longrightarrow> deniedFrom e k s out"
  by (auto simp: verificationLicense_def deniedFrom_plain split: sum.splits if_splits)

lemma verificationLicense_Inr:
  "verificationLicense L e k input s = Inr (lic0, claims0) \<Longrightarrow>
   cvi_LicenseKey input \<noteq> [] \<and> lic0 = findLicenseByKeyLocked L (cvi_LicenseKey input) s \<and> claims0 = None \<or>
   cvi_LicenseKey input = [] \<and> cvi_LicenseToken input \<noteq> [] \<and>
     (\<exists>claims. VerifyLicenseToken L (srv_publicKey s) (cvi_LicenseToken input) True (env_now e 56) = Inr claims \<and>
        lic0 = findLicenseByIDLocked (tok_LicenseID claims) s \<and> claims0 = Some claims)"
  by (auto simp: verificationLicense_def split: sum.splits if_splits)

lemma verificationLicenseState_Inl:
  "verificationLicenseState L e k app lic0 claims s = Inl out \<Longrightarrow> deniedFrom e k s out"
  unfolding verificationLicenseState_def Let_def
  by (auto simp: deniedFrom_plain deniedFrom_riskEvent
      intro!: deniedFrom_via split: option.splits if_splits)

lemma verificationLicenseState_Inr:
  "verificationLicenseState L e k app lic0 claims0 s = Inr lic \<Longrightarrow>
   \<exists>i. lic0 = Some i \<and> lic = data_Licenses (srv_data s) ! i \<and> lic_AppID lic = app_AppKey app \<and>
       lic_Status lic = ''active'' \<and> env_now e 5 \<le> lic_ExpiresAt lic \<and>
       (\<forall>claims. claims0 = Some claims \<longrightarrow> tok_AppID claims = app_AppKey app)"
  by (auto simp: verificationLicenseState_def Let_def split: option.splits if_splits)

lemma verificationDevice_Inl:
  "verificationDevice e k app lic claims i s = Inl out \<Longrightarrow> deniedFrom e k s out"
  by (auto simp: verificationDevice_def Let_def deniedFrom_riskEvent split: option.splits if_splits)

lemma verificationDevice_Inr:
  "verificationDevice e k app lic claims0 i s = Inr device \<Longrightarrow>
   device = data_Devices (srv_data s) ! i \<and> dev_Status device \<noteq> ''blocked'' \<and>
   (\<forall>claims. claims0 = Some claims \<longrightarrow> tok_DeviceID claims = dev_ID device)"
  by (auto simp: verificationDevice_def Let_def split: option.splits if_splits)

lemma verificationActivation_Inl:
  "verificationActivation e k app lic device claims s = Inl out \<Longrightarrow> deniedFrom e k s out"
  by (auto simp: verificationActivation_def Let_def deniedFrom_riskEvent split: option.splits if_splits)

lemma verificationActivation_Inr:
  assumes "verificationActivation e k app lic device claims s = Inr s'"
  shows "\<exists>acts. s' = updData (\<lambda>d. d\<lparr>data_Activations := acts\<rparr>) s \<and>
    (case findActivationLocked (lic_ID lic) (dev_ID device) s of
       None \<Rightarrow> claims = None \<and> activeDeviceCountLocked (lic_ID lic) s < lic_MaxDevices lic \<and>
         (\<exists>new. acts = data_Activations (srv_data s) @ [new] \<and> act_LicenseID new = lic_ID lic \<and>
            act_DeviceID new = dev_ID device \<and> act_AppID new = app_AppKey app \<and>
            act_ActivationStatus new = ''active'')
     | Some i \<Rightarrow>
         (claims \<noteq> None \<longrightarrow> act_ActivationStatus (data_Activations (srv_data s) ! i) = ''active'') \<and>
         acts = modifyAt i (\<lambda>a. a\<lparr>act_ActivationStatus := ''active'', act_LastVerifiedAt := env_now e 14\<rparr>)
                  (data_Activations (srv_data s)))"
  using assms unfolding verificationActivation_def Let_def
  by (cases "findActivationLocked (lic_ID lic) (dev_ID device) s")
     (auto simp: updData_def split: if_splits)

lemma findOrCreateDevice_spec:
  assumes "findOrCreateDeviceLocked L e input s = (s', i)"
  shows "i < length (data_Devices (srv_data s'))"
    and "dev_DeviceFingerprintHash (data_Devices (srv_data s') ! i) = hashString L (di_Fingerprint (cvi_Device input))"
    and "sameConfig s' s" and "srv_challenges s' = srv_challenges s"
    and "srv_rateLimits s' = srv_rateLimits s"
    and "data_Activations (srv_data s') = data_Activations (srv_data s)"
    and "data_Licenses (srv_data s') = data_Licenses (srv_data s)"
  using assms findIdx_SomeD
  by (auto simp: findOrCreateDeviceLocked_def Let_def findDeviceByFingerprintLocked_def sameConfig_def
      modifyAt_nth nth_append split: option.splits dest!: findIdx_SomeD)

lemma verificationIntegrity_spec:
  assumes "verificationIntegrity L e app lic device i input s = (s', risk, deny)"
  shows "deny \<longleftrightarrow> integrityViolation L (app_AppKey app) input s"
    and "sameConfig s' s" and "srv_challenges s' = srv_challenges s"
    and "srv_rateLimits s' = srv_rateLimits s"
    and "data_Activations (srv_data s') = data_Activations (srv_data s)"
    and "data_Licenses (srv_data s') = data_Licenses (srv_data s)"
    and "data_Devices (srv_data s') = modifyAt i (\<lambda>x. x\<lparr>dev_RiskScore := rr_Score risk,
           dev_LastSeenAt := env_now e 47\<rparr>) (data_Devices (srv_data s))"
proof -
  obtain s1 release where ev: "evaluateIntegrityLocked L e 15 (app_AppKey app) (dev_ID device)
      (lic_ID lic) input s = (s1, risk, release, deny)"
    and s': "s' = addIntegrityReport (newIntegrityReport e 48 (app_AppKey app) (dev_ID device)
                      (cvi_Platform input) (cvi_Integrity input) release)
                 (updData (\<lambda>d. d\<lparr>data_Devices := modifyAt i
                      (\<lambda>x. x\<lparr>dev_RiskScore := rr_Score risk, dev_LastSeenAt := env_now e 47\<rparr>)
                      (data_Devices d)\<rparr>) s1)"
    using assms by (auto simp: verificationIntegrity_def Let_def split: prod.splits)
  show "deny \<longleftrightarrow> integrityViolation L (app_AppKey app) input s"
    by (rule evaluateIntegrityLocked_deny [OF ev])
  obtain a where a: "evalOK s (app_AppKey app, dev_ID device, lic_ID lic) a" "s1 = ev_server a"
    using evaluateIntegrity_evalOK [OF ev] by metis
  then obtain evs where "riskExtends s evs s1"
    unfolding evalOK_def by blast
  note sel = riskExtends_sel [OF this]
  show "sameConfig s' s" "srv_challenges s' = srv_challenges s" "srv_rateLimits s' = srv_rateLimits s"
    "data_Activations (srv_data s') = data_Activations (srv_data s)"
    "data_Licenses (srv_data s') = data_Licenses (srv_data s)"
    "data_Devices (srv_data s') = modifyAt i (\<lambda>x. x\<lparr>dev_RiskScore := rr_Score risk,
           dev_LastSeenAt := env_now e 47\<rparr>) (data_Devices (srv_data s))"
    by (simp_all add: s' addIntegrityReport_def sameConfig_def sel)
qed

lemma verificationIssue_cases:
  assumes "verificationIssue L e k app lic device risk input s = (s', resp)"
  shows "\<not> verificationDenied resp" and "srv_data s' = srv_data s" and "srv_challenges s' = srv_challenges s"
    and "verificationAllowed resp \<Longrightarrow> srv_rateLimits s' = (srv_rateLimits s)(k := None)"
    and "verificationAllowed resp \<Longrightarrow> srv_store s' = Some (srv_data s')"
    and "\<not> verificationAllowed resp \<Longrightarrow> srv_rateLimits s' = srv_rateLimits s"
    and "srv_rateLimitWindow s' = srv_rateLimitWindow s" and "srv_rateLimitFailures s' = srv_rateLimitFailures s"
  using assms unfolding verificationIssue_def Let_def
  by (auto simp: verificationDenied_def verificationAllowed_def resetRateLimitLocked_def saveLocked_def
      writeError_def writeJSON_def split: sum.splits option.splits prod.splits)

lemma verificationIssue_allowed:
  assumes "verificationIssue L e k app lic device risk input s = (s', resp)" and "verificationAllowed resp"
  shows "\<exists>v expiresAt graceUntil.
    resp = writeJSON 200 (PVerify v) \<and> vr_Allowed v \<and> vr_Risk v = risk \<and>
    expiresAt = env_now e 51 + minutes (tokenTTLMinutes (settingsLocked (env_now e 50) s) risk) \<and>
    graceUntil = env_now e 52 + days (set_OfflineGraceDays (settingsLocked (env_now e 50) s)) \<and>
    SignLicenseToken L (srv_privateKey s) (verificationClaims e app lic device expiresAt graceUntil)
      = Inr (vr_LicenseToken v) \<and>
    vr_ExpiresAt v = Some expiresAt \<and> vr_OfflineGraceUntil v = Some graceUntil \<and>
    vr_Entitlements v = lic_Entitlements lic"
  using assms unfolding verificationIssue_def Let_def
  by (auto split: sum.splits option.splits prod.splits)

section \<open>Runs of the handler\<close>

definition verificationAdmitted :: "golib \<Rightarrow> env \<Rightarrow> Request \<Rightarrow> clientVerificationInput \<Rightarrow> Server \<Rightarrow> bool" where
  "verificationAdmitted L e r input s \<longleftrightarrow>
     \<not> malformedVerification input \<and>
     \<not> isRateLimitedLocked (clientVerificationRateLimitKey L input r) (env_now e 2) s"

definition afterChallenge :: "env \<Rightarrow> clientVerificationInput \<Rightarrow> Server \<Rightarrow> Server" where
  "afterChallenge e input s =
     fst (validateChallengeLocked (cvi_AppID input) (di_InstallID (cvi_Device input))
            (cvi_ChallengeID input) (cvi_Nonce input) (env_now e 3) s)"

text \<open>The guards a run passes before the integrity evaluation, and what it then works with.\<close>

definition passedGuards ::
  "golib \<Rightarrow> env \<Rightarrow> string \<Rightarrow> clientVerificationInput \<Rightarrow> Server \<Rightarrow> App \<Rightarrow> License \<Rightarrow>
   LicenseTokenClaims option \<Rightarrow> Device \<Rightarrow> nat \<Rightarrow> Server \<Rightarrow> Server \<Rightarrow> bool" where
  "passedGuards L e key input s app lic claims device i s2 s3 \<longleftrightarrow>
     (\<exists>lic0. snd (validateChallengeLocked (cvi_AppID input) (di_InstallID (cvi_Device input))
                    (cvi_ChallengeID input) (cvi_Nonce input) (env_now e 3) s) = None \<and>
        verificationApp e key input (afterChallenge e input s) = Inr app \<and>
        verificationLicense L e key input (afterChallenge e input s) = Inr (lic0, claims) \<and>
        verificationLicenseState L e key app lic0 claims (afterChallenge e input s) = Inr lic \<and>
        findOrCreateDeviceLocked L e input (afterChallenge e input s) = (s2, i) \<and>
        verificationDevice e key app lic claims i s2 = Inr device \<and>
        verificationActivation e key app lic device claims s2 = Inr s3)"

lemma verifyOnDevice_cases:
  assumes "verifyOnDevice L e key app lic claims input s1 = (s', resp)"
    and "findOrCreateDeviceLocked L e input s1 = (s2, i)"
  obtains (guard) "deniedFrom e key s1 (s', resp)"
  | (evaluated) device s3 s4 risk deny where
      "verificationDevice e key app lic claims i s2 = Inr device"
      "verificationActivation e key app lic device claims s2 = Inr s3"
      "verificationIntegrity L e app lic device i input s3 = (s4, risk, deny)"
      "if deny
       then s' = recordRateLimitFailureLocked key (env_now e 4) (fst (saveLocked e 6 s4)) \<and>
            resp = writeDenied ''INTEGRITY_FAILED'' (utf8 [0x5b8c, 0x6574, 0x6027, 0x9a8c, 0x8bc1, 0x5931, 0x8d25]) risk
       else verificationIssue L e key app lic device risk input s4 = (s', resp)"
proof -
  note dev = findOrCreateDevice_spec [OF assms(2)]
  have lift: "deniedFrom e key s2 out \<Longrightarrow> deniedFrom e key s1 out" for out
    using dev recordRateLimitFailure_cong [of s2 s1] by (simp add: deniedFrom_def sameConfig_def)
  show thesis
  proof (cases "verificationDevice e key app lic claims i s2")
    case (Inl out)
    then have "out = (s', resp)" using assms by (simp add: verifyOnDevice_def)
    then show thesis using guard lift verificationDevice_Inl [OF Inl] by simp
  next
    case (Inr device)
    show thesis
    proof (cases "verificationActivation e key app lic device claims s2")
      case (Inl out)
      then have "out = (s', resp)" using assms Inr by (simp add: verifyOnDevice_def)
      then show thesis using guard lift verificationActivation_Inl [OF Inl] by simp
    next
      case Inr2: (Inr s3)
      obtain s4 risk deny where ev: "verificationIntegrity L e app lic device i input s3 = (s4, risk, deny)"
        by (metis prod_cases3)
      show thesis
        by (rule evaluated [OF Inr Inr2 ev])
           (use assms Inr Inr2 ev in \<open>auto simp: verifyOnDevice_def Let_def\<close>)
    qed
  qed
qed

lemma processClientVerification_cases:
  assumes run: "processClientVerification L e r input s = (s', resp)"
  defines "key \<equiv> clientVerificationRateLimitKey L input r"
  obtains (rejected) "\<not> verificationAdmitted L e r input s" "\<not> verificationAllowed resp"
      "\<not> verificationDenied resp" "s' = s \<or> s' = recordRateLimitFailureLocked key (env_now e 1) s"
  | (guard) "verificationAdmitted L e r input s" "deniedFrom e key (afterChallenge e input s) (s', resp)"
  | (evaluated) app lic claims device i s2 s3 s4 risk deny where
      "verificationAdmitted L e r input s"
      "passedGuards L e key input s app lic claims device i s2 s3"
      "verificationIntegrity L e app lic device i input s3 = (s4, risk, deny)"
      "if deny
       then s' = recordRateLimitFailureLocked key (env_now e 4) (fst (saveLocked e 6 s4)) \<and>
            resp = writeDenied ''INTEGRITY_FAILED'' (utf8 [0x5b8c, 0x6574, 0x6027, 0x9a8c, 0x8bc1, 0x5931, 0x8d25]) risk
       else verificationIssue L e key app lic device risk input s4 = (s', resp)"
proof (cases "verificationAdmitted L e r input s")
  case False
  then show thesis
    using run rejected [OF False]
    by (auto simp: processClientVerification_def verificationAdmitted_def Let_def key_def split: if_splits)
next
  case True
  obtain s1 res where ch: "validateChallengeLocked (cvi_AppID input) (di_InstallID (cvi_Device input))
       (cvi_ChallengeID input) (cvi_Nonce input) (env_now e 3) s = (s1, res)" by (metis prod.exhaust)
  have s1: "afterChallenge e input s = s1" by (simp add: afterChallenge_def ch)
  note body = run [unfolded processClientVerification_def Let_def key_def [symmetric]]
    True [unfolded verificationAdmitted_def key_def [symmetric]] ch
  show thesis
  proof (cases res)
    case (Some err)
    then have "(s', resp) = writeVerificationDenied e key ''CHALLENGE_INVALID'' err
        (riskResult ''medium'' 50 [''deny'']) s1" using body by simp
    then show thesis using guard [OF True] deniedFrom_plain by (metis s1)
  next
    case None
    show thesis
    proof (cases "verificationApp e key input s1")
      case (Inl out)
      then have "out = (s', resp)" using body None by simp
      then show thesis using guard [OF True] verificationApp_Inl [OF Inl] s1 by simp
    next
      case app: (Inr app)
      show thesis
      proof (cases "verificationLicense L e key input s1")
        case (Inl out)
        then have "out = (s', resp)" using body None app by simp
        then show thesis using guard [OF True] verificationLicense_Inl [OF Inl] s1 by simp
      next
        case l0: (Inr p)
        obtain lic0 claims where p: "p = (lic0, claims)" by (cases p)
        show thesis
        proof (cases "verificationLicenseState L e key app lic0 claims s1")
          case (Inl out)
          then have "out = (s', resp)" using body None app l0 p by simp
          then show thesis using guard [OF True] verificationLicenseState_Inl [OF Inl] s1 by simp
        next
          case lic: (Inr lic)
          have on: "verifyOnDevice L e key app lic claims input s1 = (s', resp)"
            using body None app l0 p lic by simp
          obtain s2 i where dev: "findOrCreateDeviceLocked L e input s1 = (s2, i)" by (metis prod.exhaust)
          show thesis
          proof (cases rule: verifyOnDevice_cases [OF on dev])
            case 1
            then show thesis using guard [OF True] s1 by simp
          next
            case (2 device s3 s4 risk deny)
            have "passedGuards L e key input s app lic claims device i s2 s3"
              using ch None app l0 p lic dev 2 by (auto simp: passedGuards_def s1)
            then show thesis using evaluated [OF True _ 2(3)] 2(4) by blast
          qed
        qed
      qed
    qed
  qed
qed

section \<open>When a request is allowed\<close>

text \<open>The specification reads the state before the request only: which app, license and device
  a request names, and the conditions on them.\<close>

definition appFor :: "clientVerificationInput \<Rightarrow> Server \<Rightarrow> App option" where
  "appFor input s =
     (case findAppLocked (cvi_AppID input) s of None \<Rightarrow> None | Some i \<Rightarrow> Some (data_Apps (srv_data s) ! i))"

definition claimsFor :: "golib \<Rightarrow> env \<Rightarrow> clientVerificationInput \<Rightarrow> Server \<Rightarrow> LicenseTokenClaims option" where
  "claimsFor L e input s =
     (if cvi_LicenseKey input \<noteq> [] \<or> cvi_LicenseToken input = [] then None
      else (case VerifyLicenseToken L (srv_publicKey s) (cvi_LicenseToken input) True (env_now e 56) of
              Inl err \<Rightarrow> None | Inr claims \<Rightarrow> Some claims))"

definition licenseFor :: "golib \<Rightarrow> env \<Rightarrow> clientVerificationInput \<Rightarrow> Server \<Rightarrow> License option" where
  "licenseFor L e input s =
     map_option (\<lambda>i. data_Licenses (srv_data s) ! i)
       (if cvi_LicenseKey input \<noteq> [] then findLicenseByKeyLocked L (cvi_LicenseKey input) s
        else (case claimsFor L e input s of
                None \<Rightarrow> None | Some claims \<Rightarrow> findLicenseByIDLocked (tok_LicenseID claims) s))"

text \<open>The identity and the status of the device: those of the known device with the same
  fingerprint, or those of a new one.\<close>

definition deviceFor :: "golib \<Rightarrow> env \<Rightarrow> clientVerificationInput \<Rightarrow> Server \<Rightarrow> string \<times> string" where
  "deviceFor L e input s =
     (case findDeviceByFingerprintLocked (hashString L (di_Fingerprint (cvi_Device input))) s of
        None \<Rightarrow> (newID e 11 ''dev'', ''active'')
      | Some i \<Rightarrow> (dev_ID (data_Devices (srv_data s) ! i), dev_Status (data_Devices (srv_data s) ! i)))"

definition activationAdmits :: "License \<Rightarrow> string \<Rightarrow> LicenseTokenClaims option \<Rightarrow> Server \<Rightarrow> bool" where
  "activationAdmits lic deviceID claims s \<longleftrightarrow>
     (case findActivationLocked (lic_ID lic) deviceID s of
        None \<Rightarrow> claims = None \<and> activeDeviceCountLocked (lic_ID lic) s < lic_MaxDevices lic
      | Some i \<Rightarrow> claims \<noteq> None \<longrightarrow> act_ActivationStatus (data_Activations (srv_data s) ! i) = ''active'')"

definition challengeAdmits :: "env \<Rightarrow> clientVerificationInput \<Rightarrow> Server \<Rightarrow> bool" where
  "challengeAdmits e input s \<longleftrightarrow>
     (case srv_challenges s (cvi_ChallengeID input) of
        None \<Rightarrow> False
      | Some c \<Rightarrow> env_now e 3 \<le> chg_ExpiresAt c \<and> chg_AppID c = cvi_AppID input \<and>
                 chg_InstallID c = di_InstallID (cvi_Device input) \<and> chg_Nonce c = cvi_Nonce input)"

definition licenseAdmits ::
  "env \<Rightarrow> App \<Rightarrow> License \<Rightarrow> LicenseTokenClaims option \<Rightarrow> string \<times> string \<Rightarrow> Server \<Rightarrow> bool" where
  "licenseAdmits e app lic claims device s \<longleftrightarrow>
     lic_AppID lic = app_AppKey app \<and> lic_Status lic = ''active'' \<and> env_now e 5 \<le> lic_ExpiresAt lic \<and>
     (case claims of None \<Rightarrow> True
      | Some c \<Rightarrow> tok_AppID c = app_AppKey app \<and> tok_DeviceID c = fst device) \<and>
     snd device \<noteq> ''blocked'' \<and> activationAdmits lic (fst device) claims s"

definition verificationSpec ::
  "golib \<Rightarrow> env \<Rightarrow> Request \<Rightarrow> clientVerificationInput \<Rightarrow> Server \<Rightarrow> bool" where
  "verificationSpec L e r input s \<longleftrightarrow>
     verificationAdmitted L e r input s \<and> challengeAdmits e input s \<and>
     (case (appFor input s, licenseFor L e input s) of
        (Some app, Some lic) \<Rightarrow>
          app_Status app = ''active'' \<and>
          licenseAdmits e app lic (claimsFor L e input s) (deviceFor L e input s) s \<and>
          \<not> integrityViolation L (app_AppKey app) input s
      | _ \<Rightarrow> False)"

lemma afterChallenge_sel [simp, frame_simps]:
  "srv_data (afterChallenge e input s) = srv_data s"
  "srv_store (afterChallenge e input s) = srv_store s"
  "srv_publicKey (afterChallenge e input s) = srv_publicKey s"
  "srv_privateKey (afterChallenge e input s) = srv_privateKey s"
  "srv_adminSessions (afterChallenge e input s) = srv_adminSessions s"
  "srv_rateLimits (afterChallenge e input s) = srv_rateLimits s"
  "srv_rateLimitWindow (afterChallenge e input s) = srv_rateLimitWindow s"
  "srv_rateLimitFailures (afterChallenge e input s) = srv_rateLimitFailures s"
  by (simp_all add: afterChallenge_def)

lemma challengeAdmits_iff:
  "snd (validateChallengeLocked (cvi_AppID input) (di_InstallID (cvi_Device input))
          (cvi_ChallengeID input) (cvi_Nonce input) (env_now e 3) s) = None \<longleftrightarrow> challengeAdmits e input s"
  by (auto simp: validateChallenge_ok_iff challengeAdmits_def split: option.split)

lemma verificationApp_iff:
  "verificationApp e key input (afterChallenge e input s) = Inr app \<longleftrightarrow>
   appFor input s = Some app \<and> app_Status app = ''active''"
  by (auto simp: verificationApp_def appFor_def findAppLocked_def Let_def split: option.splits)

lemma verificationLicense_iff:
  "(\<exists>lic0. verificationLicense L e key input (afterChallenge e input s) = Inr (lic0, claims) \<and>
           map_option (\<lambda>i. data_Licenses (srv_data s) ! i) lic0 = Some lic) \<longleftrightarrow>
   licenseFor L e input s = Some lic \<and> claims = claimsFor L e input s"
  by (auto simp: verificationLicense_def licenseFor_def claimsFor_def findLicenseByKeyLocked_def
      findLicenseByIDLocked_def split: sum.splits option.splits if_splits)

lemma verificationLicenseState_iff:
  "verificationLicenseState L e key app lic0 claims (afterChallenge e input s) = Inr lic \<longleftrightarrow>
   map_option (\<lambda>i. data_Licenses (srv_data s) ! i) lic0 = Some lic \<and>
   lic_AppID lic = app_AppKey app \<and> lic_Status lic = ''active'' \<and> env_now e 5 \<le> lic_ExpiresAt lic \<and>
   (case claims of None \<Rightarrow> True | Some c \<Rightarrow> tok_AppID c = app_AppKey app)"
  by (auto simp: verificationLicenseState_def Let_def split: option.splits)

lemma deviceFor_found:
  assumes "findOrCreateDeviceLocked L e input (afterChallenge e input s) = (s2, i)"
  shows "deviceFor L e input s = (dev_ID (data_Devices (srv_data s2) ! i), dev_Status (data_Devices (srv_data s2) ! i))"
  using assms
  by (auto simp: findOrCreateDeviceLocked_def deviceFor_def findDeviceByFingerprintLocked_def Let_def
      modifyAt_nth split: option.splits dest: findIdx_length)

lemma verificationDevice_iff:
  "verificationDevice e key app lic claims i s = Inr device \<longleftrightarrow>
   device = data_Devices (srv_data s) ! i \<and> dev_Status device \<noteq> ''blocked'' \<and>
   (case claims of None \<Rightarrow> True | Some c \<Rightarrow> tok_DeviceID c = dev_ID device)"
  by (auto simp: verificationDevice_def Let_def split: option.splits)

lemma verificationActivation_iff:
  "(\<exists>s3. verificationActivation e key app lic device claims s = Inr s3) \<longleftrightarrow>
   activationAdmits lic (dev_ID device) claims s"
  by (auto simp: verificationActivation_def activationAdmits_def Let_def split: option.splits)

lemma activationAdmits_cong:
  "data_Activations (srv_data s) = data_Activations (srv_data t) \<Longrightarrow>
   activationAdmits lic d claims s = activationAdmits lic d claims t"
  by (simp add: activationAdmits_def findActivationLocked_def activeDeviceCountLocked_def split: option.split)

lemma integrityViolation_cong:
  "data_Releases (srv_data s) = data_Releases (srv_data t) \<Longrightarrow>
   integrityViolation L a input s = integrityViolation L a input t"
  by (simp add: integrityViolation_def claimedRelease_def findReleaseLocked_def)

lemma verificationActivation_sel:
  assumes "verificationActivation e key app lic device claims s = Inr s'"
  shows "sameConfig s' s" "srv_challenges s' = srv_challenges s" "srv_rateLimits s' = srv_rateLimits s"
    "data_Licenses (srv_data s') = data_Licenses (srv_data s)" "data_Devices (srv_data s') = data_Devices (srv_data s)"
  using verificationActivation_Inr [OF assms] by (auto simp: sameConfig_def)

lemma passedGuards_iff:
  "(\<exists>claims device i s2 s3. passedGuards L e key input s app lic claims device i s2 s3) \<longleftrightarrow>
   challengeAdmits e input s \<and> appFor input s = Some app \<and> app_Status app = ''active'' \<and>
   licenseFor L e input s = Some lic \<and>
   licenseAdmits e app lic (claimsFor L e input s) (deviceFor L e input s) s"
    (is "?lhs \<longleftrightarrow> ?rhs")
proof -
  obtain s2 i where dev: "findOrCreateDeviceLocked L e input (afterChallenge e input s) = (s2, i)"
    by (metis prod.exhaust)
  let ?device = "data_Devices (srv_data s2) ! i"
  have acts: "activationAdmits l d c s2 = activationAdmits l d c s" for l d c
    using findOrCreateDevice_spec(6) [OF dev] by (intro activationAdmits_cong) simp
  have "?lhs \<longleftrightarrow> (\<exists>claims device s3. passedGuards L e key input s app lic claims device i s2 s3)"
    by (auto simp: passedGuards_def dev)
  also have "\<dots> \<longleftrightarrow> challengeAdmits e input s \<and> appFor input s = Some app \<and> app_Status app = ''active'' \<and>
      (\<exists>claims. (\<exists>lic0. verificationLicense L e key input (afterChallenge e input s) = Inr (lic0, claims) \<and>
                   map_option (\<lambda>i. data_Licenses (srv_data s) ! i) lic0 = Some lic) \<and>
         lic_AppID lic = app_AppKey app \<and> lic_Status lic = ''active'' \<and> env_now e 5 \<le> lic_ExpiresAt lic \<and>
         (case claims of None \<Rightarrow> True | Some c \<Rightarrow> tok_AppID c = app_AppKey app) \<and>
         dev_Status ?device \<noteq> ''blocked'' \<and>
         (case claims of None \<Rightarrow> True | Some c \<Rightarrow> tok_DeviceID c = dev_ID ?device) \<and>
         activationAdmits lic (dev_ID ?device) claims s)"
    unfolding passedGuards_def challengeAdmits_iff verificationApp_iff verificationLicenseState_iff
      verificationDevice_iff dev acts [symmetric] verificationActivation_iff [of e key app, symmetric]
    by blast
  also have "\<dots> \<longleftrightarrow> ?rhs"
    unfolding verificationLicense_iff licenseAdmits_def deviceFor_found [OF dev]
    by (auto split: option.splits)
  finally show ?thesis .
qed

text \<open>Soundness and completeness of the handler against the specification.\<close>

lemma passedGuards_same:
  assumes "passedGuards L e key input s app lic claims device i s2 s3"
  shows "data_Releases (srv_data s3) = data_Releases (srv_data s)"
    and "srv_publicKey s3 = srv_publicKey s" and "srv_privateKey s3 = srv_privateKey s"
    and "data_Settings (srv_data s3) = data_Settings (srv_data s)"
    and "srv_rateLimits s3 = srv_rateLimits s"
    and "srv_challenges s3 = srv_challenges (afterChallenge e input s)"
proof -
  have dev: "findOrCreateDeviceLocked L e input (afterChallenge e input s) = (s2, i)"
    and act: "verificationActivation e key app lic device claims s2 = Inr s3"
    using assms by (auto simp: passedGuards_def)
  note d = findOrCreateDevice_spec [OF dev] and a = verificationActivation_sel [OF act]
  show "data_Releases (srv_data s3) = data_Releases (srv_data s)"
    "srv_publicKey s3 = srv_publicKey s" "srv_privateKey s3 = srv_privateKey s"
    "data_Settings (srv_data s3) = data_Settings (srv_data s)"
    "srv_rateLimits s3 = srv_rateLimits s"
    "srv_challenges s3 = srv_challenges (afterChallenge e input s)"
    using d a by (simp_all add: sameConfig_def)
qed

lemma processClientVerification_sound:
  assumes "processClientVerification L e r input s = (s', resp)" and "verificationAllowed resp"
  shows "verificationSpec L e r input s"
proof (cases rule: processClientVerification_cases [OF assms(1)])
  case (3 app lic claims device i s2 s3 s4 risk deny)
  then have "\<not> deny" using assms(2) by auto
  then have "\<not> integrityViolation L (app_AppKey app) input s"
    using verificationIntegrity_spec(1) [OF 3(3)] passedGuards_same(1) [OF 3(2)] integrityViolation_cong
    by metis
  moreover have "challengeAdmits e input s \<and> appFor input s = Some app \<and> app_Status app = ''active'' \<and>
      licenseFor L e input s = Some lic \<and>
      licenseAdmits e app lic (claimsFor L e input s) (deviceFor L e input s) s"
    using 3(2) passedGuards_iff by blast
  ultimately show ?thesis
    using 3(1) by (simp add: verificationSpec_def)
qed (use assms in \<open>auto simp: deniedFrom_def\<close>)

lemma verifyOnDevice_evaluated:
  assumes "findOrCreateDeviceLocked L e input s1 = (s2, i)"
    and "verificationDevice e key app lic claims i s2 = Inr device"
    and "verificationActivation e key app lic device claims s2 = Inr s3"
    and "verificationIntegrity L e app lic device i input s3 = (s4, risk, False)"
  shows "verifyOnDevice L e key app lic claims input s1 =
         verificationIssue L e key app lic device risk input s4"
  using assms by (simp add: verifyOnDevice_def)

lemma processClientVerification_evaluated:
  assumes "verificationAdmitted L e r input s"
    and "passedGuards L e (clientVerificationRateLimitKey L input r) input s app lic claims device i s2 s3"
    and "verificationIntegrity L e app lic device i input s3 = (s4, risk, False)"
  shows "processClientVerification L e r input s =
         verificationIssue L e (clientVerificationRateLimitKey L input r) app lic device risk input s4"
proof -
  obtain s1 where ch: "validateChallengeLocked (cvi_AppID input) (di_InstallID (cvi_Device input))
       (cvi_ChallengeID input) (cvi_Nonce input) (env_now e 3) s = (s1, None)" "afterChallenge e input s = s1"
    using assms(2) by (auto simp: passedGuards_def afterChallenge_def prod_eq_iff)
  show ?thesis
    using assms ch by (auto simp: processClientVerification_def Let_def verificationAdmitted_def
        passedGuards_def verifyOnDevice_evaluated)
qed

lemma verificationIssue_total:
  assumes "\<And>c. \<exists>p. lib_marshal_claims L c = Inr p" and "\<And>b. \<exists>p. lib_marshal_bundle L b = Inr p"
    and "env_save e 55 = None"
  shows "verificationAllowed (snd (verificationIssue L e key app lic device risk input s))"
proof -
  have "\<exists>t. SignLicenseToken L priv c = Inr t" for priv c
    using assms(1) [of c] by (auto simp: SignLicenseToken_def Let_def)
  moreover have "\<exists>b. signedCapabilityPolicyBundleLocked L e k a l d ents x s = Inr b" for k a l d ents x s
  proof (cases "capabilityPoliciesForAppLocked a s = []")
    case False
    have "\<exists>sig. signCapabilityPolicyBundle L priv b = Inr sig" for priv b
      using assms(2) [of b] by (auto simp: signCapabilityPolicyBundle_def)
    then show ?thesis
      unfolding signedCapabilityPolicyBundleLocked_def Let_def using False
      by (metis (no_types, lifting) sum.case(2))
  qed (simp add: signedCapabilityPolicyBundleLocked_def)
  ultimately show ?thesis
    using assms(3) unfolding verificationIssue_def Let_def
    by (auto simp: saveLocked_def verificationAllowed_def split: sum.split)
       (metis Inl_Inr_False)+
qed

lemma processClientVerification_complete:
  assumes "verificationSpec L e r input s"
    and "\<And>c. \<exists>p. lib_marshal_claims L c = Inr p" and "\<And>b. \<exists>p. lib_marshal_bundle L b = Inr p"
    and "env_save e 55 = None"
  shows "verificationAllowed (snd (processClientVerification L e r input s))"
proof -
  obtain app lic where spec: "verificationAdmitted L e r input s" "challengeAdmits e input s"
      "appFor input s = Some app" "app_Status app = ''active''" "licenseFor L e input s = Some lic"
      "licenseAdmits e app lic (claimsFor L e input s) (deviceFor L e input s) s"
      "\<not> integrityViolation L (app_AppKey app) input s"
    using assms(1) by (auto simp: verificationSpec_def split: option.splits)
  then obtain claims device i s2 s3 where guards:
      "passedGuards L e (clientVerificationRateLimitKey L input r) input s app lic claims device i s2 s3"
    using passedGuards_iff by metis
  obtain s4 risk deny where ev: "verificationIntegrity L e app lic device i input s3 = (s4, risk, deny)"
    by (metis prod_cases3)
  have "\<not> deny"
    using verificationIntegrity_spec(1) [OF ev] passedGuards_same(1) [OF guards] spec(7)
      integrityViolation_cong by metis
  then have "processClientVerification L e r input s =
      verificationIssue L e (clientVerificationRateLimitKey L input r) app lic device risk input s4"
    using processClientVerification_evaluated [OF spec(1) guards] ev by simp
  then show ?thesis using verificationIssue_total assms(2-4) by metis
qed

section \<open>What a run leaves behind\<close>

lemma recordRateLimitFailure_saved:
  "srv_rateLimits (recordRateLimitFailureLocked k now (fst (saveLocked e n s))) =
   srv_rateLimits (recordRateLimitFailureLocked k now s)"
  by (rule recordRateLimitFailure_cong) simp_all

lemma verificationIntegrity_limits:
  assumes "passedGuards L e key input s app lic claims device i s2 s3"
    and "verificationIntegrity L e app lic device i input s3 = (s4, risk, deny)"
  shows "srv_rateLimits s4 = srv_rateLimits s" "srv_rateLimitWindow s4 = srv_rateLimitWindow s"
    "srv_rateLimitFailures s4 = srv_rateLimitFailures s"
    "srv_challenges s4 = srv_challenges (afterChallenge e input s)"
    "srv_privateKey s4 = srv_privateKey s" "srv_publicKey s4 = srv_publicKey s"
    "data_Settings (srv_data s4) = data_Settings (srv_data s)"
    "data_Activations (srv_data s4) = data_Activations (srv_data s3)"
proof -
  have dev: "findOrCreateDeviceLocked L e input (afterChallenge e input s) = (s2, i)"
    and act: "verificationActivation e key app lic device claims s2 = Inr s3"
    using assms by (auto simp: passedGuards_def)
  note d = findOrCreateDevice_spec [OF dev] and a = verificationActivation_sel [OF act]
    and v = verificationIntegrity_spec [OF assms(2)]
  show "srv_rateLimits s4 = srv_rateLimits s" "srv_rateLimitWindow s4 = srv_rateLimitWindow s"
    "srv_rateLimitFailures s4 = srv_rateLimitFailures s"
    "srv_challenges s4 = srv_challenges (afterChallenge e input s)"
    "srv_privateKey s4 = srv_privateKey s" "srv_publicKey s4 = srv_publicKey s"
    "data_Settings (srv_data s4) = data_Settings (srv_data s)"
    "data_Activations (srv_data s4) = data_Activations (srv_data s3)"
    using d a v by (simp_all add: sameConfig_def)
qed

lemma processClientVerification_challenges:
  assumes "processClientVerification L e r input s = (s', resp)"
  shows "srv_challenges s' =
    srv_challenges (if verificationAdmitted L e r input s then afterChallenge e input s else s)"
proof (cases rule: processClientVerification_cases [OF assms])
  case (3 app lic claims device i s2 s3 s4 risk deny)
  note lim = verificationIntegrity_limits [OF 3(2,3)]
  show ?thesis
    using 3(1,4) lim(4) verificationIssue_cases(3) by (cases deny) auto
qed (auto simp: deniedFrom_def)

lemma processClientVerification_denied:
  assumes "processClientVerification L e r input s = (s', resp)" and "verificationDenied resp"
  shows "verificationAdmitted L e r input s"
    and "srv_rateLimits s' = srv_rateLimits
      (recordRateLimitFailureLocked (clientVerificationRateLimitKey L input r) (env_now e 4) s)"
proof -
  have "verificationAdmitted L e r input s \<and> srv_rateLimits s' = srv_rateLimits
      (recordRateLimitFailureLocked (clientVerificationRateLimitKey L input r) (env_now e 4) s)"
  proof (cases rule: processClientVerification_cases [OF assms(1)])
    case 2
    then show ?thesis
      using recordRateLimitFailure_cong [of "afterChallenge e input s" s] by (simp add: deniedFrom_def)
  next
    case (3 app lic claims device i s2 s3 s4 risk deny)
    note lim = verificationIntegrity_limits [OF 3(2,3)]
    have deny
      using 3(4) assms(2) verificationIssue_cases(1) by (cases deny) auto
    then show ?thesis
      using 3(1,4) lim recordRateLimitFailure_cong [of s4 s]
      by (simp add: recordRateLimitFailure_saved)
  qed (use assms in auto)
  then show "verificationAdmitted L e r input s"
    "srv_rateLimits s' = srv_rateLimits
      (recordRateLimitFailureLocked (clientVerificationRateLimitKey L input r) (env_now e 4) s)"
    by simp_all
qed

text \<open>An allowed run: the path it took.\<close>

lemma processClientVerification_allowedE:
  assumes "processClientVerification L e r input s = (s', resp)" and "verificationAllowed resp"
  obtains app lic device i s2 s3 s4 risk where
    "appFor input s = Some app" "app_Status app = ''active''" "licenseFor L e input s = Some lic"
    "licenseAdmits e app lic (claimsFor L e input s) (deviceFor L e input s) s"
    "deviceFor L e input s = (dev_ID device, dev_Status device)"
    "passedGuards L e (clientVerificationRateLimitKey L input r) input s app lic (claimsFor L e input s) device i s2 s3"
    "verificationIntegrity L e app lic device i input s3 = (s4, risk, False)"
    "verificationIssue L e (clientVerificationRateLimitKey L input r) app lic device risk input s4 = (s', resp)"
proof (cases rule: processClientVerification_cases [OF assms(1)])
  case (3 app lic claims device i s2 s3 s4 risk deny)
  then have "\<not> deny" using assms(2) by auto
  moreover have g: "appFor input s = Some app \<and> app_Status app = ''active'' \<and>
      licenseFor L e input s = Some lic \<and>
      licenseAdmits e app lic (claimsFor L e input s) (deviceFor L e input s) s"
    using 3(2) passedGuards_iff by blast
  moreover have "claims = claimsFor L e input s"
  proof -
    obtain lic0 where l0: "verificationLicense L e (clientVerificationRateLimitKey L input r) input
        (afterChallenge e input s) = Inr (lic0, claims)"
      and st: "verificationLicenseState L e (clientVerificationRateLimitKey L input r) app lic0 claims
        (afterChallenge e input s) = Inr lic"
      using 3(2) by (auto simp: passedGuards_def)
    then have "map_option (\<lambda>i. data_Licenses (srv_data s) ! i) lic0 = Some lic"
      using verificationLicenseState_iff by metis
    then show ?thesis using l0 verificationLicense_iff by metis
  qed
  moreover have "deviceFor L e input s = (dev_ID device, dev_Status device)"
    using 3(2) by (auto simp: passedGuards_def verificationDevice_iff dest: deviceFor_found)
  ultimately show thesis using that 3 by auto
qed (use assms in \<open>auto simp: deniedFrom_def\<close>)

text \<open>A run that is not allowed leaves the limiter's table alone or records one failure; a
  denied one always records one.\<close>

definition recordedAt :: "string \<Rightarrow> time set \<Rightarrow> Server \<Rightarrow> Server \<Rightarrow> bool" where
  "recordedAt key ts s s' \<longleftrightarrow>
     (\<exists>t \<in> ts. srv_rateLimits s' = srv_rateLimits (recordRateLimitFailureLocked key t s))"

lemma processClientVerification_limiter:
  assumes "processClientVerification L e r input s = (s', resp)"
  defines "key \<equiv> clientVerificationRateLimitKey L input r"
  shows "srv_rateLimitWindow s' = srv_rateLimitWindow s \<and> srv_rateLimitFailures s' = srv_rateLimitFailures s"
    and "verificationDenied resp \<Longrightarrow> verificationAdmitted L e r input s \<and> recordedAt key {env_now e 4} s s'"
    and "\<not> verificationAllowed resp \<Longrightarrow>
      srv_rateLimits s' = srv_rateLimits s \<or> recordedAt key {env_now e 1, env_now e 4} s s'"
proof -
  show denied: "verificationAdmitted L e r input s \<and> recordedAt key {env_now e 4} s s'" if "verificationDenied resp"
    using processClientVerification_denied [OF assms(1) that] by (simp add: recordedAt_def key_def)
  have "srv_rateLimitWindow s' = srv_rateLimitWindow s \<and> srv_rateLimitFailures s' = srv_rateLimitFailures s \<and>
    (verificationAllowed resp \<or> verificationDenied resp \<or>
     srv_rateLimits s' = srv_rateLimits s \<or> recordedAt key {env_now e 1, env_now e 4} s s')"
  proof (cases rule: processClientVerification_cases [OF assms(1)])
    case 1
    then show ?thesis by (auto simp: recordedAt_def key_def)
  next
    case 2
    then show ?thesis by (simp add: deniedFrom_def)
  next
    case (3 app lic claims device i s2 s3 s4 risk deny)
    note lim = verificationIntegrity_limits [OF 3(2,3)]
    show ?thesis
    proof (cases deny)
      case False
      then have issue: "verificationIssue L e (clientVerificationRateLimitKey L input r) app lic device risk input s4
          = (s', resp)" using 3(4) by simp
      show ?thesis using verificationIssue_cases [OF issue] lim by auto
    qed (use 3(4) lim in simp)
  qed
  note all = this
  then show "srv_rateLimitWindow s' = srv_rateLimitWindow s \<and> srv_rateLimitFailures s' = srv_rateLimitFailures s"
    by blast
  show "srv_rateLimits s' = srv_rateLimits s \<or> recordedAt key {env_now e 1, env_now e 4} s s'"
    if "\<not> verificationAllowed resp"
    using all denied that by (auto simp: recordedAt_def)
qed

text \<open>A denial before the integrity evaluation leaves the activations alone.\<close>

lemma processClientVerification_denied_activations:
  assumes "processClientVerification L e r input s = (s', resp)" and "verificationDenied resp"
  shows "data_Activations (srv_data s') = data_Activations (srv_data s) \<or>
    (\<exists>risk. resp = writeDenied ''INTEGRITY_FAILED'' (utf8 [0x5b8c, 0x6574, 0x6027, 0x9a8c, 0x8bc1, 0x5931, 0x8d25]) risk)"
proof (cases rule: processClientVerification_cases [OF assms(1)])
  case (3 app lic claims device i s2 s3 s4 risk deny)
  have deny
    using 3(4) assms(2) verificationIssue_cases(1) by (cases deny) auto
  then show ?thesis using 3(4) by auto
qed (use assms in \<open>auto simp: deniedFrom_def\<close>)

end
