(* ===== verification/ClientApi.thy ===== *)
theory ClientApi
  imports Verification
begin

text \<open>
  The other client endpoints of server.go: \<open>handleChallenge\<close>, \<open>handleHeartbeat\<close>,
  \<open>handleCapabilityCheck\<close>, \<open>handleDeactivate\<close> and \<open>handlePublicKey\<close>.
\<close>

section \<open>Challenges\<close>

record ChallengeRequest =
  chq_AppID :: string
  chq_Platform :: string
  chq_InstallID :: string
  chq_AppVersion :: string

definition challengeKey :: "golib \<Rightarrow> Request \<Rightarrow> ChallengeRequest \<Rightarrow> string" where
  "challengeKey L r q = rateLimitKey L [''challenge'', chq_AppID q, chq_InstallID q, clientAddr r]"

text \<open>The handler takes the mutex twice. Its first section only reads the limiter; what follows
  works on the state the second section finds.\<close>

definition challengeGate ::
  "golib \<Rightarrow> env \<Rightarrow> Request \<Rightarrow> ChallengeRequest \<Rightarrow> Server \<Rightarrow> Response option" where
  "challengeGate L e r q s =
     (if isRateLimitedLocked (challengeKey L r q) (env_now e 0) s
      then Some (writeError 429 ''RATE_LIMITED'' ''too many failed attempts, try again later'')
      else None)"

definition newChallenge :: "env \<Rightarrow> ChallengeRequest \<Rightarrow> Challenge" where
  "newChallenge e q =
     \<lparr>chg_ID = newID e 2 ''chg'', chg_Nonce = randomString e 3 32, chg_AppID = chq_AppID q,
      chg_InstallID = chq_InstallID q, chg_ExpiresAt = env_now e 0 + minutes 5,
      chg_CreatedAt = env_now e 0\<rparr>"

definition challengeIssue ::
  "golib \<Rightarrow> env \<Rightarrow> Request \<Rightarrow> ChallengeRequest \<Rightarrow> Server \<Rightarrow> Server \<times> Response" where
  "challengeIssue L e r q s =
     (if chq_AppID q = [] \<or> chq_InstallID q = []
      then (recordRateLimitFailureLocked (challengeKey L r q) (env_now e 1) s,
            writeError 400 ''INVALID_REQUEST'' ''app_id and install_id are required'')
      else
        (let challenge = newChallenge e q;
             s1 = cleanupExpiredChallengesLocked (env_now e 0) s
         in if findAppLocked (chq_AppID q) s1 = None
            then (recordRateLimitFailureLocked (challengeKey L r q) (env_now e 4) s1,
                  writeError 404 ''APP_NOT_FOUND'' ''app not found'')
            else
              (let s2 = resetRateLimitLocked (challengeKey L r q) s1;
                   s3 = s2\<lparr>srv_challenges := (srv_challenges s2)(chg_ID challenge \<mapsto> challenge)\<rparr>
               in (s3, writeJSON 200 (PObject
                    [(''challenge_id'', PVal (GStr (chg_ID challenge))),
                     (''nonce'', PVal (GStr (chg_Nonce challenge))),
                     (''expires_at'', PVal (GTime (chg_ExpiresAt challenge))),
                     (''server_time'', PVal (GTime (env_now e 0)))])))))"

definition handleChallenge ::
  "golib \<Rightarrow> env \<Rightarrow> Request \<Rightarrow> string + ChallengeRequest \<Rightarrow> Server \<Rightarrow> Server \<times> Response" where
  "handleChallenge L e r body =
     decodeJSON body (\<lambda>q s.
       case challengeGate L e r q s of
         Some resp \<Rightarrow> (s, resp)
       | None \<Rightarrow> challengeIssue L e r q s)"

section \<open>Heartbeats\<close>

record HeartbeatRequest =
  hbq_AppID :: string
  hbq_Platform :: string
  hbq_LicenseToken :: string
  hbq_InstallID :: string
  hbq_AppVersion :: string
  hbq_Integrity :: "IntegrityRequest option"

text \<open>A save whose failure is reported to the client, followed by the given response.\<close>

definition saveThen :: "env \<Rightarrow> nat \<Rightarrow> Response \<Rightarrow> Server \<Rightarrow> Server \<times> Response" where
  "saveThen e k resp s =
     (case saveLocked e k s of
        (s1, Some err) \<Rightarrow> (s1, writeError 500 ''SAVE_FAILED'' err)
      | (s1, None) \<Rightarrow> (s1, resp))"

definition touchActivation :: "time \<Rightarrow> nat option \<Rightarrow> Server \<Rightarrow> Server" where
  "touchActivation now activation s =
     (case activation of
        None \<Rightarrow> s
      | Some i \<Rightarrow> updData (\<lambda>d. d\<lparr>data_Activations := modifyAt i (\<lambda>a. a\<lparr>act_LastVerifiedAt := now\<rparr>)
                                   (data_Activations d)\<rparr>) s)"

definition touchDevice :: "time \<Rightarrow> nat option \<Rightarrow> Server \<Rightarrow> Server" where
  "touchDevice now device s =
     (case device of
        None \<Rightarrow> s
      | Some i \<Rightarrow> updData (\<lambda>d. d\<lparr>data_Devices := modifyAt i (\<lambda>x. x\<lparr>dev_LastSeenAt := now\<rparr>)
                                   (data_Devices d)\<rparr>) s)"

definition scoreDevice :: "int \<Rightarrow> nat option \<Rightarrow> Server \<Rightarrow> Server" where
  "scoreDevice score device s =
     (case device of
        None \<Rightarrow> s
      | Some i \<Rightarrow> updData (\<lambda>d. d\<lparr>data_Devices := modifyAt i (\<lambda>x. x\<lparr>dev_RiskScore := score\<rparr>)
                                   (data_Devices d)\<rparr>) s)"

text \<open>Whether a request comes from another installation than the device of the token.\<close>

definition installMismatch :: "golib \<Rightarrow> string \<Rightarrow> nat option \<Rightarrow> Server \<Rightarrow> bool" where
  "installMismatch L installID device s \<longleftrightarrow>
     (case device of
        None \<Rightarrow> False
      | Some i \<Rightarrow> installID \<noteq> [] \<and>
          dev_InstallIDHash (data_Devices (srv_data s) ! i) \<noteq> hashString L installID)"

definition heartbeatPlatform :: "HeartbeatRequest \<Rightarrow> nat option \<Rightarrow> Server \<Rightarrow> string" where
  "heartbeatPlatform q device s =
     (let p1 = (if hbq_Platform q = []
                then (case device of None \<Rightarrow> [] | Some i \<Rightarrow> dev_Platform (data_Devices (srv_data s) ! i))
                else hbq_Platform q)
      in if p1 = [] then ''windows'' else p1)"

definition heartbeatInput :: "LicenseTokenClaims \<Rightarrow> string \<Rightarrow> IntegrityRequest \<Rightarrow> clientVerificationInput" where
  "heartbeatInput claims platform q =
     \<lparr>cvi_AppID = tok_AppID claims, cvi_Platform = platform, cvi_LicenseKey = [], cvi_LicenseToken = [],
      cvi_ChallengeID = [], cvi_Nonce = [],
      cvi_Device = \<lparr>di_InstallID = [], di_Fingerprint = [], di_OS = [], di_OSVersion = [],
                    di_MachineNameHash = []\<rparr>,
      cvi_Integrity = q, cvi_IsActivation = False\<rparr>"

definition heartbeatReport ::
  "golib \<Rightarrow> env \<Rightarrow> LicenseTokenClaims \<Rightarrow> string \<Rightarrow> nat option \<Rightarrow> IntegrityRequest \<Rightarrow> Server \<Rightarrow>
   Server \<times> RiskResult \<times> bool" where
  "heartbeatReport L e claims platform device q s =
     (case evaluateIntegrityLocked L e 5 (tok_AppID claims) (tok_DeviceID claims) (tok_LicenseID claims)
             (heartbeatInput claims platform q) s of
        (s1, risk, release, deny) \<Rightarrow>
          (let s2 = scoreDevice (rr_Score risk) device s1;
               s3 = addIntegrityReport (newIntegrityReport e 37 (tok_AppID claims) (tok_DeviceID claims)
                      platform q release) s2
           in (s3, risk, deny)))"

definition heartbeatBeat ::
  "golib \<Rightarrow> env \<Rightarrow> HeartbeatRequest \<Rightarrow> LicenseTokenClaims \<Rightarrow> Server \<Rightarrow> Server \<times> Response" where
  "heartbeatBeat L e q claims s =
     (let now = env_now e 1;
          s1 = touchActivation now (findActivationLocked (tok_LicenseID claims) (tok_DeviceID claims) s) s;
          device = findDeviceByIDLocked (tok_DeviceID claims) s1
      in if installMismatch L (hbq_InstallID q) device s1 then
           (let s2 = addRiskEventLocked e 2 (tok_AppID claims) (tok_DeviceID claims) (tok_LicenseID claims)
                       ''token_device_mismatch'' ''high'' ''deny'' (utf8 [0x5fc3, 0x8df3, 0x20, 0x74, 0x6f, 0x6b, 0x65, 0x6e, 0x20, 0x4e0e, 0x20, 0x69, 0x6e, 0x73, 0x74, 0x61, 0x6c, 0x6c, 0x5f, 0x69, 0x64, 0x20, 0x4e0d, 0x5339, 0x914d]) None s1
            in saveThen e 4 (writeError 403 ''TOKEN_DEVICE_MISMATCH'' (utf8 [0x6388, 0x6743, 0x20, 0x74, 0x6f, 0x6b, 0x65, 0x6e, 0x20, 0x4e0e, 0x5f53, 0x524d, 0x8bbe, 0x5907, 0x4e0d, 0x5339, 0x914d])) s2)
         else
           (let s2 = touchDevice now device s1;
                platform = heartbeatPlatform q device s2;
                integrity = map_option (\<lambda>i. if iq_AppVersion i = [] then i\<lparr>iq_AppVersion := hbq_AppVersion q\<rparr> else i)
                              (hbq_Integrity q);
                ok = [(''ok'', PVal (GBool True)), (''server_time'', PVal (GTime now))]
            in case integrity of
                 None \<Rightarrow> saveThen e 40 (writeJSON 200 (PObject ok)) s2
               | Some i \<Rightarrow>
                   if \<not> integrityRequestHasEvidence i then saveThen e 40 (writeJSON 200 (PObject ok)) s2
                   else (case heartbeatReport L e claims platform device i s2 of
                           (s3, risk, deny) \<Rightarrow>
                             if deny then
                               saveThen e 39 (writeJSON 200 (PObject
                                 [(''ok'', PVal (GBool False)),
                                  (''code'', PVal (GStr ''INTEGRITY_FAILED'')),
                                  (''message'', PVal (GStr (utf8 [0x5b8c, 0x6574, 0x6027, 0x9a8c, 0x8bc1, 0x5931, 0x8d25]))),
                                  (''risk'', PRisk risk), (''server_time'', PVal (GTime now))])) s3
                             else saveThen e 40 (writeJSON 200 (PObject (ok @ [(''risk'', PRisk risk)]))) s3)))"

text \<open>The checks every token endpoint starts with.\<close>

definition withToken ::
  "golib \<Rightarrow> env \<Rightarrow> string \<Rightarrow> string \<Rightarrow> (LicenseTokenClaims \<Rightarrow> Server \<Rightarrow> Server \<times> Response) \<Rightarrow> Server \<Rightarrow>
   Server \<times> Response" where
  "withToken L e token appID act s =
     (case VerifyLicenseToken L (srv_publicKey s) token False (env_now e 0) of
        Inl (err, claims) \<Rightarrow> (s, writeError 401 ''INVALID_TOKEN'' err)
      | Inr claims \<Rightarrow>
          if appID \<noteq> [] \<and> tok_AppID claims \<noteq> appID
          then (s, writeError 403 ''APP_MISMATCH'' ''token app does not match request app'')
          else act claims s)"

definition handleHeartbeat ::
  "golib \<Rightarrow> env \<Rightarrow> string + HeartbeatRequest \<Rightarrow> Server \<Rightarrow> Server \<times> Response" where
  "handleHeartbeat L e body =
     decodeJSON body (\<lambda>q. withToken L e (hbq_LicenseToken q) (hbq_AppID q) (heartbeatBeat L e q))"

section \<open>Capability checks\<close>

record CapabilityRequest =
  cpq_AppID :: string
  cpq_LicenseToken :: string
  cpq_Capability :: string

definition capabilityCheck ::
  "golib \<Rightarrow> env \<Rightarrow> string \<Rightarrow> LicenseTokenClaims \<Rightarrow> Server \<Rightarrow> Server \<times> Response" where
  "capabilityCheck L e capability claims s =
     (let inactive = (s, writeError 403 ''LICENSE_NOT_ACTIVE'' (utf8 [0x6388, 0x6743, 0x4e0d, 0x5b58, 0x5728, 0x6216, 0x4e0d, 0x53ef, 0x7528]));
          stopped = (s, writeError 403 ''ACTIVATION_NOT_ACTIVE'' (utf8 [0x6388, 0x6743, 0x6fc0, 0x6d3b, 0x4e0d, 0x5b58, 0x5728, 0x6216, 0x4e0d, 0x53ef, 0x7528]))
      in case findLicenseByIDLocked (tok_LicenseID claims) s of
           None \<Rightarrow> inactive
         | Some i \<Rightarrow>
             (let lic = data_Licenses (srv_data s) ! i in
              if lic_AppID lic \<noteq> tok_AppID claims \<or> lic_Status lic \<noteq> ''active'' then inactive
              else (case findActivationLocked (tok_LicenseID claims) (tok_DeviceID claims) s of
                      None \<Rightarrow> stopped
                    | Some j \<Rightarrow>
                        if act_ActivationStatus (data_Activations (srv_data s) ! j) \<noteq> ''active'' then stopped
                        else
                          (let policy = findCapabilityPolicyLocked (tok_AppID claims) capability s;
                               decision = capabilityDecision L policy (lic_Entitlements lic) capability;
                               answer = writeJSON 200 (PObject [(''decision'', PDecision decision)])
                           in if dec_Allowed decision then (s, answer)
                              else saveThen e 3 answer
                                     (addCapabilityDenyRiskEventLocked e 1 (tok_AppID claims)
                                        (tok_DeviceID claims) (tok_LicenseID claims) decision s)))))"

definition handleCapabilityCheck ::
  "golib \<Rightarrow> env \<Rightarrow> string + CapabilityRequest \<Rightarrow> Server \<Rightarrow> Server \<times> Response" where
  "handleCapabilityCheck L e body =
     decodeJSON body (\<lambda>q s.
       let capability = trimSpace (cpq_Capability q) in
       if cpq_LicenseToken q = [] \<or> capability = []
       then (s, writeError 400 ''INVALID_REQUEST'' ''license_token and capability are required'')
       else withToken L e (cpq_LicenseToken q) (cpq_AppID q) (capabilityCheck L e capability) s)"

section \<open>Deactivation\<close>

record DeactivateRequest =
  dcq_AppID :: string
  dcq_LicenseToken :: string
  dcq_InstallID :: string

text \<open>The activation after its deactivation; \<open>now\<close> is stored by address, once per request.\<close>

definition deactivated :: "time \<Rightarrow> Activation \<Rightarrow> Activation" where
  "deactivated now a =
     a\<lparr>act_ActivationStatus := ''deactivated'', act_LastVerifiedAt := now, act_DeactivatedAt := Some now\<rparr>"

definition deactivateDevice ::
  "golib \<Rightarrow> env \<Rightarrow> DeactivateRequest \<Rightarrow> LicenseTokenClaims \<Rightarrow> Server \<Rightarrow> Server \<times> Response" where
  "deactivateDevice L e q claims s =
     (let now = env_now e 1;
          device = findDeviceByIDLocked (tok_DeviceID claims) s
      in if installMismatch L (dcq_InstallID q) device s then
           (let s1 = addRiskEventLocked e 2 (tok_AppID claims) (tok_DeviceID claims) (tok_LicenseID claims)
                       ''token_device_mismatch'' ''high'' ''deny'' (utf8 [0x64, 0x65, 0x61, 0x63, 0x74, 0x69, 0x76, 0x61, 0x74, 0x65, 0x20, 0x74, 0x6f, 0x6b, 0x65, 0x6e, 0x20, 0x4e0e, 0x20, 0x69, 0x6e, 0x73, 0x74, 0x61, 0x6c, 0x6c, 0x5f, 0x69, 0x64, 0x20, 0x4e0d, 0x5339, 0x914d]) None s
            in saveThen e 4 (writeError 403 ''TOKEN_DEVICE_MISMATCH'' (utf8 [0x6388, 0x6743, 0x20, 0x74, 0x6f, 0x6b, 0x65, 0x6e, 0x20, 0x4e0e, 0x5f53, 0x524d, 0x8bbe, 0x5907, 0x4e0d, 0x5339, 0x914d])) s1)
         else
           (let activation = findActivationLocked (tok_LicenseID claims) (tok_DeviceID claims) s;
                wasActive = (case activation of
                          None \<Rightarrow> False
                        | Some i \<Rightarrow> act_ActivationStatus (data_Activations (srv_data s) ! i) \<noteq> ''deactivated'');
                s1 = (case activation of
                        None \<Rightarrow> s
                      | Some i \<Rightarrow>
                          if wasActive
                          then updData (\<lambda>d. d\<lparr>data_Activations := modifyAt i (deactivated now) (data_Activations d)\<rparr>) s
                          else s);
                s2 = touchDevice now device s1
            in saveThen e 5 (writeJSON 200 (PObject
                 [(''ok'', PVal (GBool True)), (''deactivated'', PVal (GBool wasActive)),
                  (''server_time'', PVal (GTime now))])) s2))"

definition handleDeactivate ::
  "golib \<Rightarrow> env \<Rightarrow> string + DeactivateRequest \<Rightarrow> Server \<Rightarrow> Server \<times> Response" where
  "handleDeactivate L e body =
     decodeJSON body (\<lambda>q. withToken L e (dcq_LicenseToken q) (dcq_AppID q) (deactivateDevice L e q))"

definition handlePublicKey :: "Server \<Rightarrow> Server \<times> Response" where
  "handlePublicKey s =
     (s, writeJSON 200 (PObject
           [(''alg'', PVal (GStr ''EdDSA'')), (''key_type'', PVal (GStr ''Ed25519'')),
            (''public_key'', PVal (GStr (publicKeyString s)))]))"

section \<open>Lemmas\<close>

lemma saveThen_sel [simp, frame_simps]:
  "srv_data (fst (saveThen e k resp s)) = srv_data s"
  "srv_challenges (fst (saveThen e k resp s)) = srv_challenges s"
  "srv_adminSessions (fst (saveThen e k resp s)) = srv_adminSessions s"
  "srv_rateLimits (fst (saveThen e k resp s)) = srv_rateLimits s"
  "srv_publicKey (fst (saveThen e k resp s)) = srv_publicKey s"
  "srv_privateKey (fst (saveThen e k resp s)) = srv_privateKey s"
  by (auto simp: saveThen_def saveLocked_def split: option.split)

lemma saveThen_snd:
  "snd (saveThen e k resp s) = (case env_save e k of None \<Rightarrow> resp | Some (err, left) \<Rightarrow> writeError 500 ''SAVE_FAILED'' err)"
  by (auto simp: saveThen_def saveLocked_def split: option.split)

lemma touchDevice_sel [simp, frame_simps]:
  "srv_challenges (touchDevice now device s) = srv_challenges s"
  "data_Activations (srv_data (touchDevice now device s)) = data_Activations (srv_data s)"
  "data_Licenses (srv_data (touchDevice now device s)) = data_Licenses (srv_data s)"
  "data_Releases (srv_data (touchDevice now device s)) = data_Releases (srv_data s)"
  "map dev_ID (data_Devices (srv_data (touchDevice now device s))) = map dev_ID (data_Devices (srv_data s))"
  "map dev_Status (data_Devices (srv_data (touchDevice now device s))) = map dev_Status (data_Devices (srv_data s))"
  by (auto simp: touchDevice_def map_modifyAt split: option.split)

end
