(* ===== verification/AdminAuth.thy ===== *)
theory AdminAuth
  imports AuditLog RateLimit ClientApi
begin

text \<open>
  Administrators (server.go): login with its rate limiter, sessions and their expiry, logout
  and the change of a password. A login takes the mutex two or three times; each section is a
  definition of its own, so that what happens between them can be stated.
\<close>

section \<open>Login\<close>

record LoginRequest =
  lgq_Account :: string
  lgq_Password :: string

definition loginAccount :: "golib \<Rightarrow> LoginRequest \<Rightarrow> string" where
  "loginAccount L q = toLower L (trimSpace (lgq_Account q))"

definition loginKey :: "golib \<Rightarrow> Request \<Rightarrow> LoginRequest \<Rightarrow> string" where
  "loginKey L r q = rateLimitKey L [''admin_login'', loginAccount L q, clientAddr r]"

text \<open>The first section: the limiter, and a copy of the administrator.\<close>

definition loginLookup ::
  "golib \<Rightarrow> env \<Rightarrow> Request \<Rightarrow> LoginRequest \<Rightarrow> Server \<Rightarrow> Response + Admin option" where
  "loginLookup L e r q s =
     (if isRateLimitedLocked (loginKey L r q) (env_now e 0) s
      then Inl (writeError 429 ''RATE_LIMITED'' ''too many failed attempts, try again later'')
      else Inr (map_option (\<lambda>i. data_Admins (srv_data s) ! i)
                  (findAdminByAccountLocked L (loginAccount L q) s)))"

definition loginAccepted :: "golib \<Rightarrow> LoginRequest \<Rightarrow> Admin option \<Rightarrow> bool" where
  "loginAccepted L q admin \<longleftrightarrow>
     (case admin of
        None \<Rightarrow> False
      | Some a \<Rightarrow> adm_Status a = ''active'' \<and> lib_bcrypt_compare L (adm_PasswordHash a) (lgq_Password q))"

definition loginReject :: "golib \<Rightarrow> env \<Rightarrow> Request \<Rightarrow> LoginRequest \<Rightarrow> Server \<Rightarrow> Server \<times> Response" where
  "loginReject L e r q s =
     (recordRateLimitFailureLocked (loginKey L r q) (env_now e 1) s,
      writeError 401 ''INVALID_CREDENTIALS'' (utf8 [0x8d26, 0x53f7, 0x6216, 0x5bc6, 0x7801, 0x9519, 0x8bef]))"

definition loginToken :: "env \<Rightarrow> string" where
  "loginToken e = ''adm_'' @ randomString e 2 32"

definition loginExpiry :: "env \<Rightarrow> time" where
  "loginExpiry e = env_now e 3 + 12 * 3600 * 1000000000"

definition loginSession :: "golib \<Rightarrow> env \<Rightarrow> Request \<Rightarrow> LoginRequest \<Rightarrow> Admin \<Rightarrow> Server \<Rightarrow> Server \<times> Response" where
  "loginSession L e r q admin s =
     (let s1 = resetRateLimitLocked (loginKey L r q) s;
          s2 = s1\<lparr>srv_adminSessions := (srv_adminSessions s1)
                 (loginToken e \<mapsto> \<lparr>ses_AdminID = adm_ID admin, ses_ExpiresAt = loginExpiry e\<rparr>)\<rparr>;
          s3 = auditLocked L e 4 (adm_ID admin) ''admin.login'' ''admin'' (adm_ID admin) r None s2
      in (s3, writeJSON 200 (PObject
            [(''admin_token'', PVal (GStr (loginToken e))),
             (''expires_at'', PVal (GTime (loginExpiry e))),
             (''admin'', PVal (GMap [(''id'', GStr (adm_ID admin)), (''account'', GStr (adm_Account admin)),
                                     (''name'', GStr (adm_Name admin))]))])))"

definition handleAdminLogin ::
  "golib \<Rightarrow> env \<Rightarrow> Request \<Rightarrow> string + LoginRequest \<Rightarrow> Server \<Rightarrow> Server \<times> Response" where
  "handleAdminLogin L e r body =
     decodeJSON body (\<lambda>q s.
       case loginLookup L e r q s of
         Inl resp \<Rightarrow> (s, resp)
       | Inr admin \<Rightarrow>
           (case admin of
              None \<Rightarrow> loginReject L e r q s
            | Some a \<Rightarrow> if \<not> loginAccepted L q (Some a) then loginReject L e r q s
                        else loginSession L e r q a s))"

section \<open>Sessions\<close>

text \<open>The identity of the caller, or the response that turns it away. An expired session is
  removed.\<close>

definition requireAdmin :: "env \<Rightarrow> Request \<Rightarrow> Server \<Rightarrow> Server \<times> (Response + string)" where
  "requireAdmin e r s =
     (let token = bearerToken r in
      if token = [] then (s, Inl (writeError 401 ''UNAUTHORIZED'' ''missing admin token''))
      else (case srv_adminSessions s token of
              None \<Rightarrow> (s, Inl (writeError 401 ''UNAUTHORIZED'' ''invalid admin token''))
            | Some session \<Rightarrow>
                if env_now e 0 > ses_ExpiresAt session
                then (s\<lparr>srv_adminSessions := (srv_adminSessions s)(token := None)\<rparr>,
                      Inl (writeError 401 ''UNAUTHORIZED'' ''invalid admin token''))
                else (s, Inr (ses_AdminID session))))"

definition okResponse :: Response where
  "okResponse = writeJSON 200 (PObject [(''ok'', PVal (GBool True))])"

definition handleAdminLogout :: "golib \<Rightarrow> env \<Rightarrow> Request \<Rightarrow> string \<Rightarrow> Server \<Rightarrow> Server \<times> Response" where
  "handleAdminLogout L e r adminID s =
     (let token = bearerToken r;
          s1 = s\<lparr>srv_adminSessions := (srv_adminSessions s)(token := None)\<rparr>;
          s2 = auditLocked L e 1 adminID ''admin.logout'' ''admin'' adminID r None s1
      in saveThen e 3 okResponse s2)"

section \<open>Changing a password\<close>

record PasswordRequest =
  pwq_CurrentPassword :: string
  pwq_NewPassword :: string

definition handleAdminPasswordChange ::
  "golib \<Rightarrow> env \<Rightarrow> Request \<Rightarrow> string \<Rightarrow> string + PasswordRequest \<Rightarrow> Server \<Rightarrow> Server \<times> Response" where
  "handleAdminPasswordChange L e r adminID body =
     decodeJSON body (\<lambda>q s.
       if length (pwq_NewPassword q) < 8 then (s, writeError 400 ''WEAK_PASSWORD'' (utf8 [0x65b0, 0x5bc6, 0x7801, 0x81f3, 0x5c11, 0x9700, 0x8981, 0x20, 0x38, 0x20, 0x4e2a, 0x5b57, 0x7b26]))
       else
         (case findAdminByIDLocked adminID s of
            None \<Rightarrow> (s, writeError 401 ''UNAUTHORIZED'' ''admin not found'')
          | Some i \<Rightarrow>
              (let admin = data_Admins (srv_data s) ! i in
               if adm_Status admin \<noteq> ''active'' then (s, writeError 401 ''UNAUTHORIZED'' ''admin not found'')
               else if \<not> lib_bcrypt_compare L (adm_PasswordHash admin) (pwq_CurrentPassword q)
               then (s, writeError 401 ''INVALID_CURRENT_PASSWORD'' (utf8 [0x5f53, 0x524d, 0x5bc6, 0x7801, 0x9519, 0x8bef]))
               else (case lib_bcrypt_generate L (randBytes e 1 16) (pwq_NewPassword q) of
                       Inl err \<Rightarrow> (s, writeError 500 ''PASSWORD_HASH_FAILED'' err)
                     | Inr hash \<Rightarrow>
                         (let s1 = updData (\<lambda>d. d\<lparr>data_Admins := modifyAt i
                                     (\<lambda>a. a\<lparr>adm_PasswordHash := hash, adm_UpdatedAt := env_now e 2\<rparr>)
                                     (data_Admins d)\<rparr>) s;
                              s2 = invalidateAdminSessionsExceptLocked adminID (bearerToken r) s1;
                              s3 = auditLocked L e 3 adminID ''admin.password.update'' ''admin'' adminID r None s2
                          in saveThen e 5 okResponse s3)))))"

text \<open>\<open>GET /admin/me\<close>.\<close>

definition handleAdminMe :: "string \<Rightarrow> Server \<Rightarrow> Server \<times> Response" where
  "handleAdminMe adminID s =
     (case findAdminByIDLocked adminID s of
        None \<Rightarrow> (s, writeError 401 ''UNAUTHORIZED'' ''admin not found'')
      | Some i \<Rightarrow>
          (let admin = data_Admins (srv_data s) ! i in
           (s, writeJSON 200 (PVal (GMap [(''id'', GStr (adm_ID admin)), (''account'', GStr (adm_Account admin)),
                                          (''name'', GStr (adm_Name admin))])))))"

end
