(* ===== verification/AdminApps.thy ===== *)
theory AdminApps
  imports AdminAuth
begin

text \<open>
  Administration of applications (server.go): creating an app with its first release and SDK
  key, releases, capability policies, the default policies and the rotation of SDK keys.
\<close>

section \<open>Apps\<close>

record AppRequest =
  apq_AppKey :: string
  apq_Name :: string
  apq_Description :: string
  apq_OwnerTeam :: string
  apq_Platform :: string
  apq_Version :: string

definition orDefault :: "string \<Rightarrow> string \<Rightarrow> string" where
  "orDefault default0 v = (if v = [] then default0 else v)"

definition newApp :: "env \<Rightarrow> AppRequest \<Rightarrow> App" where
  "newApp e q =
     \<lparr>app_ID = newID e 2 ''app'', app_AppKey = apq_AppKey q, app_Name = apq_Name q,
      app_Description = apq_Description q, app_OwnerTeam = apq_OwnerTeam q, app_Status = ''active'',
      app_CreatedAt = env_now e 1, app_UpdatedAt = env_now e 1\<rparr>"

definition firstRelease :: "env \<Rightarrow> AppRequest \<Rightarrow> AppRelease" where
  "firstRelease e q =
     \<lparr>rel_ID = newID e 3 ''rel'', rel_AppID = apq_AppKey q, rel_Platform = orDefault ''windows'' (apq_Platform q),
      rel_Version = orDefault ''1.0.0'' (apq_Version q), rel_BuildNumber = 1, rel_Channel = ''production'',
      rel_Status = ''active'', rel_SignerThumbprint = [], rel_MainBinaryHash = [],
      rel_ResourceManifestHash = [], rel_BusinessManifestSHA256 = [], rel_ProtectedDBSchemaHash = [],
      rel_ProtectedDBTablesHash = [], rel_AssetsManifestSHA256 = [], rel_WorkflowManifestSHA256 = [],
      rel_DownloadURL = [], rel_PackageSHA256 = [], rel_Mandatory = False, rel_MinSupportedVersion = [],
      rel_RolloutPercent = 100, rel_ReleaseNotes = [], rel_CreatedAt = env_now e 1\<rparr>"

definition methodNotAllowed :: Response where
  "methodNotAllowed = writeError 405 ''METHOD_NOT_ALLOWED'' ''method not allowed''"

definition appNotFound :: Response where
  "appNotFound = writeError 404 ''APP_NOT_FOUND'' ''app not found''"

definition createApp ::
  "golib \<Rightarrow> env \<Rightarrow> Request \<Rightarrow> string \<Rightarrow> AppRequest \<Rightarrow> Server \<Rightarrow> Server \<times> Response" where
  "createApp L e r adminID q s =
     (if apq_AppKey q = [] \<or> apq_Name q = []
      then (s, writeError 400 ''INVALID_REQUEST'' ''app_key and name are required'')
      else
        (let app = newApp e q; release = firstRelease e q in
         if findAppLocked (apq_AppKey q) s \<noteq> None
         then (s, writeError 409 ''APP_EXISTS'' ''app_key already exists'')
         else
           (let s1 = updData (\<lambda>d. d\<lparr>data_Apps := data_Apps d @ [app],
                                     data_Releases := data_Releases d @ [release]\<rparr>) s;
                (sdkKey, sdkSecret) = newSDKKey L e 4 (app_AppKey app) (publicKeyString s1) (env_now e 1) False;
                s2 = updData (\<lambda>d. d\<lparr>data_SDKKeys := data_SDKKeys d @ [sdkKey]\<rparr>) s1;
                s3 = (if isVisionFlowAppKey L (app_AppKey app)
                      then fst (ensureDefaultVisionFlowPoliciesLocked (app_AppKey app) (env_now e 1) s2) else s2);
                s4 = auditLocked L e 6 adminID ''app.create'' ''app'' (app_AppKey app) r
                       (Some [(''name'', GStr (app_Name app))]) s3
            in saveThen e 8 (writeJSON 201 (PObject
                 [(''app'', PApp app), (''release'', PRelease release),
                  (''sdk_key'', PSDKKey (sdkKeyView sdkKey)), (''sdk_secret'', PVal (GStr sdkSecret))])) s4)))"

definition handleApps ::
  "golib \<Rightarrow> env \<Rightarrow> Request \<Rightarrow> string \<Rightarrow> string + AppRequest \<Rightarrow> Server \<Rightarrow> Server \<times> Response" where
  "handleApps L e r adminID body s =
     (if req_Method r = ''GET'' then (s, writeJSON 200 (PObject [(''items'', PApps (data_Apps (srv_data s)))]))
      else if req_Method r = ''POST'' then decodeJSON body (createApp L e r adminID) s
      else (s, methodNotAllowed))"

section \<open>Releases\<close>

record ReleaseRequest =
  rlq_Release :: AppRelease
  rlq_ValidateIntegrityFields :: bool

definition preparedRelease :: "env \<Rightarrow> string \<Rightarrow> AppRelease \<Rightarrow> AppRelease" where
  "preparedRelease e appID q =
     (let r1 = q\<lparr>rel_ID := newID e 1 ''rel'', rel_AppID := appID\<rparr>;
          r2 = (if rel_Channel r1 = [] then r1\<lparr>rel_Channel := ''production''\<rparr> else r1);
          r3 = (if rel_Status r2 = [] then r2\<lparr>rel_Status := ''active''\<rparr> else r2);
          r4 = (if rel_RolloutPercent r3 = 0 then r3\<lparr>rel_RolloutPercent := 100\<rparr> else r3);
          r5 = r4\<lparr>rel_RolloutPercent := clampPercent (rel_RolloutPercent r4)\<rparr>
      in r5\<lparr>rel_CreatedAt := env_now e 2\<rparr>)"

definition missingFields :: "AppRelease \<Rightarrow> Response" where
  "missingFields release =
     writeError 400 ''RELEASE_FIELDS_MISSING''
       (''missing release fields: '' @ joinWith '', '' (missingReleaseIntegrityFields release))"

definition createRelease ::
  "golib \<Rightarrow> env \<Rightarrow> Request \<Rightarrow> string \<Rightarrow> string \<Rightarrow> ReleaseRequest \<Rightarrow> Server \<Rightarrow> Server \<times> Response" where
  "createRelease L e r appID adminID q s =
     (if rel_Version (rlq_Release q) = [] \<or> rel_Platform (rlq_Release q) = []
      then (s, writeError 400 ''INVALID_REQUEST'' ''version and platform are required'')
      else
        (let release = preparedRelease e appID (rlq_Release q) in
         if rlq_ValidateIntegrityFields q \<and> missingReleaseIntegrityFields release \<noteq> []
         then (s, missingFields release)
         else if findAppLocked appID s = None then (s, appNotFound)
         else
           (let s1 = updData (\<lambda>d. d\<lparr>data_Releases := data_Releases d @ [release]\<rparr>) s;
                s2 = auditLocked L e 3 adminID ''release.create'' ''app'' appID r
                       (Some [(''version'', GStr (rel_Version release))]) s1
            in saveThen e 5 (writeJSON 201 (PObject [(''release'', PRelease release)])) s2)))"

record ReleasePatch =
  rpq_Status :: "string option"
  rpq_Mandatory :: "bool option"
  rpq_RolloutPercent :: "int option"
  rpq_DownloadURL :: "string option"
  rpq_PackageSHA256 :: "string option"
  rpq_ReleaseNotes :: "string option"
  rpq_SignerThumbprint :: "string option"
  rpq_MainBinaryHash :: "string option"
  rpq_MinSupportedVersion :: "string option"
  rpq_ResourceManifestHash :: "string option"
  rpq_BusinessManifestSHA256 :: "string option"
  rpq_ProtectedDBSchemaHash :: "string option"
  rpq_ProtectedDBTablesHash :: "string option"
  rpq_AssetsManifestSHA256 :: "string option"
  rpq_WorkflowManifestSHA256 :: "string option"
  rpq_ValidateIntegrityFields :: "bool option"

text \<open>\<open>if req.X != nil { updated.X = *req.X }\<close>.\<close>

definition given :: "'a option \<Rightarrow> 'a \<Rightarrow> 'a" where
  "given q old = (case q of None \<Rightarrow> old | Some v \<Rightarrow> v)"

definition patchedRelease :: "ReleasePatch \<Rightarrow> AppRelease \<Rightarrow> AppRelease" where
  "patchedRelease q r =
     r\<lparr>rel_Status := given (rpq_Status q) (rel_Status r),
       rel_Mandatory := given (rpq_Mandatory q) (rel_Mandatory r),
       rel_RolloutPercent := given (map_option clampPercent (rpq_RolloutPercent q)) (rel_RolloutPercent r),
       rel_DownloadURL := given (rpq_DownloadURL q) (rel_DownloadURL r),
       rel_PackageSHA256 := given (rpq_PackageSHA256 q) (rel_PackageSHA256 r),
       rel_ReleaseNotes := given (rpq_ReleaseNotes q) (rel_ReleaseNotes r),
       rel_SignerThumbprint := given (rpq_SignerThumbprint q) (rel_SignerThumbprint r),
       rel_MainBinaryHash := given (rpq_MainBinaryHash q) (rel_MainBinaryHash r),
       rel_MinSupportedVersion := given (rpq_MinSupportedVersion q) (rel_MinSupportedVersion r),
       rel_ResourceManifestHash := given (rpq_ResourceManifestHash q) (rel_ResourceManifestHash r),
       rel_BusinessManifestSHA256 := given (rpq_BusinessManifestSHA256 q) (rel_BusinessManifestSHA256 r),
       rel_ProtectedDBSchemaHash := given (rpq_ProtectedDBSchemaHash q) (rel_ProtectedDBSchemaHash r),
       rel_ProtectedDBTablesHash := given (rpq_ProtectedDBTablesHash q) (rel_ProtectedDBTablesHash r),
       rel_AssetsManifestSHA256 := given (rpq_AssetsManifestSHA256 q) (rel_AssetsManifestSHA256 r),
       rel_WorkflowManifestSHA256 := given (rpq_WorkflowManifestSHA256 q) (rel_WorkflowManifestSHA256 r)\<rparr>"

definition patchRelease ::
  "golib \<Rightarrow> env \<Rightarrow> Request \<Rightarrow> string \<Rightarrow> string \<Rightarrow> string \<Rightarrow> ReleasePatch \<Rightarrow> Server \<Rightarrow> Server \<times> Response" where
  "patchRelease L e r appID adminID releaseID q s =
     (case findReleaseByIDLocked appID releaseID s of
        None \<Rightarrow> (s, writeError 404 ''RELEASE_NOT_FOUND'' ''release not found'')
      | Some i \<Rightarrow>
          (let updated = patchedRelease q (data_Releases (srv_data s) ! i) in
           if rpq_ValidateIntegrityFields q = Some True \<and> missingReleaseIntegrityFields updated \<noteq> []
           then (s, missingFields updated)
           else
             (let s1 = updData (\<lambda>d. d\<lparr>data_Releases := modifyAt i (\<lambda>old. updated) (data_Releases d)\<rparr>) s;
                  s2 = auditLocked L e 1 adminID ''release.update'' ''release'' releaseID r
                         (Some [(''app_id'', GStr appID)]) s1
              in saveThen e 3 (writeJSON 200 (PObject [(''release'', PRelease updated)])) s2)))"

section \<open>Capability policies\<close>

text \<open>The items are normalised one by one; the first error ends the request.\<close>

fun normalizePolicies ::
  "golib \<Rightarrow> string \<Rightarrow> time \<Rightarrow> CapabilityPolicy list \<Rightarrow> string + CapabilityPolicy list" where
  "normalizePolicies L appID now [] = Inr []"
| "normalizePolicies L appID now (item # items) =
     (case normalizeCapabilityPolicy L appID item now of
        Inl err \<Rightarrow> Inl err
      | Inr policy \<Rightarrow>
          (case normalizePolicies L appID now items of
             Inl err \<Rightarrow> Inl err
           | Inr policies \<Rightarrow> Inr (policy # policies)))"

definition putPolicies ::
  "golib \<Rightarrow> env \<Rightarrow> Request \<Rightarrow> string \<Rightarrow> string \<Rightarrow> CapabilityPolicy list \<Rightarrow> Server \<Rightarrow> Server \<times> Response" where
  "putPolicies L e r appID adminID reqItems s =
     (if reqItems = [] then (s, writeError 400 ''INVALID_REQUEST'' ''items are required'')
      else (case normalizePolicies L appID (env_now e 1) reqItems of
              Inl err \<Rightarrow> (s, writeError 400 ''INVALID_POLICY'' err)
            | Inr policies \<Rightarrow>
                if findAppLocked appID s = None then (s, appNotFound)
                else
                  (let s1 = upsertCapabilityPoliciesLocked L policies s;
                       stored = capabilityPoliciesForAppLocked appID s1;
                       s2 = auditLocked L e 2 adminID ''capability_policy.upsert'' ''app'' appID r
                              (Some [(''count'', GInt (int (length policies)))]) s1
                   in saveThen e 4 (writeJSON 200 (PObject [(''items'', PPolicies stored)])) s2)))"

definition handleCapabilityPolicies ::
  "golib \<Rightarrow> env \<Rightarrow> Request \<Rightarrow> string \<Rightarrow> string \<Rightarrow> string + CapabilityPolicy list \<Rightarrow> Server \<Rightarrow> Server \<times> Response" where
  "handleCapabilityPolicies L e r appID adminID body s =
     (if req_Method r = ''GET'' then
        (if findAppLocked appID s = None then (s, appNotFound)
         else (s, writeJSON 200 (PObject [(''items'', PPolicies (capabilityPoliciesForAppLocked appID s))])))
      else if req_Method r = ''PUT'' \<or> req_Method r = ''PATCH''
      then decodeJSON body (putPolicies L e r appID adminID) s
      else (s, methodNotAllowed))"

definition handleVisionFlowCapabilityDefaults ::
  "golib \<Rightarrow> env \<Rightarrow> Request \<Rightarrow> string \<Rightarrow> string \<Rightarrow> Server \<Rightarrow> Server \<times> Response" where
  "handleVisionFlowCapabilityDefaults L e r appID adminID s =
     (if findAppLocked appID s = None then (s, appNotFound)
      else
        (let (s1, added) = ensureDefaultVisionFlowPoliciesLocked appID (env_now e 1) s;
             stored = capabilityPoliciesForAppLocked appID s1;
             s2 = auditLocked L e 2 adminID ''capability_policy.seed_visionflow_defaults'' ''app'' appID r
                    (Some [(''added'', GInt (int added))]) s1
         in saveThen e 4 (writeJSON 200 (PObject
              [(''items'', PPolicies stored), (''added'', PVal (GInt (int added)))])) s2))"

section \<open>SDK keys\<close>

definition retireKey :: "string \<Rightarrow> time \<Rightarrow> SDKKey \<Rightarrow> SDKKey" where
  "retireKey appID now k =
     (if sdk_AppID k = appID \<and> sdk_Status k = ''active''
      then k\<lparr>sdk_Status := ''rotated'', sdk_RotatedAt := Some now\<rparr> else k)"

definition handleSDKKeyRotate ::
  "golib \<Rightarrow> env \<Rightarrow> Request \<Rightarrow> string \<Rightarrow> string \<Rightarrow> Server \<Rightarrow> Server \<times> Response" where
  "handleSDKKeyRotate L e r appID adminID s =
     (if req_Method r \<noteq> ''POST'' then (s, methodNotAllowed)
      else if findAppLocked appID s = None then (s, appNotFound)
      else
        (let s1 = updData (\<lambda>d. d\<lparr>data_SDKKeys := map (retireKey appID (env_now e 1)) (data_SDKKeys d)\<rparr>) s;
             (sdkKey, sdkSecret) = newSDKKey L e 2 appID (publicKeyString s1) (env_now e 1) True;
             s2 = updData (\<lambda>d. d\<lparr>data_SDKKeys := data_SDKKeys d @ [sdkKey]\<rparr>) s1;
             s3 = auditLocked L e 4 adminID ''sdk_key.rotate'' ''app'' appID r
                    (Some [(''key_prefix'', GStr (sdk_KeyPrefix sdkKey))]) s2
         in saveThen e 6 (writeJSON 200 (PObject
              [(''sdk_key'', PSDKKey (sdkKeyView sdkKey)), (''sdk_secret'', PVal (GStr sdkSecret))])) s3))"

section \<open>The detail page\<close>

definition appDetail :: "string \<Rightarrow> Server \<Rightarrow> Server \<times> Response" where
  "appDetail appID s =
     (case findAppLocked appID s of
        None \<Rightarrow> (s, appNotFound)
      | Some i \<Rightarrow>
          (s, writeJSON 200 (PObject
             [(''app'', PApp (data_Apps (srv_data s) ! i)),
              (''releases'', PReleases (releasesForAppLocked appID s)),
              (''licenses'', PLicenses (licensesForAppLocked appID s)),
              (''sdk_keys'', PSDKKeys (sdkKeyViewsForAppLocked appID s)),
              (''capability_policies'', PPolicies (capabilityPoliciesForAppLocked appID s))])))"

end
