(* ===== verification/AdminLicenses.thy ===== *)
theory AdminLicenses
  imports AdminApps
begin

text \<open>
  Administration of licenses, devices, risk events and settings, the audit log and the
  dashboard (server.go).
\<close>

section \<open>Dates\<close>

text \<open>\<open>time.Parse("2006-01-02", s)\<close>: four, two and two digits, a month of the year and a day of
  that month; the result is midnight UTC.\<close>

definition daysFromCivil :: "int \<Rightarrow> int \<Rightarrow> int \<Rightarrow> int" where
  "daysFromCivil y m d =
     (let y' = (if m \<le> 2 then y - 1 else y);
          era = y' div 400;
          yoe = y' mod 400;
          mp = (if m > 2 then m - 3 else m + 9);
          doy = (153 * mp + 2) div 5 + d - 1;
          doe = yoe * 365 + yoe div 4 - yoe div 100 + doy
      in era * 146097 + doe - 719468)"

definition leapYear :: "int \<Rightarrow> bool" where
  "leapYear y \<longleftrightarrow> y mod 4 = 0 \<and> (y mod 100 \<noteq> 0 \<or> y mod 400 = 0)"

definition daysIn :: "int \<Rightarrow> int \<Rightarrow> int" where
  "daysIn y m =
     (if m = 2 then (if leapYear y then 29 else 28)
      else if m = 4 \<or> m = 6 \<or> m = 9 \<or> m = 11 then 30 else 31)"

definition readDigits :: "string \<Rightarrow> int option" where
  "readDigits s =
     (if list_all isDigit s then Some (foldl (\<lambda>n c. n * 10 + int (digitValue c)) 0 s) else None)"

definition parseDate :: "string \<Rightarrow> time option" where
  "parseDate s =
     (if length s = 10 \<and> s ! 4 = CHR ''-'' \<and> s ! 7 = CHR ''-'' then
        (case (readDigits (take 4 s), readDigits (take 2 (drop 5 s)), readDigits (drop 8 s)) of
           (Some y, Some m, Some d) \<Rightarrow>
             if 1 \<le> m \<and> m \<le> 12 \<and> 1 \<le> d \<and> d \<le> daysIn y m
             then Some (daysFromCivil y m d * 86400 * 1000000000) else None
         | _ \<Rightarrow> None)
      else None)"

lemma parseDate_example:
  "parseDate ''2026-06-15'' = Some (1781481600 * 1000000000) \<and> parseDate ''2025-02-29'' = None \<and>
   civilFromDays (daysFromCivil 2024 2 29) = (2024, 2, 29)"
  by code_simp

section \<open>Licenses\<close>

record LicenseRequest =
  lcq_AppID :: string
  lcq_PlanName :: string
  lcq_OwnerRef :: string
  lcq_MaxDevices :: int
  lcq_ExpiresAt :: string
  lcq_Entitlements :: "string list"

definition DemoAppID :: string where
  "DemoAppID = ''app_nax_desktop_prod''"

definition newLicense ::
  "golib \<Rightarrow> env \<Rightarrow> SystemSettings \<Rightarrow> LicenseRequest \<Rightarrow> time \<Rightarrow> string \<Rightarrow> License" where
  "newLicense L e settings q expiresAt key =
     \<lparr>lic_ID = newID e 7 ''lic'', lic_LicenseKeyHash = hashString L key,
      lic_LicenseKeyPrefix = licensePrefix key, lic_AppID = orDefault DemoAppID (lcq_AppID q),
      lic_PlanName = orDefault ''Pro'' (lcq_PlanName q), lic_OwnerType = ''user'',
      lic_OwnerRef = lcq_OwnerRef q,
      lic_MaxDevices = (if lcq_MaxDevices q \<le> 0 then set_DefaultMaxDevices settings else lcq_MaxDevices q),
      lic_Entitlements = (if lcq_Entitlements q = [] then [''feature.pro'', ''export.enabled'']
                          else lcq_Entitlements q),
      lic_ExpiresAt = expiresAt, lic_Status = ''active'', lic_CreatedAt = env_now e 6,
      lic_UpdatedAt = env_now e 6\<rparr>"

definition createLicense ::
  "golib \<Rightarrow> env \<Rightarrow> Request \<Rightarrow> string \<Rightarrow> LicenseRequest \<Rightarrow> Server \<Rightarrow> Server \<times> Response" where
  "createLicense L e r adminID q s =
     (let settings = settingsLocked (env_now e 1) s;
          expires = (if lcq_ExpiresAt q = [] then Some (env_now e 2 + days (set_DefaultLicenseDays settings))
                     else parseDate (lcq_ExpiresAt q))
      in case expires of
           None \<Rightarrow> (s, writeError 400 ''INVALID_EXPIRES_AT'' ''expires_at must be YYYY-MM-DD'')
         | Some expiresAt \<Rightarrow>
             (let key = generateLicenseKey L e 3;
                  lic = newLicense L e settings q expiresAt key
              in if findAppLocked (lic_AppID lic) s = None then (s, appNotFound)
                 else
                   (let s1 = updData (\<lambda>d. d\<lparr>data_Licenses := data_Licenses d @ [lic]\<rparr>) s;
                        s2 = auditLocked L e 8 adminID ''license.create'' ''license'' (lic_ID lic) r
                               (Some [(''app_id'', GStr (lic_AppID lic))]) s1
                    in saveThen e 10 (writeJSON 201 (PObject
                         [(''license'', PLicense lic), (''license_key'', PVal (GStr key))])) s2)))"

definition handleLicenses ::
  "golib \<Rightarrow> env \<Rightarrow> Request \<Rightarrow> string \<Rightarrow> string + LicenseRequest \<Rightarrow> Server \<Rightarrow> Server \<times> Response" where
  "handleLicenses L e r adminID body s =
     (if req_Method r = ''GET''
      then (s, writeJSON 200 (PObject [(''items'', PLicenses (data_Licenses (srv_data s)))]))
      else if req_Method r = ''POST'' then decodeJSON body (createLicense L e r adminID) s
      else (s, methodNotAllowed))"

definition licenseActionStatus :: "string \<Rightarrow> string" where
  "licenseActionStatus action =
     (if action = ''revoke'' then ''revoked'' else if action = ''suspend'' then ''suspended'' else ''active'')"

definition actOnLicense ::
  "golib \<Rightarrow> env \<Rightarrow> Request \<Rightarrow> string \<Rightarrow> string \<Rightarrow> string \<Rightarrow> Server \<Rightarrow> Server \<times> Response" where
  "actOnLicense L e r adminID licenseID action s =
     (case findLicenseByIDLocked licenseID s of
        None \<Rightarrow> (s, writeError 404 ''LICENSE_NOT_FOUND'' ''license not found'')
      | Some i \<Rightarrow>
          (let s1 = updData (\<lambda>d. d\<lparr>data_Licenses := modifyAt i
                      (\<lambda>l. l\<lparr>lic_Status := licenseActionStatus action, lic_UpdatedAt := env_now e 1\<rparr>)
                      (data_Licenses d)\<rparr>) s;
               lic = data_Licenses (srv_data s1) ! i;
               s2 = updData (\<lambda>d. d\<lparr>data_Activations := map
                      (\<lambda>a. if act_LicenseID a = lic_ID lic \<and> action = ''revoke''
                           then a\<lparr>act_ActivationStatus := ''blocked''\<rparr> else a) (data_Activations d)\<rparr>) s1;
               s3 = auditLocked L e 2 adminID (''license.'' @ action) ''license'' licenseID r None s2
           in saveThen e 4 (writeJSON 200 (PObject [(''license'', PLicense lic)])) s3))"

definition handleLicenseAction ::
  "golib \<Rightarrow> env \<Rightarrow> Request \<Rightarrow> string \<Rightarrow> string \<Rightarrow> Server \<Rightarrow> Server \<times> Response" where
  "handleLicenseAction L e r tail adminID s =
     (if req_Method r \<noteq> ''POST'' then (s, methodNotAllowed)
      else (case splitOn (CHR ''/'') tail of
              [licenseID, action] \<Rightarrow>
                if action \<noteq> ''revoke'' \<and> action \<noteq> ''suspend'' \<and> action \<noteq> ''resume''
                then (s, writeError 404 ''NOT_FOUND'' ''license action not found'')
                else actOnLicense L e r adminID licenseID action s
            | _ \<Rightarrow> (s, writeError 404 ''NOT_FOUND'' ''license action not found'')))"

section \<open>Devices\<close>

definition handleDevices :: "Server \<Rightarrow> Server \<times> Response" where
  "handleDevices s = (s, writeJSON 200 (PObject [(''items'', PDevices (data_Devices (srv_data s)))]))"

definition unbindActivation :: "string \<Rightarrow> time \<Rightarrow> Activation \<Rightarrow> Activation" where
  "unbindActivation deviceID now a =
     (if act_DeviceID a = deviceID \<and> act_ActivationStatus a = ''active'' then deactivated now a else a)"

definition actOnDevice ::
  "golib \<Rightarrow> env \<Rightarrow> Request \<Rightarrow> string \<Rightarrow> string \<Rightarrow> string \<Rightarrow> Server \<Rightarrow> Server \<times> Response" where
  "actOnDevice L e r adminID deviceID action s =
     (case findDeviceByIDLocked deviceID s of
        None \<Rightarrow> (s, writeError 404 ''DEVICE_NOT_FOUND'' ''device not found'')
      | Some i \<Rightarrow>
          (let now = env_now e 1;
               device = data_Devices (srv_data s) ! i;
               s1 = (if action = ''block'' then
                       updData (\<lambda>d. d\<lparr>data_Devices := modifyAt i (\<lambda>x. x\<lparr>dev_Status := ''blocked''\<rparr>) (data_Devices d)\<rparr>) s
                     else if action = ''unblock'' then
                       updData (\<lambda>d. d\<lparr>data_Devices := modifyAt i (\<lambda>x. x\<lparr>dev_Status := ''active''\<rparr>) (data_Devices d)\<rparr>) s
                     else
                       updData (\<lambda>d. d\<lparr>data_Activations := map (unbindActivation (dev_ID device) now)
                                        (data_Activations d)\<rparr>) s);
               s2 = touchDevice now (Some i) s1;
               s3 = auditLocked L e 2 adminID (''device.'' @ action) ''device'' deviceID r None s2
           in saveThen e 4 (writeJSON 200 (PObject
                [(''device'', PDevice (data_Devices (srv_data s3) ! i))])) s3))"

definition handleDeviceAction ::
  "golib \<Rightarrow> env \<Rightarrow> Request \<Rightarrow> string \<Rightarrow> string \<Rightarrow> Server \<Rightarrow> Server \<times> Response" where
  "handleDeviceAction L e r tail adminID s =
     (if req_Method r \<noteq> ''POST'' then (s, methodNotAllowed)
      else (case splitOn (CHR ''/'') tail of
              [deviceID, action] \<Rightarrow>
                if action \<noteq> ''block'' \<and> action \<noteq> ''unblock'' \<and> action \<noteq> ''unbind''
                then (s, writeError 404 ''NOT_FOUND'' ''device action not found'')
                else actOnDevice L e r adminID deviceID action s
            | _ \<Rightarrow> (s, writeError 404 ''NOT_FOUND'' ''device action not found'')))"

section \<open>Risk events and audit logs\<close>

definition recentFirst :: "RiskEvent list \<Rightarrow> RiskEvent list" where
  "recentFirst events = sortSlice (\<lambda>a b. risk_CreatedAt a > risk_CreatedAt b) events"

definition handleRiskEvents :: "Server \<Rightarrow> Server \<times> Response" where
  "handleRiskEvents s =
     (s, writeJSON 200 (PObject [(''items'', PRiskEvents (recentFirst (data_RiskEvents (srv_data s))))]))"

definition resolveRiskEvent ::
  "golib \<Rightarrow> env \<Rightarrow> Request \<Rightarrow> string \<Rightarrow> string \<Rightarrow> Server \<Rightarrow> Server \<times> Response" where
  "resolveRiskEvent L e r adminID eventID s =
     (case findRiskEventByIDLocked eventID s of
        None \<Rightarrow> (s, writeError 404 ''RISK_EVENT_NOT_FOUND'' ''risk event not found'')
      | Some i \<Rightarrow>
          (let event = data_RiskEvents (srv_data s) ! i;
               s1 = (if risk_ResolvedAt event = None then
                       (let s0 = updData (\<lambda>d. d\<lparr>data_RiskEvents := modifyAt i
                                   (\<lambda>v. v\<lparr>risk_ResolvedAt := Some (env_now e 1)\<rparr>) (data_RiskEvents d)\<rparr>) s
                        in auditLocked L e 2 adminID ''risk.resolve'' ''risk_event'' eventID r
                             (Some [(''event_type'', GStr (risk_EventType event))]) s0)
                     else s)
           in saveThen e 4 (writeJSON 200 (PObject
                [(''risk_event'', PRiskEvent (data_RiskEvents (srv_data s1) ! i))])) s1))"

definition handleRiskEventAction ::
  "golib \<Rightarrow> env \<Rightarrow> Request \<Rightarrow> string \<Rightarrow> string \<Rightarrow> Server \<Rightarrow> Server \<times> Response" where
  "handleRiskEventAction L e r tail adminID s =
     (if req_Method r \<noteq> ''POST'' then (s, methodNotAllowed)
      else (case splitOn (CHR ''/'') tail of
              [eventID, action] \<Rightarrow>
                if action \<noteq> ''resolve'' then (s, writeError 404 ''NOT_FOUND'' ''risk event action not found'')
                else resolveRiskEvent L e r adminID eventID s
            | _ \<Rightarrow> (s, writeError 404 ''NOT_FOUND'' ''risk event action not found'')))"

definition handleAuditLogs :: "Server \<Rightarrow> Server \<times> Response" where
  "handleAuditLogs s =
     (s, writeJSON 200 (PObject
        [(''items'', PAuditLogs (sortSlice (\<lambda>a b. aud_CreatedAt a > aud_CreatedAt b)
                                   (data_AuditLogs (srv_data s))))]))"

section \<open>Settings\<close>

record SettingsPatch =
  spq_DefaultTokenTTLMinutes :: "int option"
  spq_MediumRiskTokenTTLMinutes :: "int option"
  spq_OfflineGraceDays :: "int option"
  spq_DefaultMaxDevices :: "int option"
  spq_DefaultLicenseDays :: "int option"
  spq_AuditLogRetentionDays :: "int option"
  spq_MFARequired :: "bool option"
  spq_SensitiveActionConfirm :: "bool option"

definition patchedSettings :: "SettingsPatch \<Rightarrow> time \<Rightarrow> SystemSettings \<Rightarrow> SystemSettings" where
  "patchedSettings q now st =
     \<lparr>set_DefaultTokenTTLMinutes = given (spq_DefaultTokenTTLMinutes q) (set_DefaultTokenTTLMinutes st),
      set_MediumRiskTokenTTLMinutes = given (spq_MediumRiskTokenTTLMinutes q) (set_MediumRiskTokenTTLMinutes st),
      set_OfflineGraceDays = given (spq_OfflineGraceDays q) (set_OfflineGraceDays st),
      set_DefaultMaxDevices = given (spq_DefaultMaxDevices q) (set_DefaultMaxDevices st),
      set_DefaultLicenseDays = given (spq_DefaultLicenseDays q) (set_DefaultLicenseDays st),
      set_AuditLogRetentionDays = given (spq_AuditLogRetentionDays q) (set_AuditLogRetentionDays st),
      set_MFARequired = given (spq_MFARequired q) (set_MFARequired st),
      set_SensitiveActionConfirm = given (spq_SensitiveActionConfirm q) (set_SensitiveActionConfirm st),
      set_UpdatedAt = now\<rparr>"

definition patchSettings ::
  "golib \<Rightarrow> env \<Rightarrow> Request \<Rightarrow> string \<Rightarrow> SettingsPatch \<Rightarrow> Server \<Rightarrow> Server \<times> Response" where
  "patchSettings L e r adminID q s =
     (let settings = normalizeSystemSettings (env_now e 2)
                       (patchedSettings q (env_now e 2) (settingsLocked (env_now e 1) s));
          s1 = updData (\<lambda>d. d\<lparr>data_Settings := settings\<rparr>) s;
          s2 = auditLocked L e 3 adminID ''settings.update'' ''settings'' ''system'' r None s1
      in saveThen e 5 (writeJSON 200 (PObject [(''settings'', PSettings settings)])) s2)"

definition handleSettings ::
  "golib \<Rightarrow> env \<Rightarrow> Request \<Rightarrow> string \<Rightarrow> string + SettingsPatch \<Rightarrow> Server \<Rightarrow> Server \<times> Response" where
  "handleSettings L e r adminID body s =
     (if req_Method r = ''GET''
      then (s, writeJSON 200 (PObject [(''settings'', PSettings (settingsLocked (env_now e 1) s))]))
      else if req_Method r = ''PATCH'' then decodeJSON body (patchSettings L e r adminID) s
      else (s, methodNotAllowed))"

section \<open>The dashboard\<close>

text \<open>The start of the local day is a parameter: it depends on the server's time zone.\<close>

definition handleDashboard :: "(time \<Rightarrow> time) \<Rightarrow> env \<Rightarrow> Server \<Rightarrow> Server \<times> Response" where
  "handleDashboard startOfDay e s =
     (let d = srv_data s; now = env_now e 1; dayStart = startOfDay now;
          activeLicenses = length (filter (\<lambda>l. lic_Status l = ''active'' \<and> lic_ExpiresAt l > now) (data_Licenses d));
          todayVerifications = length (filter (\<lambda>r. ir_CreatedAt r > dayStart) (data_IntegrityReports d));
          highRiskDevices = length (filter (\<lambda>x. dev_RiskScore x \<ge> 80 \<or> dev_Status x = ''blocked'') (data_Devices d));
          events = recentFirst (data_RiskEvents d);
          recent = (if length events > 8 then take 8 events else events)
      in (s, writeJSON 200 (PObject
           [(''app_count'', PVal (GInt (int (length (data_Apps d))))),
            (''active_license_count'', PVal (GInt (int activeLicenses))),
            (''today_verify_count'', PVal (GInt (int todayVerifications))),
            (''high_risk_devices'', PVal (GInt (int highRiskDevices))),
            (''recent_risk_events'', PRiskEvents recent),
            (''generated_at'', PVal (GTime now))])))"

end
