(* ===== verification/Diagnostics.thy ===== *)
theory Diagnostics
  imports AdminLicenses
begin

text \<open>
  Read-only views for administrators (server.go): the authorization diagnostic, which replays
  the checks of a verification as findings, and the onboarding checklist of an app.
\<close>

section \<open>Evidence\<close>

definition releaseEvidence :: "AppRelease option \<Rightarrow> gmap option" where
  "releaseEvidence release =
     map_option (\<lambda>r.
       [(''version'', GStr (rel_Version r)), (''main_binary_hash'', GStr (rel_MainBinaryHash r)),
        (''signer_thumbprint'', GStr (rel_SignerThumbprint r)),
        (''resource_manifest'', GStr (rel_ResourceManifestHash r)),
        (''business_manifest_sha256'', GStr (rel_BusinessManifestSHA256 r)),
        (''protected_db_schema_hash'', GStr (rel_ProtectedDBSchemaHash r)),
        (''protected_db_tables_hash'', GStr (rel_ProtectedDBTablesHash r)),
        (''assets_manifest_sha256'', GStr (rel_AssetsManifestSHA256 r)),
        (''workflow_manifest_sha256'', GStr (rel_WorkflowManifestSHA256 r)),
        (''release_id'', GStr (rel_ID r)), (''min_supported'', GStr (rel_MinSupportedVersion r)),
        (''rollout_percent'', GInt (rel_RolloutPercent r)), (''mandatory'', GBool (rel_Mandatory r)),
        (''package_sha256'', GStr (rel_PackageSHA256 r)), (''download_url'', GStr (rel_DownloadURL r)),
        (''resource_manifest_id'', GStr (rel_ResourceManifestHash r))]) release"

definition sdkKeyEvidence :: "SDKKey option \<Rightarrow> gmap option" where
  "sdkKeyEvidence key =
     map_option (\<lambda>k.
       [(''key_prefix'', GStr (sdk_KeyPrefix k)), (''public_key'', GStr (sdk_PublicKey k)),
        (''status'', GStr (sdk_Status k)), (''created_at'', GTime (sdk_CreatedAt k)),
        (''last_used_at'', gOptTime (sdk_LastUsedAt k))]) key"

definition deviceEvidence :: "Device option \<Rightarrow> gmap option" where
  "deviceEvidence device =
     map_option (\<lambda>d.
       [(''device_id'', GStr (dev_ID d)), (''status'', GStr (dev_Status d)),
        (''last_seen_at'', GTime (dev_LastSeenAt d)), (''risk_score'', GInt (dev_RiskScore d))]) device"

definition integrityEvidence :: "IntegrityReport option \<Rightarrow> gmap option" where
  "integrityEvidence report =
     map_option (\<lambda>r.
       [(''report_id'', GStr (ir_ID r)), (''app_version'', GStr (ir_AppVersion r)),
        (''main_binary_hash'', GStr (ir_MainBinaryHash r)),
        (''signer_thumbprint'', GStr (ir_SignerThumbprint r)),
        (''business_manifest_sha256'', GStr (ir_BusinessManifestSHA256 r)),
        (''business_manifest_signature_valid'', gOptBool (ir_BusinessManifestSignatureValid r)),
        (''protected_db_schema_hash'', GStr (ir_ProtectedDBSchemaHash r)),
        (''protected_db_tables_hash'', GStr (ir_ProtectedDBTablesHash r)),
        (''assets_manifest_sha256'', GStr (ir_AssetsManifestSHA256 r)),
        (''workflow_manifest_sha256'', GStr (ir_WorkflowManifestSHA256 r)),
        (''business_integrity_status'', GStr (ir_BusinessIntegrityStatus r)),
        (''business_integrity_errors'', GStrs (ir_BusinessIntegrityErrors r)),
        (''db_encryption_status'', GStr (ir_DBEncryptionStatus r)),
        (''db_encryption_errors'', GStrs (ir_DBEncryptionErrors r)),
        (''debugger_detected'', GBool (ir_DebuggerDetected r)),
        (''suspicious_modules'', GStrs (ir_SuspiciousModules r)),
        (''vm_indicators'', GStrs (ir_VMIndicators r)), (''created_at'', GTime (ir_CreatedAt r))]) report"

definition riskEvidence :: "RiskEvent option \<Rightarrow> gmap option" where
  "riskEvidence event =
     map_option (\<lambda>v.
       [(''risk_id'', GStr (risk_ID v)), (''event_type'', GStr (risk_EventType v)),
        (''severity'', GStr (risk_Severity v)), (''action'', GStr (risk_Action v)),
        (''created_at'', GTime (risk_CreatedAt v)), (''resolved_at'', gOptTime (risk_ResolvedAt v))]) event"

section \<open>The authorization diagnostic\<close>

record authorizationDiagnosticInput =
  adi_AppID :: string
  adi_LicenseID :: string
  adi_LicenseKey :: string
  adi_DeviceID :: string
  adi_InstallID :: string
  adi_Platform :: string
  adi_AppVersion :: string
  adi_Capability :: string

definition diagnosticFinding ::
  "string \<Rightarrow> string \<Rightarrow> string \<Rightarrow> string \<Rightarrow> gmap option \<Rightarrow> DiagnosticFinding" where
  "diagnosticFinding scope status code message evidence =
     \<lparr>fnd_Scope = scope, fnd_Status = status, fnd_Code = code, fnd_Message = message, fnd_Evidence = evidence\<rparr>"

definition findDiagnosticLicenseLocked ::
  "golib \<Rightarrow> authorizationDiagnosticInput \<Rightarrow> Server \<Rightarrow> License option" where
  "findDiagnosticLicenseLocked L input s =
     map_option (\<lambda>i. data_Licenses (srv_data s) ! i)
       (if adi_LicenseID input \<noteq> [] then findLicenseByIDLocked (adi_LicenseID input) s
        else if adi_LicenseKey input \<noteq> [] then findLicenseByKeyLocked L (adi_LicenseKey input) s
        else None)"

definition deviceByID :: "string \<Rightarrow> Server \<Rightarrow> Device option" where
  "deviceByID i s = map_option (\<lambda>j. data_Devices (srv_data s) ! j) (findDeviceByIDLocked i s)"

definition findDiagnosticDeviceLocked ::
  "golib \<Rightarrow> authorizationDiagnosticInput \<Rightarrow> License option \<Rightarrow> Server \<Rightarrow> Device option" where
  "findDiagnosticDeviceLocked L input license s =
     (if adi_DeviceID input \<noteq> [] then deviceByID (adi_DeviceID input) s
      else if adi_InstallID input \<noteq> [] then
        map_option (\<lambda>j. data_Devices (srv_data s) ! j)
          (findDeviceByInstallHashLocked (hashString L (adi_InstallID input)) s)
      else (case license of
              None \<Rightarrow> None
            | Some lic \<Rightarrow>
                (case latestActivationForLicenseLocked (lic_ID lic) s of
                   None \<Rightarrow> None
                 | Some activation \<Rightarrow> deviceByID (act_DeviceID activation) s)))"

definition findDiagnosticReleaseLocked ::
  "authorizationDiagnosticInput \<Rightarrow> IntegrityReport option \<Rightarrow> Server \<Rightarrow> AppRelease option" where
  "findDiagnosticReleaseLocked input report s =
     (if adi_AppVersion input \<noteq> []
      then findReleaseLocked (adi_AppID input) (adi_Platform input) (adi_AppVersion input) s
      else (case report of
              None \<Rightarrow> latestReleaseLocked (adi_AppID input) (adi_Platform input) s
            | Some r \<Rightarrow>
                if ir_ReleaseID r \<noteq> []
                then map_option (\<lambda>i. data_Releases (srv_data s) ! i)
                       (findReleaseByIDLocked (adi_AppID input) (ir_ReleaseID r) s)
                else latestReleaseLocked (adi_AppID input) (adi_Platform input) s))"

definition diagnoseApp :: "App \<Rightarrow> DiagnosticFinding" where
  "diagnoseApp app =
     (if app_Status app = ''active''
      then diagnosticFinding ''app'' ''ok'' ''app_active'' (utf8 [0x5e94, 0x7528, 0x5904, 0x4e8e, 0x20, 0x61, 0x63, 0x74, 0x69, 0x76, 0x65, 0x20, 0x72b6, 0x6001]) None
      else diagnosticFinding ''app'' ''blocked'' ''app_not_active'' (utf8 [0x5e94, 0x7528, 0x672a, 0x5904, 0x4e8e, 0x20, 0x61, 0x63, 0x74, 0x69, 0x76, 0x65, 0x20, 0x72b6, 0x6001])
             (Some [(''status'', GStr (app_Status app))]))"

definition diagnoseLicense ::
  "authorizationDiagnosticInput \<Rightarrow> time \<Rightarrow> License option \<Rightarrow> DiagnosticFinding" where
  "diagnoseLicense input now license =
     (case license of
        None \<Rightarrow>
          (if adi_LicenseID input \<noteq> [] \<or> adi_LicenseKey input \<noteq> []
           then diagnosticFinding ''license'' ''missing'' ''license_not_found'' (utf8 [0x672a, 0x627e, 0x5230, 0x5339, 0x914d, 0x7684, 0x20, 0x4c, 0x69, 0x63, 0x65, 0x6e, 0x73, 0x65]) None
           else diagnosticFinding ''license'' ''missing'' ''license_not_provided''
                  (utf8 [0x672a, 0x63d0, 0x4f9b, 0x20, 0x6c, 0x69, 0x63, 0x65, 0x6e, 0x73, 0x65, 0x5f, 0x69, 0x64, 0x20, 0x6216, 0x20, 0x6c, 0x69, 0x63, 0x65, 0x6e, 0x73, 0x65, 0x5f, 0x6b, 0x65, 0x79]) None)
      | Some lic \<Rightarrow>
          (if lic_AppID lic \<noteq> adi_AppID input then
             diagnosticFinding ''license'' ''blocked'' ''license_app_mismatch'' (utf8 [0x4c, 0x69, 0x63, 0x65, 0x6e, 0x73, 0x65, 0x20, 0x4e0d, 0x5c5e, 0x4e8e, 0x5f53, 0x524d, 0x5e94, 0x7528])
               (Some [(''license_app_id'', GStr (lic_AppID lic))])
           else if lic_Status lic \<noteq> ''active'' then
             diagnosticFinding ''license'' ''blocked'' ''license_not_active'' (utf8 [0x4c, 0x69, 0x63, 0x65, 0x6e, 0x73, 0x65, 0x20, 0x672a, 0x5904, 0x4e8e, 0x20, 0x61, 0x63, 0x74, 0x69, 0x76, 0x65, 0x20, 0x72b6, 0x6001])
               (Some [(''status'', GStr (lic_Status lic))])
           else if now > lic_ExpiresAt lic then
             diagnosticFinding ''license'' ''blocked'' ''license_expired'' (utf8 [0x4c, 0x69, 0x63, 0x65, 0x6e, 0x73, 0x65, 0x20, 0x5df2, 0x8fc7, 0x671f])
               (Some [(''expires_at'', GTime (lic_ExpiresAt lic))])
           else diagnosticFinding ''license'' ''ok'' ''license_active'' (utf8 [0x4c, 0x69, 0x63, 0x65, 0x6e, 0x73, 0x65, 0x20, 0x53ef, 0x7528])
                  (Some [(''entitlements'', GStrs (lic_Entitlements lic))])))"

text \<open>The activation of the license on the device; without one, the latest of the license, which
  also supplies a missing device.\<close>

definition diagnosticActivation ::
  "License option \<Rightarrow> Device option \<Rightarrow> Server \<Rightarrow> Activation option \<times> Device option" where
  "diagnosticActivation license device s =
     (case license of
        None \<Rightarrow> (None, device)
      | Some lic \<Rightarrow>
          (let exact = (case device of
                          None \<Rightarrow> None
                        | Some d \<Rightarrow> map_option (\<lambda>i. data_Activations (srv_data s) ! i)
                                     (findActivationLocked (lic_ID lic) (dev_ID d) s))
           in case exact of
                Some a \<Rightarrow> (Some a, device)
              | None \<Rightarrow>
                  (case latestActivationForLicenseLocked (lic_ID lic) s of
                     None \<Rightarrow> (None, device)
                   | Some a \<Rightarrow>
                       (Some a, case device of None \<Rightarrow> deviceByID (act_DeviceID a) s | Some d \<Rightarrow> Some d))))"

definition diagnoseDevice :: "authorizationDiagnosticInput \<Rightarrow> Device option \<Rightarrow> DiagnosticFinding" where
  "diagnoseDevice input device =
     (case device of
        None \<Rightarrow>
          (if adi_DeviceID input \<noteq> [] \<or> adi_InstallID input \<noteq> []
           then diagnosticFinding ''device'' ''missing'' ''device_not_found'' (utf8 [0x672a, 0x627e, 0x5230, 0x5339, 0x914d, 0x8bbe, 0x5907]) None
           else diagnosticFinding ''device'' ''missing'' ''device_not_provided''
                  (utf8 [0x672a, 0x63d0, 0x4f9b, 0x20, 0x64, 0x65, 0x76, 0x69, 0x63, 0x65, 0x5f, 0x69, 0x64, 0x20, 0x6216, 0x20, 0x69, 0x6e, 0x73, 0x74, 0x61, 0x6c, 0x6c, 0x5f, 0x69, 0x64, 0xff0c, 0x4e14, 0x65e0, 0x6cd5, 0x4ece, 0x20, 0x4c, 0x69, 0x63, 0x65, 0x6e, 0x73, 0x65, 0x20, 0x6fc0, 0x6d3b, 0x8bb0, 0x5f55, 0x63a8, 0x65ad, 0x8bbe, 0x5907]) None)
      | Some d \<Rightarrow>
          (if dev_Status d = ''active'' then
             diagnosticFinding ''device'' ''ok'' ''device_active'' (utf8 [0x8bbe, 0x5907, 0x5904, 0x4e8e, 0x20, 0x61, 0x63, 0x74, 0x69, 0x76, 0x65, 0x20, 0x72b6, 0x6001])
               (Some [(''risk_score'', GInt (dev_RiskScore d))])
           else diagnosticFinding ''device'' ''blocked'' ''device_not_active'' (utf8 [0x8bbe, 0x5907, 0x672a, 0x5904, 0x4e8e, 0x20, 0x61, 0x63, 0x74, 0x69, 0x76, 0x65, 0x20, 0x72b6, 0x6001])
               (Some [(''status'', GStr (dev_Status d)), (''risk_score'', GInt (dev_RiskScore d))])))"

definition diagnoseActivation :: "Activation option \<Rightarrow> DiagnosticFinding" where
  "diagnoseActivation activation =
     (case activation of
        None \<Rightarrow> diagnosticFinding ''activation'' ''missing'' ''activation_not_found''
                 (utf8 [0x672a, 0x627e, 0x5230, 0x5f53, 0x524d, 0x20, 0x4c, 0x69, 0x63, 0x65, 0x6e, 0x73, 0x65, 0x20, 0x4e0e, 0x8bbe, 0x5907, 0x7684, 0x6fc0, 0x6d3b, 0x8bb0, 0x5f55]) None
      | Some a \<Rightarrow>
          (if act_ActivationStatus a = ''active'' then
             diagnosticFinding ''activation'' ''ok'' ''activation_active'' (utf8 [0x6fc0, 0x6d3b, 0x8bb0, 0x5f55, 0x5904, 0x4e8e, 0x20, 0x61, 0x63, 0x74, 0x69, 0x76, 0x65, 0x20, 0x72b6, 0x6001])
               (Some [(''last_verified_at'', GTime (act_LastVerifiedAt a))])
           else diagnosticFinding ''activation'' ''blocked'' ''activation_not_active'' (utf8 [0x6fc0, 0x6d3b, 0x8bb0, 0x5f55, 0x672a, 0x5904, 0x4e8e, 0x20, 0x61, 0x63, 0x74, 0x69, 0x76, 0x65, 0x20, 0x72b6, 0x6001])
               (Some [(''status'', GStr (act_ActivationStatus a))])))"

definition diagnoseRelease :: "authorizationDiagnosticInput \<Rightarrow> AppRelease option \<Rightarrow> DiagnosticFinding" where
  "diagnoseRelease input release =
     (case release of
        None \<Rightarrow>
          (if adi_AppVersion input = []
           then diagnosticFinding ''release'' ''missing'' ''release_not_provided''
                  (utf8 [0x672a, 0x63d0, 0x4f9b, 0x20, 0x61, 0x70, 0x70, 0x5f, 0x76, 0x65, 0x72, 0x73, 0x69, 0x6f, 0x6e, 0xff0c, 0x4e14, 0x6ca1, 0x6709, 0x53ef, 0x63a8, 0x65ad, 0x7684, 0x20, 0x52, 0x65, 0x6c, 0x65, 0x61, 0x73, 0x65]) None
           else diagnosticFinding ''release'' ''missing'' ''release_not_found'' (utf8 [0x672a, 0x627e, 0x5230, 0x5339, 0x914d, 0x20, 0x52, 0x65, 0x6c, 0x65, 0x61, 0x73, 0x65]) None)
      | Some r \<Rightarrow>
          (if rel_Status r = ''active'' then
             diagnosticFinding ''release'' ''ok'' ''release_active'' (utf8 [0x52, 0x65, 0x6c, 0x65, 0x61, 0x73, 0x65, 0x20, 0x5904, 0x4e8e, 0x20, 0x61, 0x63, 0x74, 0x69, 0x76, 0x65, 0x20, 0x72b6, 0x6001]) (releaseEvidence (Some r))
           else if rel_Status r = ''blocked'' then
             diagnosticFinding ''release'' ''blocked'' ''release_blocked'' (utf8 [0x52, 0x65, 0x6c, 0x65, 0x61, 0x73, 0x65, 0x20, 0x5df2, 0x88ab, 0x963b, 0x6b62]) (releaseEvidence (Some r))
           else if rel_Status r = ''deprecated'' then
             diagnosticFinding ''release'' ''warning'' ''release_deprecated'' (utf8 [0x52, 0x65, 0x6c, 0x65, 0x61, 0x73, 0x65, 0x20, 0x5df2, 0x6807, 0x8bb0, 0x8fc7, 0x65f6]) (releaseEvidence (Some r))
           else diagnosticFinding ''release'' ''warning'' ''release_status_unknown'' (utf8 [0x52, 0x65, 0x6c, 0x65, 0x61, 0x73, 0x65, 0x20, 0x72b6, 0x6001, 0x9700, 0x8981, 0x590d, 0x6838])
                  (releaseEvidence (Some r))))"

definition diagnosePolicy :: "CapabilityDecision \<Rightarrow> DiagnosticFinding" where
  "diagnosePolicy decision =
     (if dec_Allowed decision then
        diagnosticFinding ''policy'' ''ok'' ''capability_allowed''
          (utf8 [0x43, 0x61, 0x70, 0x61, 0x62, 0x69, 0x6c, 0x69, 0x74, 0x79, 0x20, 0x5df2, 0x88ab, 0x5f53, 0x524d, 0x20, 0x4c, 0x69, 0x63, 0x65, 0x6e, 0x73, 0x65, 0x20, 0x65, 0x6e, 0x74, 0x69, 0x74, 0x6c, 0x65, 0x6d, 0x65, 0x6e, 0x74, 0x20, 0x8986, 0x76d6])
          (Some [(''capability'', GStr (dec_Capability decision)),
                 (''effective_mode'', GStr (dec_EffectiveMode decision))])
      else
        diagnosticFinding ''policy'' ''blocked'' (dec_Reason decision) (utf8 [0x43, 0x61, 0x70, 0x61, 0x62, 0x69, 0x6c, 0x69, 0x74, 0x79, 0x20, 0x672a, 0x88ab, 0x5f53, 0x524d, 0x20, 0x4c, 0x69, 0x63, 0x65, 0x6e, 0x73, 0x65, 0x20, 0x653e, 0x884c])
          (Some [(''capability'', GStr (dec_Capability decision)),
                 (''required_entitlement'', GStr (dec_RequiredEntitlement decision)),
                 (''configured_mode'', GStr (dec_ConfiguredMode decision)),
                 (''effective_mode'', GStr (dec_EffectiveMode decision))]))"

definition diagnoseDenial :: "authorizationDiagnosticInput \<Rightarrow> RiskEvent option \<Rightarrow> DiagnosticFinding list" where
  "diagnoseDenial input denial =
     (case denial of
        Some v \<Rightarrow> [diagnosticFinding ''risk'' ''warning'' ''latest_capability_deny''
                     (utf8 [0x627e, 0x5230, 0x6700, 0x8fd1, 0x4e00, 0x6b21, 0x20, 0x63, 0x61, 0x70, 0x61, 0x62, 0x69, 0x6c, 0x69, 0x74, 0x79, 0x20, 0x62d2, 0x7edd, 0x8bb0, 0x5f55]) (riskEvidence (Some v))]
      | None \<Rightarrow>
          (if adi_Capability input \<noteq> []
           then [diagnosticFinding ''risk'' ''ok'' ''no_capability_deny''
                   (utf8 [0x672a, 0x627e, 0x5230, 0x5f53, 0x524d, 0x20, 0x63, 0x61, 0x70, 0x61, 0x62, 0x69, 0x6c, 0x69, 0x74, 0x79, 0x20, 0x7684, 0x62d2, 0x7edd, 0x98ce, 0x9669, 0x8bb0, 0x5f55]) None]
           else []))"

definition diagnoseReport :: "golib \<Rightarrow> IntegrityReport option \<Rightarrow> DiagnosticFinding list" where
  "diagnoseReport L report =
     (case report of
        None \<Rightarrow> [diagnosticFinding ''integrity'' ''missing'' ''integrity_report_not_found'' (utf8 [0x672a, 0x627e, 0x5230, 0x5b8c, 0x6574, 0x6027, 0x4e0a, 0x62a5]) None]
      | Some r \<Rightarrow>
          (if dbEncryptionStatusFailed L (ir_DBEncryptionStatus r)
           then [diagnosticFinding ''integrity'' ''blocked'' ''db_encryption_failed''
                   (utf8 [0x672c, 0x5730, 0x20, 0x44, 0x42, 0x20, 0x52a0, 0x5bc6, 0x6216, 0x5bc6, 0x94a5, 0x8bfb, 0x53d6, 0x5931, 0x8d25]) (integrityEvidence (Some r))] else []) @
          [diagnosticFinding ''integrity'' ''ok'' ''latest_integrity_report_found''
             (utf8 [0x627e, 0x5230, 0x6700, 0x8fd1, 0x4e00, 0x6b21, 0x5b8c, 0x6574, 0x6027, 0x4e0a, 0x62a5]) (integrityEvidence (Some r))])"

definition authorizationDiagnosticLocked ::
  "golib \<Rightarrow> env \<Rightarrow> authorizationDiagnosticInput \<Rightarrow> Server \<Rightarrow> AuthorizationDiagnosticResponse option" where
  "authorizationDiagnosticLocked L e input s =
     (case findAppLocked (adi_AppID input) s of
        None \<Rightarrow> None
      | Some ai \<Rightarrow>
          (let now = env_now e 1;
               app = data_Apps (srv_data s) ! ai;
               license = findDiagnosticLicenseLocked L input s;
               (activation, device) =
                 diagnosticActivation license (findDiagnosticDeviceLocked L input license s) s;
               report = latestIntegrityReportForDiagnosticLocked (adi_AppID input) device s;
               release = findDiagnosticReleaseLocked input report s;
               policy = (if adi_Capability input = [] then None
                         else findCapabilityPolicyLocked (adi_AppID input) (adi_Capability input) s);
               entitlements = (case license of None \<Rightarrow> [] | Some lic \<Rightarrow> lic_Entitlements lic);
               decision = (if adi_Capability input = [] then None
                           else Some (capabilityDecision L policy entitlements (adi_Capability input)));
               licenseID = (case license of None \<Rightarrow> [] | Some lic \<Rightarrow> lic_ID lic);
               deviceID = (case device of None \<Rightarrow> [] | Some d \<Rightarrow> dev_ID d);
               denial = latestRiskEventForDiagnosticLocked (adi_AppID input) licenseID deviceID
                          ''capability_denied'' (adi_Capability input) s
           in Some
             \<lparr>diag_AppID = adi_AppID input, diag_App = Some app, diag_License = license,
              diag_Device = device, diag_Activation = activation, diag_Release = release,
              diag_CapabilityPolicy = policy, diag_CapabilityDecision = decision,
              diag_LatestIntegrityReport = report,
              diag_LatestRiskEvent = latestRiskEventForDiagnosticLocked (adi_AppID input) licenseID deviceID [] [] s,
              diag_LatestCapabilityDeny = denial,
              diag_Update = (if adi_AppVersion input = [] then None
                             else updateInfoLocked (adi_AppID input) (adi_Platform input)
                                    (adi_AppVersion input) deviceID s),
              diag_Findings =
                [diagnoseApp app, diagnoseLicense input now license, diagnoseDevice input device,
                 diagnoseActivation activation, diagnoseRelease input release] @
                (case decision of None \<Rightarrow> [] | Some d \<Rightarrow> [diagnosePolicy d]) @
                diagnoseDenial input denial @ diagnoseReport L report,
              diag_GeneratedAt = now\<rparr>))"

definition handleAppDiagnostics ::
  "golib \<Rightarrow> env \<Rightarrow> Request \<Rightarrow> string \<Rightarrow> Server \<Rightarrow> Server \<times> Response" where
  "handleAppDiagnostics L e r appID s =
     (let query = (\<lambda>k. trimSpace (req_Query r k));
          input = \<lparr>adi_AppID = appID, adi_LicenseID = query ''license_id'',
                   adi_LicenseKey = query ''license_key'', adi_DeviceID = query ''device_id'',
                   adi_InstallID = query ''install_id'',
                   adi_Platform = orDefault ''windows'' (query ''platform''),
                   adi_AppVersion = query ''app_version'', adi_Capability = query ''capability''\<rparr>
      in case authorizationDiagnosticLocked L e input s of
           None \<Rightarrow> (s, appNotFound)
         | Some response \<Rightarrow> (s, writeJSON 200 (PDiagnostic response)))"

section \<open>Onboarding\<close>

definition passedStatus :: "bool \<Rightarrow> string" where
  "passedStatus ok = (if ok then ''passed'' else ''blocked'')"

definition currentOrPassedStatus :: "bool \<Rightarrow> string" where
  "currentOrPassedStatus ok = (if ok then ''passed'' else ''current'')"

definition onboardingStep :: "string \<Rightarrow> string \<Rightarrow> string \<Rightarrow> string \<Rightarrow> gmap option \<Rightarrow> OnboardingStep" where
  "onboardingStep i label status source evidence =
     \<lparr>step_ID = i, step_Label = label, step_Status = status, step_Source = source, step_Evidence = evidence\<rparr>"

definition onboardingResponseLocked :: "env \<Rightarrow> App \<Rightarrow> Server \<Rightarrow> OnboardingResponse" where
  "onboardingResponseLocked e app s =
     (let now = env_now e 1;
          key = app_AppKey app;
          releases = releasesForAppLocked key s;
          licenses = licensesForAppLocked key s;
          activeSDKKey = map_option (\<lambda>i. data_SDKKeys (srv_data s) ! i) (activeSDKKeyForAppLocked key s);
          latestRelease = latestReleaseFromItems releases;
          latestDevice = latestDeviceForAppLocked key s;
          latestReport = latestIntegrityReportForAppLocked key s;
          latestRisk = latestRiskEventForAppLocked key s;
          settings = settingsLocked (env_now e 2) s;
          hasHeartbeat = (case latestDevice of None \<Rightarrow> False
                          | Some d \<Rightarrow> dev_LastSeenAt d > now - minutes 30);
          hasIntegrity = latestReport \<noteq> None
      in \<lparr>onb_AppID = key, onb_App = app, onb_ClientEndpoint = [],
          onb_HasActiveSDKKey = activeSDKKey \<noteq> None, onb_HasRelease = releases \<noteq> [],
          onb_HasLicense = licenses \<noteq> [], onb_LatestRelease = latestRelease,
          onb_LatestDevice = latestDevice, onb_LatestIntegrityReport = latestReport,
          onb_LatestRiskEvent = latestRisk, onb_OfflineGraceDays = set_OfflineGraceDays settings,
          onb_Steps =
            [onboardingStep ''app_created'' (utf8 [0x521b, 0x5efa, 0x20, 0x41, 0x70, 0x70]) (passedStatus (key \<noteq> [])) ''server''
               (Some [(''app_id'', GStr key)]),
             onboardingStep ''release_created'' (utf8 [0x53d1, 0x5e03, 0x7248, 0x672c]) (passedStatus (releases \<noteq> [])) ''server''
               (releaseEvidence latestRelease),
             onboardingStep ''license_issued'' (utf8 [0x7b7e, 0x53d1, 0x20, 0x4c, 0x69, 0x63, 0x65, 0x6e, 0x73, 0x65]) (passedStatus (licenses \<noteq> [])) ''server''
               (Some [(''license_count'', GInt (int (length licenses)))]),
             onboardingStep ''sdk_key_active'' (utf8 [0x914d, 0x7f6e, 0x20, 0x53, 0x44, 0x4b, 0x20, 0x4b, 0x65, 0x79]) (passedStatus (activeSDKKey \<noteq> None)) ''server''
               (sdkKeyEvidence activeSDKKey),
             onboardingStep ''app_config'' (utf8 [0x6539, 0x9020, 0x20, 0x41, 0x70, 0x70, 0x20, 0x914d, 0x7f6e]) ''manual'' ''client'' None,
             onboardingStep ''first_activation'' (utf8 [0x63a5, 0x5165, 0x9996, 0x6b21, 0x6fc0, 0x6d3b])
               (currentOrPassedStatus (hasActivationForAppLocked key s)) ''server''
               (Some [(''activation_count'', GInt (activationCountForAppLocked key s))]),
             onboardingStep ''local_verify'' (utf8 [0x63a5, 0x5165, 0x672c, 0x5730, 0x9a8c, 0x7b7e]) ''manual'' ''client'' None,
             onboardingStep ''online_verify'' (utf8 [0x63a5, 0x5165, 0x5728, 0x7ebf, 0x20, 0x76, 0x65, 0x72, 0x69, 0x66, 0x79]) (currentOrPassedStatus hasIntegrity) ''server''
               (integrityEvidence latestReport),
             onboardingStep ''heartbeat'' (utf8 [0x63a5, 0x5165, 0x20, 0x68, 0x65, 0x61, 0x72, 0x74, 0x62, 0x65, 0x61, 0x74]) (currentOrPassedStatus hasHeartbeat) ''server''
               (deviceEvidence latestDevice),
             onboardingStep ''entitlements'' (utf8 [0x63a5, 0x5165, 0x20, 0x65, 0x6e, 0x74, 0x69, 0x74, 0x6c, 0x65, 0x6d, 0x65, 0x6e, 0x74, 0x73]) ''manual'' ''client'' None,
             onboardingStep ''integrity_report'' (utf8 [0x63a5, 0x5165, 0x5b8c, 0x6574, 0x6027, 0x4e0a, 0x62a5]) (currentOrPassedStatus hasIntegrity) ''server''
               (integrityEvidence latestReport),
             onboardingStep ''risk_drill'' (utf8 [0x6f14, 0x7ec3, 0x9519, 0x8bef, 0x573a, 0x666f]) (currentOrPassedStatus (latestRisk \<noteq> None)) ''server''
               (riskEvidence latestRisk)],
          onb_GeneratedAt = now\<rparr>)"

definition defaultClientEndpoint :: "Request \<Rightarrow> Server \<Rightarrow> string" where
  "defaultClientEndpoint r s =
     (if srv_publicBaseURL s \<noteq> [] then trimRightSet ''/'' (srv_publicBaseURL s) @ ''/v1''
      else
        (let scheme0 = (if req_TLS r then ''https'' else ''http'');
             forwarded = req_Header r ''X-Forwarded-Proto'';
             scheme = (if forwarded = ''https'' \<or> forwarded = ''http'' then forwarded else scheme0)
         in scheme @ ''://'' @ req_Host r @ ''/v1''))"

definition handleAppOnboarding :: "env \<Rightarrow> Request \<Rightarrow> string \<Rightarrow> Server \<Rightarrow> Server \<times> Response" where
  "handleAppOnboarding e r appID s =
     (case findAppLocked appID s of
        None \<Rightarrow> (s, appNotFound)
      | Some i \<Rightarrow>
          (let response = onboardingResponseLocked e (data_Apps (srv_data s) ! i) s
           in (s, writeJSON 200 (POnboarding (response\<lparr>onb_ClientEndpoint := defaultClientEndpoint r s\<rparr>)))))"

end
