(* ===== verification/Bundle.thy ===== *)
theory Bundle
  imports Diagnostics
begin

text \<open>
  The integration bundle an administrator downloads for an app (server.go): configuration,
  a checklist and a code skeleton, as a list of named files. The zip writer and the indented
  JSON encoder are library parameters.
\<close>

section \<open>Files\<close>

record bundlelib =
  bl_marshalIndent :: "(string \<times> string) list \<Rightarrow> string"
  bl_zip :: "(string \<times> string) list \<Rightarrow> string + string"

definition nl :: string where "nl = [CHR 0x0A]"

definition tabs :: "nat \<Rightarrow> string" where "tabs n = replicate n (CHR 0x09)"

definition textLines :: "string list \<Rightarrow> string" where
  "textLines ls = concat (map (\<lambda>l. l @ nl) ls)"

definition publicKeyFromOnboarding :: "OnboardingResponse \<Rightarrow> string" where
  "publicKeyFromOnboarding onboarding =
     (case List.find (\<lambda>st. step_ID st = ''sdk_key_active'' \<and>
              (case step_Evidence st of None \<Rightarrow> False
               | Some m \<Rightarrow> (case map_of m ''public_key'' of Some (GStr v) \<Rightarrow> True | _ \<Rightarrow> False)))
            (onb_Steps onboarding) of
        None \<Rightarrow> []
      | Some st \<Rightarrow> metadataString (step_Evidence st) ''public_key'')"

definition integrationReadme :: "OnboardingResponse \<Rightarrow> string \<Rightarrow> bool \<Rightarrow> string" where
  "integrationReadme onboarding endpoint includesLicense =
     (let version = (case onb_LatestRelease onboarding of
                       None \<Rightarrow> ''1.0.0''
                     | Some r \<Rightarrow> orDefault ''1.0.0'' (rel_Version r));
          licenseLine = (if includesLicense
            then ''A demo license key was included because the bundle request supplied one explicitly.''
            else ''License key is intentionally not included. Pass it at activation time.'')
      in textLines
        [''# License Guard Integration Bundle'', [],
         ''App: '' @ app_Name (onb_App onboarding),
         ''App ID: '' @ onb_AppID onboarding,
         ''Endpoint: '' @ endpoint,
         ''Version: '' @ version, [],
         licenseLine, [],
         ''Files:'',
         ''- .env.example: runtime configuration values safe for client code.'',
         ''- licenseguard.config.json: importable client configuration without secrets.'',
         ''- app_id.txt, endpoint.txt, public_key.txt: single-value files for deployment checks.'',
         ''- internal/licenseguard/: minimal integration skeleton for Windows Go apps.'',
         ''- integration-checklist.md: acceptance steps matching the Admin UI onboarding workbench.'', [],
         ''Do not add SDK Secret, server private keys, admin tokens, or database credentials to the client app.''])"

definition integrationConfigJSON ::
  "bundlelib \<Rightarrow> OnboardingResponse \<Rightarrow> string \<Rightarrow> string \<Rightarrow> string \<Rightarrow> string \<Rightarrow> string \<Rightarrow> string \<Rightarrow> string \<Rightarrow> string" where
  "integrationConfigJSON B onboarding endpoint version publicKey binaryHash signer installIDPath tokenCachePath =
     bl_marshalIndent B
       [(''endpoint'', endpoint), (''app_id'', onb_AppID onboarding), (''app_version'', version),
        (''public_key'', publicKey), (''binary_hash'', binaryHash), (''signer_thumbprint'', signer),
        (''install_id_path'', installIDPath), (''token_cache_path'', tokenCachePath),
        (''license_key_strategy'', ''activation_time'')] @ nl"

definition integrationChecklist :: "OnboardingResponse \<Rightarrow> string" where
  "integrationChecklist onboarding =
     textLines ([''# Integration Checklist'', []] @
       map (\<lambda>st. ''- [ ] '' @ step_Label st @ '' ('' @ step_Status st @ '', '' @ step_Source st @ '')'')
         (onb_Steps onboarding) @
       [[], ''Acceptance:'',
        ''- Activation returns allowed=true and the Admin UI shows a device.'',
        ''- Local token verification works while offline until offline grace expires.'',
        ''- Verify and heartbeat update last_seen_at.'',
        ''- Tampered binary hash returns INTEGRITY_FAILED and creates a risk event.''])"

definition licenseguardPackageReadme :: string where
  "licenseguardPackageReadme =
     textLines
       [''# internal/licenseguard'', [],
        ''Place the generated skeleton in your app and replace TODO blocks with calls to the checked-in License Guard Go SDK or equivalent HTTP client code.'', [],
        ''Keep business code behind Service or a similar interface so entitlement checks do not scatter raw API calls through the app.'']"

definition integrationConfigGo :: string where
  "integrationConfigGo =
     textLines [
     ''package licenseguard'',
     [],
     ''import \"os\"'',
     [],
     ''type Config struct {'',
     tabs 1 @ ''Endpoint         string'',
     tabs 1 @ ''AppID            string'',
     tabs 1 @ ''AppVersion       string'',
     tabs 1 @ ''PublicKey        string'',
     tabs 1 @ ''BinaryHash       string'',
     tabs 1 @ ''SignerThumbprint string'',
     tabs 1 @ ''InstallIDPath    string'',
     tabs 1 @ ''TokenCachePath   string'',
     ''}'',
     [],
     ''func LoadConfig() Config {'',
     tabs 1 @ ''return Config{'',
     tabs 2 @ ''Endpoint:         os.Getenv(\"LICENSE_GUARD_ENDPOINT\"),'',
     tabs 2 @ ''AppID:            os.Getenv(\"LICENSE_GUARD_APP_ID\"),'',
     tabs 2 @ ''AppVersion:       os.Getenv(\"LICENSE_GUARD_APP_VERSION\"),'',
     tabs 2 @ ''PublicKey:        os.Getenv(\"LICENSE_GUARD_PUBLIC_KEY\"),'',
     tabs 2 @ ''BinaryHash:       os.Getenv(\"LICENSE_GUARD_BINARY_HASH\"),'',
     tabs 2 @ ''SignerThumbprint: os.Getenv(\"LICENSE_GUARD_SIGNER_THUMBPRINT\"),'',
     tabs 2 @ ''InstallIDPath:    os.Getenv(\"LICENSE_GUARD_INSTALL_ID_PATH\"),'',
     tabs 2 @ ''TokenCachePath:   os.Getenv(\"LICENSE_GUARD_TOKEN_CACHE_PATH\"),'',
     tabs 1 @ ''}'',
     ''}'']"

definition integrationServiceGo :: string where
  "integrationServiceGo =
     textLines [
     ''package licenseguard'',
     [],
     ''import \"context\"'',
     [],
     ''type Result struct {'',
     tabs 1 @ ''Allowed      bool'',
     tabs 1 @ ''Code         string'',
     tabs 1 @ ''Entitlements []string'',
     ''}'',
     [],
     ''type Service struct {'',
     tabs 1 @ ''config Config'',
     ''}'',
     [],
     ''func NewService(config Config) *Service {'',
     tabs 1 @ ''return &Service{config: config}'',
     ''}'',
     [],
     ''func (s *Service) Activate(ctx context.Context, licenseKey string) (*Result, error) {'',
     tabs 1 @ ''// TODO: call /v1/challenge, collect device and integrity data, then call /v1/activate.'',
     tabs 1 @ ''return nil, nil'',
     ''}'',
     [],
     ''func (s *Service) VerifyLocalOnStartup(ctx context.Context) (*Result, error) {'',
     tabs 1 @ ''// TODO: read token cache, verify Ed25519 signature with PublicKey, then check app_id, device_id, exp, and entitlements.'',
     tabs 1 @ ''return nil, nil'',
     ''}'',
     [],
     ''func (s *Service) VerifyOnline(ctx context.Context) (*Result, error) {'',
     tabs 1 @ ''// TODO: call /v1/challenge and /v1/verify with cached token and current integrity report.'',
     tabs 1 @ ''return nil, nil'',
     ''}'',
     [],
     ''func (s *Service) Heartbeat(ctx context.Context) error {'',
     tabs 1 @ ''// TODO: call /v1/heartbeat with cached token and install_id.'',
     tabs 1 @ ''return nil'',
     ''}'',
     [],
     ''func (s *Service) HasEntitlement(result *Result, name string) bool {'',
     tabs 1 @ ''if result == nil {'',
     tabs 2 @ ''return false'',
     tabs 1 @ ''}'',
     tabs 1 @ ''for _, item := range result.Entitlements {'',
     tabs 2 @ ''if item == name {'',
     tabs 3 @ ''return true'',
     tabs 2 @ ''}'',
     tabs 1 @ ''}'',
     tabs 1 @ ''return false'',
     ''}'']"

definition integrationErrorsGo :: string where
  "integrationErrorsGo =
     textLines [
     ''package licenseguard'',
     [],
     ''var UserMessages = map[string]string{'',
     tabs 1 @ utf8 [0x22, 0x4c, 0x49, 0x43, 0x45, 0x4e, 0x53, 0x45, 0x5f, 0x52, 0x45, 0x56, 0x4f, 0x4b, 0x45, 0x44, 0x22, 0x3a, 0x20, 0x20, 0x20, 0x20, 0x20, 0x20, 0x20, 0x20, 0x22, 0x6388, 0x6743, 0x5df2, 0x540a, 0x9500, 0xff0c, 0x8bf7, 0x8054, 0x7cfb, 0x7ba1, 0x7406, 0x5458, 0x3002, 0x22, 0x2c],
     tabs 1 @ utf8 [0x22, 0x4c, 0x49, 0x43, 0x45, 0x4e, 0x53, 0x45, 0x5f, 0x53, 0x55, 0x53, 0x50, 0x45, 0x4e, 0x44, 0x45, 0x44, 0x22, 0x3a, 0x20, 0x20, 0x20, 0x20, 0x20, 0x20, 0x22, 0x6388, 0x6743, 0x5df2, 0x6682, 0x505c, 0xff0c, 0x8bf7, 0x8054, 0x7cfb, 0x7ba1, 0x7406, 0x5458, 0x6062, 0x590d, 0x3002, 0x22, 0x2c],
     tabs 1 @ utf8 [0x22, 0x44, 0x45, 0x56, 0x49, 0x43, 0x45, 0x5f, 0x42, 0x4c, 0x4f, 0x43, 0x4b, 0x45, 0x44, 0x22, 0x3a, 0x20, 0x20, 0x20, 0x20, 0x20, 0x20, 0x20, 0x20, 0x20, 0x22, 0x5f53, 0x524d, 0x8bbe, 0x5907, 0x5df2, 0x88ab, 0x5c01, 0x7981, 0x3002, 0x22, 0x2c],
     tabs 1 @ utf8 [0x22, 0x44, 0x45, 0x56, 0x49, 0x43, 0x45, 0x5f, 0x4c, 0x49, 0x4d, 0x49, 0x54, 0x5f, 0x45, 0x58, 0x43, 0x45, 0x45, 0x44, 0x45, 0x44, 0x22, 0x3a, 0x20, 0x20, 0x22, 0x6388, 0x6743, 0x8bbe, 0x5907, 0x6570, 0x5df2, 0x8fbe, 0x4e0a, 0x9650, 0xff0c, 0x8bf7, 0x89e3, 0x7ed1, 0x65e7, 0x8bbe, 0x5907, 0x3002, 0x22, 0x2c],
     tabs 1 @ utf8 [0x22, 0x49, 0x4e, 0x54, 0x45, 0x47, 0x52, 0x49, 0x54, 0x59, 0x5f, 0x46, 0x41, 0x49, 0x4c, 0x45, 0x44, 0x22, 0x3a, 0x20, 0x20, 0x20, 0x20, 0x20, 0x20, 0x20, 0x22, 0x5e94, 0x7528, 0x5b8c, 0x6574, 0x6027, 0x6821, 0x9a8c, 0x5931, 0x8d25, 0xff0c, 0x8bf7, 0x91cd, 0x65b0, 0x5b89, 0x88c5, 0x5b98, 0x65b9, 0x7248, 0x672c, 0x3002, 0x22, 0x2c],
     tabs 1 @ utf8 [0x22, 0x54, 0x4f, 0x4b, 0x45, 0x4e, 0x5f, 0x45, 0x58, 0x50, 0x49, 0x52, 0x45, 0x44, 0x22, 0x3a, 0x20, 0x20, 0x20, 0x20, 0x20, 0x20, 0x20, 0x20, 0x20, 0x20, 0x22, 0x6388, 0x6743, 0x72b6, 0x6001, 0x9700, 0x8981, 0x8054, 0x7f51, 0x5237, 0x65b0, 0x3002, 0x22, 0x2c],
     tabs 1 @ utf8 [0x22, 0x41, 0x50, 0x50, 0x5f, 0x56, 0x45, 0x52, 0x53, 0x49, 0x4f, 0x4e, 0x5f, 0x42, 0x4c, 0x4f, 0x43, 0x4b, 0x45, 0x44, 0x22, 0x3a, 0x20, 0x20, 0x20, 0x20, 0x22, 0x5f53, 0x524d, 0x7248, 0x672c, 0x5df2, 0x505c, 0x7528, 0xff0c, 0x8bf7, 0x5347, 0x7ea7, 0x3002, 0x22, 0x2c],
     tabs 1 @ utf8 [0x22, 0x54, 0x4f, 0x4b, 0x45, 0x4e, 0x5f, 0x44, 0x45, 0x56, 0x49, 0x43, 0x45, 0x5f, 0x4d, 0x49, 0x53, 0x4d, 0x41, 0x54, 0x43, 0x48, 0x22, 0x3a, 0x20, 0x20, 0x22, 0x6388, 0x6743, 0x20, 0x74, 0x6f, 0x6b, 0x65, 0x6e, 0x20, 0x4e0e, 0x5f53, 0x524d, 0x8bbe, 0x5907, 0x4e0d, 0x5339, 0x914d, 0xff0c, 0x8bf7, 0x91cd, 0x65b0, 0x6fc0, 0x6d3b, 0x3002, 0x22, 0x2c],
     tabs 1 @ utf8 [0x22, 0x54, 0x4f, 0x4b, 0x45, 0x4e, 0x5f, 0x44, 0x45, 0x41, 0x43, 0x54, 0x49, 0x56, 0x41, 0x54, 0x45, 0x44, 0x22, 0x3a, 0x20, 0x20, 0x20, 0x20, 0x20, 0x20, 0x22, 0x5f53, 0x524d, 0x8bbe, 0x5907, 0x6388, 0x6743, 0x5df2, 0x505c, 0x7528, 0xff0c, 0x8bf7, 0x91cd, 0x65b0, 0x6fc0, 0x6d3b, 0x3002, 0x22, 0x2c],
     ''}'']"

text \<open>The paths contain backslashes, byte 5C.\<close>

definition clientPath :: "string \<Rightarrow> string \<Rightarrow> string" where
  "clientPath appID file =
     ''%LOCALAPPDATA%'' @ [CHR 0x5C] @ ''LicenseGuard'' @ [CHR 0x5C] @ appID @ [CHR 0x5C] @ file"

definition envLines :: "OnboardingResponse \<Rightarrow> string \<Rightarrow> string \<Rightarrow> string list" where
  "envLines onboarding endpoint licenseKey =
     (let (version, binaryHash, signer) =
            (case onb_LatestRelease onboarding of
               None \<Rightarrow> (''1.0.0'', [], [])
             | Some r \<Rightarrow> (rel_Version r, rel_MainBinaryHash r, rel_SignerThumbprint r))
      in [''LICENSE_GUARD_ENDPOINT='' @ endpoint,
          ''LICENSE_GUARD_APP_ID='' @ onb_AppID onboarding,
          ''LICENSE_GUARD_APP_VERSION='' @ version,
          ''LICENSE_GUARD_PUBLIC_KEY='' @ publicKeyFromOnboarding onboarding,
          ''LICENSE_GUARD_BINARY_HASH='' @ binaryHash,
          ''LICENSE_GUARD_SIGNER_THUMBPRINT='' @ signer,
          ''LICENSE_GUARD_INSTALL_ID_PATH='' @ clientPath (onb_AppID onboarding) ''install_id'',
          ''LICENSE_GUARD_TOKEN_CACHE_PATH='' @ clientPath (onb_AppID onboarding) ''license_token.json''] @
         (if licenseKey \<noteq> [] then [''LICENSE_GUARD_DEMO_LICENSE='' @ licenseKey] else []))"

definition bundleFiles ::
  "bundlelib \<Rightarrow> OnboardingResponse \<Rightarrow> string \<Rightarrow> string \<Rightarrow> (string \<times> string) list" where
  "bundleFiles B onboarding endpoint licenseKey =
     (let (version, binaryHash, signer) =
            (case onb_LatestRelease onboarding of
               None \<Rightarrow> (''1.0.0'', [], [])
             | Some r \<Rightarrow> (rel_Version r, rel_MainBinaryHash r, rel_SignerThumbprint r));
          appID = onb_AppID onboarding;
          publicKey = publicKeyFromOnboarding onboarding
      in [(''README.md'', integrationReadme onboarding endpoint (licenseKey \<noteq> [])),
          (''.env.example'', joinWith nl (envLines onboarding endpoint licenseKey) @ nl),
          (''licenseguard.config.json'',
             integrationConfigJSON B onboarding endpoint version publicKey binaryHash signer
               (clientPath appID ''install_id'') (clientPath appID ''license_token.json'')),
          (''app_id.txt'', appID @ nl),
          (''endpoint.txt'', endpoint @ nl),
          (''public_key.txt'', publicKey @ nl),
          (''integration-checklist.md'', integrationChecklist onboarding),
          (''internal/licenseguard/README.md'', licenseguardPackageReadme),
          (''internal/licenseguard/config.go'', integrationConfigGo),
          (''internal/licenseguard/service.go'', integrationServiceGo),
          (''internal/licenseguard/errors.go'', integrationErrorsGo)])"

text \<open>The archive holds the files in the order of their names.\<close>

definition nameLess :: "string \<times> string \<Rightarrow> string \<times> string \<Rightarrow> bool" where
  "nameLess a b \<longleftrightarrow> fst a < fst b"

definition buildIntegrationBundle ::
  "bundlelib \<Rightarrow> OnboardingResponse \<Rightarrow> string \<Rightarrow> string \<Rightarrow> string + string" where
  "buildIntegrationBundle B onboarding endpoint licenseKey =
     bl_zip B (sortSlice nameLess (bundleFiles B onboarding endpoint licenseKey))"

section \<open>The file name\<close>

text \<open>\<open>range\<close> over a string: the number of bytes of the first rune; a byte that starts no valid
  sequence is one rune of its own.\<close>

definition byteIn :: "nat \<Rightarrow> nat \<Rightarrow> char \<Rightarrow> bool" where
  "byteIn lo hi c \<longleftrightarrow> lo \<le> of_char c \<and> of_char c \<le> hi"

definition runeLength :: "string \<Rightarrow> nat" where
  "runeLength s =
     (let at = (\<lambda>i lo hi. i < length s \<and> byteIn lo hi (s ! i)); tail = (\<lambda>i. at i 0x80 0xBF) in
      if at 0 0xC2 0xDF \<and> tail 1 then 2
      else if (at 0 0xE0 0xE0 \<and> at 1 0xA0 0xBF \<or> at 0 0xE1 0xEC \<and> tail 1 \<or>
               at 0 0xED 0xED \<and> at 1 0x80 0x9F \<or> at 0 0xEE 0xEF \<and> tail 1) \<and> tail 2 then 3
      else if (at 0 0xF0 0xF0 \<and> at 1 0x90 0xBF \<or> at 0 0xF1 0xF3 \<and> tail 1 \<or>
               at 0 0xF4 0xF4 \<and> at 1 0x80 0x8F) \<and> tail 2 \<and> tail 3 then 4
      else 1)"

lemma runeLength_pos: "0 < runeLength s"
  by (simp add: runeLength_def Let_def)

definition safeNameByte :: "char \<Rightarrow> bool" where
  "safeNameByte c \<longleftrightarrow> byteIn 97 122 c \<or> byteIn 65 90 c \<or> byteIn 48 57 c \<or> c = CHR ''-'' \<or> c = CHR ''_'' \<or> c = CHR ''.''"

function replaceUnsafe :: "string \<Rightarrow> string" where
  "replaceUnsafe [] = []"
| "replaceUnsafe (c # cs) =
     (if runeLength (c # cs) = 1 \<and> safeNameByte c then c # replaceUnsafe cs
      else CHR ''_'' # replaceUnsafe (drop (runeLength (c # cs)) (c # cs)))"
  by pat_completeness auto
termination
  by (relation "measure length") (use runeLength_pos in \<open>auto simp: less_Suc_eq_le drop_Cons' \<close>)

definition sanitizeFilename :: "string \<Rightarrow> string" where
  "sanitizeFilename val =
     (let name = trimSet ''._-'' (replaceUnsafe val) in if name = [] then ''app'' else name)"

section \<open>The handler\<close>

record BundleRequest =
  bdq_Endpoint :: string
  bdq_LicenseKey :: string

text \<open>The archive is written with a file name and without caching; the body of the response is
  the name and the bytes.\<close>

definition bundleResponse :: "string \<Rightarrow> string \<Rightarrow> Response" where
  "bundleResponse filename body =
     \<lparr>rsp_status = 200, rsp_body = PObject [(''filename'', PVal (GStr filename)), (''archive'', PVal (GStr body))]\<rparr>"

definition integrationBundle ::
  "bundlelib \<Rightarrow> env \<Rightarrow> Request \<Rightarrow> string \<Rightarrow> BundleRequest \<Rightarrow> Server \<Rightarrow> Server \<times> Response" where
  "integrationBundle B e r appID q s =
     (let endpoint = (if bdq_Endpoint q = [] then defaultClientEndpoint r s else bdq_Endpoint q) in
      case findAppLocked appID s of
        None \<Rightarrow> (s, appNotFound)
      | Some i \<Rightarrow>
          (let app = data_Apps (srv_data s) ! i;
               response = onboardingResponseLocked e app s
           in case buildIntegrationBundle B response (trimRightSet ''/'' endpoint) (bdq_LicenseKey q) of
                Inl err \<Rightarrow> (s, writeError 500 ''BUNDLE_FAILED'' err)
              | Inr body \<Rightarrow>
                  (s, bundleResponse
                        (''licenseguard-integration-'' @ sanitizeFilename (app_AppKey app) @ ''.zip'') body)))"

definition handleIntegrationBundle ::
  "bundlelib \<Rightarrow> env \<Rightarrow> Request \<Rightarrow> string \<Rightarrow> string + BundleRequest \<Rightarrow> Server \<Rightarrow> Server \<times> Response" where
  "handleIntegrationBundle B e r appID body = decodeJSON body (integrationBundle B e r appID)"

section \<open>Lemmas\<close>

lemma safe_underscore [simp]: "safeNameByte (CHR ''_'')"
  by (simp add: safeNameByte_def)

lemma replaceUnsafe_safe: "c \<in> set (replaceUnsafe s) \<Longrightarrow> safeNameByte c"
  by (induction s rule: replaceUnsafe.induct) (auto split: if_splits)

end
