(* ===== verification/Seed.thy ===== *)
theory Seed
  imports AdminLicenses
begin

text \<open>
  Starting the server (server.go, \<open>NewServerWithStoreOptions\<close>, \<open>loadOrSeed\<close>,
  \<open>ensureLoadedDefaults\<close> and their helpers): a loaded state is repaired, an empty store is
  seeded with a bootstrap administrator or with the demo data, and nothing starts without an
  administrator. The outcome of loading is an input: an error, \<open>ErrStoreNotFound\<close> or data.
\<close>

record BootstrapAdmin =
  boot_ID :: string
  boot_Account :: string
  boot_Name :: string
  boot_Password :: string

record ServerOptions =
  opt_SeedDemoData :: bool
  opt_BootstrapAdmin :: "BootstrapAdmin option"
  opt_PublicBaseURL :: string

definition newPasswordAdmin ::
  "golib \<Rightarrow> env \<Rightarrow> nat \<Rightarrow> string \<Rightarrow> string \<Rightarrow> string \<Rightarrow> string \<Rightarrow> time \<Rightarrow> string + Admin" where
  "newPasswordAdmin L e k i account name password now =
     (case lib_bcrypt_generate L (randBytes e k 16) password of
        Inl err \<Rightarrow> Inl err
      | Inr hash \<Rightarrow>
          Inr \<lparr>adm_ID = i, adm_Account = toLower L (trimSpace account), adm_Name = name,
               adm_PasswordHash = hash, adm_Status = ''active'', adm_CreatedAt = now, adm_UpdatedAt = now\<rparr>)"

definition newBootstrapAdmin ::
  "golib \<Rightarrow> env \<Rightarrow> nat \<Rightarrow> BootstrapAdmin \<Rightarrow> time \<Rightarrow> string + Admin" where
  "newBootstrapAdmin L e k input now =
     (let i = orDefault ''admin_bootstrap'' (trimSpace (boot_ID input));
          name = orDefault ''Bootstrap Admin'' (trimSpace (boot_Name input));
          account = trimSpace (boot_Account input)
      in if account = [] then Inl ''bootstrap admin account is required''
         else if boot_Password input = [] then Inl ''bootstrap admin password is required''
         else newPasswordAdmin L e k i account name (boot_Password input) now)"

definition demoAdmin :: "golib \<Rightarrow> env \<Rightarrow> nat \<Rightarrow> time \<Rightarrow> string + Admin" where
  "demoAdmin L e k now =
     newPasswordAdmin L e k ''admin_demo'' ''admin@example.com'' ''Demo Admin'' ''ChangeMe123!'' now"

definition DemoLicenseKey :: string where
  "DemoLicenseKey = ''LG-DEMO-2026-WINDOWS''"

definition emptyData :: "SystemSettings \<Rightarrow> Data" where
  "emptyData settings =
     \<lparr>data_Admins = [], data_Apps = [], data_Releases = [], data_SDKKeys = [], data_Licenses = [],
      data_CapabilityPolicies = [], data_Devices = [], data_Activations = [], data_IntegrityReports = [],
      data_RiskEvents = [], data_AuditLogs = [], data_Settings = settings\<rparr>"

definition demoData :: "golib \<Rightarrow> Admin \<Rightarrow> SDKKey \<Rightarrow> time \<Rightarrow> Data" where
  "demoData L admin sdkKey now =
     (emptyData (defaultSystemSettings now))
     \<lparr>data_Admins := [admin],
      data_Apps := [\<lparr>app_ID = ''app_demo_nax'', app_AppKey = DemoAppID, app_Name = ''Nax Desktop'',
                     app_Description = ''Windows Go demo application'', app_OwnerTeam = ''Core'',
                     app_Status = ''active'', app_CreatedAt = now, app_UpdatedAt = now\<rparr>],
      data_Releases := [\<lparr>rel_ID = ''rel_demo_nax_142'', rel_AppID = DemoAppID, rel_Platform = ''windows'',
                         rel_Version = ''1.4.2'', rel_BuildNumber = 10402, rel_Channel = ''production'',
                         rel_Status = ''active'', rel_SignerThumbprint = ''demo-signer-thumbprint'',
                         rel_MainBinaryHash = ''demo-main-binary-sha256'', rel_ResourceManifestHash = [],
                         rel_BusinessManifestSHA256 = [], rel_ProtectedDBSchemaHash = [],
                         rel_ProtectedDBTablesHash = [], rel_AssetsManifestSHA256 = [],
                         rel_WorkflowManifestSHA256 = [],
                         rel_DownloadURL = ''https://download.example.com/nax-desktop/1.4.2/setup.exe'',
                         rel_PackageSHA256 = ''demo-package-sha256'', rel_Mandatory = False,
                         rel_MinSupportedVersion = [], rel_RolloutPercent = 100,
                         rel_ReleaseNotes = ''Seed release for local Windows Go integration.'',
                         rel_CreatedAt = now\<rparr>],
      data_SDKKeys := [sdkKey],
      data_Licenses := [\<lparr>lic_ID = ''lic_demo_windows'', lic_LicenseKeyHash = hashString L DemoLicenseKey,
                         lic_LicenseKeyPrefix = licensePrefix DemoLicenseKey, lic_AppID = DemoAppID,
                         lic_PlanName = ''Pro'', lic_OwnerType = ''user'', lic_OwnerRef = ''demo-customer'',
                         lic_MaxDevices = 3, lic_Entitlements = [''feature.pro'', ''export.enabled''],
                         lic_ExpiresAt = now + days 365, lic_Status = ''active'',
                         lic_CreatedAt = now, lic_UpdatedAt = now\<rparr>]\<rparr>"

section \<open>Repairing loaded data\<close>

text \<open>One turn per app of the list the loop ranges over; the i-th turn has two sites. An app
  without an active key gets one and the loop continues with the next app.\<close>

fun ensureAppDefaults ::
  "golib \<Rightarrow> env \<Rightarrow> nat \<Rightarrow> time \<Rightarrow> App list \<Rightarrow> Server \<times> bool \<Rightarrow> Server \<times> bool" where
  "ensureAppDefaults L e k now [] sc = sc"
| "ensureAppDefaults L e k now (app # apps) (s, changed) =
     (case activeSDKKeyForAppLocked (app_AppKey app) s of
        None \<Rightarrow>
          (let sdkKey = fst (newSDKKey L e k (app_AppKey app) (publicKeyString s) now False);
               s1 = updData (\<lambda>d. d\<lparr>data_SDKKeys := data_SDKKeys d @ [sdkKey]\<rparr>) s
           in ensureAppDefaults L e (k + 2) now apps (s1, True))
      | Some i \<Rightarrow>
          (let stale = sdk_PublicKey (data_SDKKeys (srv_data s) ! i) \<noteq> publicKeyString s;
               s1 = (if stale
                     then updData (\<lambda>d. d\<lparr>data_SDKKeys := modifyAt i
                            (\<lambda>x. x\<lparr>sdk_PublicKey := publicKeyString s\<rparr>) (data_SDKKeys d)\<rparr>) s
                     else s);
               (s2, added) = (if isVisionFlowAppKey L (app_AppKey app)
                              then ensureDefaultVisionFlowPoliciesLocked (app_AppKey app) now s1
                              else (s1, 0))
           in ensureAppDefaults L e (k + 2) now apps (s2, changed \<or> stale \<or> added > 0)))"

definition ensureLoadedDefaults :: "golib \<Rightarrow> env \<Rightarrow> ServerOptions \<Rightarrow> Server \<Rightarrow> Server \<times> string option" where
  "ensureLoadedDefaults L e options s =
     (let now = env_now e 0;
          settings = normalizeSystemSettings now (data_Settings (srv_data s));
          fixed = data_Settings (srv_data s) \<noteq> settings;
          s1 = (if fixed then updData (\<lambda>d. d\<lparr>data_Settings := settings\<rparr>) s else s);
          (s2, changed) = ensureAppDefaults L e 4 now (data_Apps (srv_data s1)) (s1, fixed)
      in if data_Admins (srv_data s2) \<noteq> [] then (if changed then saveLocked e 1 s2 else (s2, None))
         else
           (case opt_BootstrapAdmin options of
              Some boot \<Rightarrow>
                (case newBootstrapAdmin L e 2 boot now of
                   Inl err \<Rightarrow> (s2, Some err)
                 | Inr admin \<Rightarrow> saveLocked e 1 (updData (\<lambda>d. d\<lparr>data_Admins := data_Admins d @ [admin]\<rparr>) s2))
            | None \<Rightarrow>
                if \<not> opt_SeedDemoData options
                then (s2, Some ''store has no admins and demo seed is disabled; bootstrap a production admin before starting'')
                else (case demoAdmin L e 2 now of
                        Inl err \<Rightarrow> (s2, Some err)
                      | Inr admin \<Rightarrow>
                          saveLocked e 1 (updData (\<lambda>d. d\<lparr>data_Admins := data_Admins d @ [admin]\<rparr>) s2))))"

definition seedStore :: "golib \<Rightarrow> env \<Rightarrow> ServerOptions \<Rightarrow> Server \<Rightarrow> Server \<times> string option" where
  "seedStore L e options s =
     (let now = env_now e 0 in
      case opt_BootstrapAdmin options of
        Some boot \<Rightarrow>
          (case newBootstrapAdmin L e 2 boot now of
             Inl err \<Rightarrow> (s, Some err)
           | Inr admin \<Rightarrow>
               saveLocked e 1 (s\<lparr>srv_data := (emptyData (defaultSystemSettings now))\<lparr>data_Admins := [admin]\<rparr>\<rparr>))
      | None \<Rightarrow>
          if \<not> opt_SeedDemoData options
          then (s, Some ''store is empty and demo seed is disabled; bootstrap a production admin before starting'')
          else (case demoAdmin L e 2 now of
                  Inl err \<Rightarrow> (s, Some err)
                | Inr admin \<Rightarrow>
                    (let sdkKey = fst (newSDKKey L e 3 DemoAppID (publicKeyString s) now False)
                     in saveLocked e 1 (s\<lparr>srv_data := demoData L admin sdkKey now\<rparr>))))"

definition loadOrSeed ::
  "golib \<Rightarrow> env \<Rightarrow> string + Data option \<Rightarrow> ServerOptions \<Rightarrow> Server \<Rightarrow> Server \<times> string option" where
  "loadOrSeed L e loaded options s =
     (case loaded of
        Inl err \<Rightarrow> (s, Some err)
      | Inr (Some data) \<Rightarrow> ensureLoadedDefaults L e options (s\<lparr>srv_data := data\<rparr>)
      | Inr None \<Rightarrow> seedStore L e options s)"

section \<open>Constructing the server\<close>

fun corsParts :: "string list \<Rightarrow> string list option" where
  "corsParts [] = Some []"
| "corsParts (part0 # parts) =
     (let part = trimSpace part0 in
      if part = [] then corsParts parts
      else if part = ''*'' then None
      else map_option (\<lambda>rest. trimRightSet ''/'' part # rest) (corsParts parts))"

text \<open>\<open>None\<close> is the early return of the wildcard.\<close>

definition normalizeCORSAllowedOrigins :: "string list \<Rightarrow> string list" where
  "normalizeCORSAllowedOrigins origins =
     (case corsParts (concat (map (splitOn (CHR '','')) origins)) of
        None \<Rightarrow> [''*'']
      | Some [] \<Rightarrow> [''*'']
      | Some normalized \<Rightarrow> normalized)"

definition normalizePublicBaseURL :: "string \<Rightarrow> string" where
  "normalizePublicBaseURL v = trimRightSet ''/'' (trimSpace v)"

definition zeroSettings :: SystemSettings where
  "zeroSettings =
     \<lparr>set_DefaultTokenTTLMinutes = 0, set_MediumRiskTokenTTLMinutes = 0, set_OfflineGraceDays = 0,
      set_DefaultMaxDevices = 0, set_DefaultLicenseDays = 0, set_AuditLogRetentionDays = 0,
      set_MFARequired = False, set_SensitiveActionConfirm = False, set_UpdatedAt = zeroTime\<rparr>"

definition freshServer :: "string \<Rightarrow> string \<Rightarrow> Data option \<Rightarrow> ServerOptions \<Rightarrow> Server" where
  "freshServer pub priv stored options =
     \<lparr>srv_data = emptyData zeroSettings, srv_store = stored, srv_publicKey = pub, srv_privateKey = priv,
      srv_challenges = Map.empty, srv_adminSessions = Map.empty, srv_corsAllowedOrigins = [''*''],
      srv_publicBaseURL = normalizePublicBaseURL (opt_PublicBaseURL options), srv_rateLimits = Map.empty,
      srv_rateLimitWindow = minutes 1, srv_rateLimitFailures = 5\<rparr>"

text \<open>The key pair is that of the key file; a nil server with an error is \<open>Inl\<close>.\<close>

definition NewServerWithStoreOptions ::
  "golib \<Rightarrow> env \<Rightarrow> string + string \<times> string \<Rightarrow> string + Data option \<Rightarrow> ServerOptions \<Rightarrow> string + Server" where
  "NewServerWithStoreOptions L e keys loaded options =
     (case keys of
        Inl err \<Rightarrow> Inl err
      | Inr (pub, priv) \<Rightarrow>
          (case loadOrSeed L e loaded options
                  (freshServer pub priv (case loaded of Inr stored \<Rightarrow> stored | Inl err \<Rightarrow> None) options) of
             (s, Some err) \<Rightarrow> Inl err
           | (s, None) \<Rightarrow> Inr s))"

definition SetCORSAllowedOrigins :: "string list \<Rightarrow> Server \<Rightarrow> Server" where
  "SetCORSAllowedOrigins origins s = s\<lparr>srv_corsAllowedOrigins := normalizeCORSAllowedOrigins origins\<rparr>"

end
