(* ===== verification/Http.thy ===== *)
theory Http
  imports Bundle Seed
begin

text \<open>
  The HTTP surface (server.go, \<open>ServeHTTP\<close>, \<open>handleAdmin\<close>, \<open>handleAppDetail\<close>, \<open>setCORS\<close>): which
  handler serves a method and path, and the session check in front of the administrative ones.
  A request's body is what the decoder makes of it for each type a handler decodes it into.
\<close>

record Body =
  body_Login :: "string + LoginRequest"
  body_Password :: "string + PasswordRequest"
  body_App :: "string + AppRequest"
  body_Release :: "string + ReleaseRequest"
  body_ReleasePatch :: "string + ReleasePatch"
  body_Policies :: "string + CapabilityPolicy list"
  body_Bundle :: "string + BundleRequest"
  body_License :: "string + LicenseRequest"
  body_Settings :: "string + SettingsPatch"
  body_Challenge :: "string + ChallengeRequest"
  body_Verify :: "string + VerifyRequest"
  body_Heartbeat :: "string + HeartbeatRequest"
  body_Capability :: "string + CapabilityRequest"
  body_Deactivate :: "string + DeactivateRequest"

text \<open>What a deployment fixes: libraries, the bundle writer and the local time zone.\<close>

record world =
  w_lib :: golib
  w_bundle :: bundlelib
  w_startOfDay :: "time \<Rightarrow> time"

section \<open>CORS\<close>

fun allowOrigin :: "string \<Rightarrow> string list \<Rightarrow> (string \<times> string) list" where
  "allowOrigin origin [] = []"
| "allowOrigin origin (allowed # rest) =
     (if allowed = ''*'' then [(''Access-Control-Allow-Origin'', ''*'')]
      else if origin \<noteq> [] \<and> origin = allowed
      then [(''Access-Control-Allow-Origin'', origin), (''Vary'', ''Origin'')]
      else allowOrigin origin rest)"

definition setCORS :: "Request \<Rightarrow> Server \<Rightarrow> (string \<times> string) list" where
  "setCORS r s =
     (let origin = trimSpace (req_Header r ''Origin'');
          allowedOrigins = (if srv_corsAllowedOrigins s = [] then [''*''] else srv_corsAllowedOrigins s)
      in allowOrigin origin allowedOrigins @
         [(''Access-Control-Allow-Headers'',
           ''Authorization, Content-Type, X-LG-App-Id, X-LG-SDK-Version, X-LG-Request-Id''),
          (''Access-Control-Allow-Methods'', ''GET, POST, PATCH, OPTIONS'')])"

section \<open>Application routes\<close>

definition notFound :: "string \<Rightarrow> Response" where
  "notFound message = writeError 404 ''NOT_FOUND'' message"

text \<open>The alternatives in the order of the code; each tests the path and, mostly, the method.\<close>

definition handleAppDetail ::
  "world \<Rightarrow> env \<Rightarrow> Request \<Rightarrow> Body \<Rightarrow> string \<Rightarrow> string \<Rightarrow> Server \<Rightarrow> Server \<times> Response" where
  "handleAppDetail W e r body tail adminID s =
     (let parts = splitOn (CHR ''/'') tail; appID = hd parts; sub = tl parts;
          method = req_Method r; L = w_lib W
      in if appID = [] then (s, notFound ''app not found'')
         else if sub = [''sdk-keys'', ''rotate''] \<and> method = ''POST'' then handleSDKKeyRotate L e r appID adminID s
         else if sub = [''onboarding''] \<and> method = ''GET'' then handleAppOnboarding e r appID s
         else if sub = [''integration-bundle''] \<and> method = ''POST''
         then handleIntegrationBundle (w_bundle W) e r appID (body_Bundle body) s
         else if sub = [''diagnostics''] \<and> method = ''GET'' then handleAppDiagnostics L e r appID s
         else if sub = [''capability-policies'', ''visionflow-defaults''] \<and> method = ''POST''
         then handleVisionFlowCapabilityDefaults L e r appID adminID s
         else if sub = [''capability-policies'']
         then handleCapabilityPolicies L e r appID adminID (body_Policies body) s
         else if sub = [''releases''] \<and> method = ''POST''
         then decodeJSON (body_Release body) (createRelease L e r appID adminID) s
         else if length sub = 2 \<and> hd sub = ''releases'' \<and> method = ''PATCH''
         then decodeJSON (body_ReleasePatch body) (patchRelease L e r appID adminID (sub ! 1)) s
         else if method \<noteq> ''GET'' then (s, methodNotAllowed)
         else appDetail appID s)"

definition handleAdmin ::
  "world \<Rightarrow> env \<Rightarrow> Request \<Rightarrow> Body \<Rightarrow> string \<Rightarrow> string \<Rightarrow> Server \<Rightarrow> Server \<times> Response" where
  "handleAdmin W e r body path adminID s =
     (let method = req_Method r; L = w_lib W in
      if path = ''/admin/logout'' \<and> method = ''POST'' then handleAdminLogout L e r adminID s
      else if path = ''/admin/me/password'' \<and> method = ''POST''
      then handleAdminPasswordChange L e r adminID (body_Password body) s
      else if path = ''/admin/me'' \<and> method = ''GET'' then handleAdminMe adminID s
      else if path = ''/admin/dashboard'' \<and> method = ''GET'' then handleDashboard (w_startOfDay W) e s
      else if path = ''/admin/apps'' then handleApps L e r adminID (body_App body) s
      else if hasPrefix path ''/admin/apps/''
      then handleAppDetail W e r body (trimPrefix path ''/admin/apps/'') adminID s
      else if path = ''/admin/licenses'' then handleLicenses L e r adminID (body_License body) s
      else if hasPrefix path ''/admin/licenses/''
      then handleLicenseAction L e r (trimPrefix path ''/admin/licenses/'') adminID s
      else if path = ''/admin/devices'' \<and> method = ''GET'' then handleDevices s
      else if hasPrefix path ''/admin/devices/''
      then handleDeviceAction L e r (trimPrefix path ''/admin/devices/'') adminID s
      else if path = ''/admin/risk-events'' \<and> method = ''GET'' then handleRiskEvents s
      else if hasPrefix path ''/admin/risk-events/''
      then handleRiskEventAction L e r (trimPrefix path ''/admin/risk-events/'') adminID s
      else if path = ''/admin/audit-logs'' \<and> method = ''GET'' then handleAuditLogs s
      else if path = ''/admin/settings'' then handleSettings L e r adminID (body_Settings body) s
      else (s, notFound ''admin route not found''))"

section \<open>The server\<close>

definition adminRoute ::
  "world \<Rightarrow> env \<Rightarrow> Request \<Rightarrow> Body \<Rightarrow> string \<Rightarrow> Server \<Rightarrow> Server \<times> Response" where
  "adminRoute W e r body path s =
     (case requireAdmin e r s of
        (s1, Inl resp) \<Rightarrow> (s1, resp)
      | (s1, Inr adminID) \<Rightarrow> handleAdmin W e r body path adminID s1)"

definition servePath :: "Request \<Rightarrow> string" where
  "servePath r = (let path = trimRightSet ''/'' (req_Path r) in if path = [] then ''/'' else path)"

definition route :: "world \<Rightarrow> env \<Rightarrow> Request \<Rightarrow> Body \<Rightarrow> Server \<Rightarrow> Server \<times> Response" where
  "route W e r body s =
     (let path = servePath r; method = req_Method r; L = w_lib W in
      if path = ''/health'' \<and> method = ''GET''
      then (s, writeJSON 200 (PVal (GMap [(''ok'', GBool True), (''service'', GStr ''license-guard'')])))
      else if path = ''/v1/public-key'' \<and> method = ''GET'' then handlePublicKey s
      else if path = ''/admin/login'' \<and> method = ''POST'' then handleAdminLogin L e r (body_Login body) s
      else if hasPrefix path ''/admin/'' then adminRoute W e r body path s
      else if path = ''/v1/challenge'' \<and> method = ''POST'' then handleChallenge L e r (body_Challenge body) s
      else if path = ''/v1/activate'' \<and> method = ''POST'' then handleActivate L e r (body_Verify body) s
      else if path = ''/v1/verify'' \<and> method = ''POST'' then handleVerify L e r (body_Verify body) s
      else if path = ''/v1/heartbeat'' \<and> method = ''POST'' then handleHeartbeat L e (body_Heartbeat body) s
      else if path = ''/v1/capability/check'' \<and> method = ''POST''
      then handleCapabilityCheck L e (body_Capability body) s
      else if path = ''/v1/deactivate'' \<and> method = ''POST'' then handleDeactivate L e (body_Deactivate body) s
      else (s, notFound ''route not found''))"

text \<open>The headers are set before anything else; a preflight request is answered by them alone.\<close>

definition ServeHTTP ::
  "world \<Rightarrow> env \<Rightarrow> Request \<Rightarrow> Body \<Rightarrow> Server \<Rightarrow> Server \<times> (string \<times> string) list \<times> Response" where
  "ServeHTTP W e r body s =
     (let headers = setCORS r s in
      if req_Method r = ''OPTIONS'' then (s, headers, \<lparr>rsp_status = 204, rsp_body = PNoBody\<rparr>)
      else (case route W e r body s of (s1, resp) \<Rightarrow> (s1, headers, resp)))"

end
