(* ===== verification/Invariants.thy ===== *)
theory Invariants
  imports Http
begin

text \<open>
  What every request keeps. The data invariant states the uniqueness the lookups rely on (one
  activation per license and device, one device per fingerprint, one app per key, one policy
  per app and capability), an administrator to sign in with, settings in range, and an audit
  log without secrets. Each operation on the state keeps it (collection \<open>keeps\<close>), each handler
  is a composition of those operations, so each request keeps it; starting the server
  establishes it. The last section is the transition system of the running server.
\<close>

named_theorems keeps "operations that keep the server invariant"

section \<open>The invariant\<close>

definition binding :: "Activation \<Rightarrow> string \<times> string" where
  "binding a = (act_LicenseID a, act_DeviceID a)"

definition auditEntryRedacted :: "golib \<Rightarrow> AuditLog \<Rightarrow> bool" where
  "auditEntryRedacted L entry \<longleftrightarrow>
     (case aud_Metadata entry of None \<Rightarrow> True | Some m \<Rightarrow> redacted L (GMap m))"

definition uniqueKeys :: "Data \<Rightarrow> bool" where
  "uniqueKeys d \<longleftrightarrow>
     distinct (map binding (data_Activations d)) \<and>
     distinct (map dev_DeviceFingerprintHash (data_Devices d)) \<and>
     distinct (map app_AppKey (data_Apps d)) \<and>
     distinct (map policyKey (data_CapabilityPolicies d))"

definition dataInvariant :: "golib \<Rightarrow> Data \<Rightarrow> bool" where
  "dataInvariant L d \<longleftrightarrow>
     uniqueKeys d \<and> settingsInRange (data_Settings d) \<and>
     list_all (auditEntryRedacted L) (data_AuditLogs d)"

text \<open>What is kept of a server: the data invariant, where it is asked for; what no request
  replaces - the key pair, so issued tokens stay verifiable, and whether there is an
  administrator -; and a property of every session.\<close>

record promise =
  k_data :: bool
  k_fixed :: "string \<times> string \<times> bool"
  k_session :: "string \<Rightarrow> AdminSession \<Rightarrow> bool"

definition serverInvariant :: "golib \<Rightarrow> promise \<Rightarrow> Server \<Rightarrow> bool" where
  "serverInvariant L K s \<longleftrightarrow>
     (k_data K \<longrightarrow> dataInvariant L (srv_data s)) \<and>
     (srv_publicKey s, srv_privateKey s, data_Admins (srv_data s) \<noteq> []) = k_fixed K \<and>
     (\<forall>token session. srv_adminSessions s token = Some session \<longrightarrow> k_session K token session)"

lemma binding_sel [simp]:
  "binding (a\<lparr>act_ActivationStatus := x1\<rparr>) = binding a" "binding (a\<lparr>act_LastVerifiedAt := x2\<rparr>) = binding a"
  "binding (a\<lparr>act_DeactivatedAt := x3\<rparr>) = binding a" "binding (deactivated now a) = binding a"
  "binding (unbindActivation d now a) = binding a"
  by (simp_all add: binding_def deactivated_def unbindActivation_def)

lemma modifyAt_Nil_iff [simp]: "modifyAt i f xs = [] \<longleftrightarrow> xs = []"
  by (simp add: modifyAt_def)

lemma updData_same [simp]: "updData (\<lambda>d. d) s = s"
  by (simp add: updData_def)

section \<open>Operations on the state\<close>

lemma keeps_save [keeps]: "serverInvariant L K s \<Longrightarrow> serverInvariant L K (fst (saveLocked e k s))"
  by (simp add: serverInvariant_def)

lemma keeps_saveThen [keeps]: "serverInvariant L K s \<Longrightarrow> serverInvariant L K (fst (saveThen e k r s))"
  by (simp add: serverInvariant_def)

lemma keeps_recordFailure [keeps]:
  "serverInvariant L K s \<Longrightarrow> serverInvariant L K (recordRateLimitFailureLocked key now s)"
  by (simp add: serverInvariant_def)

lemma keeps_resetLimit [keeps]: "serverInvariant L K s \<Longrightarrow> serverInvariant L K (resetRateLimitLocked key s)"
  by (simp add: serverInvariant_def)

lemma keeps_cleanup [keeps]: "serverInvariant L K s \<Longrightarrow> serverInvariant L K (cleanupExpiredChallengesLocked now s)"
  by (simp add: serverInvariant_def)

lemma keeps_validate [keeps]:
  "serverInvariant L K s \<Longrightarrow> serverInvariant L K (fst (validateChallengeLocked a i c n now s))"
  by (simp add: serverInvariant_def)

lemma keeps_session:
  assumes "serverInvariant L K s" and "\<And>session. entry = Some session \<Longrightarrow> k_session K token session"
  shows "serverInvariant L K (s\<lparr>srv_adminSessions := (srv_adminSessions s)(token := entry)\<rparr>)"
  using assms by (auto simp: serverInvariant_def)

lemma keeps_dropSession [keeps]:
  "serverInvariant L K s \<Longrightarrow> serverInvariant L K (s\<lparr>srv_adminSessions := (srv_adminSessions s)(token := None)\<rparr>)"
  by (rule keeps_session) simp_all

lemma keeps_challenges [keeps]:
  "serverInvariant L K s \<Longrightarrow> serverInvariant L K (s\<lparr>srv_challenges := m\<rparr>)"
  by (simp add: serverInvariant_def)

lemma keeps_invalidate [keeps]:
  "serverInvariant L K s \<Longrightarrow> serverInvariant L K (invalidateAdminSessionsExceptLocked a t s)"
  by (auto simp: serverInvariant_def)
     (auto simp: invalidateAdminSessionsExceptLocked_def split: option.splits if_splits)

lemma keeps_audit [keeps]:
  assumes "serverInvariant L K s"
  shows "serverInvariant L K (auditLocked L e k ad ac tt ti r md s)"
proof -
  have "auditEntryRedacted L \<lparr>aud_ID = newID e k ''audit'', aud_AdminID = ad, aud_Action = ac,
      aud_TargetType = tt, aud_TargetID = ti, aud_IP = clientIP r,
      aud_UserAgent = req_Header r ''User-Agent'',
      aud_Metadata = sanitizeAuditMetadata L md, aud_CreatedAt = env_now e (k + 1)\<rparr>"
    by (auto simp: auditEntryRedacted_def simp del: redacted.simps split: option.split
        intro: sanitizeAuditMetadata_redacts)
  then show ?thesis
    using assms by (simp add: serverInvariant_def dataInvariant_def uniqueKeys_def auditLocked_def)
qed

lemma keeps_riskEvents [keeps]:
  "serverInvariant L K s \<Longrightarrow> serverInvariant L K (updData (\<lambda>d. d\<lparr>data_RiskEvents := f d\<rparr>) s)"
  by (simp add: serverInvariant_def dataInvariant_def uniqueKeys_def)

lemma keeps_addRisk [keeps]:
  "serverInvariant L K s \<Longrightarrow> serverInvariant L K (addRiskEventLocked e k a d l et sev act sm md s)"
  by (simp add: addRiskEventLocked_def keeps)

lemma keeps_capabilityDeny [keeps]:
  "serverInvariant L K s \<Longrightarrow> serverInvariant L K (addCapabilityDenyRiskEventLocked e k a d l dec s)"
  by (simp add: addCapabilityDenyRiskEventLocked_def Let_def keeps)

lemma keeps_report [keeps]:
  "serverInvariant L K s \<Longrightarrow> serverInvariant L K (addIntegrityReport report s)"
  by (simp add: serverInvariant_def dataInvariant_def uniqueKeys_def addIntegrityReport_def)

lemma keeps_releases [keeps]:
  "serverInvariant L K s \<Longrightarrow> serverInvariant L K (updData (\<lambda>d. d\<lparr>data_Releases := f d\<rparr>) s)"
  by (simp add: serverInvariant_def dataInvariant_def uniqueKeys_def)

lemma keeps_licenses [keeps]:
  "serverInvariant L K s \<Longrightarrow> serverInvariant L K (updData (\<lambda>d. d\<lparr>data_Licenses := f d\<rparr>) s)"
  by (simp add: serverInvariant_def dataInvariant_def uniqueKeys_def)

lemma keeps_sdkKeys [keeps]:
  "serverInvariant L K s \<Longrightarrow> serverInvariant L K (updData (\<lambda>d. d\<lparr>data_SDKKeys := f d\<rparr>) s)"
  by (simp add: serverInvariant_def dataInvariant_def uniqueKeys_def)

lemma keeps_admins [keeps]:
  "serverInvariant L K s \<Longrightarrow> serverInvariant L K (updData (\<lambda>d. d\<lparr>data_Admins := modifyAt i f (data_Admins d)\<rparr>) s)"
  by (simp add: serverInvariant_def dataInvariant_def uniqueKeys_def)

lemma keeps_devices [keeps]:
  assumes "serverInvariant L K s" and "\<And>x. dev_DeviceFingerprintHash (f x) = dev_DeviceFingerprintHash x"
  shows "serverInvariant L K (updData (\<lambda>d. d\<lparr>data_Devices := modifyAt i f (data_Devices d)\<rparr>) s)"
  using assms by (simp add: serverInvariant_def dataInvariant_def uniqueKeys_def map_modifyAt)

lemma keeps_activation [keeps]:
  assumes "serverInvariant L K s" and "\<And>x. binding (f x) = binding x"
  shows "serverInvariant L K (updData (\<lambda>d. d\<lparr>data_Activations := modifyAt i f (data_Activations d)\<rparr>) s)"
  using assms by (simp add: serverInvariant_def dataInvariant_def uniqueKeys_def map_modifyAt)

lemma keeps_activations [keeps]:
  assumes "serverInvariant L K s" and "\<And>x. binding (f x) = binding x"
  shows "serverInvariant L K (updData (\<lambda>d. d\<lparr>data_Activations := map f (data_Activations d)\<rparr>) s)"
proof -
  have same: "binding \<circ> f = binding" using assms(2) by auto
  show ?thesis
    using assms(1) by (simp add: same serverInvariant_def dataInvariant_def uniqueKeys_def)
qed

lemma keeps_policies [keeps]:
  "serverInvariant L K s \<Longrightarrow> serverInvariant L K (upsertCapabilityPoliciesLocked L' ps s)"
  by (simp add: serverInvariant_def dataInvariant_def uniqueKeys_def upsertCapabilityPoliciesLocked_def
      distinct_upserts)

lemma distinct_defaults:
  assumes "distinct (map policyKey table)"
  shows "distinct (map policyKey (fst (seedPolicies a (defaultVisionFlowCapabilityPolicies a now) table)))"
  using assms defaults_appID by (intro distinct_seedPolicies) auto

lemma keeps_defaults [keeps]:
  "serverInvariant L K s \<Longrightarrow> serverInvariant L K (fst (ensureDefaultVisionFlowPoliciesLocked a now s))"
  by (simp add: serverInvariant_def dataInvariant_def uniqueKeys_def distinct_defaults
        ensureDefaultVisionFlowPoliciesLocked_def case_prod_beta)

lemma keeps_settings [keeps]:
  "serverInvariant L K s \<Longrightarrow>
   serverInvariant L K (updData (\<lambda>d. d\<lparr>data_Settings := normalizeSystemSettings now st\<rparr>) s)"
  by (simp add: serverInvariant_def dataInvariant_def uniqueKeys_def normalize_in_range)

section \<open>Verification\<close>

lemma keeps_writeDenied [keeps]:
  "serverInvariant L K s \<Longrightarrow> serverInvariant L K (fst (writeVerificationDenied e key code msg risk s))"
  by (simp add: writeVerificationDenied_def keeps)

lemma keeps_denyWithRisk [keeps]:
  "serverInvariant L K s \<Longrightarrow> serverInvariant L K (fst (denyWithRiskEvent e key ids et sev sm md code msg risk s))"
  by (simp add: denyWithRiskEvent_def Let_def keeps)

lemma keeps_verificationApp:
  "serverInvariant L K s \<Longrightarrow> verificationApp e key input s = Inl out \<Longrightarrow> serverInvariant L K (fst out)"
  by (auto simp: verificationApp_def Let_def keeps split: option.splits if_splits)

lemma keeps_verificationLicense:
  "serverInvariant L K s \<Longrightarrow> verificationLicense L' e key input s = Inl out \<Longrightarrow> serverInvariant L K (fst out)"
  by (auto simp: verificationLicense_def keeps split: sum.splits if_splits)

lemma keeps_verificationLicenseState:
  "serverInvariant L K s \<Longrightarrow> verificationLicenseState L' e key app lic0 claims s = Inl out \<Longrightarrow>
   serverInvariant L K (fst out)"
  by (auto simp: verificationLicenseState_def Let_def keeps split: option.splits if_splits)

lemma keeps_findOrCreateDevice:
  assumes "serverInvariant L K s"
  shows "serverInvariant L K (fst (findOrCreateDeviceLocked L' e input s))"
proof (cases "findDeviceByFingerprintLocked (hashString L' (di_Fingerprint (cvi_Device input))) s")
  case None
  then have "hashString L' (di_Fingerprint (cvi_Device input)) \<notin>
      dev_DeviceFingerprintHash ` set (data_Devices (srv_data s))"
    by (auto simp: findDeviceByFingerprintLocked_def findIdx_None_iff)
  then show ?thesis
    using assms None by (simp add: findOrCreateDeviceLocked_def Let_def serverInvariant_def
        dataInvariant_def uniqueKeys_def)
next
  case (Some i)
  then show ?thesis using assms by (simp add: findOrCreateDeviceLocked_def Let_def keeps)
qed

lemma keeps_verificationDevice:
  "serverInvariant L K s \<Longrightarrow> verificationDevice e key app lic claims i s = Inl out \<Longrightarrow>
   serverInvariant L K (fst out)"
  by (auto simp: verificationDevice_def Let_def keeps split: option.splits if_splits)

lemma keeps_verificationActivation:
  assumes "serverInvariant L K s"
  shows "case verificationActivation e key app lic device claims s of
      Inl out \<Rightarrow> serverInvariant L K (fst out) | Inr s' \<Rightarrow> serverInvariant L K s'"
proof (cases "findActivationLocked (lic_ID lic) (dev_ID device) s")
  case None
  then have "(lic_ID lic, dev_ID device) \<notin> binding ` set (data_Activations (srv_data s))"
    by (auto simp: findActivationLocked_def findIdx_None_iff binding_def)
  then have new: "serverInvariant L K (updData (\<lambda>d. d\<lparr>data_Activations := data_Activations d @ [a]\<rparr>) s)"
    if "binding a = (lic_ID lic, dev_ID device)" for a
    using assms that by (simp add: serverInvariant_def dataInvariant_def uniqueKeys_def)
  show ?thesis
    using assms None by (simp add: verificationActivation_def Let_def keeps new binding_def)
next
  case (Some i)
  then show ?thesis using assms by (simp add: verificationActivation_def Let_def keeps)
qed

lemma keeps_evaluate:
  assumes "serverInvariant L K s"
  shows "serverInvariant L K (fst (evaluateIntegrityLocked L' e k a d l input s))"
proof -
  obtain s1 risk release deny where ev: "evaluateIntegrityLocked L' e k a d l input s = (s1, risk, release, deny)"
    by (metis prod_cases4)
  obtain ev where "evalOK s (a, d, l) ev" "s1 = ev_server ev"
    using evaluateIntegrity_evalOK [OF ev] by metis
  then obtain evs where "s1 = updData (\<lambda>d. d\<lparr>data_RiskEvents := data_RiskEvents d @ evs\<rparr>) s"
    unfolding evalOK_def riskExtends_def by blast
  then show ?thesis using assms by (simp add: ev keeps)
qed

lemma keeps_verificationIntegrity:
  assumes "serverInvariant L K s"
  shows "serverInvariant L K (fst (verificationIntegrity L' e app lic device i input s))"
  using keeps_evaluate [OF assms, of L' e 15 "app_AppKey app" "dev_ID device" "lic_ID lic" input]
  by (auto simp: verificationIntegrity_def Let_def keeps split: prod.split)

lemma keeps_verificationIssue:
  assumes "serverInvariant L K s"
  shows "serverInvariant L K (fst (verificationIssue L' e key app lic device risk input s))"
proof -
  obtain s1 res where save: "saveLocked e 55 s = (s1, res)" by (metis prod.exhaust)
  have s1: "serverInvariant L K s1" using keeps_save [OF assms, of e 55] by (simp add: save)
  show ?thesis
    using assms by (simp add: verificationIssue_def Let_def save keeps s1 split: sum.split option.split)
qed

lemma keeps_verifyOnDevice:
  assumes "serverInvariant L K s"
  shows "serverInvariant L K (fst (verifyOnDevice L' e key app lic claims input s))"
proof -
  obtain s1 i where dev: "findOrCreateDeviceLocked L' e input s = (s1, i)" by (metis prod.exhaust)
  then have s1: "serverInvariant L K s1" using keeps_findOrCreateDevice [OF assms, of L' e input] by simp
  show ?thesis
  proof (cases "verificationDevice e key app lic claims i s1")
    case (Inl out)
    then show ?thesis using keeps_verificationDevice [OF s1 Inl] by (simp add: verifyOnDevice_def dev)
  next
    case (Inr device)
    note device = Inr
    show ?thesis
    proof (cases "verificationActivation e key app lic device claims s1")
      case (Inl out)
      then show ?thesis
        using keeps_verificationActivation [OF s1, of e key app lic device claims]
        by (simp add: verifyOnDevice_def dev device)
    next
      case (Inr s2)
      then have s2: "serverInvariant L K s2"
        using keeps_verificationActivation [OF s1, of e key app lic device claims] by simp
      obtain s3 risk deny where ev: "verificationIntegrity L' e app lic device i input s2 = (s3, risk, deny)"
        by (metis prod_cases3)
      have "serverInvariant L K s3"
        using keeps_verificationIntegrity [OF s2, of L' e app lic device i input] by (simp add: ev)
      then show ?thesis
        by (simp add: verifyOnDevice_def dev device Inr ev keeps keeps_verificationIssue Let_def)
    qed
  qed
qed

lemma keeps_processClientVerification [keeps]:
  assumes "serverInvariant L K s"
  shows "serverInvariant L K (fst (processClientVerification L' e r input s))"
proof -
  let ?v = "validateChallengeLocked (cvi_AppID input) (di_InstallID (cvi_Device input))
      (cvi_ChallengeID input) (cvi_Nonce input) (env_now e 3) s"
  let ?key = "clientVerificationRateLimitKey L' input r"
  let ?s1 = "fst ?v"
  have s1: "serverInvariant L K ?s1" by (rule keeps_validate [OF assms])
  note out = keeps_verificationApp [OF s1] keeps_verificationLicense [OF s1]
    keeps_verificationLicenseState [OF s1] keeps_verifyOnDevice [OF s1] keeps_writeDenied [OF s1]
    keeps_recordFailure [OF assms]
  obtain s1 res where v: "?v = (s1, res)" by (metis prod.exhaust)
  have s1': "?s1 = s1" by (simp add: v)
  show ?thesis
    using assms out unfolding s1'
    by (auto simp: processClientVerification_def v Let_def split: option.split sum.split prod.split)
qed


section \<open>The client endpoints\<close>

lemma keeps_decode:
  "serverInvariant L K s \<Longrightarrow> (\<And>q. serverInvariant L K (fst (k q s))) \<Longrightarrow>
   serverInvariant L K (fst (decodeJSON body k s))"
  by (simp add: decodeJSON_def split: sum.split)

lemma keeps_touchActivation [keeps]:
  "serverInvariant L K s \<Longrightarrow> serverInvariant L K (touchActivation now a s)"
  by (simp add: touchActivation_def keeps split: option.split)

lemma keeps_touchDevice [keeps]: "serverInvariant L K s \<Longrightarrow> serverInvariant L K (touchDevice now d s)"
  by (simp add: touchDevice_def keeps split: option.split)

lemma keeps_scoreDevice [keeps]: "serverInvariant L K s \<Longrightarrow> serverInvariant L K (scoreDevice n d s)"
  by (simp add: scoreDevice_def keeps split: option.split)

lemma keeps_withToken:
  "serverInvariant L K s \<Longrightarrow> (\<And>claims. serverInvariant L K (fst (act claims s))) \<Longrightarrow>
   serverInvariant L K (fst (withToken L' e token a act s))"
  by (simp add: withToken_def split: sum.split prod.split)

lemma keeps_challenge:
  "serverInvariant L K s \<Longrightarrow> serverInvariant L K (fst (handleChallenge L' e r body s))"
  by (auto simp: handleChallenge_def decodeJSON_def challengeIssue_def Let_def keeps
      split: sum.split option.split)

lemma keeps_heartbeatReport:
  assumes "serverInvariant L K s"
  shows "serverInvariant L K (fst (heartbeatReport L' e claims platform d q s))"
  using keeps_evaluate [OF assms, of L' e 5 "tok_AppID claims" "tok_DeviceID claims" "tok_LicenseID claims"
      "heartbeatInput claims platform q"]
  by (auto simp: heartbeatReport_def Let_def keeps split: prod.split)

lemma keeps_heartbeat:
  assumes "serverInvariant L K s"
  shows "serverInvariant L K (fst (handleHeartbeat L' e body s))"
  unfolding handleHeartbeat_def
proof (intro keeps_decode keeps_withToken assms)
  fix q claims
  have report: "serverInvariant L K (fst (let (s3, risk, deny) = heartbeatReport L' e claims pl d i t in
      if deny then saveThen e 39 (resp risk) s3 else saveThen e 40 (resp' risk) s3))"
    if "serverInvariant L K t" for t pl d i resp resp'
    using keeps_heartbeatReport [OF that, of L' e claims pl d i] by (auto simp: keeps split: prod.split)
  show "serverInvariant L K (fst (heartbeatBeat L' e q claims s))"
    using assms report [unfolded Let_def]
    by (auto simp: heartbeatBeat_def Let_def keeps split: option.split)
qed

lemma keeps_capabilityCheck:
  assumes "serverInvariant L K s"
  shows "serverInvariant L K (fst (handleCapabilityCheck L' e body s))"
  unfolding handleCapabilityCheck_def Let_def
proof (rule keeps_decode [OF assms])
  fix q
  show "serverInvariant L K (fst (if cpq_LicenseToken q = [] \<or> trimSpace (cpq_Capability q) = []
      then (s, writeError 400 ''INVALID_REQUEST'' ''license_token and capability are required'')
      else withToken L' e (cpq_LicenseToken q) (cpq_AppID q)
             (capabilityCheck L' e (trimSpace (cpq_Capability q))) s))"
    using assms by (auto simp: withToken_def capabilityCheck_def Let_def keeps
        split: sum.split prod.split option.split)
qed

lemma keeps_deactivate:
  assumes "serverInvariant L K s"
  shows "serverInvariant L K (fst (handleDeactivate L' e body s))"
  unfolding handleDeactivate_def
proof (intro keeps_decode keeps_withToken assms)
  fix q claims
  show "serverInvariant L K (fst (deactivateDevice L' e q claims s))"
    using assms by (simp add: deactivateDevice_def Let_def keeps split: option.split)
qed

lemma keeps_clientVerification:
  "serverInvariant L K s \<Longrightarrow> serverInvariant L K (fst (handleActivate L' e r body s))"
  "serverInvariant L K s \<Longrightarrow> serverInvariant L K (fst (handleVerify L' e r body s))"
  by (simp_all add: handleActivate_def handleVerify_def keeps_decode keeps)

section \<open>The administrative endpoints\<close>

lemma keeps_resetLimit_session:
  "serverInvariant L K s \<Longrightarrow> k_session K token session \<Longrightarrow>
   serverInvariant L K ((resetRateLimitLocked key s)
     \<lparr>srv_adminSessions := (srv_adminSessions s)(token \<mapsto> session)\<rparr>)"
  using keeps_session [OF keeps_resetLimit, of L K s "Some session" token key] by simp

lemma keeps_login:
  assumes "serverInvariant L K s"
    and "\<And>q i. body = Inr q \<Longrightarrow> findAdminByAccountLocked L (loginAccount L q) s = Some i \<Longrightarrow>
           loginAccepted L q (Some (data_Admins (srv_data s) ! i)) \<Longrightarrow>
           k_session K (loginToken e)
             \<lparr>ses_AdminID = adm_ID (data_Admins (srv_data s) ! i), ses_ExpiresAt = loginExpiry e\<rparr>"
  shows "serverInvariant L K (fst (handleAdminLogin L e r body s))"
proof (cases body)
  case (Inr q)
  show ?thesis
  proof (cases "findAdminByAccountLocked L (loginAccount L q) s")
    case (Some i)
    then show ?thesis
      using assms(1) assms(2) [OF Inr Some]
      by (auto simp: handleAdminLogin_def decodeJSON_def Inr loginLookup_def loginReject_def loginSession_def
          Let_def intro: keeps keeps_resetLimit_session)
  qed (use assms(1) Inr in \<open>simp add: handleAdminLogin_def decodeJSON_def loginLookup_def loginReject_def keeps\<close>)
qed (use assms(1) in \<open>simp add: handleAdminLogin_def decodeJSON_def\<close>)

lemma keeps_requireAdmin:
  "serverInvariant L K s \<Longrightarrow> serverInvariant L K (fst (requireAdmin e r s))"
  by (auto simp: requireAdmin_def Let_def intro: keeps split: option.split)

lemma keeps_logout: "serverInvariant L K s \<Longrightarrow> serverInvariant L K (fst (handleAdminLogout L e r a s))"
  by (simp add: handleAdminLogout_def Let_def keeps)

lemma keeps_passwordChange:
  "serverInvariant L K s \<Longrightarrow> serverInvariant L K (fst (handleAdminPasswordChange L e r a body s))"
  by (simp add: handleAdminPasswordChange_def decodeJSON_def Let_def keeps split: sum.split option.split)

lemma keeps_createApp:
  assumes "serverInvariant L K s"
  shows "serverInvariant L K (fst (createApp L e r a q s))"
proof (cases "findAppLocked (apq_AppKey q) s")
  case None
  then have new: "apq_AppKey q \<notin> app_AppKey ` set (data_Apps (srv_data s))"
    by (auto simp: findAppLocked_def findIdx_None_iff)
  have "serverInvariant L K (updData (\<lambda>d. d\<lparr>data_Apps := data_Apps d @ [newApp e q],
      data_Releases := data_Releases d @ [firstRelease e q]\<rparr>) s)"
    using assms new by (simp add: serverInvariant_def dataInvariant_def uniqueKeys_def newApp_def)
  then show ?thesis
    using assms None by (simp add: createApp_def Let_def keeps split: prod.split)
next
  case (Some i)
  then show ?thesis using assms by (simp add: createApp_def Let_def)
qed

lemma keeps_apps: "serverInvariant L K s \<Longrightarrow> serverInvariant L K (fst (handleApps L e r a body s))"
  by (simp add: handleApps_def keeps_decode keeps_createApp)

lemma keeps_createRelease:
  "serverInvariant L K s \<Longrightarrow> serverInvariant L K (fst (createRelease L e r appID a q s))"
  by (simp add: createRelease_def Let_def keeps)

lemma keeps_patchRelease:
  "serverInvariant L K s \<Longrightarrow> serverInvariant L K (fst (patchRelease L e r appID a i q s))"
  by (simp add: patchRelease_def Let_def keeps split: option.split)

lemma keeps_capabilityPolicies:
  "serverInvariant L K s \<Longrightarrow> serverInvariant L K (fst (handleCapabilityPolicies L e r appID a body s))"
  by (simp add: handleCapabilityPolicies_def decodeJSON_def putPolicies_def Let_def keeps
      split: sum.split)

lemma keeps_visionFlowDefaults:
  "serverInvariant L K s \<Longrightarrow>
   serverInvariant L K (fst (handleVisionFlowCapabilityDefaults L e r appID a s))"
  by (simp add: handleVisionFlowCapabilityDefaults_def Let_def case_prod_beta keeps)

lemma keeps_rotate:
  "serverInvariant L K s \<Longrightarrow> serverInvariant L K (fst (handleSDKKeyRotate L e r appID a s))"
  by (simp add: handleSDKKeyRotate_def Let_def case_prod_beta keeps)

lemma keeps_handleLicenses:
  "serverInvariant L K s \<Longrightarrow> serverInvariant L K (fst (handleLicenses L e r a body s))"
  by (simp add: handleLicenses_def decodeJSON_def createLicense_def Let_def keeps
      split: sum.split option.split)

lemma keeps_licenseAction:
  "serverInvariant L K s \<Longrightarrow> serverInvariant L K (fst (handleLicenseAction L e r tail a s))"
  by (simp add: handleLicenseAction_def actOnLicense_def Let_def keeps split: option.split list.split)

lemma keeps_device: "serverInvariant L K s \<Longrightarrow> serverInvariant L K (fst (handleDeviceAction L e r tail a s))"
  by (simp add: handleDeviceAction_def actOnDevice_def Let_def keeps split: option.split list.split)

lemma keeps_riskAction:
  "serverInvariant L K s \<Longrightarrow> serverInvariant L K (fst (handleRiskEventAction L e r tail a s))"
  by (simp add: handleRiskEventAction_def resolveRiskEvent_def Let_def keeps split: option.split list.split)

lemma keeps_handleSettings:
  "serverInvariant L K s \<Longrightarrow> serverInvariant L K (fst (handleSettings L e r a body s))"
  by (simp add: handleSettings_def decodeJSON_def patchSettings_def Let_def keeps split: sum.split)

text \<open>The endpoints that only read.\<close>

lemma reads:
  "fst (handleAdminMe a s) = s" "fst (handleDashboard z e s) = s" "fst (handleDevices s) = s"
  "fst (handleRiskEvents s) = s" "fst (handleAuditLogs s) = s" "fst (handlePublicKey s) = s"
  "fst (appDetail appID s) = s" "fst (handleAppOnboarding e r appID s) = s"
  "fst (handleAppDiagnostics L e r appID s) = s" "fst (handleIntegrationBundle B e r appID body s) = s"
  by (simp_all add: handleAdminMe_def handleDashboard_def handleDevices_def handleRiskEvents_def
      handleAuditLogs_def handlePublicKey_def appDetail_def handleAppOnboarding_def handleAppDiagnostics_def
      handleIntegrationBundle_def integrationBundle_def decodeJSON_def Let_def
      split: option.split sum.split)

lemmas keeps_handlers = keeps_decode keeps_challenge keeps_heartbeat keeps_capabilityCheck keeps_deactivate
  keeps_clientVerification keeps_logout keeps_passwordChange keeps_apps keeps_createRelease
  keeps_patchRelease keeps_capabilityPolicies keeps_visionFlowDefaults keeps_rotate keeps_handleLicenses
  keeps_licenseAction  keeps_device keeps_riskAction keeps_handleSettings reads

section \<open>The server\<close>

lemma keeps_appDetail:
  "serverInvariant (w_lib W) K s \<Longrightarrow> serverInvariant (w_lib W) K (fst (handleAppDetail W e r body tail a s))"
  by (simp add: handleAppDetail_def Let_def keeps_handlers)

lemma keeps_admin:
  "serverInvariant (w_lib W) K s \<Longrightarrow> serverInvariant (w_lib W) K (fst (handleAdmin W e r body path a s))"
  by (simp add: handleAdmin_def Let_def keeps_handlers keeps_appDetail)

lemma keeps_adminRoute:
  assumes "serverInvariant (w_lib W) K s"
  shows "serverInvariant (w_lib W) K (fst (adminRoute W e r body path s))"
  using keeps_requireAdmin [OF assms, of e r]
  by (auto simp: adminRoute_def keeps_admin split: prod.split sum.split)

text \<open>A request that logs nobody in.\<close>

definition loginRequest :: "Request \<Rightarrow> bool" where
  "loginRequest r \<longleftrightarrow> servePath r = ''/admin/login'' \<and> req_Method r = ''POST''"

lemma keeps_route:
  assumes "serverInvariant (w_lib W) K s"
    and "\<And>q i. loginRequest r \<Longrightarrow> body_Login body = Inr q \<Longrightarrow>
           findAdminByAccountLocked (w_lib W) (loginAccount (w_lib W) q) s = Some i \<Longrightarrow>
           loginAccepted (w_lib W) q (Some (data_Admins (srv_data s) ! i)) \<Longrightarrow>
           k_session K (loginToken e)
             \<lparr>ses_AdminID = adm_ID (data_Admins (srv_data s) ! i), ses_ExpiresAt = loginExpiry e\<rparr>"
  shows "serverInvariant (w_lib W) K (fst (route W e r body s))"
proof (cases "loginRequest r")
  case True
  then show ?thesis
    using keeps_login [OF assms(1), of "body_Login body" e r] assms(2)
    by (simp add: route_def Let_def loginRequest_def)
next
  case False
  then show ?thesis
    using assms(1) by (auto simp: route_def Let_def loginRequest_def keeps_handlers keeps_adminRoute)
qed

lemma keeps_ServeHTTP:
  assumes "serverInvariant (w_lib W) K s"
    and "\<And>q i. loginRequest r \<Longrightarrow> body_Login body = Inr q \<Longrightarrow>
           findAdminByAccountLocked (w_lib W) (loginAccount (w_lib W) q) s = Some i \<Longrightarrow>
           loginAccepted (w_lib W) q (Some (data_Admins (srv_data s) ! i)) \<Longrightarrow>
           k_session K (loginToken e)
             \<lparr>ses_AdminID = adm_ID (data_Admins (srv_data s) ! i), ses_ExpiresAt = loginExpiry e\<rparr>"
  shows "serverInvariant (w_lib W) K (fst (ServeHTTP W e r body s))"
  using keeps_route [of W K s r body e] assms by (auto simp: ServeHTTP_def Let_def split: prod.split)

end
