(* ===== verification/VerificationProps.thy ===== *)
theory VerificationProps
  imports Verification
begin

text \<open>
  What activation and verification guarantee: the handler refines the specification
  \<open>verificationSpec\<close>, a challenge lets at most one request through, denials count against the
  client, a new device respects the license's device limit, and an allowed request leaves a
  token and an activation that say exactly what was checked.
\<close>

section \<open>Challenges\<close>

text \<open>A verification request is a redemption of its challenge; a rate limited request does not
  consume it.\<close>

definition redeemVerification ::
  "golib \<times> env \<times> Request \<times> clientVerificationInput \<Rightarrow> string \<Rightarrow> Server \<Rightarrow> Server \<times> Response option" where
  "redeemVerification a k s =
     (case a of (L, e, r, input) \<Rightarrow>
        (case processClientVerification L e r (input\<lparr>cvi_ChallengeID := k\<rparr>) s of
           (s', resp) \<Rightarrow> (s', if verificationAllowed resp then None else Some resp)))"

lemma verificationSpec_challenge:
  "verificationSpec L e r input s \<Longrightarrow> verificationAdmitted L e r input s \<and> challengePresent s (cvi_ChallengeID input)"
  by (auto simp: verificationSpec_def challengeAdmits_def challengePresent_def split: option.splits)

lemma afterChallenge_absent: "\<not> challengePresent (afterChallenge e input s) (cvi_ChallengeID input)"
  by (auto simp: challengePresent_def afterChallenge_def validateChallenge_challenges split: option.split)

lemma afterChallenge_none_appear:
  "challengePresent (afterChallenge e input s) j \<Longrightarrow> challengePresent s j"
  by (auto simp: challengePresent_def afterChallenge_def validateChallenge_challenges split: option.splits)

interpretation verification_ticket: one_time_ticket challengePresent redeemVerification
proof
  fix a :: "golib \<times> env \<times> Request \<times> clientVerificationInput" and k j :: string and s :: Server
  obtain L e r input where a: "a = (L, e, r, input)" by (metis prod_cases4)
  let ?input = "input\<lparr>cvi_ChallengeID := k\<rparr>"
  obtain s' resp where run: "processClientVerification L e r ?input s = (s', resp)" by (metis prod.exhaust)
  have red: "redeemVerification a k s = (s', if verificationAllowed resp then None else Some resp)"
    by (simp add: redeemVerification_def a run)
  have ch: "challengePresent s' j \<longleftrightarrow>
      challengePresent (if verificationAdmitted L e r ?input s then afterChallenge e ?input s else s) j" for j
    using processClientVerification_challenges [OF run] by (simp add: challengePresent_def)
  show "\<not> challengePresent (fst (redeemVerification a k s)) k" if "snd (redeemVerification a k s) = None"
  proof -
    have "verificationAllowed resp" using that by (simp add: red split: if_splits)
    then have "verificationAdmitted L e r ?input s"
      using processClientVerification_sound [OF run] verificationSpec_challenge by blast
    then show ?thesis using ch afterChallenge_absent [of e ?input s] by (simp add: red)
  qed
  show "challengePresent s k" if "snd (redeemVerification a k s) = None"
  proof -
    have "verificationAllowed resp" using that by (simp add: red split: if_splits)
    then show ?thesis
      using processClientVerification_sound [OF run] verificationSpec_challenge by fastforce
  qed
  show "challengePresent (fst (redeemVerification a k s)) j \<Longrightarrow> challengePresent s j"
    using ch afterChallenge_none_appear by (auto simp: red split: if_splits)
qed

text \<open>The outcomes of a sequence of requests, each with the challenge it presents.\<close>

fun verificationRuns ::
  "(golib \<times> env \<times> Request \<times> clientVerificationInput) list \<Rightarrow> Server \<Rightarrow> (string \<times> bool) list" where
  "verificationRuns [] s = []"
| "verificationRuns ((L, e, r, input) # rs) s =
     (case processClientVerification L e r input s of
        (s', resp) \<Rightarrow> (cvi_ChallengeID input, verificationAllowed resp) # verificationRuns rs s')"

lemma redeemVerification_own:
  "redeemVerification (L, e, r, input) (cvi_ChallengeID input) s =
     (case processClientVerification L e r input s of
        (s', resp) \<Rightarrow> (s', if verificationAllowed resp then None else Some resp))"
  by (simp add: redeemVerification_def)

lemma verificationRuns_outcomes:
  "verificationRuns rs s =
   verification_ticket.outcomes (map (\<lambda>(L, e, r, input). ((L, e, r, input), cvi_ChallengeID input)) rs) s"
  by (induction rs s rule: verificationRuns.induct)
     (simp_all add: redeemVerification_own split: prod.split)

section \<open>Activations\<close>

lemma set_activeDevices_append:
  "set (activeDevices lic (acts @ [a])) =
   (if act_LicenseID a = lic \<and> act_ActivationStatus a = ''active''
    then insert (act_DeviceID a) (set (activeDevices lic acts)) else set (activeDevices lic acts))"
  by (auto simp: activeDevices_def)

definition reactivate :: "time \<Rightarrow> Activation \<Rightarrow> Activation" where
  "reactivate now a = a\<lparr>act_ActivationStatus := ''active'', act_LastVerifiedAt := now\<rparr>"

lemma reactivate_sel [simp]:
  "act_LicenseID (reactivate now a) = act_LicenseID a" "act_DeviceID (reactivate now a) = act_DeviceID a"
  "act_ActivationStatus (reactivate now a) = ''active''" "act_AppID (reactivate now a) = act_AppID a"
  by (simp_all add: reactivate_def)

lemma in_activeDevices:
  "d \<in> set (activeDevices lic acts) \<longleftrightarrow>
   (\<exists>j < length acts. act_LicenseID (acts ! j) = lic \<and> act_ActivationStatus (acts ! j) = ''active'' \<and>
      act_DeviceID (acts ! j) = d)"
  unfolding activeDevices_def set_map set_filter by (auto simp: in_set_conv_nth)

lemma set_activeDevices_reactivate:
  assumes "i < length acts"
  shows "set (activeDevices lic (modifyAt i (reactivate now) acts)) =
    (if act_LicenseID (acts ! i) = lic then insert (act_DeviceID (acts ! i)) (set (activeDevices lic acts))
     else set (activeDevices lic acts))"
proof (rule set_eqI)
  fix d
  let ?own = "\<lambda>j. act_LicenseID (acts ! j) = lic \<and> act_DeviceID (acts ! j) = d"
  have "d \<in> set (activeDevices lic (modifyAt i (reactivate now) acts)) \<longleftrightarrow>
      (\<exists>j. j < length acts \<and> ?own j \<and> (j = i \<or> act_ActivationStatus (acts ! j) = ''active''))"
    unfolding in_activeDevices by (rule ex_cong1) (auto simp: modifyAt_nth split: if_splits)
  also have "\<dots> \<longleftrightarrow> ?own i \<or> (\<exists>j. j < length acts \<and> ?own j \<and> act_ActivationStatus (acts ! j) = ''active'')"
    using assms by blast
  also have "(\<exists>j. j < length acts \<and> ?own j \<and> act_ActivationStatus (acts ! j) = ''active'') \<longleftrightarrow>
      d \<in> set (activeDevices lic acts)"
    unfolding in_activeDevices by blast
  finally show "d \<in> set (activeDevices lic (modifyAt i (reactivate now) acts)) \<longleftrightarrow>
      d \<in> (if act_LicenseID (acts ! i) = lic then insert (act_DeviceID (acts ! i)) (set (activeDevices lic acts))
           else set (activeDevices lic acts))"
    by auto
qed

lemma activeDeviceCount_set:
  "activeDeviceCountLocked lic s = int (card (set (activeDevices lic (data_Activations (srv_data s)))))"
  by (simp add: activeDeviceCountLocked_def length_remdups_card_conv)

text \<open>The activations an allowed run leaves.\<close>

lemma allowed_activations:
  assumes "processClientVerification L e r input s = (s', resp)" and "verificationAllowed resp"
    and "licenseFor L e input s = Some lic"
  shows "case findActivationLocked (lic_ID lic) (fst (deviceFor L e input s)) s of
      None \<Rightarrow> activeDeviceCountLocked (lic_ID lic) s < lic_MaxDevices lic \<and>
        (\<exists>new. data_Activations (srv_data s') = data_Activations (srv_data s) @ [new] \<and>
           act_LicenseID new = lic_ID lic \<and> act_DeviceID new = fst (deviceFor L e input s) \<and>
           act_ActivationStatus new = ''active'')
    | Some i \<Rightarrow> data_Activations (srv_data s') = modifyAt i (reactivate (env_now e 14)) (data_Activations (srv_data s))"
proof -
  obtain app lic' device i s2 s3 s4 risk where
    run: "licenseFor L e input s = Some lic'" "deviceFor L e input s = (dev_ID device, dev_Status device)"
    "passedGuards L e (clientVerificationRateLimitKey L input r) input s app lic' (claimsFor L e input s) device i s2 s3"
    "verificationIntegrity L e app lic' device i input s3 = (s4, risk, False)"
    "verificationIssue L e (clientVerificationRateLimitKey L input r) app lic' device risk input s4 = (s', resp)"
    by (rule processClientVerification_allowedE [OF assms(1,2)])
  have lic: "lic' = lic" using run(1) assms(3) by simp
  have dev: "findOrCreateDeviceLocked L e input (afterChallenge e input s) = (s2, i)"
    and act: "verificationActivation e (clientVerificationRateLimitKey L input r) app lic device
       (claimsFor L e input s) s2 = Inr s3"
    using run(3) lic by (auto simp: passedGuards_def)
  have acts2: "data_Activations (srv_data s2) = data_Activations (srv_data s)"
    using findOrCreateDevice_spec(6) [OF dev] by simp
  have acts': "data_Activations (srv_data s') = data_Activations (srv_data s3)"
    using verificationIssue_cases(2) [OF run(5)] verificationIntegrity_limits(8) [OF run(3,4)] by simp
  have f: "(\<lambda>a. a\<lparr>act_ActivationStatus := ''active'', act_LastVerifiedAt := env_now e 14\<rparr>) = reactivate (env_now e 14)"
    by (simp add: reactivate_def fun_eq_iff)
  show ?thesis
    using verificationActivation_Inr [OF act] acts2 acts' run(2) unfolding f
    by (auto simp: findActivationLocked_def activeDeviceCountLocked_def split: option.splits)
qed

lemma allowed_active_set:
  assumes "processClientVerification L e r input s = (s', resp)" and "verificationAllowed resp"
    and "licenseFor L e input s = Some lic"
  shows "set (activeDevices (lic_ID lic) (data_Activations (srv_data s'))) =
    insert (fst (deviceFor L e input s)) (set (activeDevices (lic_ID lic) (data_Activations (srv_data s))))"
proof (cases "findActivationLocked (lic_ID lic) (fst (deviceFor L e input s)) s")
  case None
  then show ?thesis using allowed_activations [OF assms] by (auto simp: set_activeDevices_append)
next
  case (Some i)
  then show ?thesis
    using allowed_activations [OF assms]
    by (auto simp: findActivationLocked_def set_activeDevices_reactivate dest!: findIdx_SomeD)
qed

lemma inactive_of_known:
  assumes "findActivationLocked lic dev s = Some i"
    and "act_ActivationStatus (data_Activations (srv_data s) ! i) = ''active''"
  shows "dev \<in> set (activeDevices lic (data_Activations (srv_data s)))"
  using assms by (force simp: findActivationLocked_def activeDevices_def dest!: findIdx_SomeD)

section \<open>Counting denials\<close>

fun denials :: "(golib \<times> env \<times> Request \<times> clientVerificationInput) list \<Rightarrow> Server \<Rightarrow> nat" where
  "denials [] s = 0"
| "denials ((L, e, r, input) # rs) s =
     (case processClientVerification L e r input s of
        (s', resp) \<Rightarrow> (if verificationDenied resp then 1 else 0) + denials rs s')"

fun noneAllowed :: "(golib \<times> env \<times> Request \<times> clientVerificationInput) list \<Rightarrow> Server \<Rightarrow> bool" where
  "noneAllowed [] s = True"
| "noneAllowed ((L, e, r, input) # rs) s =
     (case processClientVerification L e r input s of
        (s', resp) \<Rightarrow> \<not> verificationAllowed resp \<and> noneAllowed rs s')"

text \<open>The clocks of a request that the limiter reads.\<close>

definition limiterClocks :: "env \<Rightarrow> time set" where
  "limiterClocks e = {env_now e 1, env_now e 2, env_now e 4}"

definition inWindow :: "time \<Rightarrow> duration \<Rightarrow> string \<Rightarrow> golib \<times> env \<times> Request \<times> clientVerificationInput \<Rightarrow> bool" where
  "inWindow T W key a \<longleftrightarrow>
     (case a of (L, e, r, input) \<Rightarrow>
        clientVerificationRateLimitKey L input r = key \<and> (\<forall>t \<in> limiterClocks e. T \<le> t \<and> t < T + W))"

text \<open>The failures counted for a key, with the window they are counted in.\<close>

definition countedFailures :: "time \<Rightarrow> string \<Rightarrow> Server \<Rightarrow> int \<Rightarrow> bool" where
  "countedFailures T key s n \<longleftrightarrow>
     (case srv_rateLimits s key of
        None \<Rightarrow> n = 0
      | Some st \<Rightarrow> n = rl_Failures st \<and> T \<le> rl_WindowStart st \<and> rl_WindowStart st < T + srv_rateLimitWindow s)"

lemma timeSub_below: "T \<le> t \<Longrightarrow> t < T + W \<Longrightarrow> T \<le> w \<Longrightarrow> w < T + W \<Longrightarrow> timeSub t w < W"
  by (auto simp: timeSub_def maxDuration_def minDuration_def)

lemma countedFailures_record:
  assumes "limiterOn s" and "countedFailures T key s n" and "T \<le> t" and "t < T + srv_rateLimitWindow s"
    and "srv_rateLimits s' = srv_rateLimits (recordRateLimitFailureLocked key t s)"
    and "srv_rateLimitWindow s' = srv_rateLimitWindow s"
  shows "countedFailures T key s' (n + 1)"
proof (cases "srv_rateLimits s key")
  case None
  then show ?thesis
    using assms record_starts by (simp add: countedFailures_def)
next
  case (Some st)
  then have "withinWindow (rl_WindowStart st) s t"
    using assms timeSub_below by (simp add: withinWindow_def countedFailures_def)
  then show ?thesis
    using assms Some record_within [of s key "rl_WindowStart st" "rl_Failures st" t]
    by (simp add: countedFailures_def)
qed

lemma countedFailures_limited:
  assumes "limiterOn s" and "countedFailures T key s n" and "T \<le> t" and "t < T + srv_rateLimitWindow s"
  shows "isRateLimitedLocked key t s \<longleftrightarrow> srv_rateLimitFailures s \<le> n"
proof (cases "srv_rateLimits s key")
  case None
  then show ?thesis using assms by (simp add: isRateLimitedLocked_def limiterOn_def countedFailures_def)
next
  case (Some st)
  then have "timeSub t (rl_WindowStart st) < srv_rateLimitWindow s"
    using assms timeSub_below by (simp add: countedFailures_def)
  then show ?thesis using assms Some by (simp add: isRateLimitedLocked_def limiterOn_def countedFailures_def)
qed

lemma denials_bounded:
  assumes "limiterOn s" and "countedFailures T key s n" and "n \<ge> 0" and "noneAllowed rs s"
    and "\<forall>a \<in> set rs. inWindow T (srv_rateLimitWindow s) key a"
  shows "n + int (denials rs s) \<le> max n (srv_rateLimitFailures s)"
  using assms
proof (induction rs s arbitrary: n rule: denials.induct)
  case (2 L e r input rs s)
  obtain s' resp where run: "processClientVerification L e r input s = (s', resp)" by (metis prod.exhaust)
  note lim = processClientVerification_limiter [OF run]
  have clock: "T \<le> t \<and> t < T + srv_rateLimitWindow s" if "t \<in> limiterClocks e" for t
    using 2(6) that by (simp add: inWindow_def)
  have key: "clientVerificationRateLimitKey L input r = key" using 2(6) by (simp add: inWindow_def)
  have notallowed: "\<not> verificationAllowed resp" and rest: "noneAllowed rs s'"
    using 2(5) by (simp_all add: run)
  have on': "limiterOn s'" using 2(2) lim(1) by (simp add: limiterOn_def)
  have win': "\<forall>a \<in> set rs. inWindow T (srv_rateLimitWindow s') key a"
    using 2(6) lim(1) by simp
  note IH = 2(1) [OF run [symmetric] on' _ _ rest win']
  show ?case
  proof (cases "verificationDenied resp")
    case True
    have "n < srv_rateLimitFailures s"
      using lim(2) [OF True] countedFailures_limited [OF 2(2,3), of "env_now e 2"] clock [of "env_now e 2"]
      by (simp add: verificationAdmitted_def key limiterClocks_def)
    moreover have "countedFailures T key s' (n + 1)"
      using lim(1) lim(2) [OF True] clock [of "env_now e 4"]
      by (intro countedFailures_record [OF 2(2,3), of "env_now e 4"])
         (simp_all add: recordedAt_def key limiterClocks_def)
    ultimately show ?thesis
      using IH [of "n + 1"] 2(4) lim(1) True by (simp add: run)
  next
    case False
    have "countedFailures T key s' n \<or> countedFailures T key s' (n + 1)"
      using lim(3) [OF notallowed]
    proof
      assume "srv_rateLimits s' = srv_rateLimits s"
      then have "countedFailures T key s' n" using 2(3) lim(1)
        by (simp add: countedFailures_def split: option.splits)
      then show ?thesis ..
    next
      assume "recordedAt (clientVerificationRateLimitKey L input r) {env_now e 1, env_now e 4} s s'"
      then obtain t where t: "t \<in> {env_now e 1, env_now e 4}"
          "srv_rateLimits s' = srv_rateLimits (recordRateLimitFailureLocked key t s)"
        by (auto simp: recordedAt_def key)
      have "countedFailures T key s' (n + 1)"
        using t lim(1) clock [of t]
        by (intro countedFailures_record [OF 2(2,3), of t]) (auto simp: limiterClocks_def)
      then show ?thesis ..
    qed
    then show ?thesis
      using IH [of n] IH [of "n + 1"] 2(4) lim(1) False by (auto simp: run)
  qed
qed simp

section \<open>Properties\<close>

lemmas sample_defs = sampleStale_def sampleFresh_def sampleServer_def sampleData_def sampleInput_def
  sampleApp_def sampleLicense_def sampleDevice_def sampleActivation_def sampleChallenge_def sampleEnv_def

lemma sampleLib_total:
  "\<exists>p. lib_marshal_claims sampleLib c = Inr p" "\<exists>p. lib_marshal_bundle sampleLib b = Inr p"
  by (simp_all add: sampleLib_def sampleMarshal_def)

lemma sample_allowed:
  "verificationSpec sampleLib sampleEnv r input s \<Longrightarrow>
   verificationAllowed (snd (processClientVerification sampleLib sampleEnv r input s))"
  by (rule processClientVerification_complete) (simp_all add: sampleLib_total sampleEnv_def)

lemma sample_specs:
  "verificationSpec sampleLib sampleEnv sampleRequest (sampleInput ''a'') sampleStale"
  "verificationSpec sampleLib sampleEnv sampleRequest (sampleInput ''a'') sampleFresh"
  by (unfold sampleStale_def sampleFresh_def, code_simp+)

lemma sample_runs:
  "\<exists>s' resp. processClientVerification sampleLib sampleEnv sampleRequest (sampleInput ''a'') sampleStale = (s', resp) \<and>
     verificationAllowed resp"
  "\<exists>s' resp. processClientVerification sampleLib sampleEnv sampleRequest (sampleInput ''a'') sampleFresh = (s', resp) \<and>
     verificationAllowed resp"
  using sample_allowed [OF sample_specs(1)] sample_allowed [OF sample_specs(2)]
  by (metis prod.collapse)+

text \<open>C1: A verification or activation request that is answered with \<open>allowed\<close> met every
  condition of the specification: it was well formed and not rate limited, its challenge was
  open, unexpired and issued for this app, installation and nonce, the app and the license were
  active, the license belonged to the app and had not expired, a presented token named this app
  and device, the device was not blocked, its activation existed or there was room for it, and
  the integrity evaluation found no violation.\<close>

theorem verification_sound:
  assumes "processClientVerification L e r input s = (s', resp)" and "verificationAllowed resp"
  shows "verificationSpec L e r input s"
  using assms by (rule processClientVerification_sound)

lemma verification_sound_witness:
  "verificationSpec sampleLib sampleEnv sampleRequest (sampleInput ''a'') sampleFresh"
  using verification_sound sample_runs(2) by metis

text \<open>C2: Conversely every request that meets the specification is answered with \<open>allowed\<close>,
  provided that encoding the claims and the policy bundle does not fail and the final save
  succeeds.\<close>

theorem verification_complete:
  assumes "verificationSpec L e r input s"
    and "\<And>c. \<exists>p. lib_marshal_claims L c = Inr p" and "\<And>b. \<exists>p. lib_marshal_bundle L b = Inr p"
    and "env_save e 55 = None"
  shows "verificationAllowed (snd (processClientVerification L e r input s))"
  using assms by (rule processClientVerification_complete)

lemma verification_complete_witness:
  "verificationAllowed (snd (processClientVerification sampleLib sampleEnv sampleRequest (sampleInput ''a'') sampleFresh))"
  by (rule verification_complete [OF sample_specs(2)])
     (simp_all add: sampleLib_total sampleEnv_def)

text \<open>C3: In any sequence of activation and verification requests, with arbitrary clocks,
  devices and payloads, at most one request that presents a given challenge is allowed: a
  captured request cannot be replayed.\<close>

theorem challenge_single_use:
  "length (filter (\<lambda>x. x = (cid0, True)) (verificationRuns rs s)) \<le> 1"
  unfolding verificationRuns_outcomes by (rule verification_ticket.at_most_once)

text \<open>A request that passes the rate limiter consumes its challenge whatever the outcome,
  and no request makes a challenge appear.\<close>

theorem challenge_consumed:
  assumes "processClientVerification L e r input s = (s', resp)"
  shows "(verificationAdmitted L e r input s \<longrightarrow> srv_challenges s' (cvi_ChallengeID input) = None) \<and>
    (\<forall>k c. srv_challenges s' k = Some c \<longrightarrow> srv_challenges s k = Some c)"
  using processClientVerification_challenges [OF assms]
  by (auto simp: afterChallenge_def validateChallenge_challenges split: option.splits if_splits)

lemma challenge_consumed_witness:
  "srv_challenges (fst (processClientVerification sampleLib sampleEnv sampleRequest (sampleInput ''a'') sampleFresh))
     ''chg_1'' = None \<and> srv_challenges sampleFresh ''chg_1'' \<noteq> None"
proof -
  obtain s' resp where run: "processClientVerification sampleLib sampleEnv sampleRequest (sampleInput ''a'')
      sampleFresh = (s', resp)" by (metis prod.exhaust)
  have "verificationAdmitted sampleLib sampleEnv sampleRequest (sampleInput ''a'') sampleFresh"
    using sample_specs(2) by (simp add: verificationSpec_def)
  moreover have "cvi_ChallengeID (sampleInput ''a'') = ''chg_1''" by (simp add: sampleInput_def)
  ultimately have "srv_challenges s' ''chg_1'' = None"
    using challenge_consumed [OF run] by auto
  moreover have "srv_challenges sampleFresh ''chg_1'' \<noteq> None"
    by (simp add: sampleFresh_def sampleServer_def)
  ultimately show ?thesis by (simp add: run)
qed

text \<open>C4: The device limit. When the device has no activation for the license yet, or an active
  one, an allowed request leaves at most \<open>MaxDevices\<close> distinct active devices, if there were no
  more before.\<close>

theorem device_limit:
  assumes "processClientVerification L e r input s = (s', resp)" and "verificationAllowed resp"
    and "licenseFor L e input s = Some lic"
    and "activeDeviceCountLocked (lic_ID lic) s \<le> lic_MaxDevices lic"
    and "\<forall>i. findActivationLocked (lic_ID lic) (fst (deviceFor L e input s)) s = Some i \<longrightarrow>
           act_ActivationStatus (data_Activations (srv_data s) ! i) = ''active''"
  shows "activeDeviceCountLocked (lic_ID lic) s' \<le> lic_MaxDevices lic"
proof (cases "findActivationLocked (lic_ID lic) (fst (deviceFor L e input s)) s")
  case None
  then have "activeDeviceCountLocked (lic_ID lic) s < lic_MaxDevices lic"
    using allowed_activations [OF assms(1-3)] by simp
  then show ?thesis
    using allowed_active_set [OF assms(1-3)] by (simp add: activeDeviceCount_set card_insert_if)
next
  case (Some i)
  then have "fst (deviceFor L e input s) \<in> set (activeDevices (lic_ID lic) (data_Activations (srv_data s)))"
    using inactive_of_known assms(5) by blast
  then show ?thesis
    using allowed_active_set [OF assms(1-3)] assms(4) by (simp add: activeDeviceCount_set insert_absorb)
qed

lemma device_limit_witness:
  "activeDeviceCountLocked ''lic_1''
     (fst (processClientVerification sampleLib sampleEnv sampleRequest (sampleInput ''a'') sampleFresh)) \<le> 1"
proof -
  obtain s' resp where run: "processClientVerification sampleLib sampleEnv sampleRequest (sampleInput ''a'')
      sampleFresh = (s', resp)" "verificationAllowed resp" using sample_runs(2) by blast
  have "licenseFor sampleLib sampleEnv (sampleInput ''a'') sampleFresh = Some sampleLicense"
    by (simp add: licenseFor_def sample_defs findLicenseByKeyLocked_def)
  from device_limit [OF run this] run show ?thesis
    by (simp add: sample_defs activeDeviceCountLocked_def activeDevices_def findActivationLocked_def)
qed


text \<open>C15: Brute force is bounded. Of any sequence of requests of one client (the same endpoint,
  app, installation and address) whose clock readings fall into one window and none of which
  succeeds, at most \<open>rateLimitFailures\<close> are evaluated and denied; the others are turned away by
  the limiter. The count starts from a client without recorded failures.\<close>

theorem brute_force_bounded:
  assumes "limiterOn s" and "srv_rateLimits s key = None" and "noneAllowed rs s"
    and "\<forall>a \<in> set rs. inWindow T (srv_rateLimitWindow s) key a"
  shows "int (denials rs s) \<le> srv_rateLimitFailures s"
  using denials_bounded [of s T key 0 rs] assms by (simp add: countedFailures_def limiterOn_def)

lemma brute_force_bounded_witness:
  "int (denials [(sampleLib, sampleEnv, sampleRequest, (sampleInput ''a'')\<lparr>cvi_ChallengeID := ''none''\<rparr>)] sampleFresh) \<le> 5"
proof -
  let ?input = "(sampleInput ''a'')\<lparr>cvi_ChallengeID := ''none''\<rparr>"
  obtain s' resp where run: "processClientVerification sampleLib sampleEnv sampleRequest ?input sampleFresh
      = (s', resp)" by (metis prod.exhaust)
  have "\<not> challengeAdmits sampleEnv ?input sampleFresh"
    by (simp add: challengeAdmits_def sample_defs)
  then have "\<not> verificationAllowed resp"
    using processClientVerification_sound [OF run] by (auto simp: verificationSpec_def)
  then have "noneAllowed [(sampleLib, sampleEnv, sampleRequest, ?input)] sampleFresh"
    by (simp add: run)
  from brute_force_bounded [OF _ _ this, of "clientVerificationRateLimitKey sampleLib ?input sampleRequest" 1000000000000]
  show ?thesis
    by (simp add: limiterOn_def sampleFresh_def sampleServer_def inWindow_def limiterClocks_def sampleEnv_def
        del: denials.simps)
qed

text \<open>C6: The token of an allowed request, checked with the server's own key, is accepted until
  it expires and yields claims that name exactly the app, license, device and entitlements the
  server checked. The hypotheses are that a signature made with the private key verifies with
  the public key and that decoding the claims inverts encoding them.\<close>

theorem allowed_token:
  assumes "processClientVerification L e r input s = (s', resp)" and "verificationAllowed resp"
    and "appFor input s = Some app" and "licenseFor L e input s = Some lic"
    and "signatureScheme L (srv_privateKey s) (srv_publicKey s)"
  shows "\<exists>v claims. rsp_body resp = PVerify v \<and>
    claims = \<lparr>tok_Iss = ''license-guard'', tok_AppID = app_AppKey app, tok_LicenseID = lic_ID lic,
      tok_DeviceID = fst (deviceFor L e input s), tok_Entitlements = lic_Entitlements lic,
      tok_IssuedAt = unixSeconds (env_now e 53),
      tok_ExpiresAt = unixSeconds (env_now e 51 +
        minutes (tokenTTLMinutes (settingsLocked (env_now e 50) s) (vr_Risk v))),
      tok_OfflineGraceUntil = unixSeconds (env_now e 52 +
        days (set_OfflineGraceDays (settingsLocked (env_now e 50) s)))\<rparr> \<and>
    (claimsRoundTrip L claims \<longrightarrow>
       (\<forall>now. VerifyLicenseToken L (srv_publicKey s) (vr_LicenseToken v) False now =
          (if unixSeconds now > tok_ExpiresAt claims then Inl (errTokenExpired, Some claims) else Inr claims)))"
proof -
  obtain app' lic' device i s2 s3 s4 risk where
    run: "appFor input s = Some app'" "licenseFor L e input s = Some lic'"
    "deviceFor L e input s = (dev_ID device, dev_Status device)"
    "passedGuards L e (clientVerificationRateLimitKey L input r) input s app' lic' (claimsFor L e input s) device i s2 s3"
    "verificationIntegrity L e app' lic' device i input s3 = (s4, risk, False)"
    "verificationIssue L e (clientVerificationRateLimitKey L input r) app' lic' device risk input s4 = (s', resp)"
    by (rule processClientVerification_allowedE [OF assms(1,2)])
  let ?settings = "settingsLocked (env_now e 50) s"
  have s4: "srv_privateKey s4 = srv_privateKey s" "settingsLocked (env_now e 50) s4 = ?settings"
    using verificationIntegrity_limits(5,7) [OF run(4,5)] by (simp_all add: settingsLocked_def)
  let ?claims = "verificationClaims e app' lic' device (env_now e 51 + minutes (tokenTTLMinutes ?settings risk))
      (env_now e 52 + days (set_OfflineGraceDays ?settings))"
  obtain v where v: "resp = writeJSON 200 (PVerify v)" "vr_Risk v = risk"
    "SignLicenseToken L (srv_privateKey s4) ?claims = Inr (vr_LicenseToken v)"
    using verificationIssue_allowed [OF run(6) assms(2)] s4(2) by auto
  have "VerifyLicenseToken L (srv_publicKey s) (vr_LicenseToken v) False now =
      (if unixSeconds now > tok_ExpiresAt ?claims then Inl (errTokenExpired, Some ?claims) else Inr ?claims)"
    if "claimsRoundTrip L ?claims" for now
    using verify_signed [OF v(3), of "srv_publicKey s" False now] assms(5) s4(1) that by simp
  then show ?thesis
    using v run(1-3) assms(3,4)
    by (intro exI [of _ v] exI [of _ ?claims]) (simp add: verificationClaims_def)
qed

lemma sample_lookups:
  "appFor (sampleInput ''a'') sampleFresh = Some sampleApp"
  "licenseFor sampleLib sampleEnv (sampleInput ''a'') sampleFresh = Some sampleLicense"
  "deviceFor sampleLib sampleEnv (sampleInput ''a'') sampleFresh = (''dev_a'', ''active'')"
  "srv_publicKey sampleFresh = ''key''" "srv_privateKey sampleFresh = ''key''"
  by (simp_all add: appFor_def findAppLocked_def licenseFor_def sample_defs findLicenseByKeyLocked_def
      deviceFor_def findDeviceByFingerprintLocked_def)

lemma sample_signatures: "signatureScheme sampleLib k k"
  by (simp add: signatureScheme_def sampleLib_def)

lemma sample_settings:
  "set_DefaultTokenTTLMinutes (settingsLocked now sampleFresh) = 30"
  "set_MediumRiskTokenTTLMinutes (settingsLocked now sampleFresh) = 30"
  "set_OfflineGraceDays (settingsLocked now sampleFresh) = 7"
  by (simp_all add: settingsLocked_def sample_defs normalizeSystemSettings_sel defaultSystemSettings_def clampInt_def)

lemma sample_TTL: "tokenTTLMinutes (settingsLocked now sampleFresh) risk = 30"
  by (simp add: tokenTTLMinutes_def sample_settings)

lemma sample_claims_roundTrip: "claimsRoundTrip sampleLib (sampleClaims ''demo'' ''lic_1'' ''dev_a'')"
  by (simp add: claimsRoundTrip_def sampleLib_def sampleMarshal_def sampleUnmarshal_def sampleClaims_def)

lemma allowed_token_witness:
  "\<exists>s' resp v. processClientVerification sampleLib sampleEnv sampleRequest (sampleInput ''a'') sampleFresh
      = (s', resp) \<and> rsp_body resp = PVerify v \<and>
     VerifyLicenseToken sampleLib ''key'' (vr_LicenseToken v) False 2000000000000 =
       Inr (sampleClaims ''demo'' ''lic_1'' ''dev_a'')"
proof -
  obtain s' resp where run: "processClientVerification sampleLib sampleEnv sampleRequest (sampleInput ''a'')
      sampleFresh = (s', resp)" "verificationAllowed resp" using sample_runs(2) by blast
  have sig: "signatureScheme sampleLib (srv_privateKey sampleFresh) (srv_publicKey sampleFresh)"
    by (simp add: sample_lookups sample_signatures)
  have "env_now sampleEnv k = 1000000000000" for k by (simp add: sampleEnv_def)
  then show ?thesis
    using allowed_token [OF run sample_lookups(1,2) sig] run(1) sample_claims_roundTrip
    by (auto simp: sample_lookups sample_settings sample_TTL sampleClaims_def sampleApp_def
        sampleLicense_def minutes_def days_def unixSeconds_def)
qed

text \<open>C20: Lifetimes. The token of an allowed request lives between five minutes and thirty days
  from the clock reading it is computed from; at medium or high risk it lives no longer than
  the shortened lifetime of the settings, which never exceeds the default one. The offline
  grace period is at most thirty days.\<close>

theorem allowed_lifetime:
  assumes "processClientVerification L e r input s = (s', resp)" and "verificationAllowed resp"
  shows "\<exists>v m g. rsp_body resp = PVerify v \<and>
    vr_ExpiresAt v = Some (env_now e 51 + minutes m) \<and> 5 \<le> m \<and> m \<le> 43200 \<and>
    m = (if rr_Level (vr_Risk v) = ''medium'' \<or> rr_Level (vr_Risk v) = ''high''
         then set_MediumRiskTokenTTLMinutes (settingsLocked (env_now e 50) s)
         else set_DefaultTokenTTLMinutes (settingsLocked (env_now e 50) s)) \<and>
    m \<le> set_DefaultTokenTTLMinutes (settingsLocked (env_now e 50) s) \<and>
    vr_OfflineGraceUntil v = Some (env_now e 52 + days g) \<and> 0 \<le> g \<and> g \<le> 30"
proof -
  obtain app lic device i s2 s3 s4 risk where run:
    "passedGuards L e (clientVerificationRateLimitKey L input r) input s app lic (claimsFor L e input s) device i s2 s3"
    "verificationIntegrity L e app lic device i input s3 = (s4, risk, False)"
    "verificationIssue L e (clientVerificationRateLimitKey L input r) app lic device risk input s4 = (s', resp)"
    by (rule processClientVerification_allowedE [OF assms])
  have "settingsLocked t s4 = settingsLocked t s" for t
    using verificationIntegrity_limits(7) [OF run(1,2)] by (simp add: settingsLocked_def)
  moreover have "settingsInRange (settingsLocked (env_now e 50) s)"
    by (rule settingsLocked_in_range)
  ultimately show ?thesis
    using verificationIssue_allowed [OF run(3) assms(2)]
    by (fastforce simp: tokenTTLMinutes_def settingsInRange_def)
qed

lemma allowed_lifetime_witness:
  "\<exists>s' resp v m. processClientVerification sampleLib sampleEnv sampleRequest (sampleInput ''a'') sampleFresh
      = (s', resp) \<and> rsp_body resp = PVerify v \<and>
     vr_ExpiresAt v = Some (1000000000000 + minutes m) \<and> 5 \<le> m \<and> m \<le> 43200"
proof -
  obtain s' resp where run: "processClientVerification sampleLib sampleEnv sampleRequest (sampleInput ''a'')
      sampleFresh = (s', resp)" "verificationAllowed resp" using sample_runs(2) by blast
  have "env_now sampleEnv k = 1000000000000" for k by (simp add: sampleEnv_def)
  then show ?thesis using allowed_lifetime [OF run] run(1) by auto
qed

text \<open>C18: What an allowed request leaves behind: the state it computed is what the store now
  holds, the client's failures are forgotten, and the device is one of the license's active
  devices, next to those that were active before.\<close>

theorem allowed_effects:
  assumes "processClientVerification L e r input s = (s', resp)" and "verificationAllowed resp"
    and "licenseFor L e input s = Some lic"
  shows "srv_store s' = Some (srv_data s') \<and>
    srv_rateLimits s' = (srv_rateLimits s)(clientVerificationRateLimitKey L input r := None) \<and>
    set (activeDevices (lic_ID lic) (data_Activations (srv_data s'))) =
      insert (fst (deviceFor L e input s)) (set (activeDevices (lic_ID lic) (data_Activations (srv_data s))))"
proof -
  obtain app lic' device i s2 s3 s4 risk where run:
    "passedGuards L e (clientVerificationRateLimitKey L input r) input s app lic' (claimsFor L e input s) device i s2 s3"
    "verificationIntegrity L e app lic' device i input s3 = (s4, risk, False)"
    "verificationIssue L e (clientVerificationRateLimitKey L input r) app lic' device risk input s4 = (s', resp)"
    by (rule processClientVerification_allowedE [OF assms(1,2)])
  show ?thesis
    using verificationIssue_cases [OF run(3)] assms(2) verificationIntegrity_limits(1) [OF run(1,2)]
      allowed_active_set [OF assms] by simp
qed

lemma allowed_effects_witness:
  "\<exists>s'. fst (processClientVerification sampleLib sampleEnv sampleRequest (sampleInput ''a'') sampleFresh) = s' \<and>
     srv_store s' = Some (srv_data s') \<and> ''dev_a'' \<in> set (activeDevices ''lic_1'' (data_Activations (srv_data s')))"
proof -
  obtain s' resp where run: "processClientVerification sampleLib sampleEnv sampleRequest (sampleInput ''a'')
      sampleFresh = (s', resp)" "verificationAllowed resp" using sample_runs(2) by blast
  have "lic_ID sampleLicense = ''lic_1''" by (simp add: sampleLicense_def)
  then show ?thesis
    using allowed_effects [OF run sample_lookups(2)] run(1) by (simp add: sample_lookups(3))
qed

text \<open>C19: A denial by any guard leaves every activation as it was; only a denial by the
  integrity evaluation comes after the activation was recorded. Every denial adds one failure
  to the client's count and is given only to requests the limiter let through.\<close>

theorem denied_effects:
  assumes "processClientVerification L e r input s = (s', resp)" and "verificationDenied resp"
  shows "verificationAdmitted L e r input s \<and>
    srv_rateLimits s' = srv_rateLimits
      (recordRateLimitFailureLocked (clientVerificationRateLimitKey L input r) (env_now e 4) s) \<and>
    (data_Activations (srv_data s') = data_Activations (srv_data s) \<or>
     (\<exists>risk. resp = writeDenied ''INTEGRITY_FAILED'' (utf8 [0x5b8c, 0x6574, 0x6027, 0x9a8c, 0x8bc1, 0x5931, 0x8d25]) risk))"
  using processClientVerification_denied [OF assms] processClientVerification_denied_activations [OF assms]
  by blast

lemma denied_effects_witness:
  "\<exists>s' resp. processClientVerification sampleLib sampleEnv sampleRequest
       ((sampleInput ''a'')\<lparr>cvi_ChallengeID := ''none''\<rparr>) sampleFresh = (s', resp) \<and>
     srv_rateLimits s' \<noteq> Map.empty"
proof -
  let ?input = "(sampleInput ''a'')\<lparr>cvi_ChallengeID := ''none''\<rparr>"
  let ?key = "clientVerificationRateLimitKey sampleLib ?input sampleRequest"
  have on: "limiterOn sampleFresh" "srv_rateLimits sampleFresh ?key = None"
    "srv_challenges sampleFresh ''none'' = None"
    by (simp_all add: limiterOn_def sampleFresh_def sampleServer_def)
  have "\<not> malformedVerification ?input"
    by (simp add: malformedVerification_def sampleInput_def)
  moreover have "\<not> isRateLimitedLocked ?key t sampleFresh" for t
    using on by (simp add: isRateLimitedLocked_def)
  ultimately have "verificationDenied (snd (processClientVerification sampleLib sampleEnv sampleRequest ?input sampleFresh))"
    using on(3) by (simp add: processClientVerification_def Let_def validateChallengeLocked_def)
  then obtain s' resp where run: "processClientVerification sampleLib sampleEnv sampleRequest ?input sampleFresh
      = (s', resp)" "verificationDenied resp" by (metis prod.collapse)
  have "srv_rateLimits s' ?key \<noteq> None"
    using denied_effects [OF run] record_starts [OF on(1,2)] by auto
  then show ?thesis using run(1) by auto
qed

end
