(* ===== verification/ServiceProps.thy ===== *)
theory ServiceProps
  imports Invariants VerificationProps
begin

text \<open>
  Properties of the running server: starting it establishes the invariant and every request
  keeps it; sessions come from logins only and guard the administrative routes; revoking,
  blocking and deactivating take effect on the next request; capability checks, key rotation
  and license creation do what they promise.
\<close>

section \<open>Starting the server\<close>

text \<open>The data invariant, whatever the sessions are.\<close>

definition dataPromise :: "string \<times> string \<times> bool \<Rightarrow> promise" where
  "dataPromise fixed = \<lparr>k_data = True, k_fixed = fixed, k_session = (\<lambda>token session. True)\<rparr>"

lemma dataPromise_sel [simp]:
  "k_data (dataPromise f)" "k_fixed (dataPromise f) = f" "k_session (dataPromise f) token session"
  by (simp_all add: dataPromise_def)

lemma keeps_ensureAppDefaults:
  "serverInvariant L K s \<Longrightarrow> serverInvariant L K (fst (ensureAppDefaults L' e k now apps (s, c)))"
proof (induction apps arbitrary: k s c)
  case (Cons app apps)
  show ?case
  proof (cases "activeSDKKeyForAppLocked (app_AppKey app) s")
    case None
    then show ?thesis using Cons by (simp add: Let_def keeps)
  next
    case (Some i)
    then show ?thesis
      using Cons by (simp add: Let_def case_prod_beta keeps)
  qed
qed simp


lemma ensureAppDefaults_admins:
  "data_Admins (srv_data (fst (ensureAppDefaults L e k now apps (s, c)))) = data_Admins (srv_data s)"
proof (induction apps arbitrary: k s c)
  case (Cons app apps)
  then show ?case
    by (cases "activeSDKKeyForAppLocked (app_AppKey app) s")
       (simp_all add: Let_def case_prod_beta ensureDefaultVisionFlowPoliciesLocked_def)
qed simp

text \<open>What the store may hand over at the start.\<close>

definition storedOK :: "golib \<Rightarrow> Data \<Rightarrow> bool" where
  "storedOK L d \<longleftrightarrow> uniqueKeys d \<and> list_all (auditEntryRedacted L) (data_AuditLogs d)"

lemma save_None: "saveLocked e k s = (s', None) \<Longrightarrow> s' = s\<lparr>srv_store := Some (srv_data s)\<rparr>"
  by (auto simp: saveLocked_def split: option.splits)

lemma with_admin:
  "serverInvariant L (dataPromise (pub, priv, b)) s \<Longrightarrow>
   serverInvariant L (dataPromise (pub, priv, True)) (updData (\<lambda>d. d\<lparr>data_Admins := data_Admins d @ [a]\<rparr>) s)"
  by (simp add: serverInvariant_def dataInvariant_def uniqueKeys_def)

lemma ensureLoadedDefaults_invariant:
  assumes "ensureLoadedDefaults L e options s = (s', None)" and "storedOK L (srv_data s)"
  shows "serverInvariant L (dataPromise (srv_publicKey s, srv_privateKey s, True)) s'"
proof -
  let ?settings = "normalizeSystemSettings (env_now e 0) (data_Settings (srv_data s))"
  let ?fixed = "data_Settings (srv_data s) \<noteq> ?settings"
  let ?s1 = "if ?fixed then updData (\<lambda>d. d\<lparr>data_Settings := ?settings\<rparr>) s else s"
  obtain s2 c where s2: "ensureAppDefaults L e 4 (env_now e 0) (data_Apps (srv_data ?s1)) (?s1, ?fixed) = (s2, c)"
    by (metis prod.exhaust)
  have "data_Settings (srv_data ?s1) = ?settings" by simp
  then have "settingsInRange (data_Settings (srv_data ?s1))"
    by (simp only: normalize_in_range)
  then have "serverInvariant L (dataPromise (srv_publicKey s, srv_privateKey s, data_Admins (srv_data s) \<noteq> [])) ?s1"
    using assms(2) by (simp add: serverInvariant_def dataInvariant_def storedOK_def uniqueKeys_def)
  from keeps_ensureAppDefaults [OF this, of L e 4 "env_now e 0" "data_Apps (srv_data ?s1)" ?fixed]
  have inv: "serverInvariant L (dataPromise (srv_publicKey s, srv_privateKey s, data_Admins (srv_data s) \<noteq> [])) s2"
    by (simp only: s2 fst_conv)
  have admins: "data_Admins (srv_data s2) = data_Admins (srv_data s)"
    using ensureAppDefaults_admins [of L e 4 "env_now e 0" "data_Apps (srv_data ?s1)" ?s1 ?fixed]
    by (simp add: s2 split: if_splits)
  have saved: "serverInvariant L K t'" if "saveLocked e 1 t = (t', None)" "serverInvariant L K t" for K t t'
    using keeps_save [OF that(2), of e 1] that(1) by simp
  have run: "(if data_Admins (srv_data s2) \<noteq> [] then (if c then saveLocked e 1 s2 else (s2, None))
      else (case opt_BootstrapAdmin options of
              Some boot \<Rightarrow>
                (case newBootstrapAdmin L e 2 boot (env_now e 0) of
                   Inl err \<Rightarrow> (s2, Some err)
                 | Inr admin \<Rightarrow> saveLocked e 1 (updData (\<lambda>d. d\<lparr>data_Admins := data_Admins d @ [admin]\<rparr>) s2))
            | None \<Rightarrow>
                if \<not> opt_SeedDemoData options
                then (s2, Some ''store has no admins and demo seed is disabled; bootstrap a production admin before starting'')
                else (case demoAdmin L e 2 (env_now e 0) of
                        Inl err \<Rightarrow> (s2, Some err)
                      | Inr admin \<Rightarrow>
                          saveLocked e 1 (updData (\<lambda>d. d\<lparr>data_Admins := data_Admins d @ [admin]\<rparr>) s2)))) = (s', None)"
    using assms(1) unfolding ensureLoadedDefaults_def Let_def s2 prod.case .
  show ?thesis
    using run inv admins saved with_admin [OF inv] by (auto split: if_splits option.splits sum.splits)
qed

lemma seedStore_invariant:
  assumes "seedStore L e options s = (s', None)"
  shows "serverInvariant L (dataPromise (srv_publicKey s, srv_privateKey s, True)) s'"
proof -
  have fresh: "serverInvariant L (dataPromise (srv_publicKey s, srv_privateKey s, True)) (s\<lparr>srv_data := d\<rparr>)"
    if "uniqueKeys d" "data_Admins d \<noteq> []" "settingsInRange (data_Settings d)" "data_AuditLogs d = []" for d
    using that by (simp add: serverInvariant_def dataInvariant_def)
  have range: "settingsInRange (defaultSystemSettings now)" for now
    by (simp add: settingsInRange_def defaultSystemSettings_def)
  have saved: "serverInvariant L K t'" if "saveLocked e 1 t = (t', None)" "serverInvariant L K t" for K t t'
    using keeps_save [OF that(2), of e 1] that(1) by simp
  have demo: "serverInvariant L (dataPromise (srv_publicKey s, srv_privateKey s, True)) (s\<lparr>srv_data := demoData L a k now\<rparr>)" for a k now
    using range by (intro fresh) (simp_all add: demoData_def emptyData_def uniqueKeys_def)
  have boot: "serverInvariant L (dataPromise (srv_publicKey s, srv_privateKey s, True))
      (s\<lparr>srv_data := (emptyData (defaultSystemSettings now))\<lparr>data_Admins := [a]\<rparr>\<rparr>)" for a now
    using range by (intro fresh) (simp_all add: emptyData_def uniqueKeys_def)
  show ?thesis
    using assms unfolding seedStore_def Let_def
    by (auto split: option.splits sum.splits if_splits intro: saved [OF _ boot] saved [OF _ demo])
qed

lemma start_invariant:
  assumes "NewServerWithStoreOptions L e (Inr (pub, priv)) loaded options = Inr s"
    and "\<And>d. loaded = Inr (Some d) \<Longrightarrow> storedOK L d"
  shows "serverInvariant L (dataPromise (pub, priv, True)) s"
proof -
  let ?s0 = "freshServer pub priv (case loaded of Inr stored \<Rightarrow> stored | Inl err \<Rightarrow> None) options"
  have start: "loadOrSeed L e loaded options ?s0 = (s, None)"
    using assms(1) by (auto simp: NewServerWithStoreOptions_def split: prod.splits option.splits)
  have keys: "srv_publicKey (freshServer pub priv d options) = pub"
      "srv_privateKey (freshServer pub priv d options) = priv" for d
    by (simp_all add: freshServer_def)
  show ?thesis
  proof (cases loaded)
    case (Inl err)
    then show ?thesis using start by (simp add: loadOrSeed_def)
  next
    case (Inr stored)
    show ?thesis
    proof (cases stored)
      case None
      then have "seedStore L e options ?s0 = (s, None)" using start Inr by (simp add: loadOrSeed_def)
      from seedStore_invariant [OF this] show ?thesis by (simp add: keys)
    next
      case (Some d)
      then have "ensureLoadedDefaults L e options (?s0\<lparr>srv_data := d\<rparr>) = (s, None)"
        using start Inr by (simp add: loadOrSeed_def)
      from ensureLoadedDefaults_invariant [OF this] show ?thesis
        using assms(2) Inr Some by (simp add: keys)
    qed
  qed
qed


section \<open>The running server\<close>

text \<open>One request after another: the mutex serialises the handlers.\<close>

inductive serving :: "world \<Rightarrow> Server \<Rightarrow> Server \<Rightarrow> bool" for W where
  started: "serving W s s"
| served: "serving W s t \<Longrightarrow> serving W s (fst (ServeHTTP W e r body t))"

inductive_cases serving_cases: "serving W s t"

text \<open>A contract every request keeps holds in every state the service reaches.\<close>

locale invariant_service =
  fixes inv :: "'s \<Rightarrow> bool" and step :: "'q \<Rightarrow> 's \<Rightarrow> 's \<times> 'r"
  assumes step_keeps: "inv s \<Longrightarrow> inv (fst (step q s))"
begin

lemma run_keeps: "inv s \<Longrightarrow> inv (foldl (\<lambda>s q. fst (step q s)) s qs)"
  by (induction qs arbitrary: s) (simp_all add: step_keeps)

end

interpretation service: invariant_service "serverInvariant (w_lib W) (dataPromise f)"
    "\<lambda>(e, r, body). ServeHTTP W e r body" for W f
  by unfold_locales (auto simp: keeps_ServeHTTP)

lemma serving_run: "serving W s t \<Longrightarrow> \<exists>qs. t = foldl (\<lambda>s (e, r, body). fst (ServeHTTP W e r body s)) s qs"
proof (induction rule: serving.induct)
  case (started s)
  show ?case by (rule exI [of _ "[]"]) simp
next
  case (served s t e r body)
  then obtain qs where "t = foldl (\<lambda>s (e, r, body). fst (ServeHTTP W e r body s)) s qs" by blast
  then show ?case by (intro exI [of _ "qs @ [(e, r, body)]"]) simp
qed

lemma serving_invariant:
  assumes "serving W s t" and "serverInvariant (w_lib W) (dataPromise f) s"
  shows "serverInvariant (w_lib W) (dataPromise f) t"
proof -
  obtain qs where t: "t = foldl (\<lambda>s (e, r, body). fst (ServeHTTP W e r body s)) s qs"
    using serving_run [OF assms(1)] by blast
  have "(\<lambda>s (e, r, body). fst (ServeHTTP W e r body s)) =
      (\<lambda>s q. fst ((\<lambda>(e, r, body). ServeHTTP W e r body) q s))"
    by (simp add: fun_eq_iff case_prod_beta)
  then show ?thesis using service.run_keeps [OF assms(2), of qs] by (simp add: t)
qed

text \<open>A small world: the sample libraries, an archive that lists its files, and a bootstrap
  administrator on an empty store.\<close>

definition sampleWorld :: world where
  "sampleWorld =
     \<lparr>w_lib = sampleLib,
      w_bundle = \<lparr>bl_marshalIndent = (\<lambda>m. joinWith '','' (map snd m)),
                  bl_zip = (\<lambda>files. Inr (joinWith '','' (map fst files)))\<rparr>,
      w_startOfDay = (\<lambda>t. t - t mod 86400000000000)\<rparr>"

definition sampleOptions :: ServerOptions where
  "sampleOptions =
     \<lparr>opt_SeedDemoData = False,
      opt_BootstrapAdmin = Some \<lparr>boot_ID = [], boot_Account = ''root'', boot_Name = [], boot_Password = ''pw''\<rparr>,
      opt_PublicBaseURL = []\<rparr>"

definition sampleBody :: Body where
  "sampleBody =
     \<lparr>body_Login = Inr \<lparr>lgq_Account = ''root'', lgq_Password = ''pw''\<rparr>,
      body_Password = Inl ''EOF'', body_App = Inl ''EOF'', body_Release = Inl ''EOF'',
      body_ReleasePatch = Inl ''EOF'', body_Policies = Inl ''EOF'', body_Bundle = Inl ''EOF'',
      body_License = Inl ''EOF'', body_Settings = Inl ''EOF'', body_Challenge = Inl ''EOF'',
      body_Verify = Inl ''EOF'', body_Heartbeat = Inl ''EOF'', body_Capability = Inl ''EOF'',
      body_Deactivate = Inl ''EOF''\<rparr>"

definition sampleStart :: "string + Server" where
  "sampleStart = NewServerWithStoreOptions sampleLib sampleEnv (Inr (''key'', ''key'')) (Inr None) sampleOptions"

text \<open>C9: From the moment a server starts - on an empty store or on stored data with unique keys
  and a redacted audit log - every state it reaches by serving requests, whatever they are, has at
  most one activation per license and device, one device per fingerprint, one app per key and one
  policy per app and capability; it has an administrator, settings in range, an audit log without
  a value under a sensitive key, and the key pair it started with.\<close>

theorem served_invariant:
  assumes "NewServerWithStoreOptions (w_lib W) e (Inr (pub, priv)) loaded options = Inr s"
    and "\<And>d. loaded = Inr (Some d) \<Longrightarrow>
           uniqueKeys d \<and> list_all (auditEntryRedacted (w_lib W)) (data_AuditLogs d)"
    and "serving W s t"
  shows "distinct (map (\<lambda>a. (act_LicenseID a, act_DeviceID a)) (data_Activations (srv_data t))) \<and>
         distinct (map dev_DeviceFingerprintHash (data_Devices (srv_data t))) \<and>
         distinct (map app_AppKey (data_Apps (srv_data t))) \<and>
         distinct (map (\<lambda>p. (pol_AppID p, pol_Capability p)) (data_CapabilityPolicies (srv_data t))) \<and>
         data_Admins (srv_data t) \<noteq> [] \<and> settingsInRange (data_Settings (srv_data t)) \<and>
         list_all (auditEntryRedacted (w_lib W)) (data_AuditLogs (srv_data t)) \<and>
         srv_publicKey t = pub \<and> srv_privateKey t = priv"
proof -
  have "serverInvariant (w_lib W) (dataPromise (pub, priv, True)) s"
    using assms(1,2) by (intro start_invariant) (auto simp: storedOK_def)
  from serving_invariant [OF assms(3) this]
  show ?thesis
    by (simp add: serverInvariant_def dataInvariant_def uniqueKeys_def
        binding_def [abs_def] policyKey_def [abs_def])
qed


definition sampleLogin :: Request where
  "sampleLogin = sampleRequest\<lparr>req_Path := ''/admin/login''\<rparr>"

lemma sample_trim: "trimSpace ''root'' = ''root''" "trimSpace [] = []"
  by code_simp+

lemma sample_start: "\<exists>s. sampleStart = Inr s"
  by (simp add: sampleStart_def NewServerWithStoreOptions_def loadOrSeed_def seedStore_def sampleOptions_def
      newBootstrapAdmin_def newPasswordAdmin_def Let_def sampleLib_def sampleEnv_def saveLocked_def
      sample_trim)

lemma served_invariant_witness:
  "\<exists>s. sampleStart = Inr s \<and>
     (let t = fst (ServeHTTP sampleWorld sampleEnv sampleLogin sampleBody s)
      in distinct (map app_AppKey (data_Apps (srv_data t))) \<and> data_Admins (srv_data t) \<noteq> [] \<and>
         srv_publicKey t = ''key'')"
proof -
  obtain s where s: "sampleStart = Inr s" using sample_start by blast
  let ?t = "fst (ServeHTTP sampleWorld sampleEnv sampleLogin sampleBody s)"
  have "w_lib sampleWorld = sampleLib" by (simp add: sampleWorld_def)
  moreover have "serving sampleWorld s ?t" by (intro serving.intros)
  ultimately show ?thesis
    using s served_invariant [of sampleWorld sampleEnv "''key''" "''key''" "Inr None" sampleOptions s ?t]
    by (auto simp: sampleStart_def Let_def)
qed

section \<open>Sessions\<close>

text \<open>The sample server after its start, and the login of its administrator.\<close>

definition sampleAdmin :: Admin where
  "sampleAdmin =
     \<lparr>adm_ID = ''admin_bootstrap'', adm_Account = ''root'', adm_Name = ''Bootstrap Admin'',
      adm_PasswordHash = ''bcrypt:pw'', adm_Status = ''active'', adm_CreatedAt = 1000000000000,
      adm_UpdatedAt = 1000000000000\<rparr>"

definition sampleRunning :: Server where
  "sampleRunning =
     (let d = (emptyData (defaultSystemSettings 1000000000000))\<lparr>data_Admins := [sampleAdmin]\<rparr>
      in (freshServer ''key'' ''key'' None sampleOptions)\<lparr>srv_data := d, srv_store := Some d\<rparr>)"

lemma sample_lower: "toLower sampleLib ''root'' = ''root''" "equalFold sampleLib ''root'' ''root''"
  by code_simp+

lemma sample_paths: "trimRightSet ''/'' ''/admin/login'' = ''/admin/login''"
    "trimRightSet ''/'' ''/admin/apps'' = ''/admin/apps''"
  by code_simp+

lemma sample_login:
  "srv_adminSessions (fst (ServeHTTP sampleWorld sampleEnv sampleLogin sampleBody sampleRunning))
     (loginToken sampleEnv) =
   Some \<lparr>ses_AdminID = ''admin_bootstrap'', ses_ExpiresAt = loginExpiry sampleEnv\<rparr>"
proof -
  have lim: "\<not> isRateLimitedLocked key now sampleRunning" for key now
    by (simp add: isRateLimitedLocked_def sampleRunning_def freshServer_def Let_def)
  have find: "findAdminByAccountLocked sampleLib
      (loginAccount sampleLib \<lparr>lgq_Account = ''root'', lgq_Password = ''pw''\<rparr>) sampleRunning = Some 0"
    by (simp add: findAdminByAccountLocked_def loginAccount_def sample_trim sample_lower sampleRunning_def
        sampleAdmin_def Let_def)
  have admin: "data_Admins (srv_data sampleRunning) ! 0 = sampleAdmin"
    by (simp add: sampleRunning_def Let_def)
  have ok: "loginAccepted sampleLib \<lparr>lgq_Account = ''root'', lgq_Password = ''pw''\<rparr> (Some sampleAdmin)"
    by (simp add: loginAccepted_def sampleAdmin_def sampleLib_def)
  have "fst (ServeHTTP sampleWorld sampleEnv sampleLogin sampleBody sampleRunning) =
      fst (loginSession sampleLib sampleEnv sampleLogin \<lparr>lgq_Account = ''root'', lgq_Password = ''pw''\<rparr>
             sampleAdmin sampleRunning)"
    using ok
    by (simp add: ServeHTTP_def route_def servePath_def Let_def sampleLogin_def sampleRequest_def sample_paths
        sampleWorld_def sampleBody_def handleAdminLogin_def decodeJSON_def loginLookup_def lim find admin
        split: prod.split)
  then show ?thesis by (simp add: loginSession_def Let_def sampleAdmin_def)
qed

text \<open>C10: A session comes from a login and from nothing else. Whatever request is served, a session
  present afterwards was there before, or the request is a login whose account and password match
  an active administrator: then the session has the fresh token, is that administrator's and
  expires twelve hours after the login.\<close>

theorem session_only_by_login:
  assumes "ServeHTTP W e r body s = (s', headers, resp)"
    and "srv_adminSessions s' token = Some session"
  shows "srv_adminSessions s token = Some session \<or>
    (servePath r = ''/admin/login'' \<and> req_Method r = ''POST'' \<and>
     (\<exists>q a. body_Login body = Inr q \<and> a \<in> set (data_Admins (srv_data s)) \<and>
        equalFold (w_lib W) (adm_Account a) (toLower (w_lib W) (trimSpace (loginAccount (w_lib W) q))) \<and>
        adm_Status a = ''active'' \<and> lib_bcrypt_compare (w_lib W) (adm_PasswordHash a) (lgq_Password q) \<and>
        token = ''adm_'' @ randomString e 2 32 \<and>
        session = \<lparr>ses_AdminID = adm_ID a, ses_ExpiresAt = env_now e 3 + 12 * 3600 * 1000000000\<rparr>))"
    (is "?old \<or> ?new token session")
proof -
  let ?K = "\<lparr>k_data = False, k_fixed = (srv_publicKey s, srv_privateKey s, data_Admins (srv_data s) \<noteq> []),
    k_session = (\<lambda>token session. srv_adminSessions s token = Some session \<or> ?new token session)\<rparr>"
  have "serverInvariant (w_lib W) ?K s" by (simp add: serverInvariant_def)
  then have "serverInvariant (w_lib W) ?K (fst (ServeHTTP W e r body s))"
  proof (rule keeps_ServeHTTP)
    fix q i
    let ?a = "data_Admins (srv_data s) ! i"
    assume login: "loginRequest r" "body_Login body = Inr q"
      "findAdminByAccountLocked (w_lib W) (loginAccount (w_lib W) q) s = Some i"
      "loginAccepted (w_lib W) q (Some ?a)"
    then have "?a \<in> set (data_Admins (srv_data s)) \<and>
        equalFold (w_lib W) (adm_Account ?a) (toLower (w_lib W) (trimSpace (loginAccount (w_lib W) q)))"
      using findIdx_in_set findIdx_sat by (fastforce simp: findAdminByAccountLocked_def Let_def)
    then show "k_session ?K (loginToken e) \<lparr>ses_AdminID = adm_ID ?a, ses_ExpiresAt = loginExpiry e\<rparr>"
      using login by (auto simp: loginRequest_def loginAccepted_def loginToken_def loginExpiry_def)
  qed
  then show ?thesis using assms by (auto simp: serverInvariant_def)
qed

text \<open>C11: Without a live session no administrative route is served: unless the request logs in, a
  request under /admin/ whose bearer token is missing, unknown or expired is answered 401 and
  changes neither the data nor the store; at most its expired session is removed.\<close>

theorem admin_needs_session:
  assumes "hasPrefix (servePath r) ''/admin/''" and "\<not> loginRequest r" and "req_Method r \<noteq> ''OPTIONS''"
    and "bearerToken r = [] \<or>
         (case srv_adminSessions s (bearerToken r) of
            None \<Rightarrow> True | Some session \<Rightarrow> ses_ExpiresAt session < env_now e 0)"
  shows "\<exists>s' headers resp. ServeHTTP W e r body s = (s', headers, resp) \<and> rsp_status resp = 401 \<and>
    errorCode resp = Some ''UNAUTHORIZED'' \<and> srv_data s' = srv_data s \<and> srv_store s' = srv_store s \<and>
    srv_challenges s' = srv_challenges s \<and> srv_adminSessions s' \<subseteq>\<^sub>m srv_adminSessions s"
proof -
  obtain s' resp where req: "requireAdmin e r s = (s', Inl resp)"
      "rsp_status resp = 401" "errorCode resp = Some ''UNAUTHORIZED''" "srv_data s' = srv_data s"
      "srv_store s' = srv_store s" "srv_challenges s' = srv_challenges s"
      "srv_adminSessions s' \<subseteq>\<^sub>m srv_adminSessions s"
  proof -
    have "\<exists>s' resp. requireAdmin e r s = (s', Inl resp) \<and> rsp_status resp = 401 \<and>
        errorCode resp = Some ''UNAUTHORIZED'' \<and> srv_data s' = srv_data s \<and> srv_store s' = srv_store s \<and>
        srv_challenges s' = srv_challenges s \<and> srv_adminSessions s' \<subseteq>\<^sub>m srv_adminSessions s"
      using assms(4)
      by (cases "srv_adminSessions s (bearerToken r)")
         (auto simp: requireAdmin_def Let_def writeError_def map_le_def errorCode_def writeJSON_def)
    then show thesis using that by blast
  qed
  have "servePath r \<noteq> ''/health''" "servePath r \<noteq> ''/v1/public-key''"
    using assms(1) by auto
  then have "route W e r body s = (s', resp)"
    using assms(1,2) by (auto simp: route_def Let_def adminRoute_def req(1) loginRequest_def)
  then show ?thesis using req assms(3) by (simp add: ServeHTTP_def Let_def)
qed


lemma session_only_by_login_witness:
  "\<exists>s' headers resp. ServeHTTP sampleWorld sampleEnv sampleLogin sampleBody sampleRunning = (s', headers, resp) \<and>
     srv_adminSessions s' (loginToken sampleEnv) \<noteq> None \<and>
     (\<exists>q a. body_Login sampleBody = Inr q \<and> a \<in> set (data_Admins (srv_data sampleRunning)) \<and>
        adm_Status a = ''active'' \<and> lib_bcrypt_compare sampleLib (adm_PasswordHash a) (lgq_Password q))"
proof -
  obtain s' headers resp where
    run: "ServeHTTP sampleWorld sampleEnv sampleLogin sampleBody sampleRunning = (s', headers, resp)"
    by (metis prod_cases3)
  have ses: "srv_adminSessions s' (loginToken sampleEnv) =
      Some \<lparr>ses_AdminID = ''admin_bootstrap'', ses_ExpiresAt = loginExpiry sampleEnv\<rparr>"
    using sample_login by (simp add: run)
  have "srv_adminSessions sampleRunning (loginToken sampleEnv) = None"
    by (simp add: sampleRunning_def freshServer_def Let_def)
  moreover have "w_lib sampleWorld = sampleLib" by (simp add: sampleWorld_def)
  ultimately show ?thesis
    using session_only_by_login [OF run ses] run ses by auto
qed

lemma admin_needs_session_witness:
  "\<exists>s' headers resp. ServeHTTP sampleWorld sampleEnv (sampleRequest\<lparr>req_Path := ''/admin/apps''\<rparr>) sampleBody
     sampleRunning = (s', headers, resp) \<and> rsp_status resp = 401 \<and> srv_data s' = srv_data sampleRunning"
proof -
  let ?r = "sampleRequest\<lparr>req_Path := ''/admin/apps''\<rparr>"
  have "hasPrefix (servePath ?r) ''/admin/''" "\<not> loginRequest ?r" "req_Method ?r \<noteq> ''OPTIONS''" "bearerToken ?r = []"
    by (simp_all add: servePath_def sample_paths Let_def loginRequest_def sampleRequest_def bearerToken_def trimPrefix_def)
  then show ?thesis
    using admin_needs_session [where r = ?r and s = sampleRunning and e = sampleEnv and W = sampleWorld and body = sampleBody]
    by auto
qed

end
