(* ===== verification/AdminProps.thy ===== *)
theory AdminProps
  imports AdminLicenses VerificationProps
begin

text \<open>
  Properties of the administrative and token endpoints: revoking a license, blocking a device
  and deactivating take effect on the next request, a capability check follows the stored
  license, a rotation leaves one active SDK key, and a created license is found by the key that
  was handed out once.
\<close>

section \<open>Cutting a client off\<close>

lemma data_auditLocked [simp]:
  "data_Licenses (srv_data (fst (saveThen e k resp (auditLocked L e' k' ad ac tt ti r md s)))) = data_Licenses (srv_data s)"
  by simp

text \<open>An allowed request has the license the specification finds, and that license is active.\<close>

lemma allowed_license:
  assumes "processClientVerification L e r input s = (s', resp)" and "verificationAllowed resp"
  obtains app lic where "appFor input s = Some app" and "licenseFor L e input s = Some lic"
    and "lic_Status lic = ''active''" and "lic_AppID lic = app_AppKey app"
    and "snd (deviceFor L e input s) \<noteq> ''blocked''"
    and "activationAdmits lic (fst (deviceFor L e input s)) (claimsFor L e input s) s"
proof -
  have "verificationSpec L e r input s" using processClientVerification_sound [OF assms] .
  then obtain app lic where "appFor input s = Some app" "licenseFor L e input s = Some lic"
      "licenseAdmits e app lic (claimsFor L e input s) (deviceFor L e input s) s"
    by (auto simp: verificationSpec_def split: option.splits)
  then show thesis using that by (simp add: licenseAdmits_def)
qed

text \<open>C12: Revoking or suspending takes effect at once. After the action on a known license its status
  says so (the response shows that record), a revocation has blocked every activation of it, and on
  that state no activation or verification that resolves to the license is allowed, whoever sends
  it and with a key or a token, nor does a capability check with a token of the license pass.\<close>

theorem license_action_effective:
  assumes "findLicenseByIDLocked licenseID s = Some i" and "action \<in> {''revoke'', ''suspend''}"
    and "actOnLicense L e r adminID licenseID action s = (s', resp)"
  shows "let lic = data_Licenses (srv_data s') ! i in
    lic_Status lic = licenseActionStatus action \<and> lic_ID lic = licenseID \<and>
    (action = ''revoke'' \<longrightarrow> (\<forall>a \<in> set (data_Activations (srv_data s')).
       act_LicenseID a = licenseID \<longrightarrow> act_ActivationStatus a = ''blocked'')) \<and>
    (\<forall>L' e' r' input t out. processClientVerification L' e' r' input s' = (t, out) \<longrightarrow>
       licenseFor L' e' input s' = Some lic \<longrightarrow> \<not> verificationAllowed out) \<and>
    (\<forall>L' e' capability claims. tok_LicenseID claims = licenseID \<longrightarrow>
       errorCode (snd (capabilityCheck L' e' capability claims s')) = Some ''LICENSE_NOT_ACTIVE'')"
proof -
  note found = findIdx_SomeD [OF assms(1) [unfolded findLicenseByIDLocked_def]]
  let ?f = "\<lambda>l. l\<lparr>lic_Status := licenseActionStatus action, lic_UpdatedAt := env_now e 1\<rparr>"
  let ?lic = "?f (data_Licenses (srv_data s) ! i)"
  have lics: "data_Licenses (srv_data s') = modifyAt i ?f (data_Licenses (srv_data s))"
    and acts: "data_Activations (srv_data s') = map (\<lambda>a. if act_LicenseID a = lic_ID ?lic \<and> action = ''revoke''
        then a\<lparr>act_ActivationStatus := ''blocked''\<rparr> else a) (data_Activations (srv_data s))"
    using arg_cong [OF assms(3), of fst] assms(1) found
    by (auto simp: actOnLicense_def Let_def modifyAt_nth)
  have lic: "data_Licenses (srv_data s') ! i = ?lic" using found by (simp add: lics modifyAt_nth)
  have status: "licenseActionStatus action \<noteq> ''active''"
    using assms(2) by (auto simp: licenseActionStatus_def)
  have first: "findLicenseByIDLocked licenseID s' = Some i"
    using assms(1) by (simp add: findLicenseByIDLocked_def lics findIdx_modifyAt)
  have denied: "\<not> verificationAllowed out"
    if "processClientVerification L' e' r' input s' = (t, out)" "licenseFor L' e' input s' = Some ?lic"
    for L' e' r' input t out
    using allowed_license [OF that(1)] that(2) status by fastforce
  have check: "errorCode (snd (capabilityCheck L' e' capability claims s')) = Some ''LICENSE_NOT_ACTIVE''"
    if "tok_LicenseID claims = licenseID" for L' e' capability claims
    using that status by (simp add: capabilityCheck_def Let_def first lic)
  show ?thesis
    unfolding Let_def lic using found denied check by (auto simp: acts)
qed


lemma license_action_effective_witness:
  "findLicenseByIDLocked ''lic_1'' sampleStale = Some 0 \<and>
   lic_Status (data_Licenses (srv_data (fst
     (actOnLicense sampleLib sampleEnv sampleRequest ''admin'' ''lic_1'' ''revoke'' sampleStale))) ! 0) = ''revoked''"
proof -
  have found: "findLicenseByIDLocked ''lic_1'' sampleStale = Some 0"
    by (simp add: findLicenseByIDLocked_def sample_defs sampleLicense_def)
  obtain s' resp where run:
    "actOnLicense sampleLib sampleEnv sampleRequest ''admin'' ''lic_1'' ''revoke'' sampleStale = (s', resp)"
    by (metis prod.exhaust)
  show ?thesis
    using license_action_effective [OF found _ run] found by (simp add: run Let_def licenseActionStatus_def)
qed






section \<open>Token endpoints\<close>

lemma withToken_ok:
  assumes "VerifyLicenseToken L (srv_publicKey s) token False (env_now e 0) = Inr claims"
    and "appID = [] \<or> tok_AppID claims = appID"
  shows "withToken L e token appID act s = act claims s"
  using assms by (auto simp: withToken_def)

text \<open>C13: Deactivation frees the slot and stops the token. A client that presents a valid token of its
  installation gets, once the save succeeds, an answer that says whether its activation was still
  counted; afterwards that activation is deactivated and no longer counts as a device of the
  license, a verification with a token of this license and device is refused, a capability check
  with it is refused, and every other activation is as it was.\<close>

theorem deactivation_frees_slot:
  assumes "VerifyLicenseToken L (srv_publicKey s) (dcq_LicenseToken q) False (env_now e 0) = Inr claims"
    and "dcq_AppID q = [] \<or> tok_AppID claims = dcq_AppID q"
    and "\<not> installMismatch L (dcq_InstallID q) (findDeviceByIDLocked (tok_DeviceID claims) s) s"
    and "findActivationLocked (tok_LicenseID claims) (tok_DeviceID claims) s = Some i"
    and "act_ActivationStatus (data_Activations (srv_data s) ! i) \<noteq> ''deactivated''"
    and "distinct (map (\<lambda>a. (act_LicenseID a, act_DeviceID a)) (data_Activations (srv_data s)))"
    and "handleDeactivate L e (Inr q) s = (s', resp)"
  shows "act_ActivationStatus (data_Activations (srv_data s') ! i) = ''deactivated'' \<and>
    act_DeactivatedAt (data_Activations (srv_data s') ! i) = Some (env_now e 1) \<and>
    set (activeDevices (tok_LicenseID claims) (data_Activations (srv_data s'))) =
      set (activeDevices (tok_LicenseID claims) (data_Activations (srv_data s))) - {tok_DeviceID claims} \<and>
    (\<forall>j < length (data_Activations (srv_data s)). j \<noteq> i \<longrightarrow>
       data_Activations (srv_data s') ! j = data_Activations (srv_data s) ! j) \<and>
    (\<forall>lic claims'. lic_ID lic = tok_LicenseID claims \<longrightarrow>
       \<not> activationAdmits lic (tok_DeviceID claims) (Some claims') s') \<and>
    (\<forall>L' e' capability. errorCode (snd (capabilityCheck L' e' capability claims s')) \<in>
       {Some ''LICENSE_NOT_ACTIVE'', Some ''ACTIVATION_NOT_ACTIVE''}) \<and>
    (env_save e 5 = None \<longrightarrow> rsp_status resp = 200 \<and> srv_store s' = Some (srv_data s'))"
proof -
  let ?acts = "data_Activations (srv_data s)"
  note found = findIdx_SomeD [OF assms(4) [unfolded findActivationLocked_def]]
  have run: "deactivateDevice L e q claims s = (s', resp)"
    using assms(7) withToken_ok [OF assms(1,2), of "deactivateDevice L e q"]
    by (simp add: handleDeactivate_def decodeJSON_def)
  have acts: "data_Activations (srv_data s') = modifyAt i (deactivated (env_now e 1)) ?acts"
    using arg_cong [OF run, of fst] assms(3-5) by (auto simp: deactivateDevice_def Let_def)
  have own: "data_Activations (srv_data s') ! i = deactivated (env_now e 1) (?acts ! i)"
    and others: "j < length ?acts \<Longrightarrow> j \<noteq> i \<Longrightarrow> data_Activations (srv_data s') ! j = ?acts ! j" for j
    using found by (simp_all add: acts modifyAt_nth)
  have only: "j = i" if "j < length ?acts" "act_LicenseID (?acts ! j) = tok_LicenseID claims"
      "act_DeviceID (?acts ! j) = tok_DeviceID claims" for j
  proof -
    have "map (\<lambda>a. (act_LicenseID a, act_DeviceID a)) ?acts ! j =
        map (\<lambda>a. (act_LicenseID a, act_DeviceID a)) ?acts ! i"
      using that found by simp
    then show ?thesis using nth_eq_iff_index_eq [OF assms(6), of j i] that(1) found by simp
  qed
  have active: "set (activeDevices (tok_LicenseID claims) (data_Activations (srv_data s'))) =
      set (activeDevices (tok_LicenseID claims) ?acts) - {tok_DeviceID claims}"
  proof (rule set_eqI)
    fix d
    have len: "length (data_Activations (srv_data s')) = length ?acts" by (simp add: acts)
    have "act_ActivationStatus (data_Activations (srv_data s') ! i) \<noteq> ''active''"
      by (simp add: own deactivated_def)
    then show "d \<in> set (activeDevices (tok_LicenseID claims) (data_Activations (srv_data s'))) \<longleftrightarrow>
        d \<in> set (activeDevices (tok_LicenseID claims) ?acts) - {tok_DeviceID claims}"
      unfolding Diff_iff in_activeDevices len using others only found by (metis singletonD singletonI)
  qed
  have find: "findActivationLocked (tok_LicenseID claims) (tok_DeviceID claims) s' = Some i"
    using assms(4) by (simp add: findActivationLocked_def acts findIdx_modifyAt deactivated_def)
  have check: "errorCode (snd (capabilityCheck L' e' capability claims s')) \<in>
       {Some ''LICENSE_NOT_ACTIVE'', Some ''ACTIVATION_NOT_ACTIVE''}" for L' e' capability
    by (auto simp: capabilityCheck_def Let_def find own deactivated_def split: option.split)
  have saved: "rsp_status resp = 200 \<and> srv_store s' = Some (srv_data s')" if "env_save e 5 = None"
    using run assms(3-5) that by (auto simp: deactivateDevice_def Let_def saveThen_def saveLocked_def)
  show ?thesis
    using own others active find check saved by (auto simp: activationAdmits_def deactivated_def)
qed


lemma sampleToken_b:
  "VerifyLicenseToken sampleLib ''key'' (sampleToken ''b'') False 1000000000000 =
   Inr (sampleClaims ''demo'' ''lic_1'' ''dev_b'')"
proof -
  have "SignLicenseToken sampleLib ''key'' (sampleClaims ''demo'' ''lic_1'' ''dev_b'') = Inr (sampleToken ''b'')"
    by (simp add: sampleToken_def SignLicenseToken_def sampleLib_def sampleMarshal_def Let_def)
  moreover have "claimsRoundTrip sampleLib (sampleClaims ''demo'' ''lic_1'' ''dev_b'')"
    by (simp add: claimsRoundTrip_def sampleLib_def sampleMarshal_def sampleUnmarshal_def sampleClaims_def)
  ultimately show ?thesis
    using verify_signed [OF _ sample_signatures, of "''key''" _ "sampleToken ''b''" False 1000000000000]
    by (simp add: sampleClaims_def unixSeconds_def)
qed

definition sampleDeactivate :: DeactivateRequest where
  "sampleDeactivate = \<lparr>dcq_AppID = ''demo'', dcq_LicenseToken = sampleToken ''b'', dcq_InstallID = ''inst_b''\<rparr>"

lemma sampleClaims_sel [simp]:
  "tok_AppID (sampleClaims a l d) = a" "tok_LicenseID (sampleClaims a l d) = l" "tok_DeviceID (sampleClaims a l d) = d"
  by (simp_all add: sampleClaims_def)

lemma sampleStale_sel:
  "srv_publicKey sampleStale = ''key''" "env_now sampleEnv k = 1000000000000" "env_save sampleEnv k = None"
  "findDeviceByIDLocked ''dev_b'' sampleStale = Some 1"
  "findActivationLocked ''lic_1'' ''dev_b'' sampleStale = Some 1"
  "data_Devices (srv_data sampleStale) ! 1 = sampleDevice ''b''"
  "data_Activations (srv_data sampleStale) ! 1 = sampleActivation ''b'' ''active''"
  "data_Activations (srv_data sampleStale) = [sampleActivation ''a'' ''deactivated'', sampleActivation ''b'' ''active'']"
  "findLicenseByIDLocked ''lic_1'' sampleStale = Some 0" "data_Licenses (srv_data sampleStale) ! 0 = sampleLicense"
  by (simp_all add: sample_defs sampleEnv_def findDeviceByIDLocked_def findActivationLocked_def sampleDevice_def
      sampleActivation_def findLicenseByIDLocked_def sampleLicense_def)

lemma deactivation_frees_slot_witness:
  "\<exists>s' resp. handleDeactivate sampleLib sampleEnv (Inr sampleDeactivate) sampleStale = (s', resp) \<and>
     rsp_status resp = 200 \<and> set (activeDevices ''lic_1'' (data_Activations (srv_data s'))) = {}"
proof -
  obtain s' resp where run: "handleDeactivate sampleLib sampleEnv (Inr sampleDeactivate) sampleStale = (s', resp)"
    by (metis prod.exhaust)
  have token: "VerifyLicenseToken sampleLib (srv_publicKey sampleStale) (dcq_LicenseToken sampleDeactivate) False
      (env_now sampleEnv 0) = Inr (sampleClaims ''demo'' ''lic_1'' ''dev_b'')"
    by (simp add: sampleStale_sel sampleDeactivate_def sampleToken_b)
  have match: "\<not> installMismatch sampleLib (dcq_InstallID sampleDeactivate) (Some 1) sampleStale"
    by (simp add: installMismatch_def sampleStale_sel [simplified] sampleDeactivate_def sampleDevice_def)
  have dist: "distinct (map (\<lambda>a. (act_LicenseID a, act_DeviceID a)) (data_Activations (srv_data sampleStale)))"
    by (simp add: sampleStale_sel sampleActivation_def)
  have active: "set (activeDevices ''lic_1'' (data_Activations (srv_data sampleStale))) = {''dev_b''}"
    by (simp add: sampleStale_sel activeDevices_def sampleActivation_def)
  have "act_ActivationStatus (data_Activations (srv_data sampleStale) ! 1) \<noteq> ''deactivated''"
    by (simp add: sampleStale_sel [simplified] sampleActivation_def)
  from deactivation_frees_slot [OF token _ _ _ this dist run]
  show ?thesis
    using run match active by (auto simp: sampleStale_sel sampleDeactivate_def)
qed

text \<open>What a check that answers with a decision has looked up, and how it goes on.\<close>

lemma handleCapabilityCheck_decisionE:
  assumes "handleCapabilityCheck L e (Inr q) s = (s', resp)"
    and "rsp_body resp = PObject [(''decision'', PDecision d)]"
  obtains claims i j where
    "VerifyLicenseToken L (srv_publicKey s) (cpq_LicenseToken q) False (env_now e 0) = Inr claims"
    "cpq_AppID q = [] \<or> tok_AppID claims = cpq_AppID q"
    "findLicenseByIDLocked (tok_LicenseID claims) s = Some i"
    "lic_AppID (data_Licenses (srv_data s) ! i) = tok_AppID claims"
    "lic_Status (data_Licenses (srv_data s) ! i) = ''active''"
    "findActivationLocked (tok_LicenseID claims) (tok_DeviceID claims) s = Some j"
    "act_ActivationStatus (data_Activations (srv_data s) ! j) = ''active''"
    "let d' = capabilityDecision L (findCapabilityPolicyLocked (tok_AppID claims) (trimSpace (cpq_Capability q)) s)
         (lic_Entitlements (data_Licenses (srv_data s) ! i)) (trimSpace (cpq_Capability q)) in
     (if dec_Allowed d' then (s, writeJSON 200 (PObject [(''decision'', PDecision d')]))
      else saveThen e 3 (writeJSON 200 (PObject [(''decision'', PDecision d')]))
             (addCapabilityDenyRiskEventLocked e 1 (tok_AppID claims) (tok_DeviceID claims) (tok_LicenseID claims) d' s))
      = (s', resp)"
proof -
  let ?cap = "trimSpace (cpq_Capability q)"
  have noerr: "resp \<noteq> writeError st c m" for st c m
    using assms(2) by (auto simp: writeError_def writeJSON_def)
  have checked: "withToken L e (cpq_LicenseToken q) (cpq_AppID q) (capabilityCheck L e ?cap) s = (s', resp)"
    using assms(1) noerr by (auto simp: handleCapabilityCheck_def decodeJSON_def Let_def split: if_splits)
  obtain claims where token:
    "VerifyLicenseToken L (srv_publicKey s) (cpq_LicenseToken q) False (env_now e 0) = Inr claims"
    using checked noerr by (auto simp: withToken_def split: sum.splits prod.splits)
  have app: "cpq_AppID q = [] \<or> tok_AppID claims = cpq_AppID q"
    and check: "capabilityCheck L e ?cap claims s = (s', resp)"
    using checked noerr by (auto simp: withToken_def token split: if_splits)
  obtain i where i: "findLicenseByIDLocked (tok_LicenseID claims) s = Some i"
    using check noerr by (auto simp: capabilityCheck_def Let_def split: option.splits)
  let ?lic = "data_Licenses (srv_data s) ! i"
  have lic: "lic_AppID ?lic = tok_AppID claims" "lic_Status ?lic = ''active''"
    using check noerr by (auto simp: capabilityCheck_def Let_def i split: option.splits if_splits)
  obtain j where j: "findActivationLocked (tok_LicenseID claims) (tok_DeviceID claims) s = Some j"
    using check noerr lic by (auto simp: capabilityCheck_def Let_def i split: option.splits)
  let ?act = "data_Activations (srv_data s) ! j"
  have act: "act_ActivationStatus ?act = ''active''"
    using check noerr lic by (auto simp: capabilityCheck_def Let_def i j split: if_splits)
  let ?d = "capabilityDecision L (findCapabilityPolicyLocked (tok_AppID claims) ?cap s) (lic_Entitlements ?lic) ?cap"
  have run: "(if dec_Allowed ?d then (s, writeJSON 200 (PObject [(''decision'', PDecision ?d)]))
      else saveThen e 3 (writeJSON 200 (PObject [(''decision'', PDecision ?d)]))
             (addCapabilityDenyRiskEventLocked e 1 (tok_AppID claims) (tok_DeviceID claims) (tok_LicenseID claims) ?d s))
      = (s', resp)"
    using check lic act by (simp add: capabilityCheck_def Let_def i j)
  show ?thesis by (rule that [OF token app i lic j act]) (simp only: run Let_def)
qed

text \<open>C14: A capability decision rests on the stored license, not on the token. It is only given to an
  unexpired token with a valid signature for the requested app, whose license is active in that
  app and whose activation is active; it allows exactly when the app registers the capability and
  the stored license - not the token's claims - holds the required entitlement. An allowed check
  changes nothing; a refused one is on the record and in the store before the client is told.\<close>

theorem capability_check_sound:
  assumes "handleCapabilityCheck L e (Inr q) s = (s', resp)"
    and "rsp_body resp = PObject [(''decision'', PDecision d)]"
  shows "\<exists>claims lic act.
    VerifyLicenseToken L (srv_publicKey s) (cpq_LicenseToken q) False (env_now e 0) = Inr claims \<and>
    (cpq_AppID q = [] \<or> tok_AppID claims = cpq_AppID q) \<and>
    lic \<in> set (data_Licenses (srv_data s)) \<and> lic_ID lic = tok_LicenseID claims \<and>
    lic_Status lic = ''active'' \<and> lic_AppID lic = tok_AppID claims \<and>
    act \<in> set (data_Activations (srv_data s)) \<and> act_LicenseID act = tok_LicenseID claims \<and>
    act_DeviceID act = tok_DeviceID claims \<and> act_ActivationStatus act = ''active'' \<and>
    (dec_Allowed d \<longleftrightarrow> (\<exists>p. findCapabilityPolicyLocked (tok_AppID claims) (trimSpace (cpq_Capability q)) s = Some p \<and>
        (trimSpace (pol_RequiredEntitlement p) = [] \<or>
         trimSpace (pol_RequiredEntitlement p) \<in> set (lic_Entitlements lic)))) \<and>
    (dec_Allowed d \<longrightarrow> s' = s) \<and>
    (\<not> dec_Allowed d \<longrightarrow> srv_store s' = Some (srv_data s') \<and>
       (\<exists>v. data_RiskEvents (srv_data s') = data_RiskEvents (srv_data s) @ [v] \<and>
            risk_EventType v = ''capability_denied'' \<and> risk_LicenseID v = lic_ID lic \<and>
            risk_DeviceID v = tok_DeviceID claims))"
proof -
  let ?cap = "trimSpace (cpq_Capability q)"
  have noerr: "resp \<noteq> writeError st c m" for st c m
    using assms(2) by (auto simp: writeError_def writeJSON_def)
  obtain claims i j where token:
    "VerifyLicenseToken L (srv_publicKey s) (cpq_LicenseToken q) False (env_now e 0) = Inr claims"
    "cpq_AppID q = [] \<or> tok_AppID claims = cpq_AppID q"
    and i: "findLicenseByIDLocked (tok_LicenseID claims) s = Some i"
    and lic: "lic_AppID (data_Licenses (srv_data s) ! i) = tok_AppID claims"
      "lic_Status (data_Licenses (srv_data s) ! i) = ''active''"
    and j: "findActivationLocked (tok_LicenseID claims) (tok_DeviceID claims) s = Some j"
    and act: "act_ActivationStatus (data_Activations (srv_data s) ! j) = ''active''"
    and run: "let d' = capabilityDecision L (findCapabilityPolicyLocked (tok_AppID claims) ?cap s)
         (lic_Entitlements (data_Licenses (srv_data s) ! i)) ?cap in
     (if dec_Allowed d' then (s, writeJSON 200 (PObject [(''decision'', PDecision d')]))
      else saveThen e 3 (writeJSON 200 (PObject [(''decision'', PDecision d')]))
             (addCapabilityDenyRiskEventLocked e 1 (tok_AppID claims) (tok_DeviceID claims) (tok_LicenseID claims) d' s))
      = (s', resp)"
    by (rule handleCapabilityCheck_decisionE [OF assms])
  let ?lic = "data_Licenses (srv_data s) ! i" and ?act = "data_Activations (srv_data s) ! j"
  let ?d = "capabilityDecision L (findCapabilityPolicyLocked (tok_AppID claims) ?cap s) (lic_Entitlements ?lic) ?cap"
  note run = run [unfolded Let_def]
  have d: "d = ?d"
    using run assms(2) noerr
    by (auto simp: saveThen_def writeJSON_def split: if_splits prod.splits option.splits)
  have allowed: "dec_Allowed ?d \<longleftrightarrow> (\<exists>p. findCapabilityPolicyLocked (tok_AppID claims) ?cap s = Some p \<and>
        (trimSpace (pol_RequiredEntitlement p) = [] \<or>
         trimSpace (pol_RequiredEntitlement p) \<in> set (lic_Entitlements ?lic)))"
    by (auto simp: capabilityDecision_def hasEntitlement_def Let_def split: option.split)
  have refused: "srv_store s' = Some (srv_data s') \<and>
       (\<exists>v. data_RiskEvents (srv_data s') = data_RiskEvents (srv_data s) @ [v] \<and>
            risk_EventType v = ''capability_denied'' \<and> risk_LicenseID v = tok_LicenseID claims \<and>
            risk_DeviceID v = tok_DeviceID claims)" if "\<not> dec_Allowed ?d"
    using run that noerr
    by (auto simp: saveThen_def saveLocked_def addCapabilityDenyRiskEventLocked_def addRiskEventLocked_def
        Let_def split: prod.splits option.splits)
  have ids: "lic_ID ?lic = tok_LicenseID claims" "?lic \<in> set (data_Licenses (srv_data s))"
      "act_LicenseID ?act = tok_LicenseID claims" "act_DeviceID ?act = tok_DeviceID claims"
      "?act \<in> set (data_Activations (srv_data s))"
    using findIdx_SomeD [OF i [unfolded findLicenseByIDLocked_def]]
      findIdx_SomeD [OF j [unfolded findActivationLocked_def]] by auto
  show ?thesis
    using token ids lic act allowed refused run unfolding d
    by (intro exI [of _ claims] exI [of _ ?lic] exI [of _ ?act]) auto
qed


definition sampleCheck :: CapabilityRequest where
  "sampleCheck = \<lparr>cpq_AppID = ''demo'', cpq_LicenseToken = sampleToken ''b'', cpq_Capability = ''export''\<rparr>"

lemma capability_check_sound_witness:
  "\<exists>s' resp d. handleCapabilityCheck sampleLib sampleEnv (Inr sampleCheck) sampleStale = (s', resp) \<and>
     rsp_body resp = PObject [(''decision'', PDecision d)] \<and> \<not> dec_Allowed d \<and>
     srv_store s' = Some (srv_data s')"
proof -
  have trim: "trimSpace ''export'' = ''export''" by code_simp
  have none: "findCapabilityPolicyLocked a c sampleStale = None" for a c
    by (simp add: findCapabilityPolicyLocked_def findPolicyIn_def sample_defs)
  have lic: "lic_Status sampleLicense = ''active''" "lic_AppID sampleLicense = ''demo''"
    by (simp_all add: sampleLicense_def)
  obtain s' resp where run: "handleCapabilityCheck sampleLib sampleEnv (Inr sampleCheck) sampleStale = (s', resp)"
    by (metis prod.exhaust)
  let ?d = "capabilityDecision sampleLib None (lic_Entitlements sampleLicense) ''export''"
  have "sampleToken ''b'' \<noteq> []" using sampleToken_b by (auto simp: VerifyLicenseToken_def)
  then have body: "rsp_body resp = PObject [(''decision'', PDecision ?d)]"
    using run by (auto simp: handleCapabilityCheck_def decodeJSON_def sampleCheck_def trim withToken_def
        sampleStale_sel sampleStale_sel [simplified] sampleToken_b capabilityCheck_def none lic sampleActivation_def saveThen_def
        saveLocked_def Let_def capabilityDecision_def)
  have "\<not> dec_Allowed ?d" by (simp add: capabilityDecision_def)
  then show ?thesis using capability_check_sound [OF run body] run body by blast
qed

section \<open>Keys and licenses\<close>

text \<open>A rotation leaves exactly one active SDK key. Of the keys registered under the given app
  exactly one is active afterwards: the new one, which keeps only the hash of the secret that the
  answer hands out; every other key of the app is retired, with its identity unchanged, and the
  keys of other apps are untouched.\<close>

theorem rotation_one_active:
  assumes "handleSDKKeyRotate L e r appID adminID s = (s', resp)" and "rsp_status resp = 200"
  shows "\<exists>new secret.
    filter (\<lambda>k. sdk_AppID k = appID \<and> sdk_Status k = ''active'') (data_SDKKeys (srv_data s')) = [new] \<and>
    sdk_SecretHash new = hashString L secret \<and> sdk_PublicKey new = publicKeyString s \<and>
    rsp_body resp = PObject [(''sdk_key'', PSDKKey (sdkKeyView new)), (''sdk_secret'', PVal (GStr secret))] \<and>
    map sdk_ID (data_SDKKeys (srv_data s')) = map sdk_ID (data_SDKKeys (srv_data s)) @ [sdk_ID new] \<and>
    filter (\<lambda>k. sdk_AppID k \<noteq> appID) (data_SDKKeys (srv_data s')) =
      filter (\<lambda>k. sdk_AppID k \<noteq> appID) (data_SDKKeys (srv_data s)) \<and>
    srv_store s' = Some (srv_data s')"
proof -
  let ?keys = "data_SDKKeys (srv_data s)" and ?retire = "retireKey appID (env_now e 1)"
  obtain new secret where key: "newSDKKey L e 2 appID (publicKeyString s) (env_now e 1) True = (new, secret)"
    by (metis prod.exhaust)
  then have new: "sdk_SecretHash new = hashString L secret" "sdk_PublicKey new = publicKeyString s"
      "sdk_AppID new = appID" "sdk_Status new = ''active''"
    by (auto simp: newSDKKey_def Let_def)
  have pub: "publicKeyString (updData f t) = publicKeyString t" for f t by (simp add: publicKeyString_def)
  have status: "rsp_status (writeError st c m) = st" for st c m by (simp add: writeError_def)
  have run: "data_SDKKeys (srv_data s') = map ?retire ?keys @ [new] \<and> srv_store s' = Some (srv_data s') \<and>
      rsp_body resp = PObject [(''sdk_key'', PSDKKey (sdkKeyView new)), (''sdk_secret'', PVal (GStr secret))]"
    using assms by (auto simp: handleSDKKeyRotate_def Let_def pub key [unfolded One_nat_def] methodNotAllowed_def appNotFound_def status
        saveThen_def saveLocked_def split: if_splits option.splits)
  have "filter (\<lambda>k. sdk_AppID k = appID \<and> sdk_Status k = ''active'') (map ?retire ks) = []" for ks
    by (induction ks) (auto simp: retireKey_def)
  moreover have "map sdk_ID (map ?retire ks) = map sdk_ID ks" for ks
    by (induction ks) (auto simp: retireKey_def)
  moreover have "filter (\<lambda>k. sdk_AppID k \<noteq> appID) (map ?retire ks) = filter (\<lambda>k. sdk_AppID k \<noteq> appID) ks" for ks
    by (induction ks) (auto simp: retireKey_def)
  ultimately show ?thesis
    using run new by (intro exI [of _ new] exI [of _ secret]) (simp del: filter_map map_map)
qed

lemma rotation_one_active_witness:
  "\<exists>s' resp. handleSDKKeyRotate sampleLib sampleEnv sampleRequest ''demo'' ''admin'' sampleStale = (s', resp) \<and>
     length (filter (\<lambda>k. sdk_AppID k = ''demo'' \<and> sdk_Status k = ''active'') (data_SDKKeys (srv_data s'))) = 1"
proof -
  obtain s' resp where run: "handleSDKKeyRotate sampleLib sampleEnv sampleRequest ''demo'' ''admin'' sampleStale = (s', resp)"
    by (metis prod.exhaust)
  have found: "findAppLocked ''demo'' sampleStale \<noteq> None"
    by (simp add: findAppLocked_def sample_defs sampleApp_def)
  then have "rsp_status resp = 200"
    using run by (auto simp: handleSDKKeyRotate_def sampleRequest_def Let_def case_prod_beta saveThen_def saveLocked_def
        sampleStale_sel)
  from rotation_one_active [OF run this] run show ?thesis by auto
qed

text \<open>The lookup accepts an app's internal identifier as well, but keys, releases and policies are
  then filed under that identifier: a rotation addressed that way leaves the app's key active.\<close>

lemma rotation_by_internal_id:
  "\<exists>s s' resp. handleSDKKeyRotate sampleLib sampleEnv sampleRequest ''app_1'' ''admin'' s = (s', resp) \<and>
     rsp_status resp = 200 \<and> app_ID sampleApp = ''app_1'' \<and> data_Apps (srv_data s) = [sampleApp] \<and>
     activeSDKKeyForAppLocked (app_AppKey sampleApp) s = Some 0 \<and>
     activeSDKKeyForAppLocked (app_AppKey sampleApp) s' = Some 0"
proof -
  let ?key = "fst (newSDKKey sampleLib sampleEnv 0 ''demo'' [] 0 False)"
  let ?s = "updData (\<lambda>d. d\<lparr>data_SDKKeys := [?key]\<rparr>) sampleStale"
  obtain s' resp where run: "handleSDKKeyRotate sampleLib sampleEnv sampleRequest ''app_1'' ''admin'' ?s = (s', resp)"
    by (metis prod.exhaust)
  have apps: "data_Apps (srv_data sampleStale) = [sampleApp]" by (simp add: sample_defs)
  have found: "findAppLocked ''app_1'' ?s \<noteq> None" by (simp add: findAppLocked_def apps sampleApp_def)
  have key: "sdk_AppID ?key = ''demo''" "sdk_Status ?key = ''active''" by (simp_all add: newSDKKey_def Let_def)
  have after: "activeSDKKeyForAppLocked ''demo'' s' = Some 0" "rsp_status resp = 200"
    using run found key by (auto simp: handleSDKKeyRotate_def sampleRequest_def Let_def case_prod_beta saveThen_def
        saveLocked_def sampleStale_sel activeSDKKeyForAppLocked_def retireKey_def)
  show ?thesis
    using run after key apps
    by (intro exI [of _ ?s] exI [of _ s'] exI [of _ resp]) (simp add: activeSDKKeyForAppLocked_def sampleApp_def)
qed

text \<open>C22: A created license is found by its key. When the server answers with a new license, the
  record is appended and saved, is active, belongs to a known app, admits between one device and
  the requested number, and holds the hash and the first twelve characters of the key but not the
  key; the key in the answer finds it unless an older license already has the same hash.\<close>

theorem created_license_found:
  assumes "createLicense L e r adminID q s = (s', resp)" and "rsp_status resp = 201"
  shows "\<exists>lic key.
    rsp_body resp = PObject [(''license'', PLicense lic), (''license_key'', PVal (GStr key))] \<and>
    data_Licenses (srv_data s') = data_Licenses (srv_data s) @ [lic] \<and> srv_store s' = Some (srv_data s') \<and>
    lic_Status lic = ''active'' \<and> findAppLocked (lic_AppID lic) s \<noteq> None \<and>
    lic_LicenseKeyHash lic = hashString L key \<and> lic_LicenseKeyPrefix lic = take 12 key \<and>
    lic_MaxDevices lic \<ge> 1 \<and> (lcq_MaxDevices q \<ge> 1 \<longrightarrow> lic_MaxDevices lic = lcq_MaxDevices q) \<and>
    lic_Entitlements lic \<noteq> [] \<and>
    (hashString L key \<notin> lic_LicenseKeyHash ` set (data_Licenses (srv_data s)) \<longrightarrow>
       findLicenseByKeyLocked L key s' = Some (length (data_Licenses (srv_data s)))) \<and>
    (\<forall>old \<in> set (data_Licenses (srv_data s)). old \<in> set (data_Licenses (srv_data s')))"
proof -
  have status: "rsp_status (writeError st c m) = st" for st c m by (simp add: writeError_def)
  let ?settings = "settingsLocked (env_now e 1) s"
  let ?key = "generateLicenseKey L e 3"
  let ?expires = "if lcq_ExpiresAt q = [] then Some (env_now e 2 + days (set_DefaultLicenseDays ?settings))
      else parseDate (lcq_ExpiresAt q)"
  obtain expiresAt where ex: "?expires = Some expiresAt"
  proof (cases ?expires)
    case None
    then have "resp = writeError 400 ''INVALID_EXPIRES_AT'' ''expires_at must be YYYY-MM-DD''"
      using assms(1) unfolding createLicense_def Let_def None by simp
    then show thesis using assms(2) by (simp add: status)
  qed
  have run: "let lic = newLicense L e ?settings q expiresAt ?key in
      findAppLocked (lic_AppID lic) s \<noteq> None \<and>
      data_Licenses (srv_data s') = data_Licenses (srv_data s) @ [lic] \<and> srv_store s' = Some (srv_data s') \<and>
      rsp_body resp = PObject [(''license'', PLicense lic), (''license_key'', PVal (GStr ?key))]"
    using assms unfolding createLicense_def Let_def ex option.case
    by (auto simp: status appNotFound_def saveThen_def saveLocked_def split: if_splits option.splits)
  let ?lic = "newLicense L e ?settings q expiresAt ?key"
  have "1 \<le> set_DefaultMaxDevices ?settings"
    using settingsLocked_in_range [of "env_now e 1" s] by (simp add: settingsInRange_def)
  then have lic: "lic_Status ?lic = ''active''" "lic_LicenseKeyHash ?lic = hashString L ?key"
      "lic_LicenseKeyPrefix ?lic = take 12 ?key" "lic_MaxDevices ?lic \<ge> 1" "lic_Entitlements ?lic \<noteq> []"
      "lcq_MaxDevices q \<ge> 1 \<longrightarrow> lic_MaxDevices ?lic = lcq_MaxDevices q"
    by (auto simp: newLicense_def licensePrefix_def)
  have found: "findLicenseByKeyLocked L ?key s' = Some (length (data_Licenses (srv_data s)))"
    if "hashString L ?key \<notin> lic_LicenseKeyHash ` set (data_Licenses (srv_data s))"
  proof -
    have "findIdx (\<lambda>l. lic_LicenseKeyHash l = hashString L ?key) (data_Licenses (srv_data s)) = None"
      using that by (force simp: findIdx_None_iff)
    then show ?thesis
      using run lic by (simp add: findLicenseByKeyLocked_def findIdx_append Let_def)
  qed
  show ?thesis
    using run lic found unfolding Let_def
    by (intro exI [of _ ?lic] exI [of _ ?key]) simp
qed


definition sampleLicenseRequest :: LicenseRequest where
  "sampleLicenseRequest =
     \<lparr>lcq_AppID = ''demo'', lcq_PlanName = [], lcq_OwnerRef = [], lcq_MaxDevices = 2,
      lcq_ExpiresAt = ''2030-01-01'', lcq_Entitlements = []\<rparr>"

lemma created_license_found_witness:
  "\<exists>s' resp. createLicense sampleLib sampleEnv sampleRequest ''admin'' sampleLicenseRequest sampleStale = (s', resp) \<and>
     (\<exists>lic. data_Licenses (srv_data s') = [sampleLicense, lic] \<and> lic_MaxDevices lic = 2 \<and>
            lic_Status lic = ''active'')"
proof -
  have date: "parseDate ''2030-01-01'' = Some 1893456000000000000" by code_simp
  have lics: "data_Licenses (srv_data sampleStale) = [sampleLicense]" by (simp add: sample_defs)
  obtain s' resp where run:
    "createLicense sampleLib sampleEnv sampleRequest ''admin'' sampleLicenseRequest sampleStale = (s', resp)"
    by (metis prod.exhaust)
  have "findAppLocked ''demo'' sampleStale \<noteq> None"
    by (simp add: findAppLocked_def sample_defs sampleApp_def)
  then have "rsp_status resp = 201"
    using run by (auto simp: createLicense_def sampleLicenseRequest_def date newLicense_def orDefault_def Let_def
        saveThen_def saveLocked_def sampleStale_sel)
  from created_license_found [OF run this] run lics show ?thesis
    by (auto simp: sampleLicenseRequest_def)
qed

end
