(* ===== verification/Host.thy ===== *)
theory Host
  imports Tokens
begin

text \<open>
  The operating system as the program calls it, and the two files the server keeps: the signing
  key (\<^verbatim>\<open>LoadOrCreateSigningKey\<close> of \<^verbatim>\<open>src/internal/licensecore/token.go\<close>) and the JSON store
  (\<^verbatim>\<open>src/internal/licensecore/store.go\<close>). The world, file system and network, is a type variable;
  \<^verbatim>\<open>host\<close> lists the calls made on it.
\<close>

section \<open>Errors and effects\<close>

text \<open>\<^verbatim>\<open>NotExist\<close> is an error for which \<^verbatim>\<open>errors.Is(err, os.ErrNotExist)\<close> holds, \<^verbatim>\<open>StatusErr\<close> the SDK's
  \<^verbatim>\<open>*APIError\<close>, \<^verbatim>\<open>Panicked\<close> a call that panics.\<close>

datatype goError =
    GoErr string
  | NotExist string
  | StatusErr int string string
  | Panicked string

type_synonym ('w, 'a) io = "'w \<Rightarrow> (goError + 'a) \<times> 'w"

definition ioReturn :: "'a \<Rightarrow> ('w, 'a) io" where
  "ioReturn x w = (Inr x, w)"

definition ioFail :: "goError \<Rightarrow> ('w, 'a) io" where
  "ioFail e w = (Inl e, w)"

text \<open>\<^verbatim>\<open>if err != nil { return err }\<close> between two calls.\<close>

definition ioBind :: "('w, 'a) io \<Rightarrow> ('a \<Rightarrow> ('w, 'b) io) \<Rightarrow> ('w, 'b) io" where
  "ioBind m f w = (case m w of (Inl e, w') \<Rightarrow> (Inl e, w') | (Inr x, w') \<Rightarrow> f x w')"

definition ioSum :: "string + 'a \<Rightarrow> ('w, 'a) io" where
  "ioSum r w = ((case r of Inl e \<Rightarrow> Inl (GoErr e) | Inr x \<Rightarrow> Inr x), w)"

lemma ioBind_Inr: "m w = (Inr x, w') \<Longrightarrow> ioBind m f w = f x w'"
  by (simp add: ioBind_def)

lemma ioBind_Inl: "m w = (Inl e, w') \<Longrightarrow> ioBind m f w = (Inl e, w')"
  by (simp add: ioBind_def)

lemma ioBind_cases:
  assumes "ioBind m f w = (r, w2)"
  obtains (fails) e where "m w = (Inl e, w2)" "r = Inl e"
    | (continues) x w1 where "m w = (Inr x, w1)" "f x w1 = (r, w2)"
  using assms by (cases "m w"; cases "fst (m w)") (auto simp: ioBind_def)

lemma ioBind_InrD: "ioBind m f w = (Inr y, w2) \<Longrightarrow> \<exists>x w1. m w = (Inr x, w1) \<and> f x w1 = (Inr y, w2)"
  by (auto elim: ioBind_cases)

lemma io_simps [simp]:
  "ioReturn x w = (Inr x, w)" "ioFail e w = (Inl e, w)" "ioSum (Inr x) w = (Inr x, w)"
  "ioSum (Inl s) w = (Inl (GoErr s), w)"
  by (simp_all add: ioReturn_def ioFail_def ioSum_def)

section \<open>The calls\<close>

record 'w host =
  os_readFile :: "string \<Rightarrow> 'w \<Rightarrow> goError + string"
  os_writeFile :: "string \<Rightarrow> string \<Rightarrow> ('w, unit) io"
  os_mkdirAll :: "string \<Rightarrow> ('w, unit) io"
  os_remove :: "string \<Rightarrow> ('w, unit) io"
  os_getenv :: "string \<Rightarrow> 'w \<Rightarrow> string"
  os_userConfigDir :: "'w \<Rightarrow> goError + string"
  os_userCacheDir :: "'w \<Rightarrow> goError + string"
  os_hostname :: "'w \<Rightarrow> string"
  os_executable :: "'w \<Rightarrow> goError + string"
  os_now :: "'w \<Rightarrow> time"
  os_random :: "nat \<Rightarrow> ('w, string) io"
  os_join :: "string list \<Rightarrow> string"
  os_dir :: "string \<Rightarrow> string"
  os_GOOS :: string
  os_GOARCH :: string

definition readFile :: "'w host \<Rightarrow> string \<Rightarrow> ('w, string) io" where
  "readFile H path w = (os_readFile H path w, w)"

text \<open>The documented behaviour of files: a write that succeeds is what the next read returns, and
  neither a write nor a new directory touches another file.\<close>

definition fileLaws :: "'w host \<Rightarrow> bool" where
  "fileLaws H \<longleftrightarrow>
     (\<forall>path content w w'. os_writeFile H path content w = (Inr (), w') \<longrightarrow>
        os_readFile H path w' = Inr content \<and>
        (\<forall>other. other \<noteq> path \<longrightarrow> os_readFile H other w' = os_readFile H other w)) \<and>
     (\<forall>dir w other. os_readFile H other (snd (os_mkdirAll H dir w)) = os_readFile H other w)"

lemma fileLaws_write:
  "fileLaws H \<Longrightarrow> os_writeFile H path content w = (Inr (), w') \<Longrightarrow> os_readFile H path w' = Inr content"
  unfolding fileLaws_def by blast

lemma fileLaws_other:
  "fileLaws H \<Longrightarrow> os_writeFile H path content w = (Inr (), w') \<Longrightarrow> other \<noteq> path \<Longrightarrow>
   os_readFile H other w' = os_readFile H other w"
  unfolding fileLaws_def by blast

lemma fileLaws_mkdir: "fileLaws H \<Longrightarrow> os_mkdirAll H dir w = (r, w') \<Longrightarrow> os_readFile H other w' = os_readFile H other w"
  unfolding fileLaws_def by (metis snd_conv)

section \<open>The JSON codec of the files\<close>

text \<open>\<^verbatim>\<open>json.MarshalIndent\<close> and \<^verbatim>\<open>json.Unmarshal\<close> at the types stored: the key file, the data.\<close>

record keyFile =
  kf_PublicKey :: string
  kf_PrivateKey :: string

record fileCodec =
  fc_marshalKeys :: "keyFile \<Rightarrow> string + string"
  fc_unmarshalKeys :: "string \<Rightarrow> string + keyFile"
  fc_marshalData :: "Data \<Rightarrow> string + string"
  fc_unmarshalData :: "string \<Rightarrow> string + Data"
  fc_generateKey :: "string \<Rightarrow> string \<times> string"

section \<open>The signing key\<close>

definition decodeKey :: "golib \<Rightarrow> string \<Rightarrow> ('w, string) io" where
  "decodeKey L value =
     ioSum (case stdDecode value of None \<Rightarrow> Inl (lib_base64_error L value) | Some raw \<Rightarrow> Inr raw)"

text \<open>\<^verbatim>\<open>ed25519.GenerateKey(rand.Reader)\<close> makes the pair of a 32-byte seed.\<close>

definition LoadOrCreateSigningKey ::
  "golib \<Rightarrow> fileCodec \<Rightarrow> 'w host \<Rightarrow> string \<Rightarrow> ('w, string \<times> string) io" where
  "LoadOrCreateSigningKey L J H dataDir =
     ioBind (os_mkdirAll H dataDir) (\<lambda>_.
       let path = os_join H [dataDir, ''signing-key.json''] in
       (\<lambda>w. case os_readFile H path w of
          Inr raw \<Rightarrow>
            ioBind (ioSum (fc_unmarshalKeys J raw)) (\<lambda>saved.
            ioBind (decodeKey L (kf_PublicKey saved)) (\<lambda>pub.
            ioBind (decodeKey L (kf_PrivateKey saved)) (\<lambda>priv.
              ioReturn (pub, priv)))) w
        | Inl err \<Rightarrow>
            (case err of
               NotExist _ \<Rightarrow>
                 ioBind (os_random H 32) (\<lambda>seed.
                   case fc_generateKey J seed of (pub, priv) \<Rightarrow>
                     ioBind (ioSum (fc_marshalKeys J
                         \<lparr> kf_PublicKey = stdEncode pub, kf_PrivateKey = stdEncode priv \<rparr>)) (\<lambda>payload.
                     ioBind (os_writeFile H path payload) (\<lambda>_.
                       ioReturn (pub, priv)))) w
             | _ \<Rightarrow> (Inl err, w))))"

section \<open>The JSON store\<close>

text \<open>A \<^verbatim>\<open>JSONStore\<close> is its path. \<^verbatim>\<open>Load\<close> returns \<^term>\<open>None\<close> for \<^verbatim>\<open>ErrStoreNotFound\<close>.\<close>

definition NewJSONStore :: "'w host \<Rightarrow> string \<Rightarrow> ('w, string) io" where
  "NewJSONStore H dataDir =
     ioBind (os_mkdirAll H dataDir) (\<lambda>_. ioReturn (os_join H [dataDir, ''store.json'']))"

definition jsonStoreName :: "string \<Rightarrow> string" where
  "jsonStoreName path = ''json:'' @ path"

definition jsonLoad :: "fileCodec \<Rightarrow> 'w host \<Rightarrow> string \<Rightarrow> 'w \<Rightarrow> goError + Data option" where
  "jsonLoad J H path w =
     (case os_readFile H path w of
        Inr raw \<Rightarrow> (case fc_unmarshalData J raw of Inl err \<Rightarrow> Inl (GoErr err) | Inr d \<Rightarrow> Inr (Some d))
      | Inl err \<Rightarrow> (case err of NotExist _ \<Rightarrow> Inr None | _ \<Rightarrow> Inl err))"

definition jsonSave :: "fileCodec \<Rightarrow> 'w host \<Rightarrow> string \<Rightarrow> Data \<Rightarrow> ('w, unit) io" where
  "jsonSave J H path d =
     ioBind (os_mkdirAll H (os_dir H path)) (\<lambda>_.
     ioBind (ioSum (fc_marshalData J d)) (\<lambda>payload.
       os_writeFile H path payload))"

section \<open>Lemmas\<close>

text \<open>A key pair that was created is what the next start loads.\<close>

definition keysRoundTrip :: "fileCodec \<Rightarrow> bool" where
  "keysRoundTrip J \<longleftrightarrow> (\<forall>k payload. fc_marshalKeys J k = Inr payload \<longrightarrow> fc_unmarshalKeys J payload = Inr k)"

definition dataRoundTrip :: "fileCodec \<Rightarrow> Data \<Rightarrow> bool" where
  "dataRoundTrip J d \<longleftrightarrow> (\<forall>payload. fc_marshalData J d = Inr payload \<longrightarrow> fc_unmarshalData J payload = Inr d)"

lemma decodeKey_stdEncode [simp]: "decodeKey L (stdEncode k) w = (Inr k, w)"
  by (simp add: decodeKey_def b64std.dec_enc)

lemma jsonSave_InrD:
  assumes "jsonSave J H path d w = (Inr (), w')"
  shows "\<exists>w1 payload. os_mkdirAll H (os_dir H path) w = (Inr (), w1) \<and> fc_marshalData J d = Inr payload \<and>
    os_writeFile H path payload w1 = (Inr (), w')"
  using assms unfolding jsonSave_def
  by (auto elim!: ioBind_cases split: sum.splits simp: ioSum_def)

lemma jsonSave_load:
  assumes "fileLaws H" and "dataRoundTrip J d" and "jsonSave J H path d w = (Inr (), w')"
  shows "jsonLoad J H path w' = Inr (Some d)"
  using jsonSave_InrD [OF assms(3)] assms(1,2)
  by (auto simp: jsonLoad_def dataRoundTrip_def dest: fileLaws_write)

lemma jsonSave_other:
  assumes "fileLaws H" and "jsonSave J H path d w = (Inr (), w')" and "other \<noteq> path"
  shows "os_readFile H other w' = os_readFile H other w"
  using jsonSave_InrD [OF assms(2)] fileLaws_other [OF assms(1) _ assms(3)] fileLaws_mkdir [OF assms(1)]
  by fastforce

lemma signing_key_stable:
  assumes laws: "fileLaws H" and codec: "keysRoundTrip J"
    and mkdir: "\<And>w. fst (os_mkdirAll H dataDir w) = Inr ()"
    and first: "LoadOrCreateSigningKey L J H dataDir w = (Inr keys, w')"
  shows "fst (LoadOrCreateSigningKey L J H dataDir w') = Inr keys"
proof -
  let ?path = "os_join H [dataDir, ''signing-key.json'']"
  obtain w1 where w1: "os_mkdirAll H dataDir w = (Inr (), w1)" using mkdir by (metis prod.collapse)
  obtain w2 where w2: "os_mkdirAll H dataDir w' = (Inr (), w2)" using mkdir by (metis prod.collapse)
  have read2: "os_readFile H ?path w2 = os_readFile H ?path w'"
    using fileLaws_mkdir [OF laws w2] .
  show ?thesis
  proof (cases "os_readFile H ?path w1")
    case (Inr raw)
    then have "w' = w1"
      using first by (auto simp: LoadOrCreateSigningKey_def ioBind_def w1 Let_def ioSum_def decodeKey_def
          split: sum.splits option.splits)
    then have "os_readFile H ?path w2 = Inr raw" using read2 Inr by simp
    then show ?thesis
      using first Inr \<open>w' = w1\<close> w2
      by (auto simp: LoadOrCreateSigningKey_def ioBind_def w1 Let_def ioSum_def decodeKey_def
          split: sum.splits option.splits)
  next
    case (Inl err)
    obtain pub priv where keys: "keys = (pub, priv)" by (cases keys)
    from Inl obtain payload w3 where
      "os_writeFile H ?path payload w3 = (Inr (), w')"
      "fc_marshalKeys J \<lparr> kf_PublicKey = stdEncode pub, kf_PrivateKey = stdEncode priv \<rparr> = Inr payload"
      using first unfolding keys
      by (auto simp: LoadOrCreateSigningKey_def ioBind_def w1 Let_def ioSum_def dest: sym
          split: goError.splits prod.splits sum.splits)
    then have "os_readFile H ?path w2 = Inr payload"
      "fc_unmarshalKeys J payload = Inr \<lparr> kf_PublicKey = stdEncode pub, kf_PrivateKey = stdEncode priv \<rparr>"
      using read2 fileLaws_write [OF laws] codec by (auto simp: keysRoundTrip_def)
    then show ?thesis
      using \<open>keys = (pub, priv)\<close>
      by (simp add: LoadOrCreateSigningKey_def ioBind_def w2 Let_def)
  qed
qed

end
