(* ===== verification/Postgres.thy ===== *)
theory Postgres
  imports Settings
begin

text \<open>
  The PostgreSQL store (\<^verbatim>\<open>src/internal/licensecore/postgres_store.go\<close>): each table's columns, how an item
  becomes the arguments of its \<^verbatim>\<open>INSERT\<close> and how a row is scanned, \<^verbatim>\<open>Save\<close> as one transaction that empties and
  refills every table, \<^verbatim>\<open>Load\<close> as one read-only transaction. The driver is the parameter \<^verbatim>\<open>storeDB\<close>, JSON is
  \<^verbatim>\<open>dbCodec\<close>; a deadline that passes is a failure of the driver.
\<close>

section \<open>Values and the driver\<close>

datatype sqlValue =
    SText string
  | SInt int
  | SBool bool
  | STime time
  | SJson string
  | SNull

datatype sqlKind = KText | KInt | KBool | KTime | KJson | KNullTime | KNullBool

text \<open>What \<^verbatim>\<open>database/sql\<close> is asked for: \<^verbatim>\<open>DELETE FROM\<close> a table, \<^verbatim>\<open>INSERT INTO\<close> a table the columns with their
  arguments, \<^verbatim>\<open>SELECT\<close> columns of a table in an order, the row of a table where a column has a value.\<close>

record ('db, 'tx) storeDB =
  pg_connect :: "string \<Rightarrow> string option"
  pg_begin :: "bool \<Rightarrow> 'db \<Rightarrow> string + 'tx"
  pg_delete :: "string \<Rightarrow> 'tx \<Rightarrow> string + 'tx"
  pg_insert :: "string \<Rightarrow> string list \<Rightarrow> sqlValue list \<Rightarrow> 'tx \<Rightarrow> string + 'tx"
  pg_select :: "string \<Rightarrow> string list \<Rightarrow> string list \<Rightarrow> 'tx \<Rightarrow> string + sqlValue list list"
  pg_selectRow :: "string \<Rightarrow> string list \<Rightarrow> string \<Rightarrow> sqlValue \<Rightarrow> 'tx \<Rightarrow> string + sqlValue list option"
  pg_commit :: "'tx \<Rightarrow> string + 'db"

record dbCodec =
  dj_marshalStrings :: "string list \<Rightarrow> string + string"
  dj_unmarshalStrings :: "string \<Rightarrow> string + string list"
  dj_marshalMap :: "gmap option \<Rightarrow> string + string"
  dj_unmarshalMap :: "string \<Rightarrow> string + gmap option"
  dj_redactURL :: "string \<Rightarrow> string option"

section \<open>Scanning and encoding\<close>

definition hasKind :: "sqlKind \<Rightarrow> sqlValue \<Rightarrow> bool" where
  "hasKind k v \<longleftrightarrow>
     (case v of
        SText _ \<Rightarrow> k = KText | SInt _ \<Rightarrow> k = KInt | SBool _ \<Rightarrow> k = KBool \<or> k = KNullBool
      | STime _ \<Rightarrow> k = KTime \<or> k = KNullTime | SJson _ \<Rightarrow> k = KJson | SNull \<Rightarrow> k = KNullTime \<or> k = KNullBool)"

text \<open>\<^verbatim>\<open>rows.Scan\<close>: each column must fit its destination.\<close>

definition scanAs :: "sqlKind list \<Rightarrow> (sqlValue list \<Rightarrow> string + 'a) \<Rightarrow> sqlValue list \<Rightarrow> string + 'a" where
  "scanAs kinds f r = (if list_all2 hasKind kinds r then f r else Inl ''sql: Scan error'')"

fun txtOf :: "sqlValue \<Rightarrow> string" where "txtOf (SText s) = s" | "txtOf _ = []"
fun intOf :: "sqlValue \<Rightarrow> int" where "intOf (SInt n) = n" | "intOf _ = 0"
fun boolOf :: "sqlValue \<Rightarrow> bool" where "boolOf (SBool b) = b" | "boolOf _ = False"
fun timeOf :: "sqlValue \<Rightarrow> time" where "timeOf (STime t) = t" | "timeOf _ = 0"
fun jsonOf :: "sqlValue \<Rightarrow> string" where "jsonOf (SJson s) = s" | "jsonOf _ = []"
fun nullTimeOf :: "sqlValue \<Rightarrow> time option" where "nullTimeOf (STime t) = Some t" | "nullTimeOf _ = None"
fun nullBoolOf :: "sqlValue \<Rightarrow> bool option" where "nullBoolOf (SBool b) = Some b" | "nullBoolOf _ = None"

definition sqlNullTime :: "time option \<Rightarrow> sqlValue" where
  "sqlNullTime t = (case t of None \<Rightarrow> SNull | Some t \<Rightarrow> STime t)"

definition sqlNullBool :: "bool option \<Rightarrow> sqlValue" where
  "sqlNullBool b = (case b of None \<Rightarrow> SNull | Some b \<Rightarrow> SBool b)"

definition sumBind :: "string + 'a \<Rightarrow> ('a \<Rightarrow> string + 'b) \<Rightarrow> string + 'b" where
  "sumBind r f = (case r of Inl err \<Rightarrow> Inl err | Inr x \<Rightarrow> f x)"

text \<open>\<^verbatim>\<open>if len(item.Metadata) == 0 { item.Metadata = nil }\<close>.\<close>

definition noEmpty :: "gmap option \<Rightarrow> gmap option" where
  "noEmpty m = (case m of None \<Rightarrow> None | Some [] \<Rightarrow> None | Some entries \<Rightarrow> Some entries)"

definition jsonForDB :: "('a \<Rightarrow> string + string) \<Rightarrow> 'a \<Rightarrow> 'a \<Rightarrow> string + string" where
  "jsonForDB marshal v fallback =
     (case marshal v of
        Inl err \<Rightarrow> Inl err
      | Inr payload \<Rightarrow> if payload = ''null'' then marshal fallback else Inr payload)"

section \<open>Tables\<close>

text \<open>A table of the store: name, columns (the same, in the same order, in its \<^verbatim>\<open>SELECT\<close> and its \<^verbatim>\<open>INSERT\<close>),
  order of the query, arguments of an item, scanned row, error label of an insert.\<close>

record 'a table =
  tb_name :: string
  tb_columns :: "string list"
  tb_order :: "string list"
  tb_row :: "'a \<Rightarrow> string + sqlValue list"
  tb_scan :: "sqlValue list \<Rightarrow> string + 'a"
  tb_label :: "'a \<Rightarrow> string"

subsection \<open>\<^verbatim>\<open>admins\<close>\<close>

definition adminColumns :: "string list" where
  "adminColumns = [''id'', ''account'', ''name'', ''password_hash'', ''status'', ''created_at'', ''updated_at'']"

definition adminScan :: "dbCodec \<Rightarrow> sqlValue list \<Rightarrow> string + Admin" where
  "adminScan J = scanAs [KText, KText, KText, KText, KText, KTime, KTime]
     (\<lambda>r. Inr \<lparr> adm_ID = txtOf (r ! 0), adm_Account = txtOf (r ! 1), adm_Name = txtOf (r ! 2),
        adm_PasswordHash = txtOf (r ! 3), adm_Status = txtOf (r ! 4), adm_CreatedAt = timeOf (r ! 5),
        adm_UpdatedAt = timeOf (r ! 6) \<rparr>)"

definition adminRow :: "dbCodec \<Rightarrow> Admin \<Rightarrow> string + sqlValue list" where
  "adminRow J x =
     Inr [SText (adm_ID x), SText (adm_Account x), SText (adm_Name x), SText (adm_PasswordHash x),
       SText (adm_Status x), STime (adm_CreatedAt x), STime (adm_UpdatedAt x)]"

definition adminTable :: "dbCodec \<Rightarrow> Admin table" where
  "adminTable J = \<lparr> tb_name = ''admins'', tb_columns = adminColumns, tb_order = [''created_at'', ''id''],
     tb_row = adminRow J, tb_scan = adminScan J, tb_label = (\<lambda>x. ''insert admin '' @ adm_Account x) \<rparr>"

subsection \<open>\<^verbatim>\<open>apps\<close>\<close>

definition appColumns :: "string list" where
  "appColumns = [''id'', ''app_key'', ''name'', ''description'', ''owner_team'', ''status'', ''created_at'',
     ''updated_at'']"

definition appScan :: "dbCodec \<Rightarrow> sqlValue list \<Rightarrow> string + App" where
  "appScan J = scanAs [KText, KText, KText, KText, KText, KText, KTime, KTime]
     (\<lambda>r. Inr \<lparr> app_ID = txtOf (r ! 0), app_AppKey = txtOf (r ! 1), app_Name = txtOf (r ! 2),
        app_Description = txtOf (r ! 3), app_OwnerTeam = txtOf (r ! 4), app_Status = txtOf (r ! 5),
        app_CreatedAt = timeOf (r ! 6), app_UpdatedAt = timeOf (r ! 7) \<rparr>)"

definition appRow :: "dbCodec \<Rightarrow> App \<Rightarrow> string + sqlValue list" where
  "appRow J x =
     Inr [SText (app_ID x), SText (app_AppKey x), SText (app_Name x), SText (app_Description x),
       SText (app_OwnerTeam x), SText (app_Status x), STime (app_CreatedAt x), STime (app_UpdatedAt x)]"

definition appTable :: "dbCodec \<Rightarrow> App table" where
  "appTable J = \<lparr> tb_name = ''apps'', tb_columns = appColumns, tb_order = [''created_at'', ''id''],
     tb_row = appRow J, tb_scan = appScan J, tb_label = (\<lambda>x. ''insert app '' @ app_AppKey x) \<rparr>"

subsection \<open>\<^verbatim>\<open>app_releases\<close>\<close>

definition releaseColumns :: "string list" where
  "releaseColumns = [''id'', ''app_id'', ''platform'', ''version'', ''build_number'', ''channel'', ''status'',
     ''signer_thumbprint'', ''main_binary_hash'', ''resource_manifest_hash'',
     ''business_manifest_sha256'', ''protected_db_schema_hash'', ''protected_db_tables_hash'',
     ''assets_manifest_sha256'', ''workflow_manifest_sha256'', ''download_url'', ''package_sha256'',
     ''mandatory'', ''min_supported_version'', ''rollout_percent'', ''release_notes'', ''created_at'']"

definition releaseScan :: "dbCodec \<Rightarrow> sqlValue list \<Rightarrow> string + AppRelease" where
  "releaseScan J = scanAs [KText, KText, KText, KText, KInt, KText, KText, KText, KText, KText, KText, KText, KText, KText,
      KText, KText, KText, KBool, KText, KInt, KText, KTime]
     (\<lambda>r. Inr \<lparr> rel_ID = txtOf (r ! 0), rel_AppID = txtOf (r ! 1), rel_Platform = txtOf (r ! 2),
        rel_Version = txtOf (r ! 3), rel_BuildNumber = intOf (r ! 4), rel_Channel = txtOf (r ! 5),
        rel_Status = txtOf (r ! 6), rel_SignerThumbprint = txtOf (r ! 7),
        rel_MainBinaryHash = txtOf (r ! 8), rel_ResourceManifestHash = txtOf (r ! 9),
        rel_BusinessManifestSHA256 = txtOf (r ! 10), rel_ProtectedDBSchemaHash = txtOf (r ! 11),
        rel_ProtectedDBTablesHash = txtOf (r ! 12), rel_AssetsManifestSHA256 = txtOf (r ! 13),
        rel_WorkflowManifestSHA256 = txtOf (r ! 14), rel_DownloadURL = txtOf (r ! 15),
        rel_PackageSHA256 = txtOf (r ! 16), rel_Mandatory = boolOf (r ! 17),
        rel_MinSupportedVersion = txtOf (r ! 18), rel_RolloutPercent = intOf (r ! 19),
        rel_ReleaseNotes = txtOf (r ! 20), rel_CreatedAt = timeOf (r ! 21) \<rparr>)"

definition releaseRow :: "dbCodec \<Rightarrow> AppRelease \<Rightarrow> string + sqlValue list" where
  "releaseRow J x =
     Inr [SText (rel_ID x), SText (rel_AppID x), SText (rel_Platform x), SText (rel_Version x),
       SInt (rel_BuildNumber x), SText (rel_Channel x), SText (rel_Status x),
       SText (rel_SignerThumbprint x), SText (rel_MainBinaryHash x),
       SText (rel_ResourceManifestHash x), SText (rel_BusinessManifestSHA256 x),
       SText (rel_ProtectedDBSchemaHash x), SText (rel_ProtectedDBTablesHash x),
       SText (rel_AssetsManifestSHA256 x), SText (rel_WorkflowManifestSHA256 x),
       SText (rel_DownloadURL x), SText (rel_PackageSHA256 x), SBool (rel_Mandatory x),
       SText (rel_MinSupportedVersion x), SInt (rel_RolloutPercent x), SText (rel_ReleaseNotes x),
       STime (rel_CreatedAt x)]"

definition releaseTable :: "dbCodec \<Rightarrow> AppRelease table" where
  "releaseTable J = \<lparr> tb_name = ''app_releases'', tb_columns = releaseColumns, tb_order = [''created_at'', ''id''],
     tb_row = releaseRow J, tb_scan = releaseScan J, tb_label = (\<lambda>x. ''insert release '' @ rel_ID x) \<rparr>"

subsection \<open>\<^verbatim>\<open>sdk_keys\<close>\<close>

definition sdkKeyColumns :: "string list" where
  "sdkKeyColumns = [''id'', ''app_id'', ''public_key'', ''secret_hash'', ''key_prefix'', ''status'', ''last_used_at'',
     ''created_at'', ''rotated_at'']"

definition sdkKeyScan :: "dbCodec \<Rightarrow> sqlValue list \<Rightarrow> string + SDKKey" where
  "sdkKeyScan J = scanAs [KText, KText, KText, KText, KText, KText, KNullTime, KTime, KNullTime]
     (\<lambda>r. Inr \<lparr> sdk_ID = txtOf (r ! 0), sdk_AppID = txtOf (r ! 1), sdk_PublicKey = txtOf (r ! 2),
        sdk_SecretHash = txtOf (r ! 3), sdk_KeyPrefix = txtOf (r ! 4), sdk_Status = txtOf (r ! 5),
        sdk_LastUsedAt = nullTimeOf (r ! 6), sdk_CreatedAt = timeOf (r ! 7),
        sdk_RotatedAt = nullTimeOf (r ! 8) \<rparr>)"

definition sdkKeyRow :: "dbCodec \<Rightarrow> SDKKey \<Rightarrow> string + sqlValue list" where
  "sdkKeyRow J x =
     Inr [SText (sdk_ID x), SText (sdk_AppID x), SText (sdk_PublicKey x), SText (sdk_SecretHash x),
       SText (sdk_KeyPrefix x), SText (sdk_Status x), sqlNullTime (sdk_LastUsedAt x),
       STime (sdk_CreatedAt x), sqlNullTime (sdk_RotatedAt x)]"

definition sdkKeyTable :: "dbCodec \<Rightarrow> SDKKey table" where
  "sdkKeyTable J = \<lparr> tb_name = ''sdk_keys'', tb_columns = sdkKeyColumns, tb_order = [''created_at'', ''id''],
     tb_row = sdkKeyRow J, tb_scan = sdkKeyScan J, tb_label = (\<lambda>x. ''insert sdk key '' @ sdk_ID x) \<rparr>"

subsection \<open>\<^verbatim>\<open>capability_policies\<close>\<close>

definition policyColumns :: "string list" where
  "policyColumns = [''app_id'', ''capability'', ''required_entitlement'', ''mode'', ''message'', ''limits_json'',
     ''created_at'', ''updated_at'']"

definition policyScan :: "dbCodec \<Rightarrow> sqlValue list \<Rightarrow> string + CapabilityPolicy" where
  "policyScan J = scanAs [KText, KText, KText, KText, KText, KJson, KTime, KTime]
     (\<lambda>r. sumBind (dj_unmarshalMap J (jsonOf (r ! 5))) (\<lambda>v5.
     Inr \<lparr> pol_AppID = txtOf (r ! 0), pol_Capability = txtOf (r ! 1),
           pol_RequiredEntitlement = txtOf (r ! 2), pol_Mode = txtOf (r ! 3),
           pol_Message = txtOf (r ! 4), pol_LimitsJSON = v5, pol_CreatedAt = timeOf (r ! 6),
           pol_UpdatedAt = timeOf (r ! 7) \<rparr>))"

definition policyRow :: "dbCodec \<Rightarrow> CapabilityPolicy \<Rightarrow> string + sqlValue list" where
  "policyRow J x =
     sumBind (jsonForDB (dj_marshalMap J) (pol_LimitsJSON x) (Some [])) (\<lambda>j5.
     Inr [SText (pol_AppID x), SText (pol_Capability x), SText (pol_RequiredEntitlement x),
       SText (pol_Mode x), SText (pol_Message x), SJson j5, STime (pol_CreatedAt x),
       STime (pol_UpdatedAt x)])"

definition policyTable :: "dbCodec \<Rightarrow> CapabilityPolicy table" where
  "policyTable J = \<lparr> tb_name = ''capability_policies'', tb_columns = policyColumns, tb_order = [''app_id'', ''capability''],
     tb_row = policyRow J, tb_scan = policyScan J, tb_label = (\<lambda>x. ''insert capability policy '' @ pol_AppID x @ ''/'' @ pol_Capability x) \<rparr>"

subsection \<open>\<^verbatim>\<open>licenses\<close>\<close>

definition licenseColumns :: "string list" where
  "licenseColumns = [''id'', ''license_key_hash'', ''license_key_prefix'', ''app_id'', ''plan_name'', ''owner_type'',
     ''owner_ref'', ''max_devices'', ''entitlements'', ''expires_at'', ''status'', ''created_at'',
     ''updated_at'']"

definition licenseScan :: "dbCodec \<Rightarrow> sqlValue list \<Rightarrow> string + License" where
  "licenseScan J = scanAs [KText, KText, KText, KText, KText, KText, KText, KInt, KJson, KTime, KText, KTime, KTime]
     (\<lambda>r. sumBind (dj_unmarshalStrings J (jsonOf (r ! 8))) (\<lambda>v8.
     Inr \<lparr> lic_ID = txtOf (r ! 0), lic_LicenseKeyHash = txtOf (r ! 1),
           lic_LicenseKeyPrefix = txtOf (r ! 2), lic_AppID = txtOf (r ! 3),
           lic_PlanName = txtOf (r ! 4), lic_OwnerType = txtOf (r ! 5), lic_OwnerRef = txtOf (r ! 6),
           lic_MaxDevices = intOf (r ! 7), lic_Entitlements = v8, lic_ExpiresAt = timeOf (r ! 9),
           lic_Status = txtOf (r ! 10), lic_CreatedAt = timeOf (r ! 11), lic_UpdatedAt = timeOf (r ! 12) \<rparr>))"

definition licenseRow :: "dbCodec \<Rightarrow> License \<Rightarrow> string + sqlValue list" where
  "licenseRow J x =
     sumBind (jsonForDB (dj_marshalStrings J) (lic_Entitlements x) []) (\<lambda>j8.
     Inr [SText (lic_ID x), SText (lic_LicenseKeyHash x), SText (lic_LicenseKeyPrefix x),
       SText (lic_AppID x), SText (lic_PlanName x), SText (lic_OwnerType x), SText (lic_OwnerRef x),
       SInt (lic_MaxDevices x), SJson j8, STime (lic_ExpiresAt x), SText (lic_Status x),
       STime (lic_CreatedAt x), STime (lic_UpdatedAt x)])"

definition licenseTable :: "dbCodec \<Rightarrow> License table" where
  "licenseTable J = \<lparr> tb_name = ''licenses'', tb_columns = licenseColumns, tb_order = [''created_at'', ''id''],
     tb_row = licenseRow J, tb_scan = licenseScan J, tb_label = (\<lambda>x. ''insert license '' @ lic_ID x) \<rparr>"

subsection \<open>\<^verbatim>\<open>devices\<close>\<close>

definition deviceColumns :: "string list" where
  "deviceColumns = [''id'', ''device_fingerprint_hash'', ''install_id_hash'', ''platform'', ''os_version'',
     ''machine_name_hash'', ''risk_score'', ''status'', ''first_seen_at'', ''last_seen_at'']"

definition deviceScan :: "dbCodec \<Rightarrow> sqlValue list \<Rightarrow> string + Device" where
  "deviceScan J = scanAs [KText, KText, KText, KText, KText, KText, KInt, KText, KTime, KTime]
     (\<lambda>r. Inr \<lparr> dev_ID = txtOf (r ! 0), dev_DeviceFingerprintHash = txtOf (r ! 1),
        dev_InstallIDHash = txtOf (r ! 2), dev_Platform = txtOf (r ! 3), dev_OSVersion = txtOf (r ! 4),
        dev_MachineNameHash = txtOf (r ! 5), dev_RiskScore = intOf (r ! 6), dev_Status = txtOf (r ! 7),
        dev_FirstSeenAt = timeOf (r ! 8), dev_LastSeenAt = timeOf (r ! 9) \<rparr>)"

definition deviceRow :: "dbCodec \<Rightarrow> Device \<Rightarrow> string + sqlValue list" where
  "deviceRow J x =
     Inr [SText (dev_ID x), SText (dev_DeviceFingerprintHash x), SText (dev_InstallIDHash x),
       SText (dev_Platform x), SText (dev_OSVersion x), SText (dev_MachineNameHash x),
       SInt (dev_RiskScore x), SText (dev_Status x), STime (dev_FirstSeenAt x), STime (dev_LastSeenAt x)]"

definition deviceTable :: "dbCodec \<Rightarrow> Device table" where
  "deviceTable J = \<lparr> tb_name = ''devices'', tb_columns = deviceColumns, tb_order = [''first_seen_at'', ''id''],
     tb_row = deviceRow J, tb_scan = deviceScan J, tb_label = (\<lambda>x. ''insert device '' @ dev_ID x) \<rparr>"

subsection \<open>\<^verbatim>\<open>activations\<close>\<close>

definition activationColumns :: "string list" where
  "activationColumns = [''id'', ''license_id'', ''device_id'', ''app_id'', ''activation_status'', ''activated_at'',
     ''last_verified_at'', ''deactivated_at'']"

definition activationScan :: "dbCodec \<Rightarrow> sqlValue list \<Rightarrow> string + Activation" where
  "activationScan J = scanAs [KText, KText, KText, KText, KText, KTime, KTime, KNullTime]
     (\<lambda>r. Inr \<lparr> act_ID = txtOf (r ! 0), act_LicenseID = txtOf (r ! 1), act_DeviceID = txtOf (r ! 2),
        act_AppID = txtOf (r ! 3), act_ActivationStatus = txtOf (r ! 4),
        act_ActivatedAt = timeOf (r ! 5), act_LastVerifiedAt = timeOf (r ! 6),
        act_DeactivatedAt = nullTimeOf (r ! 7) \<rparr>)"

definition activationRow :: "dbCodec \<Rightarrow> Activation \<Rightarrow> string + sqlValue list" where
  "activationRow J x =
     Inr [SText (act_ID x), SText (act_LicenseID x), SText (act_DeviceID x), SText (act_AppID x),
       SText (act_ActivationStatus x), STime (act_ActivatedAt x), STime (act_LastVerifiedAt x),
       sqlNullTime (act_DeactivatedAt x)]"

definition activationTable :: "dbCodec \<Rightarrow> Activation table" where
  "activationTable J = \<lparr> tb_name = ''activations'', tb_columns = activationColumns, tb_order = [''activated_at'', ''id''],
     tb_row = activationRow J, tb_scan = activationScan J, tb_label = (\<lambda>x. ''insert activation '' @ act_ID x) \<rparr>"

subsection \<open>\<^verbatim>\<open>integrity_reports\<close>\<close>

definition reportColumns :: "string list" where
  "reportColumns = [''id'', ''app_id'', ''device_id'', ''release_id'', ''verify_session_id'', ''platform'',
     ''app_version'', ''main_binary_hash'', ''signer_thumbprint'', ''business_manifest_sha256'',
     ''business_manifest_signature_valid'', ''protected_db_schema_hash'', ''protected_db_tables_hash'',
     ''assets_manifest_sha256'', ''workflow_manifest_sha256'', ''business_integrity_status'',
     ''business_integrity_errors'', ''db_encryption_status'', ''db_encryption_errors'',
     ''debugger_detected'', ''suspicious_modules'', ''vm_indicators'', ''created_at'']"

definition reportScan :: "dbCodec \<Rightarrow> sqlValue list \<Rightarrow> string + IntegrityReport" where
  "reportScan J = scanAs [KText, KText, KText, KText, KText, KText, KText, KText, KText, KText, KNullBool, KText, KText,
      KText, KText, KText, KJson, KText, KJson, KBool, KJson, KJson, KTime]
     (\<lambda>r. sumBind (dj_unmarshalStrings J (jsonOf (r ! 16))) (\<lambda>v16.
     sumBind (dj_unmarshalStrings J (jsonOf (r ! 18))) (\<lambda>v18.
     sumBind (dj_unmarshalStrings J (jsonOf (r ! 20))) (\<lambda>v20.
     sumBind (dj_unmarshalStrings J (jsonOf (r ! 21))) (\<lambda>v21.
     Inr \<lparr> ir_ID = txtOf (r ! 0), ir_AppID = txtOf (r ! 1), ir_DeviceID = txtOf (r ! 2),
                    ir_ReleaseID = txtOf (r ! 3), ir_VerifySessionID = txtOf (r ! 4),
                    ir_Platform = txtOf (r ! 5), ir_AppVersion = txtOf (r ! 6),
                    ir_MainBinaryHash = txtOf (r ! 7), ir_SignerThumbprint = txtOf (r ! 8),
                    ir_BusinessManifestSHA256 = txtOf (r ! 9),
                    ir_BusinessManifestSignatureValid = nullBoolOf (r ! 10),
                    ir_ProtectedDBSchemaHash = txtOf (r ! 11),
                    ir_ProtectedDBTablesHash = txtOf (r ! 12),
                    ir_AssetsManifestSHA256 = txtOf (r ! 13),
                    ir_WorkflowManifestSHA256 = txtOf (r ! 14),
                    ir_BusinessIntegrityStatus = txtOf (r ! 15), ir_BusinessIntegrityErrors = v16,
                    ir_DBEncryptionStatus = txtOf (r ! 17), ir_DBEncryptionErrors = v18,
                    ir_DebuggerDetected = boolOf (r ! 19), ir_SuspiciousModules = v20,
                    ir_VMIndicators = v21, ir_CreatedAt = timeOf (r ! 22) \<rparr>)))))"

definition reportRow :: "dbCodec \<Rightarrow> IntegrityReport \<Rightarrow> string + sqlValue list" where
  "reportRow J x =
     sumBind (jsonForDB (dj_marshalStrings J) (ir_BusinessIntegrityErrors x) []) (\<lambda>j16.
     sumBind (jsonForDB (dj_marshalStrings J) (ir_DBEncryptionErrors x) []) (\<lambda>j18.
     sumBind (jsonForDB (dj_marshalStrings J) (ir_SuspiciousModules x) []) (\<lambda>j20.
     sumBind (jsonForDB (dj_marshalStrings J) (ir_VMIndicators x) []) (\<lambda>j21.
     Inr [SText (ir_ID x), SText (ir_AppID x), SText (ir_DeviceID x), SText (ir_ReleaseID x),
       SText (ir_VerifySessionID x), SText (ir_Platform x), SText (ir_AppVersion x),
       SText (ir_MainBinaryHash x), SText (ir_SignerThumbprint x), SText (ir_BusinessManifestSHA256 x),
       sqlNullBool (ir_BusinessManifestSignatureValid x), SText (ir_ProtectedDBSchemaHash x),
       SText (ir_ProtectedDBTablesHash x), SText (ir_AssetsManifestSHA256 x),
       SText (ir_WorkflowManifestSHA256 x), SText (ir_BusinessIntegrityStatus x), SJson j16,
       SText (ir_DBEncryptionStatus x), SJson j18, SBool (ir_DebuggerDetected x), SJson j20, SJson j21,
       STime (ir_CreatedAt x)]))))"

definition reportTable :: "dbCodec \<Rightarrow> IntegrityReport table" where
  "reportTable J = \<lparr> tb_name = ''integrity_reports'', tb_columns = reportColumns, tb_order = [''created_at'', ''id''],
     tb_row = reportRow J, tb_scan = reportScan J, tb_label = (\<lambda>x. ''insert integrity report '' @ ir_ID x) \<rparr>"

subsection \<open>\<^verbatim>\<open>risk_events\<close>\<close>

definition riskEventColumns :: "string list" where
  "riskEventColumns = [''id'', ''app_id'', ''device_id'', ''license_id'', ''event_type'', ''severity'', ''action'',
     ''summary'', ''metadata'', ''created_at'', ''resolved_at'']"

definition riskEventScan :: "dbCodec \<Rightarrow> sqlValue list \<Rightarrow> string + RiskEvent" where
  "riskEventScan J = scanAs [KText, KText, KText, KText, KText, KText, KText, KText, KJson, KTime, KNullTime]
     (\<lambda>r. sumBind (dj_unmarshalMap J (jsonOf (r ! 8))) (\<lambda>v8.
     Inr \<lparr> risk_ID = txtOf (r ! 0), risk_AppID = txtOf (r ! 1), risk_DeviceID = txtOf (r ! 2),
           risk_LicenseID = txtOf (r ! 3), risk_EventType = txtOf (r ! 4),
           risk_Severity = txtOf (r ! 5), risk_Action = txtOf (r ! 6), risk_Summary = txtOf (r ! 7),
           risk_Metadata = noEmpty v8, risk_CreatedAt = timeOf (r ! 9),
           risk_ResolvedAt = nullTimeOf (r ! 10) \<rparr>))"

definition riskEventRow :: "dbCodec \<Rightarrow> RiskEvent \<Rightarrow> string + sqlValue list" where
  "riskEventRow J x =
     sumBind (jsonForDB (dj_marshalMap J) (risk_Metadata x) (Some [])) (\<lambda>j8.
     Inr [SText (risk_ID x), SText (risk_AppID x), SText (risk_DeviceID x), SText (risk_LicenseID x),
       SText (risk_EventType x), SText (risk_Severity x), SText (risk_Action x),
       SText (risk_Summary x), SJson j8, STime (risk_CreatedAt x), sqlNullTime (risk_ResolvedAt x)])"

definition riskEventTable :: "dbCodec \<Rightarrow> RiskEvent table" where
  "riskEventTable J = \<lparr> tb_name = ''risk_events'', tb_columns = riskEventColumns, tb_order = [''created_at'', ''id''],
     tb_row = riskEventRow J, tb_scan = riskEventScan J, tb_label = (\<lambda>x. ''insert risk event '' @ risk_ID x) \<rparr>"

subsection \<open>\<^verbatim>\<open>audit_logs\<close>\<close>

definition auditLogColumns :: "string list" where
  "auditLogColumns = [''id'', ''admin_id'', ''action'', ''target_type'', ''target_id'', ''ip'', ''user_agent'',
     ''metadata'', ''created_at'']"

definition auditLogScan :: "dbCodec \<Rightarrow> sqlValue list \<Rightarrow> string + AuditLog" where
  "auditLogScan J = scanAs [KText, KText, KText, KText, KText, KText, KText, KJson, KTime]
     (\<lambda>r. sumBind (dj_unmarshalMap J (jsonOf (r ! 7))) (\<lambda>v7.
     Inr \<lparr> aud_ID = txtOf (r ! 0), aud_AdminID = txtOf (r ! 1), aud_Action = txtOf (r ! 2),
           aud_TargetType = txtOf (r ! 3), aud_TargetID = txtOf (r ! 4), aud_IP = txtOf (r ! 5),
           aud_UserAgent = txtOf (r ! 6), aud_Metadata = noEmpty v7, aud_CreatedAt = timeOf (r ! 8) \<rparr>))"

definition auditLogRow :: "dbCodec \<Rightarrow> AuditLog \<Rightarrow> string + sqlValue list" where
  "auditLogRow J x =
     sumBind (jsonForDB (dj_marshalMap J) (aud_Metadata x) (Some [])) (\<lambda>j7.
     Inr [SText (aud_ID x), SText (aud_AdminID x), SText (aud_Action x), SText (aud_TargetType x),
       SText (aud_TargetID x), SText (aud_IP x), SText (aud_UserAgent x), SJson j7,
       STime (aud_CreatedAt x)])"

definition auditLogTable :: "dbCodec \<Rightarrow> AuditLog table" where
  "auditLogTable J = \<lparr> tb_name = ''audit_logs'', tb_columns = auditLogColumns, tb_order = [''created_at'', ''id''],
     tb_row = auditLogRow J, tb_scan = auditLogScan J, tb_label = (\<lambda>x. ''insert audit log '' @ aud_ID x) \<rparr>"

subsection \<open>\<^verbatim>\<open>system_settings\<close>\<close>

definition settingsColumns :: "string list" where
  "settingsColumns = [''default_token_ttl_minutes'', ''medium_risk_token_ttl_minutes'', ''offline_grace_days'',
     ''default_max_devices'', ''default_license_days'', ''audit_log_retention_days'', ''mfa_required'',
     ''sensitive_action_confirm'', ''updated_at'']"

definition settingsRow :: "SystemSettings \<Rightarrow> sqlValue list" where
  "settingsRow x =
     [SInt (set_DefaultTokenTTLMinutes x), SInt (set_MediumRiskTokenTTLMinutes x),
      SInt (set_OfflineGraceDays x), SInt (set_DefaultMaxDevices x), SInt (set_DefaultLicenseDays x),
      SInt (set_AuditLogRetentionDays x), SBool (set_MFARequired x), SBool (set_SensitiveActionConfirm x),
      STime (set_UpdatedAt x)]"

definition settingsScan :: "sqlValue list \<Rightarrow> string + SystemSettings" where
  "settingsScan = scanAs [KInt, KInt, KInt, KInt, KInt, KInt, KBool, KBool, KTime]
     (\<lambda>r. Inr \<lparr> set_DefaultTokenTTLMinutes = intOf (r ! 0), set_MediumRiskTokenTTLMinutes = intOf (r ! 1),
        set_OfflineGraceDays = intOf (r ! 2), set_DefaultMaxDevices = intOf (r ! 3),
        set_DefaultLicenseDays = intOf (r ! 4), set_AuditLogRetentionDays = intOf (r ! 5),
        set_MFARequired = boolOf (r ! 6), set_SensitiveActionConfirm = boolOf (r ! 7),
        set_UpdatedAt = timeOf (r ! 8) \<rparr>)"

definition querySystemSettings :: "('db, 'tx) storeDB \<Rightarrow> 'tx \<Rightarrow> string + SystemSettings" where
  "querySystemSettings D tx =
     sumBind (pg_selectRow D ''system_settings'' settingsColumns ''id'' (SText ''system'') tx)
       (\<lambda>r. case r of
          None \<Rightarrow> Inr \<lparr>set_DefaultTokenTTLMinutes = 0, set_MediumRiskTokenTTLMinutes = 0,
             set_OfflineGraceDays = 0, set_DefaultMaxDevices = 0, set_DefaultLicenseDays = 0,
             set_AuditLogRetentionDays = 0, set_MFARequired = False, set_SensitiveActionConfirm = False,
             set_UpdatedAt = zeroTime\<rparr>
        | Some row \<Rightarrow> settingsScan row)"

section \<open>Queries and inserts\<close>

fun scanRows :: "(sqlValue list \<Rightarrow> string + 'a) \<Rightarrow> sqlValue list list \<Rightarrow> string + 'a list" where
  "scanRows scan [] = Inr []"
| "scanRows scan (r # rows) = sumBind (scan r) (\<lambda>item. sumBind (scanRows scan rows) (\<lambda>items. Inr (item # items)))"

definition queryTable :: "('db, 'tx) storeDB \<Rightarrow> 'a table \<Rightarrow> 'tx \<Rightarrow> string + 'a list" where
  "queryTable D T tx =
     sumBind (pg_select D (tb_name T) (tb_columns T) (tb_order T) tx) (scanRows (tb_scan T))"

fun insertTable :: "('db, 'tx) storeDB \<Rightarrow> 'a table \<Rightarrow> 'a list \<Rightarrow> 'tx \<Rightarrow> string + 'tx" where
  "insertTable D T [] tx = Inr tx"
| "insertTable D T (item # items) tx =
     sumBind (tb_row T item) (\<lambda>args.
       case pg_insert D (tb_name T) (tb_columns T) args tx of
         Inl err \<Rightarrow> Inl (tb_label T item @ '': '' @ err)
       | Inr tx \<Rightarrow> insertTable D T items tx)"

definition insertSettings :: "('db, 'tx) storeDB \<Rightarrow> SystemSettings \<Rightarrow> 'tx \<Rightarrow> string + 'tx" where
  "insertSettings D settings tx =
     (case pg_insert D ''system_settings'' (''id'' # settingsColumns) (SText ''system'' # settingsRow settings) tx of
        Inl err \<Rightarrow> Inl (''insert system settings: '' @ err)
      | Inr tx \<Rightarrow> Inr tx)"

definition insertPostgresData ::
  "('db, 'tx) storeDB \<Rightarrow> dbCodec \<Rightarrow> time \<Rightarrow> Data \<Rightarrow> 'tx \<Rightarrow> string + 'tx" where
  "insertPostgresData D J now d tx =
     sumBind (insertSettings D (normalizeSystemSettings now (data_Settings d)) tx) (\<lambda>tx.
     sumBind (insertTable D (adminTable J) (data_Admins d) tx) (\<lambda>tx.
     sumBind (insertTable D (appTable J) (data_Apps d) tx) (\<lambda>tx.
     sumBind (insertTable D (releaseTable J) (data_Releases d) tx) (\<lambda>tx.
     sumBind (insertTable D (sdkKeyTable J) (data_SDKKeys d) tx) (\<lambda>tx.
     sumBind (insertTable D (policyTable J) (data_CapabilityPolicies d) tx) (\<lambda>tx.
     sumBind (insertTable D (licenseTable J) (data_Licenses d) tx) (\<lambda>tx.
     sumBind (insertTable D (deviceTable J) (data_Devices d) tx) (\<lambda>tx.
     sumBind (insertTable D (activationTable J) (data_Activations d) tx) (\<lambda>tx.
     sumBind (insertTable D (reportTable J) (data_IntegrityReports d) tx) (\<lambda>tx.
     sumBind (insertTable D (riskEventTable J) (data_RiskEvents d) tx) (\<lambda>tx.
       insertTable D (auditLogTable J) (data_AuditLogs d) tx)))))))))))"

definition postgresTables :: "string list" where
  "postgresTables = [''system_settings'', ''audit_logs'', ''risk_events'', ''integrity_reports'', ''activations'',
     ''devices'', ''licenses'', ''capability_policies'', ''sdk_keys'', ''app_releases'', ''apps'', ''admins'']"

fun deleteTables :: "('db, 'tx) storeDB \<Rightarrow> string list \<Rightarrow> 'tx \<Rightarrow> string + 'tx" where
  "deleteTables D [] tx = Inr tx"
| "deleteTables D (table # tables) tx = sumBind (pg_delete D table tx) (deleteTables D tables)"

definition deletePostgresData :: "('db, 'tx) storeDB \<Rightarrow> 'tx \<Rightarrow> string + 'tx" where
  "deletePostgresData D tx = deleteTables D postgresTables tx"

section \<open>The store\<close>

text \<open>\<^term>\<open>None\<close> is success; on every error the transaction is rolled back and the database stays.\<close>

definition pgSave :: "('db, 'tx) storeDB \<Rightarrow> dbCodec \<Rightarrow> time \<Rightarrow> Data \<Rightarrow> 'db \<Rightarrow> string option \<times> 'db" where
  "pgSave D J now d db =
     (case sumBind (pg_begin D False db) (\<lambda>tx.
           sumBind (deletePostgresData D tx) (\<lambda>tx.
           sumBind (insertPostgresData D J now d tx) (pg_commit D))) of
        Inl err \<Rightarrow> (Some err, db)
      | Inr db' \<Rightarrow> (None, db'))"

definition dataIsEmpty :: "Data \<Rightarrow> bool" where
  "dataIsEmpty d \<longleftrightarrow>
     length (data_Admins d) = 0 \<and> length (data_Apps d) = 0 \<and> length (data_Releases d) = 0 \<and>
     length (data_Licenses d) = 0 \<and> length (data_CapabilityPolicies d) = 0 \<and> length (data_Devices d) = 0 \<and>
     length (data_Activations d) = 0 \<and> length (data_IntegrityReports d) = 0 \<and>
     length (data_RiskEvents d) = 0 \<and> length (data_AuditLogs d) = 0"

definition pgRead :: "('db, 'tx) storeDB \<Rightarrow> dbCodec \<Rightarrow> 'tx \<Rightarrow> string + Data" where
  "pgRead D J tx =
     sumBind (queryTable D (adminTable J) tx) (\<lambda>admins.
     sumBind (queryTable D (appTable J) tx) (\<lambda>apps.
     sumBind (queryTable D (releaseTable J) tx) (\<lambda>releases.
     sumBind (queryTable D (sdkKeyTable J) tx) (\<lambda>sdkKeys.
     sumBind (queryTable D (licenseTable J) tx) (\<lambda>licenses.
     sumBind (queryTable D (policyTable J) tx) (\<lambda>policies.
     sumBind (queryTable D (deviceTable J) tx) (\<lambda>devices.
     sumBind (queryTable D (activationTable J) tx) (\<lambda>activations.
     sumBind (queryTable D (reportTable J) tx) (\<lambda>reports.
     sumBind (queryTable D (riskEventTable J) tx) (\<lambda>riskEvents.
     sumBind (queryTable D (auditLogTable J) tx) (\<lambda>auditLogs.
     sumBind (querySystemSettings D tx) (\<lambda>settings.
       Inr \<lparr> data_Admins = admins, data_Apps = apps, data_Releases = releases, data_SDKKeys = sdkKeys,
             data_Licenses = licenses, data_CapabilityPolicies = policies, data_Devices = devices,
             data_Activations = activations, data_IntegrityReports = reports, data_RiskEvents = riskEvents,
             data_AuditLogs = auditLogs, data_Settings = settings \<rparr>))))))))))))"

text \<open>\<^verbatim>\<open>Load\<close>; \<^verbatim>\<open>ErrStoreNotFound\<close> is \<^term>\<open>Inr None\<close>.\<close>

definition pgLoad :: "('db, 'tx) storeDB \<Rightarrow> dbCodec \<Rightarrow> 'db \<Rightarrow> string + Data option" where
  "pgLoad D J db =
     sumBind (pg_begin D True db) (\<lambda>tx.
     sumBind (pgRead D J tx) (\<lambda>d.
     sumBind (pg_commit D tx) (\<lambda>_.
       Inr (if dataIsEmpty d then None else Some d))))"

definition NewPostgresStore :: "('db, 'tx) storeDB \<Rightarrow> string \<Rightarrow> string + string" where
  "NewPostgresStore D databaseURL =
     (if databaseURL = [] then Inl ''database url is required''
      else (case pg_connect D databaseURL of Some err \<Rightarrow> Inl err | None \<Rightarrow> Inr databaseURL))"

definition redactDatabaseURL :: "dbCodec \<Rightarrow> string \<Rightarrow> string" where
  "redactDatabaseURL J databaseURL =
     (case dj_redactURL J databaseURL of None \<Rightarrow> ''<redacted>'' | Some s \<Rightarrow> s)"

definition postgresName :: "dbCodec \<Rightarrow> string \<Rightarrow> string" where
  "postgresName J databaseURL = ''postgres:'' @ redactDatabaseURL J databaseURL"

end
