(* ===== verification/SqlSplit.thy ===== *)
theory SqlSplit
  imports GoStrings "HOL-Library.While_Combinator"
begin

text \<open>
  The SQL splitter of \<^verbatim>\<open>src/internal/licensecore/migration.go\<close>: \<^verbatim>\<open>splitSQLStatements\<close> cuts a script
  at its top-level semicolons. The loop over the bytes is a machine whose registers are the
  local variables of the function; it is compared with a definition that cuts the script into
  whole tokens (quoted text, comments, dollar-quoted bodies, single bytes).
\<close>

section \<open>The code\<close>

definition tagByte :: "char \<Rightarrow> bool" where
  "tagByte ch \<longleftrightarrow> (CHR ''a'' \<le> ch \<and> ch \<le> CHR ''z'') \<or> (CHR ''A'' \<le> ch \<and> ch \<le> CHR ''Z'') \<or>
     (CHR ''0'' \<le> ch \<and> ch \<le> CHR ''9'') \<or> ch = CHR ''_''"

fun scanDollarTag :: "string \<Rightarrow> string \<Rightarrow> string option" where
  "scanDollarTag seen [] = None"
| "scanDollarTag seen (ch # text) =
     (if ch = CHR ''$'' then Some (seen @ [ch])
      else if tagByte ch then scanDollarTag (seen @ [ch]) text
      else None)"

definition readDollarTag :: "string \<Rightarrow> string option" where
  "readDollarTag text =
     (case text of
        [] \<Rightarrow> None
      | ch # rest \<Rightarrow> if ch \<noteq> CHR ''$'' then None else scanDollarTag [ch] rest)"

record sqlScan =
  sc_statements :: "string list"
  sc_b :: string
  sc_inSingleQuote :: bool
  sc_inDoubleQuote :: bool
  sc_inLineComment :: bool
  sc_inBlockComment :: bool
  sc_dollarTag :: string

definition scanStart :: sqlScan where
  "scanStart = \<lparr> sc_statements = [], sc_b = [], sc_inSingleQuote = False, sc_inDoubleQuote = False,
     sc_inLineComment = False, sc_inBlockComment = False, sc_dollarTag = [] \<rparr>"

definition writeBytes :: "string \<Rightarrow> sqlScan \<Rightarrow> sqlScan" where
  "writeBytes s st = st\<lparr> sc_b := sc_b st @ s \<rparr>"

text \<open>\<^verbatim>\<open>statement := strings.TrimSpace(b.String()); if statement != "" { append }\<close>.\<close>

definition flushStatement :: "sqlScan \<Rightarrow> sqlScan" where
  "flushStatement st =
     (let statement = trimSpace (sc_b st)
      in if statement \<noteq> [] then st\<lparr> sc_statements := sc_statements st @ [statement] \<rparr> else st)"

text \<open>The \<^verbatim>\<open>switch ch\<close> at the end of the loop body.\<close>

definition switchByte :: "char \<Rightarrow> char \<Rightarrow> sqlScan \<Rightarrow> nat \<times> sqlScan" where
  "switchByte ch nxt st =
     (if ch = CHR 0x27 then
        (let st = writeBytes [ch] st
         in if \<not> sc_inDoubleQuote st then
              (if sc_inSingleQuote st \<and> nxt = CHR 0x27 then (2, writeBytes [nxt] st)
               else (1, st\<lparr> sc_inSingleQuote := \<not> sc_inSingleQuote st \<rparr>))
            else (1, st))
      else if ch = CHR 0x22 then
        (let st = writeBytes [ch] st
         in if \<not> sc_inSingleQuote st
            then (1, st\<lparr> sc_inDoubleQuote := \<not> sc_inDoubleQuote st \<rparr>)
            else (1, st))
      else if ch = CHR '';'' then
        (if sc_inSingleQuote st \<or> sc_inDoubleQuote st then (1, writeBytes [ch] st)
         else (1, (flushStatement st)\<lparr> sc_b := [] \<rparr>))
      else (1, writeBytes [ch] st))"

text \<open>One iteration on the text from the index \<^verbatim>\<open>i\<close> on: how far the index moves, and the registers.
  At the last byte \<^verbatim>\<open>next\<close> is the zero byte.\<close>

definition sqlStep :: "string \<Rightarrow> sqlScan \<Rightarrow> nat \<times> sqlScan" where
  "sqlStep text st =
     (let ch = hd text; nxt = (case tl text of [] \<Rightarrow> CHR 0x00 | c # _ \<Rightarrow> c)
      in if sc_inLineComment st then
           (1, (if ch = CHR 0x0A then (writeBytes [ch] st)\<lparr> sc_inLineComment := False \<rparr>
                else writeBytes [ch] st))
         else if sc_inBlockComment st then
           (if ch = CHR ''*'' \<and> nxt = CHR ''/''
            then (2, (writeBytes [nxt] (writeBytes [ch] st))\<lparr> sc_inBlockComment := False \<rparr>)
            else (1, writeBytes [ch] st))
         else if sc_dollarTag st \<noteq> [] then
           (if hasPrefix text (sc_dollarTag st)
            then (length (sc_dollarTag st), (writeBytes (sc_dollarTag st) st)\<lparr> sc_dollarTag := [] \<rparr>)
            else (1, writeBytes [ch] st))
         else if \<not> sc_inSingleQuote st \<and> \<not> sc_inDoubleQuote st \<and> ch = CHR ''-'' \<and> nxt = CHR ''-'' then
           (2, (writeBytes [nxt] (writeBytes [ch] st))\<lparr> sc_inLineComment := True \<rparr>)
         else if \<not> sc_inSingleQuote st \<and> \<not> sc_inDoubleQuote st \<and> ch = CHR ''/'' \<and> nxt = CHR ''*'' then
           (2, (writeBytes [nxt] (writeBytes [ch] st))\<lparr> sc_inBlockComment := True \<rparr>)
         else if \<not> sc_inSingleQuote st \<and> \<not> sc_inDoubleQuote st \<and> ch = CHR ''$'' \<and> readDollarTag text \<noteq> None then
           (case readDollarTag text of
              Some tag \<Rightarrow> (length tag, (writeBytes tag st)\<lparr> sc_dollarTag := tag \<rparr>)
            | None \<Rightarrow> switchByte ch nxt st)
         else switchByte ch nxt st)"

text \<open>The loop itself. Nothing in its form says that it ends: \<^term>\<open>None\<close> is not returning.\<close>

partial_function (option) sqlLoop :: "string \<Rightarrow> sqlScan \<Rightarrow> sqlScan option" where
  [code]: "sqlLoop text st =
     (if text = [] then Some st
      else (case sqlStep text st of (n, st') \<Rightarrow> sqlLoop (drop n text) st'))"

definition splitSQLStatements :: "string \<Rightarrow> string list option" where
  "splitSQLStatements sqlText =
     map_option (\<lambda>st. sc_statements (flushStatement st)) (sqlLoop sqlText scanStart)"

section \<open>Reference: whole tokens\<close>

text \<open>The number of bytes up to and including the first occurrence of a closing mark, or all.\<close>

fun through :: "string \<Rightarrow> string \<Rightarrow> nat" where
  "through p [] = 0"
| "through p (c # s) = (if hasPrefix (c # s) p then length p else Suc (through p s))"

text \<open>The rest of a single-quoted literal: a doubled quote belongs to it.\<close>

fun quotedLength :: "string \<Rightarrow> nat" where
  "quotedLength [] = 0"
| "quotedLength [c] = 1"
| "quotedLength (c # d # s) =
     (if c = CHR 0x27 then (if d = CHR 0x27 then 2 + quotedLength s else 1)
      else Suc (quotedLength (d # s)))"

text \<open>The length of the token a top-level text starts with.\<close>

definition tokenLength :: "string \<Rightarrow> nat" where
  "tokenLength text =
     (if hasPrefix text ''--'' then 2 + through [CHR 0x0A] (drop 2 text)
      else if hasPrefix text ''/*'' then 2 + through ''*/'' (drop 2 text)
      else (case readDollarTag text of
              Some tag \<Rightarrow> length tag + through tag (drop (length tag) text)
            | None \<Rightarrow>
                if hasPrefix text [CHR 0x27] then 1 + quotedLength (drop 1 text)
                else if hasPrefix text [CHR 0x22] then 1 + through [CHR 0x22] (drop 1 text)
                else 1))"

lemma tokenLength_pos: "0 < tokenLength text"
proof -
  have "tag \<noteq> []" if "scanDollarTag seen rest = Some tag" for seen rest tag
    using that by (induction seen rest rule: scanDollarTag.induct) (auto split: if_splits)
  then show ?thesis
    by (auto simp: tokenLength_def readDollarTag_def split: option.split list.split if_splits)
qed

text \<open>The script cut at the semicolons that are tokens of their own.\<close>

function pieces :: "string \<Rightarrow> string \<Rightarrow> string list" where
  "pieces cur text =
     (if text = [] then [cur]
      else if hd text = CHR '';'' then cur # pieces [] (tl text)
      else pieces (cur @ take (tokenLength text) text) (drop (tokenLength text) text))"
  by pat_completeness auto
termination
  by (relation "measure (\<lambda>(cur, text). length text)")
     (auto simp: tokenLength_pos neq_Nil_conv intro: diff_less)

declare pieces.simps [simp del]

lemma pieces_Nil: "pieces cur [] = [cur]"
  by (simp add: pieces.simps)

lemma pieces_semicolon: "pieces cur (CHR '';'' # s) = cur # pieces [] s"
  by (simp add: pieces.simps [of cur "CHR '';'' # s"])

lemma pieces_token:
  "s \<noteq> [] \<Longrightarrow> hd s \<noteq> CHR '';'' \<Longrightarrow>
   pieces cur s = pieces (cur @ take (tokenLength s) s) (drop (tokenLength s) s)"
  by (simp add: pieces.simps [of cur s])

definition statementsOf :: "string \<Rightarrow> string list" where
  "statementsOf text = filter (\<lambda>s. s \<noteq> []) (map trimSpace (pieces [] text))"

section \<open>The loop returns\<close>

lemma scanDollarTag_shape:
  "scanDollarTag seen rest = Some tag \<Longrightarrow> \<exists>body rest'. tag = seen @ body @ ''$'' \<and> rest = body @ ''$'' @ rest'"
proof (induction seen rest rule: scanDollarTag.induct)
  case (2 seen ch s)
  then show ?case
  proof (cases "ch = CHR ''$''")
    case False
    then have "tagByte ch" "scanDollarTag (seen @ [ch]) s = Some tag"
      using "2.prems" by (auto split: if_splits)
    then obtain body rest' where "tag = (seen @ [ch]) @ body @ ''$''" "s = body @ ''$'' @ rest'"
      using "2.IH" False by blast
    then have "tag = seen @ (ch # body) @ ''$''" "ch # s = (ch # body) @ ''$'' @ rest'" by simp_all
    then show ?thesis by blast
  qed (auto intro: exI [where x = "[]"])
qed simp

lemma readDollarTag_shape:
  "readDollarTag text = Some tag \<Longrightarrow> (\<exists>body. tag = ''$'' @ body @ ''$'') \<and> hasPrefix text tag"
  by (auto simp: readDollarTag_def hasPrefix_iff split: list.splits if_splits dest!: scanDollarTag_shape)

lemma sqlStep_progress: "text \<noteq> [] \<Longrightarrow> 0 < fst (sqlStep text st)"
  by (auto simp: sqlStep_def switchByte_def Let_def dest!: readDollarTag_shape split: option.split)

lemma sqlLoop_Nil [simp]: "sqlLoop [] st = Some st"
  by (simp add: sqlLoop.simps)

lemma sqlLoop_step: "text \<noteq> [] \<Longrightarrow> sqlStep text st = (n, st') \<Longrightarrow> sqlLoop text st = sqlLoop (drop n text) st'"
  by (simp add: sqlLoop.simps)

lemma sqlLoop_returns: "\<exists>st'. sqlLoop text st = Some st'"
proof (induction "text" arbitrary: st rule: measure_induct_rule [where f = length])
  case (less s)
  show ?case
  proof (cases "s = []")
    case False
    obtain n st' where s: "sqlStep s st = (n, st')" by fastforce
    then have "length (drop n s) < length s"
      using sqlStep_progress [OF False, of st] False by (simp add: diff_less)
    from less.IH [OF this, of st'] show ?thesis by (simp add: sqlLoop_step [OF False s])
  qed simp
qed


section \<open>The machine cuts at the token semicolons\<close>

definition topLevel :: "string list \<Rightarrow> string \<Rightarrow> sqlScan" where
  "topLevel acc cur = scanStart\<lparr> sc_statements := acc, sc_b := cur \<rparr>"

definition scanResult :: "string \<Rightarrow> sqlScan \<Rightarrow> string list option" where
  "scanResult s st = map_option (\<lambda>st. sc_statements (flushStatement st)) (sqlLoop s st)"

lemma scanResult_Cons:
  "sqlStep (c # s) st = (n, st') \<Longrightarrow> scanResult (c # s) st = scanResult (drop n (c # s)) st'"
  using sqlLoop_step [of "c # s" st n st'] by (simp add: scanResult_def)

lemma scan1: "sqlStep (c # s) st = (1, st') \<Longrightarrow> scanResult (c # s) st = scanResult s st'"
  using scanResult_Cons by fastforce

lemma scan2: "sqlStep (c # d # s) st = (2, st') \<Longrightarrow> scanResult (c # d # s) st = scanResult s st'"
  using scanResult_Cons by fastforce

lemma scanResult_Nil: "scanResult [] st = Some (sc_statements (flushStatement st))"
  by (simp add: scanResult_def)

lemma flushStatement_registers:
  "sc_b st = sc_b st' \<Longrightarrow> sc_statements st = sc_statements st' \<Longrightarrow>
   sc_statements (flushStatement st) = sc_statements (flushStatement st')"
  by (simp add: flushStatement_def Let_def)

lemmas mode_simps = topLevel_def scanStart_def writeBytes_def sqlStep_def switchByte_def Let_def

lemma scan_lineComment:
  "scanResult s ((topLevel acc cur)\<lparr> sc_inLineComment := True \<rparr>) =
   scanResult (drop (through [CHR 0x0A] s) s) (topLevel acc (cur @ take (through [CHR 0x0A] s) s))"
proof (induction s arbitrary: cur)
  case Nil
  show ?case by (simp add: scanResult_Nil topLevel_def flushStatement_def Let_def)
next
  case (Cons c s)
  show ?case
  proof (cases "c = CHR 0x0A")
    case True
    have "scanResult (c # s) ((topLevel acc cur)\<lparr> sc_inLineComment := True \<rparr>) =
        scanResult s (topLevel acc (cur @ [c]))"
      using True by (intro scan1) (simp add: mode_simps)
    then show ?thesis using True by simp
  next
    case False
    have "scanResult (c # s) ((topLevel acc cur)\<lparr> sc_inLineComment := True \<rparr>) =
        scanResult s ((topLevel acc (cur @ [c]))\<lparr> sc_inLineComment := True \<rparr>)"
      using False by (intro scan1) (simp add: mode_simps)
    then show ?thesis using False Cons.IH [of "cur @ [c]"] by simp
  qed
qed

lemma scan_blockComment:
  "scanResult s ((topLevel acc cur)\<lparr> sc_inBlockComment := True \<rparr>) =
   scanResult (drop (through ''*/'' s) s) (topLevel acc (cur @ take (through ''*/'' s) s))"
proof (induction s arbitrary: cur)
  case Nil
  show ?case by (simp add: scanResult_Nil topLevel_def flushStatement_def Let_def)
next
  case (Cons c s)
  show ?case
  proof (cases "hasPrefix (c # s) ''*/''")
    case True
    then obtain s' where s': "c = CHR ''*''" "s = CHR ''/'' # s'" by (cases s) auto
    have "scanResult (c # s) ((topLevel acc cur)\<lparr> sc_inBlockComment := True \<rparr>) =
        scanResult s' (topLevel acc (cur @ ''*/''))"
      unfolding s' by (intro scan2) (simp add: mode_simps)
    then show ?thesis by (simp add: s')
  next
    case False
    have "scanResult (c # s) ((topLevel acc cur)\<lparr> sc_inBlockComment := True \<rparr>) =
        scanResult s ((topLevel acc (cur @ [c]))\<lparr> sc_inBlockComment := True \<rparr>)"
      using False by (intro scan1) (cases s; auto simp add: mode_simps)
    moreover have "through ''*/'' (c # s) = Suc (through ''*/'' s)"
      by (simp only: through.simps False if_False)
    ultimately show ?thesis using Cons.IH [of "cur @ [c]"] by simp
  qed
qed

lemma scan_dollar:
  assumes "tag \<noteq> []"
  shows "scanResult s ((topLevel acc cur)\<lparr> sc_dollarTag := tag \<rparr>) =
   scanResult (drop (through tag s) s) (topLevel acc (cur @ take (through tag s) s))"
proof (induction s arbitrary: cur)
  case Nil
  show ?case by (simp add: scanResult_Nil topLevel_def flushStatement_def Let_def)
next
  case (Cons c s)
  show ?case
  proof (cases "hasPrefix (c # s) tag")
    case True
    then obtain r where r: "c # s = tag @ r" by (auto simp: hasPrefix_iff)
    have "sqlStep (c # s) ((topLevel acc cur)\<lparr> sc_dollarTag := tag \<rparr>) = (length tag, topLevel acc (cur @ tag))"
      using True assms by (simp add: mode_simps)
    from scanResult_Cons [OF this] have "scanResult (c # s) ((topLevel acc cur)\<lparr> sc_dollarTag := tag \<rparr>) =
        scanResult r (topLevel acc (cur @ tag))" by (simp add: r)
    moreover have "through tag (c # s) = length tag" using True by simp
    ultimately show ?thesis by (simp only: r) simp
  next
    case False
    have "scanResult (c # s) ((topLevel acc cur)\<lparr> sc_dollarTag := tag \<rparr>) =
        scanResult s ((topLevel acc (cur @ [c]))\<lparr> sc_dollarTag := tag \<rparr>)"
      using False assms by (intro scan1) (simp add: mode_simps)
    then show ?thesis using False Cons.IH [of "cur @ [c]"] by simp
  qed
qed

lemma scan_doubleQuote:
  "scanResult s ((topLevel acc cur)\<lparr> sc_inDoubleQuote := True \<rparr>) =
   scanResult (drop (through [CHR 0x22] s) s) (topLevel acc (cur @ take (through [CHR 0x22] s) s))"
proof (induction s arbitrary: cur)
  case Nil
  show ?case by (simp add: scanResult_Nil topLevel_def flushStatement_def Let_def)
next
  case (Cons c s)
  show ?case
  proof (cases "c = CHR 0x22")
    case True
    have "scanResult (c # s) ((topLevel acc cur)\<lparr> sc_inDoubleQuote := True \<rparr>) =
        scanResult s (topLevel acc (cur @ [c]))"
      using True by (intro scan1) (simp add: mode_simps)
    then show ?thesis using True by simp
  next
    case False
    have "scanResult (c # s) ((topLevel acc cur)\<lparr> sc_inDoubleQuote := True \<rparr>) =
        scanResult s ((topLevel acc (cur @ [c]))\<lparr> sc_inDoubleQuote := True \<rparr>)"
      using False by (intro scan1) (simp add: mode_simps)
    then show ?thesis using False Cons.IH [of "cur @ [c]"] by simp
  qed
qed

lemma scan_singleQuote:
  "scanResult s ((topLevel acc cur)\<lparr> sc_inSingleQuote := True \<rparr>) =
   scanResult (drop (quotedLength s) s) (topLevel acc (cur @ take (quotedLength s) s))"
proof (induction s arbitrary: cur rule: quotedLength.induct)
  case 1
  show ?case by (simp add: scanResult_Nil topLevel_def flushStatement_def Let_def)
next
  case (2 c)
  show ?case
  proof (cases "c = CHR 0x27")
    case True
    have "scanResult [c] ((topLevel acc cur)\<lparr> sc_inSingleQuote := True \<rparr>) =
        scanResult [] (topLevel acc (cur @ [c]))"
      using True by (intro scan1) (simp add: mode_simps)
    then show ?thesis by simp
  next
    case False
    have "scanResult [c] ((topLevel acc cur)\<lparr> sc_inSingleQuote := True \<rparr>) =
        scanResult [] ((topLevel acc (cur @ [c]))\<lparr> sc_inSingleQuote := True \<rparr>)"
      using False by (intro scan1) (simp add: mode_simps)
    then show ?thesis by (simp add: scanResult_Nil topLevel_def flushStatement_def Let_def)
  qed
next
  case (3 c d s)
  consider (doubled) "c = CHR 0x27" "d = CHR 0x27" | (closed) "c = CHR 0x27" "d \<noteq> CHR 0x27"
    | (inside) "c \<noteq> CHR 0x27" by blast
  then show ?case
  proof cases
    case doubled
    have "scanResult (c # d # s) ((topLevel acc cur)\<lparr> sc_inSingleQuote := True \<rparr>) =
        scanResult s ((topLevel acc (cur @ [c, d]))\<lparr> sc_inSingleQuote := True \<rparr>)"
      using doubled by (intro scan2) (simp add: mode_simps)
    then show ?thesis using doubled "3.IH"(1) [of "cur @ [c, d]"] by simp
  next
    case closed
    have "scanResult (c # d # s) ((topLevel acc cur)\<lparr> sc_inSingleQuote := True \<rparr>) =
        scanResult (d # s) (topLevel acc (cur @ [c]))"
      using closed by (intro scan1) (simp add: mode_simps)
    then show ?thesis using closed by simp
  next
    case inside
    have "scanResult (c # d # s) ((topLevel acc cur)\<lparr> sc_inSingleQuote := True \<rparr>) =
        scanResult (d # s) ((topLevel acc (cur @ [c]))\<lparr> sc_inSingleQuote := True \<rparr>)"
      using inside by (intro scan1) (simp add: mode_simps)
    then show ?thesis using inside "3.IH"(2) [of "cur @ [c]"] by simp
  qed
qed

text \<open>At the top level the machine consumes one token.\<close>

lemma drop_take_through:
  "a @ take n (drop (length a) s) = take (length a + n) s" if "hasPrefix s a"
  using that by (auto simp: hasPrefix_iff)

lemma scan_token:
  assumes "s \<noteq> []" "hd s \<noteq> CHR '';''"
  shows "scanResult s (topLevel acc cur) =
    scanResult (drop (tokenLength s) s) (topLevel acc (cur @ take (tokenLength s) s))"
proof -
  obtain c r where s: "s = c # r" using assms(1) by (cases s) auto
  consider (line) "hasPrefix s ''--''" | (block) "hasPrefix s ''/*''"
    | (dollar) tag where "readDollarTag s = Some tag"
    | (single) "c = CHR 0x27" | (double) "c = CHR 0x22"
    | (other) "\<not> hasPrefix s ''--''" "\<not> hasPrefix s ''/*''" "readDollarTag s = None" "c \<noteq> CHR 0x27" "c \<noteq> CHR 0x22"
    by blast
  then show ?thesis
  proof cases
    case line
    then obtain r' where r': "s = ''--'' @ r'" by (auto simp: hasPrefix_iff)
    have "sqlStep s (topLevel acc cur) = (2, (topLevel acc (cur @ ''--''))\<lparr> sc_inLineComment := True \<rparr>)"
      by (simp add: r' mode_simps)
    then have "scanResult s (topLevel acc cur) = scanResult r' ((topLevel acc (cur @ ''--''))\<lparr> sc_inLineComment := True \<rparr>)"
      using scanResult_Cons by (simp add: r')
    then show ?thesis using line by (simp add: scan_lineComment tokenLength_def r')
  next
    case block
    then obtain r' where r': "s = ''/*'' @ r'" by (auto simp: hasPrefix_iff)
    have "sqlStep s (topLevel acc cur) = (2, (topLevel acc (cur @ ''/*''))\<lparr> sc_inBlockComment := True \<rparr>)"
      by (simp add: r' mode_simps)
    then have "scanResult s (topLevel acc cur) = scanResult r' ((topLevel acc (cur @ ''/*''))\<lparr> sc_inBlockComment := True \<rparr>)"
      using scanResult_Cons by (simp add: r')
    then show ?thesis using block by (simp add: scan_blockComment tokenLength_def r')
  next
    case dollar
    then obtain body r' where tag: "tag = ''$'' @ body @ ''$''" "s = tag @ r'"
      using readDollarTag_shape [OF dollar] by (auto simp: hasPrefix_iff)
    have c: "c = CHR ''$''" using s tag by simp
    have "sqlStep s (topLevel acc cur) = (length tag, (topLevel acc (cur @ tag))\<lparr> sc_dollarTag := tag \<rparr>)"
      using dollar c by (simp add: s mode_simps)
    then have "scanResult s (topLevel acc cur) = scanResult r' ((topLevel acc (cur @ tag))\<lparr> sc_dollarTag := tag \<rparr>)"
      using scanResult_Cons [of c r] tag(2) s by simp
    moreover have "tokenLength s = length tag + through tag r'"
    proof -
      have "\<not> hasPrefix s ''--''" "\<not> hasPrefix s ''/*''" by (simp_all add: s c)
      moreover have "drop (length tag) s = r'" by (simp add: tag(2))
      ultimately show ?thesis using dollar by (simp add: tokenLength_def)
    qed
    ultimately show ?thesis using tag by (simp add: scan_dollar)
  next
    case single
    have "sqlStep s (topLevel acc cur) = (1, (topLevel acc (cur @ [c]))\<lparr> sc_inSingleQuote := True \<rparr>)"
      using single by (simp add: s mode_simps)
    then have "scanResult s (topLevel acc cur) = scanResult r ((topLevel acc (cur @ [c]))\<lparr> sc_inSingleQuote := True \<rparr>)"
      using scanResult_Cons by (simp add: s)
    then show ?thesis using single by (simp add: scan_singleQuote tokenLength_def readDollarTag_def s)
  next
    case double
    have "sqlStep s (topLevel acc cur) = (1, (topLevel acc (cur @ [c]))\<lparr> sc_inDoubleQuote := True \<rparr>)"
      using double by (simp add: s mode_simps)
    then have "scanResult s (topLevel acc cur) = scanResult r ((topLevel acc (cur @ [c]))\<lparr> sc_inDoubleQuote := True \<rparr>)"
      using scanResult_Cons by (simp add: s)
    then show ?thesis using double by (simp add: scan_doubleQuote tokenLength_def readDollarTag_def s)
  next
    case other
    have "sqlStep s (topLevel acc cur) = (1, topLevel acc (cur @ [c]))"
      using other assms by (cases r) (auto simp add: s mode_simps)
    moreover have "tokenLength s = 1"
      using other by (simp only: tokenLength_def if_False) (simp add: s)
    ultimately show ?thesis using scan1 [of c r] by (simp add: s)
  qed
qed

lemma scan_semicolon:
  "scanResult (CHR '';'' # s) (topLevel acc cur) =
   scanResult s (topLevel (acc @ filter (\<lambda>s. s \<noteq> []) [trimSpace cur]) [])"
  by (intro scan1) (simp add: mode_simps flushStatement_def)

lemma scan_pieces:
  "scanResult s (topLevel acc cur) = Some (acc @ filter (\<lambda>s. s \<noteq> []) (map trimSpace (pieces cur s)))"
proof (induction cur s arbitrary: acc rule: pieces.induct)
  case (1 cur s)
  consider "s = []" | r where "s = CHR '';'' # r" | "s \<noteq> []" "hd s \<noteq> CHR '';''"
    by (cases s) auto
  then show ?case
  proof cases
    case 1
    then show ?thesis
      by (simp add: pieces_Nil scanResult_Nil topLevel_def flushStatement_def Let_def)
  next
    case 2
    then show ?thesis
      using "1.IH"(1) [of "acc @ filter (\<lambda>s. s \<noteq> []) [trimSpace cur]"]
      by (simp add: pieces_semicolon scan_semicolon)
  next
    case 3
    then show ?thesis using "1.IH"(2) by (simp add: pieces_token [of s cur] scan_token)
  qed
qed

lemma splitSQLStatements_pieces: "splitSQLStatements s = Some (statementsOf s)"
  using scan_pieces [of s "[]" "[]"]
  by (simp add: splitSQLStatements_def scanResult_def topLevel_def statementsOf_def scanStart_def)

lemma pieces_nonempty: "pieces cur s \<noteq> []"
  by (induction cur s rule: pieces.induct) (subst pieces.simps, simp)

text \<open>Nothing is lost: the pieces with their semicolons are the script.\<close>

lemma pieces_join: "joinWith '';'' (pieces cur s) = cur @ s"
proof (induction cur s rule: pieces.induct)
  case (1 cur s)
  consider "s = []" | r where "s = CHR '';'' # r" | "s \<noteq> []" "hd s \<noteq> CHR '';''"
    by (cases s) auto
  then show ?case
  proof cases
    case 2
    then show ?thesis using "1.IH"(1) by (simp add: pieces_semicolon joinWith_Cons pieces_nonempty)
  next
    case 3
    then show ?thesis using "1.IH"(2) by (simp add: pieces_token [of s cur])
  qed (simp add: pieces_Nil)
qed

end
