(* ===== verification/Migration.thy ===== *)
theory Migration
  imports SqlSplit "HOL-Library.Sublist"
begin

text \<open>
  The migration runner: \<^verbatim>\<open>RunPostgresMigrations\<close> and \<^verbatim>\<open>migrationApplied\<close> of
  \<^verbatim>\<open>src/internal/licensecore/migration.go\<close> and the command \<^verbatim>\<open>src/cmd/licenseguard-migrate/main.go\<close>.
  The database server and the file system are parameters: \<^verbatim>\<open>migrationDB\<close> has what the code calls
  on \<^verbatim>\<open>*sql.DB\<close> and \<^verbatim>\<open>*sql.Tx\<close>, \<^verbatim>\<open>migrationFS\<close> what it calls on the file system. A transaction works on
  a value of its own, which a commit turns into the database; a rollback drops it.
\<close>

section \<open>Parameters\<close>

text \<open>\<^verbatim>\<open>sql.Open\<close> with \<^verbatim>\<open>PingContext\<close>; the two kinds of query the code makes; transactions.\<close>

record ('db, 'tx) migrationDB =
  mdb_connect :: "string \<Rightarrow> string option"
  mdb_queryBool :: "string \<Rightarrow> string list \<Rightarrow> 'db \<Rightarrow> string + bool"
  mdb_begin :: "'db \<Rightarrow> string + 'tx"
  mdb_exec :: "string \<Rightarrow> string list \<Rightarrow> 'tx \<Rightarrow> string + 'tx"
  mdb_commit :: "'tx \<Rightarrow> string + 'db"

text \<open>\<^verbatim>\<open>filepath.Glob(filepath.Join(dir, "*.sql"))\<close> and \<^verbatim>\<open>os.ReadFile\<close>.\<close>

record migrationFS =
  mfs_globSQL :: "string \<Rightarrow> string + string list"
  mfs_readFile :: "string \<Rightarrow> string + string"

record MigrationOptions =
  mo_SeedDemo :: bool

section \<open>filepath.Base and filepath.Ext\<close>

text \<open>With the separator \<^verbatim>\<open>/\<close>: trailing separators are dropped, then everything up to the last one.\<close>

definition filepathBase :: "string \<Rightarrow> string" where
  "filepathBase path =
     (if path = [] then ''.''
      else (let p = trimRightSet ''/'' path;
                base = rev (takeWhile (\<lambda>c. c \<noteq> CHR ''/'') (rev p))
            in if base = [] then ''/'' else base))"

text \<open>From the last dot of the last element on.\<close>

definition filepathExt :: "string \<Rightarrow> string" where
  "filepathExt path =
     (let lastElement = takeWhile (\<lambda>c. c \<noteq> CHR ''/'') (rev path);
          suffix = takeWhile (\<lambda>c. c \<noteq> CHR ''.'') lastElement
      in if suffix = lastElement then [] else CHR ''.'' # rev suffix)"

section \<open>The runner\<close>

text \<open>The texts of the statements, white space normalised.\<close>

definition hasTableQuery :: string where
  "hasTableQuery =
     ''SELECT EXISTS ( SELECT 1 FROM information_schema.tables WHERE table_schema = current_schema() AND table_name = '' @
     [CHR 0x27] @ ''schema_migrations'' @ [CHR 0x27] @ '' )''"

definition appliedQuery :: string where
  "appliedQuery = ''SELECT EXISTS (SELECT 1 FROM schema_migrations WHERE version = $1)''"

definition recordMigration :: string where
  "recordMigration = ''INSERT INTO schema_migrations(version) VALUES ($1) ON CONFLICT (version) DO NOTHING''"

definition migrationApplied :: "('db, 'tx) migrationDB \<Rightarrow> string \<Rightarrow> 'db \<Rightarrow> string + bool" where
  "migrationApplied D version db =
     (case mdb_queryBool D hasTableQuery [] db of
        Inl err \<Rightarrow> Inl err
      | Inr hasTable \<Rightarrow>
          if \<not> hasTable then Inr False
          else mdb_queryBool D appliedQuery [version] db)"

fun execStatements :: "('db, 'tx) migrationDB \<Rightarrow> string list \<Rightarrow> 'tx \<Rightarrow> string + 'tx" where
  "execStatements D [] tx = Inr tx"
| "execStatements D (statement # rest) tx =
     (case mdb_exec D statement [] tx of
        Inl err \<Rightarrow> Inl err
      | Inr tx \<Rightarrow> execStatements D rest tx)"

text \<open>One iteration's transaction: \<^term>\<open>Inl\<close> is the error, after which the database is as it was
  (\<^verbatim>\<open>tx.Rollback\<close>).\<close>

definition migrateFile :: "('db, 'tx) migrationDB \<Rightarrow> string \<Rightarrow> string \<Rightarrow> string list \<Rightarrow> 'db \<Rightarrow> string + 'db" where
  "migrateFile D name version statements db =
     (case mdb_begin D db of
        Inl err \<Rightarrow> Inl err
      | Inr tx \<Rightarrow>
          (case execStatements D statements tx of
             Inl err \<Rightarrow> Inl (name @ '': '' @ err)
           | Inr tx \<Rightarrow>
               (case mdb_exec D recordMigration [version] tx of
                  Inl err \<Rightarrow> Inl (name @ '': record migration: '' @ err)
                | Inr tx \<Rightarrow> mdb_commit D tx)))"

definition migrationVersion :: "string \<Rightarrow> string" where
  "migrationVersion name = trimSuffix name (filepathExt name)"

text \<open>\<^verbatim>\<open>splitSQLStatements\<close> returns always (\<open>SqlSplit.sqlLoop_returns\<close>), so that the default is never used.\<close>

definition fileStatements :: "string \<Rightarrow> string list" where
  "fileStatements raw = (case splitSQLStatements raw of Some statements \<Rightarrow> statements | None \<Rightarrow> [])"

fun migrateFiles ::
  "('db, 'tx) migrationDB \<Rightarrow> migrationFS \<Rightarrow> MigrationOptions \<Rightarrow> string list \<Rightarrow> string list \<Rightarrow> 'db
   \<Rightarrow> string list \<times> string option \<times> 'db" where
  "migrateFiles D F opts names [] db = (names, None, db)"
| "migrateFiles D F opts names (file # files) db =
     (let name = filepathBase file; version = migrationVersion name
      in if \<not> mo_SeedDemo opts \<and> contains name ''_seed_'' then migrateFiles D F opts names files db
         else (case migrationApplied D version db of
             Inl err \<Rightarrow> (names, Some err, db)
           | Inr applied \<Rightarrow>
               if applied then migrateFiles D F opts names files db
               else (case mfs_readFile F file of
                   Inl err \<Rightarrow> (names, Some err, db)
                 | Inr raw \<Rightarrow>
                     (let statements = fileStatements raw
                      in if length statements = 0 then migrateFiles D F opts names files db
                         else (case migrateFile D name version statements db of
                             Inl err \<Rightarrow> (names, Some err, db)
                           | Inr db \<Rightarrow> migrateFiles D F opts (names @ [name]) files db)))))"

definition RunPostgresMigrations ::
  "('db, 'tx) migrationDB \<Rightarrow> migrationFS \<Rightarrow> string \<Rightarrow> string \<Rightarrow> MigrationOptions \<Rightarrow> 'db
   \<Rightarrow> string list \<times> string option \<times> 'db" where
  "RunPostgresMigrations D F databaseURL migrationsDir opts db =
     (if databaseURL = [] then ([], Some ''database url is required'', db)
      else
        (let migrationsDir = (if migrationsDir = [] then ''./migrations'' else migrationsDir)
         in case mfs_globSQL F migrationsDir of
              Inl err \<Rightarrow> ([], Some err, db)
            | Inr found \<Rightarrow>
                (let files = sort found
                 in if length files = 0 then ([], Some (''no migration files found in '' @ migrationsDir), db)
                    else (case mdb_connect D databaseURL of
                            Some err \<Rightarrow> ([], Some err, db)
                          | None \<Rightarrow> migrateFiles D F opts [] files db))))"

section \<open>The migrate command\<close>

definition validateMigrationOptions :: "bool \<Rightarrow> bool \<Rightarrow> string option" where
  "validateMigrationOptions production seedDemo =
     (if production \<and> seedDemo
      then Some ''production mode forbids -seed-demo; seed demo data only in local or demo databases''
      else None)"

text \<open>\<^verbatim>\<open>envBool\<close>, with the variable's value (empty when unset) as an argument.\<close>

definition envBool :: "'a unicode_scheme \<Rightarrow> string \<Rightarrow> bool \<Rightarrow> bool" where
  "envBool U raw fallback =
     (let v = toLower U (trimSpace raw)
      in if v = ''1'' \<or> v = ''true'' \<or> v = ''yes'' \<or> v = ''y'' \<or> v = ''on'' then True
         else if v = ''0'' \<or> v = ''false'' \<or> v = ''no'' \<or> v = ''n'' \<or> v = ''off'' then False
         else fallback)"

text \<open>\<^verbatim>\<open>main\<close>: \<^term>\<open>Inl\<close> is the \<^verbatim>\<open>log.Fatalf\<close> text, \<^term>\<open>Inr\<close> the lines printed.\<close>

definition migrateCommand ::
  "('db, 'tx) migrationDB \<Rightarrow> migrationFS \<Rightarrow> string \<Rightarrow> string \<Rightarrow> bool \<Rightarrow> bool \<Rightarrow> 'db \<Rightarrow> (string + string list) \<times> 'db" where
  "migrateCommand D F databaseURL migrationsDir seedDemo production db =
     (case validateMigrationOptions production seedDemo of
        Some err \<Rightarrow> (Inl (''invalid migration config: '' @ err), db)
      | None \<Rightarrow>
          (case RunPostgresMigrations D F databaseURL migrationsDir \<lparr> mo_SeedDemo = seedDemo \<rparr> db of
             (names, Some err, db) \<Rightarrow> (Inl (''run migrations: '' @ err), db)
           | (names, None, db) \<Rightarrow>
               (Inr (if length names = 0 then [''No migrations applied''] else map (\<lambda>name. ''Applied '' @ name) names), db)))"


section \<open>Lemmas\<close>

text \<open>Which files a run without demo seeds leaves out.\<close>

definition seedSkipped :: "MigrationOptions \<Rightarrow> string \<Rightarrow> bool" where
  "seedSkipped opts file \<longleftrightarrow> \<not> mo_SeedDemo opts \<and> contains (filepathBase file) ''_seed_''"

definition scriptFiles :: "migrationFS \<Rightarrow> string \<Rightarrow> string list" where
  "scriptFiles F dir =
     (case mfs_globSQL F (if dir = [] then ''./migrations'' else dir) of Inl _ \<Rightarrow> [] | Inr found \<Rightarrow> sort found)"

text \<open>What running one whole file does, and running whole files in turn: \<^term>\<open>None\<close> when the file
  is not one the run executes, or when it fails.\<close>

definition runWhole ::
  "('db, 'tx) migrationDB \<Rightarrow> migrationFS \<Rightarrow> MigrationOptions \<Rightarrow> string \<Rightarrow> 'db \<Rightarrow> 'db option" where
  "runWhole D F opts file db =
     (let name = filepathBase file; version = migrationVersion name
      in case mfs_readFile F file of
           Inl _ \<Rightarrow> None
         | Inr raw \<Rightarrow>
             if seedSkipped opts file \<or> migrationApplied D version db \<noteq> Inr False \<or> fileStatements raw = []
             then None
             else (case migrateFile D name version (fileStatements raw) db of Inl _ \<Rightarrow> None | Inr db \<Rightarrow> Some db))"


text \<open>A file contributes nothing, fails, or is run as a whole.\<close>

lemma migrateFiles_run:
  "runWhole D F opts f db = Some db' \<Longrightarrow>
   migrateFiles D F opts names (f # files) db = migrateFiles D F opts (names @ [filepathBase f]) files db'"
  by (auto simp: runWhole_def seedSkipped_def Let_def split: sum.splits if_splits)

lemma migrateFiles_not_run:
  "runWhole D F opts f db = None \<Longrightarrow>
   (\<exists>err. \<forall>names files. migrateFiles D F opts names (f # files) db = (names, Some err, db)) \<or>
   (\<forall>names files. migrateFiles D F opts names (f # files) db = migrateFiles D F opts names files db)"
  by (auto simp: runWhole_def seedSkipped_def Let_def split: sum.splits if_splits)


text \<open>The behaviour of a database that keeps the ledger of applied versions: what the two queries
  read, what the recording statement adds, what transactions keep. \<open>L\<close> and \<open>Lx\<close> read the ledger
  of a database and of a transaction; the scripts at hand delete nothing from it.\<close>

definition keepsLedger ::
  "('db, 'tx) migrationDB \<Rightarrow> migrationFS \<Rightarrow> ('db \<Rightarrow> string set) \<Rightarrow> ('tx \<Rightarrow> string set) \<Rightarrow> string list \<Rightarrow> bool" where
  "keepsLedger D F L Lx files \<longleftrightarrow>
     (\<forall>db. (mdb_queryBool D hasTableQuery [] db = Inr False \<and> L db = {}) \<or>
           (mdb_queryBool D hasTableQuery [] db = Inr True \<and>
            (\<forall>v. mdb_queryBool D appliedQuery [v] db = Inr (v \<in> L db)))) \<and>
     (\<forall>db tx. mdb_begin D db = Inr tx \<longrightarrow> Lx tx = L db) \<and>
     (\<forall>v tx tx'. mdb_exec D recordMigration [v] tx = Inr tx' \<longrightarrow> Lx tx' = insert v (Lx tx)) \<and>
     (\<forall>file \<in> set files. \<forall>raw. mfs_readFile F file = Inr raw \<longrightarrow>
        (\<forall>statement \<in> set (fileStatements raw). \<forall>tx tx'.
           mdb_exec D statement [] tx = Inr tx' \<longrightarrow> Lx tx \<subseteq> Lx tx')) \<and>
     (\<forall>tx db. mdb_commit D tx = Inr db \<longrightarrow> L db = Lx tx)"

lemma migrationApplied_ledger:
  "keepsLedger D F L Lx files \<Longrightarrow> migrationApplied D v db = Inr (v \<in> L db)"
  unfolding keepsLedger_def migrationApplied_def
  by (elim conjE) (drule spec [where x = db], auto)

lemma execStatements_ledger:
  "\<forall>statement \<in> set statements. \<forall>tx tx'. mdb_exec D statement [] tx = Inr tx' \<longrightarrow> Lx tx \<subseteq> Lx tx' \<Longrightarrow>
   execStatements D statements tx = Inr tx' \<Longrightarrow> Lx tx \<subseteq> Lx tx'"
  by (induction statements arbitrary: tx) (fastforce split: sum.splits)+

lemma migrateFile_ledger:
  assumes k: "keepsLedger D F L Lx files" and "file \<in> set files" "mfs_readFile F file = Inr raw"
    and "migrateFile D name v (fileStatements raw) db = Inr db'"
  shows "insert v (L db) \<subseteq> L db'"
proof -
  obtain tx tx1 tx2 where tx: "mdb_begin D db = Inr tx" "execStatements D (fileStatements raw) tx = Inr tx1"
      "mdb_exec D recordMigration [v] tx1 = Inr tx2" "mdb_commit D tx2 = Inr db'"
    using assms(4) by (auto simp: migrateFile_def split: sum.splits)
  have "Lx tx \<subseteq> Lx tx1"
    by (rule execStatements_ledger [OF _ tx(2)]) (use k assms(2,3) in \<open>auto simp: keepsLedger_def\<close>)
  then show ?thesis using k tx by (auto simp: keepsLedger_def)
qed

text \<open>After a successful run every file is settled: a second look at it does nothing.\<close>

definition settled ::
  "migrationFS \<Rightarrow> MigrationOptions \<Rightarrow> string set \<Rightarrow> string \<Rightarrow> bool" where
  "settled F opts ledger file \<longleftrightarrow>
     seedSkipped opts file \<or> migrationVersion (filepathBase file) \<in> ledger \<or>
     (\<exists>raw. mfs_readFile F file = Inr raw \<and> fileStatements raw = [])"

lemma settled_mono: "settled F opts l file \<Longrightarrow> l \<subseteq> l' \<Longrightarrow> settled F opts l' file"
  by (auto simp: settled_def)

lemma migrateFiles_settled_noop:
  assumes "keepsLedger D F L Lx fs" "\<forall>file \<in> set files. settled F opts (L db) file"
  shows "migrateFiles D F opts names files db = (names, None, db)"
  using assms(2)
proof (induction files)
  case (Cons f files)
  then show ?case
    by (auto simp: settled_def seedSkipped_def Let_def migrationApplied_ledger [OF assms(1)] split: sum.split)
qed simp

lemma migrateFiles_settles:
  assumes k: "keepsLedger D F L Lx fs"
  shows "set files \<subseteq> set fs \<Longrightarrow> migrateFiles D F opts names files db = (names', None, db') \<Longrightarrow>
    L db \<subseteq> L db' \<and> (\<forall>file \<in> set files. settled F opts (L db') file)"
proof (induction files arbitrary: names db)
  case (Cons f files)
  show ?case
  proof (cases "runWhole D F opts f db")
    case (Some db1)
    then obtain raw where raw: "mfs_readFile F f = Inr raw"
        "migrateFile D (filepathBase f) (migrationVersion (filepathBase f)) (fileStatements raw) db = Inr db1"
      by (auto simp: runWhole_def Let_def split: sum.splits if_splits)
    have l: "insert (migrationVersion (filepathBase f)) (L db) \<subseteq> L db1"
      using migrateFile_ledger [OF k _ raw] Cons.prems(1) by simp
    have "migrateFiles D F opts (names @ [filepathBase f]) files db1 = (names', None, db')"
      using Cons.prems(2) Some by (simp only: migrateFiles_run)
    from Cons.IH [OF _ this] Cons.prems(1) have "L db1 \<subseteq> L db' \<and> (\<forall>file \<in> set files. settled F opts (L db') file)"
      by simp
    then show ?thesis using l by (auto simp: settled_def)
  next
    case None
    have "migrateFiles D F opts names files db = (names', None, db')"
      using migrateFiles_not_run [OF None] Cons.prems(2) by (auto simp del: migrateFiles.simps)
    from Cons.IH [OF _ this] Cons.prems(1)
    have ih: "L db \<subseteq> L db' \<and> (\<forall>file \<in> set files. settled F opts (L db') file)" by simp
    have "settled F opts (L db) f"
      using None Cons.prems(2)
      by (auto simp: settled_def seedSkipped_def runWhole_def Let_def migrationApplied_ledger [OF k]
            split: sum.splits if_splits)
    then show ?thesis using ih by (auto intro: settled_mono)
  qed
qed simp

lemma RunPostgresMigrations_NoneD:
  assumes "RunPostgresMigrations D F url dir opts db = (names, None, db')"
  shows "url \<noteq> []" "mdb_connect D url = None" "scriptFiles F dir \<noteq> []"
    "migrateFiles D F opts [] (scriptFiles F dir) db = (names, None, db')"
  using assms
  by (auto simp: RunPostgresMigrations_def scriptFiles_def Let_def split: if_splits sum.splits option.splits)

lemma RunPostgresMigrations_started:
  "url \<noteq> [] \<Longrightarrow> mdb_connect D url = None \<Longrightarrow> scriptFiles F dir \<noteq> [] \<Longrightarrow>
   RunPostgresMigrations D F url dir opts db = migrateFiles D F opts [] (scriptFiles F dir) db"
  by (cases "mfs_globSQL F (if dir = [] then ''./migrations'' else dir)")
     (auto simp: RunPostgresMigrations_def scriptFiles_def Let_def)

section \<open>Properties\<close>

text \<open>C33: \<^verbatim>\<open>splitSQLStatements\<close> returns the trimmed, non-empty pieces of the script between the semicolons that are
  tokens of their own: a semicolon inside a quoted literal, a quoted name, a comment or a dollar-quoted body never
  ends a statement, every other one does. The pieces, joined by semicolons, are the script: nothing is lost.\<close>

theorem split_statements:
  "splitSQLStatements s = Some (filter (\<lambda>t. t \<noteq> []) (map trimSpace (pieces [] s))) \<and>
   joinWith '';'' (pieces [] s) = s"
  by (simp add: splitSQLStatements_pieces statementsOf_def pieces_join)

text \<open>C34: The loop of \<^verbatim>\<open>splitSQLStatements\<close> ends on every input and from every state of its registers,
  unterminated quotes, comments and dollar-quoted bodies included.\<close>

theorem split_terminates: "\<exists>st'. sqlLoop s st = Some st'"
  by (rule sqlLoop_returns)


text \<open>C36: Migrations run once: on a database that keeps the ledger of versions, a run that ends without error settles
  every file, so that a second run of the same files executes nothing, reports nothing and leaves the database alone.\<close>

theorem migrations_run_once:
  assumes "keepsLedger D F L Lx (scriptFiles F dir)"
    and "RunPostgresMigrations D F url dir opts db = (names, None, db')"
  shows "RunPostgresMigrations D F url dir opts db' = ([], None, db')"
proof -
  note started = RunPostgresMigrations_NoneD [OF assms(2)]
  have "\<forall>file \<in> set (scriptFiles F dir). settled F opts (L db') file"
    using migrateFiles_settles [OF assms(1) _ started(4)] by simp
  then show ?thesis
    using started migrateFiles_settled_noop [OF assms(1)] by (simp add: RunPostgresMigrations_started)
qed

section \<open>A small database\<close>

text \<open>The ledger and the statements executed, in a transaction and committed; one statement is an error.\<close>

definition ledgerDB :: "(string list \<times> string list, string list \<times> string list) migrationDB" where
  "ledgerDB = \<lparr> mdb_connect = (\<lambda>url. None),
     mdb_queryBool = (\<lambda>q args db. Inr (case args of [] \<Rightarrow> True | v # _ \<Rightarrow> v \<in> set (fst db))),
     mdb_begin = Inr,
     mdb_exec = (\<lambda>q args tx.
       if q = recordMigration then Inr (case args of [] \<Rightarrow> tx | v # _ \<Rightarrow> (v # fst tx, snd tx))
       else if q = ''FAIL'' then Inl ''syntax error'' else Inr (fst tx, snd tx @ [q])),
     mdb_commit = Inr \<rparr>"

definition sampleScripts :: "(string \<times> string) list" where
  "sampleScripts =
     [(''m/003_admins.sql'', ''CREATE TABLE admins (id text); -- done; really''),
      (''m/001_initial.sql'', ''CREATE TABLE a (note text DEFAULT '' @ [CHR 0x27] @ ''x;y'' @ [CHR 0x27] @ '');DO $$ BEGIN; END $$''),
      (''m/002_seed_demo.sql'', ''INSERT INTO a VALUES (1)''),
      (''m/004_empty.sql'', '' ; '')]"

definition scriptFS :: "(string \<times> string) list \<Rightarrow> migrationFS" where
  "scriptFS scripts = \<lparr> mfs_globSQL = (\<lambda>dir. Inr (map fst scripts)),
     mfs_readFile = (\<lambda>path. case map_of scripts path of Some raw \<Rightarrow> Inr raw | None \<Rightarrow> Inl ''no such file'') \<rparr>"

definition sampleMigrated :: "string list \<times> string list" where
  "sampleMigrated = ([''003_admins'', ''001_initial''],
     [''CREATE TABLE a (note text DEFAULT '' @ [CHR 0x27] @ ''x;y'' @ [CHR 0x27] @ '')'', ''DO $$ BEGIN; END $$'',
      ''CREATE TABLE admins (id text)'', ''-- done; really''])"

lemma ledgerDB_files: "scriptFiles (scriptFS sampleScripts) [] =
    [''m/001_initial.sql'', ''m/002_seed_demo.sql'', ''m/003_admins.sql'', ''m/004_empty.sql'']"
  by code_simp

lemma sample_statements:
  "map (\<lambda>(path, raw). statementsOf raw) sampleScripts =
   [[''CREATE TABLE admins (id text)'', ''-- done; really''],
    [''CREATE TABLE a (note text DEFAULT '' @ [CHR 0x27] @ ''x;y'' @ [CHR 0x27] @ '')'', ''DO $$ BEGIN; END $$''],
    [''INSERT INTO a VALUES (1)''], []]"
  by code_simp

lemma ledgerDB_run:
  "RunPostgresMigrations ledgerDB (scriptFS sampleScripts) ''postgres://db'' [] \<lparr> mo_SeedDemo = False \<rparr> ([], []) =
   ([''001_initial.sql'', ''003_admins.sql''], None, sampleMigrated)"
  by code_simp

lemma ledgerDB_keepsLedger:
  "keepsLedger ledgerDB F (\<lambda>db. set (fst db)) (\<lambda>tx. set (fst tx)) files"
proof -
  have "q = recordMigration \<or> q = ''FAIL'' \<or> q \<noteq> recordMigration \<and> q \<noteq> ''FAIL''" for q by blast
  moreover have "recordMigration \<noteq> ''FAIL''" by (simp add: recordMigration_def)
  ultimately show ?thesis
    by (auto simp: keepsLedger_def ledgerDB_def hasTableQuery_def appliedQuery_def split: list.splits if_splits)
qed

theorem migrations_run_once_witness:
  "RunPostgresMigrations ledgerDB (scriptFS sampleScripts) ''postgres://db'' [] \<lparr> mo_SeedDemo = False \<rparr> sampleMigrated =
   ([], None, sampleMigrated)"
  by (rule migrations_run_once [OF ledgerDB_keepsLedger ledgerDB_run])


end
