(* ===== verification/ServerMain.thy ===== *)
theory ServerMain
  imports Http Host Postgres Migration
begin

text \<open>
  The server command (\<^verbatim>\<open>src/cmd/licenseguard-server/main.go\<close>): the checks of a production configuration,
  the bootstrap administrator, the choice of the store, the redaction of log messages and \<^verbatim>\<open>main\<close>, which wires
  them to the server and its routes. \<^verbatim>\<open>net/url\<close>, the file server and the two data stores are parameters.
\<close>

section \<open>Configuration\<close>

text \<open>What \<^verbatim>\<open>url.Parse\<close> yields; \<open>url_User\<close> is the user name with the password, if there is one.\<close>

record url =
  url_Scheme :: string
  url_User :: "(string \<times> string option) option"
  url_Host :: string
  url_Path :: string
  url_RawQuery :: string
  url_Fragment :: string

record urllib =
  ul_parse :: "string \<Rightarrow> url option"
  ul_string :: "url \<Rightarrow> string"

definition isPostgresStore :: "golib \<Rightarrow> string \<Rightarrow> bool" where
  "isPostgresStore L mode =
     (let mode = toLower L (trimSpace mode) in mode = ''postgres'' \<or> mode = ''postgresql'')"

definition corsAllowsWildcard :: "string \<Rightarrow> bool" where
  "corsAllowsWildcard origins \<longleftrightarrow>
     list_ex (\<lambda>part. trimSpace part = ''*'') (splitOn (CHR '','') origins) \<or> trimSpace origins = []"

text \<open>The condition under which both validations refuse a URL.\<close>

definition notPlainHTTPS :: "urllib \<Rightarrow> string \<Rightarrow> bool" where
  "notPlainHTTPS P value =
     (case ul_parse P value of
        None \<Rightarrow> True
      | Some parsed \<Rightarrow>
          url_Scheme parsed \<noteq> ''https'' \<or> url_Host parsed = [] \<or> url_User parsed \<noteq> None \<or>
          url_RawQuery parsed \<noteq> [] \<or> url_Fragment parsed \<noteq> [])"

fun validateOriginParts :: "golib \<Rightarrow> urllib \<Rightarrow> string list \<Rightarrow> string option" where
  "validateOriginParts L P [] = None"
| "validateOriginParts L P (part # parts) =
     (let origin = trimSpace part in
      if origin = [] then validateOriginParts L P parts
      else if notPlainHTTPS P origin then Some (''invalid HTTPS origin '' @ lib_quote L origin)
      else (case ul_parse P origin of
              None \<Rightarrow> Some (''invalid HTTPS origin '' @ lib_quote L origin)
            | Some parsed \<Rightarrow>
                if url_Path parsed \<noteq> [] \<and> url_Path parsed \<noteq> ''/''
                then Some (''origin must not include path: '' @ lib_quote L origin)
                else validateOriginParts L P parts))"

definition validateHTTPSOrigins :: "golib \<Rightarrow> urllib \<Rightarrow> string \<Rightarrow> string option" where
  "validateHTTPSOrigins L P origins = validateOriginParts L P (splitOn (CHR '','') origins)"

definition validateHTTPSPublicBaseURL :: "golib \<Rightarrow> urllib \<Rightarrow> string \<Rightarrow> string option" where
  "validateHTTPSPublicBaseURL L P publicBaseURL =
     (let value = trimSpace publicBaseURL in
      if value = [] then Some ''production mode requires -public-base-url with HTTPS''
      else if notPlainHTTPS P value
      then Some (''production mode requires -public-base-url with HTTPS, got '' @ lib_quote L publicBaseURL)
      else None)"

definition validateProductionConfig ::
  "golib \<Rightarrow> urllib \<Rightarrow> bool \<Rightarrow> string \<Rightarrow> string \<Rightarrow> string \<Rightarrow> string \<Rightarrow> string option" where
  "validateProductionConfig L P production storeMode keyDir corsAllowedOrigins publicBaseURL =
     (if \<not> production then None
      else if \<not> isPostgresStore L storeMode
      then Some (''production mode requires -store=postgres, got '' @ lib_quote L storeMode)
      else if trimSpace keyDir = []
      then Some ''production mode requires explicit -key-dir with persistent storage''
      else if corsAllowsWildcard corsAllowedOrigins
      then Some ''production mode requires concrete -cors-allowed-origins, got empty or wildcard''
      else (case validateHTTPSOrigins L P corsAllowedOrigins of
              Some err \<Rightarrow> Some (''production mode requires HTTPS -cors-allowed-origins: '' @ err)
            | None \<Rightarrow> validateHTTPSPublicBaseURL L P publicBaseURL))"

text \<open>\<^term>\<open>Inr None\<close> is the absence of a bootstrap administrator.\<close>

definition bootstrapAdminFromConfig ::
  "golib \<Rightarrow> bool \<Rightarrow> string \<Rightarrow> string \<Rightarrow> string \<Rightarrow> string + BootstrapAdmin option" where
  "bootstrapAdminFromConfig L production account0 password name0 =
     (let account = trimSpace account0; name = trimSpace name0 in
      if \<not> (account \<noteq> [] \<or> password \<noteq> []) then Inr None
      else if account = [] \<or> password = [] then Inl ''bootstrap admin requires both account and password''
      else if production \<and> password = ''ChangeMe123!''
      then Inl ''bootstrap admin password must not use the demo password''
      else if production \<and> contains (toLower L password) ''change-me''
      then Inl ''bootstrap admin password must replace the change-me placeholder''
      else if production \<and> length password < 12
      then Inl ''bootstrap admin password must be at least 12 characters in production''
      else Inr (Some \<lparr> boot_ID = ''admin_bootstrap'', boot_Account = account, boot_Name = name,
                       boot_Password = password \<rparr>))"

text \<open>With the variable's value as an argument.\<close>

definition envOrDefault :: "string \<Rightarrow> string \<Rightarrow> string" where
  "envOrDefault value fallback = (if value = [] then fallback else value)"

section \<open>Redaction of log messages\<close>

definition redactURLPassword :: "urllib \<Rightarrow> string \<Rightarrow> string" where
  "redactURLPassword P raw =
     (case ul_parse P raw of
        None \<Rightarrow> raw
      | Some parsed \<Rightarrow>
          (case url_User parsed of
             None \<Rightarrow> raw
           | Some (username, _) \<Rightarrow>
               if username = []
               then ul_string P (parsed\<lparr> url_User := Some (''[redacted]'', Some ''[redacted]'') \<rparr>)
               else ul_string P (parsed\<lparr> url_User := Some (username, Some ''[redacted]'') \<rparr>)))"

text \<open>The pattern: \<^verbatim>\<open>postgres\<close> or \<^verbatim>\<open>postgresql\<close>, \<^verbatim>\<open>://\<close> and at least one byte that is no white space, quote or
  angle bracket. The length of its match at the start of a message, if there is one.\<close>

definition urlByte :: "char \<Rightarrow> bool" where
  "urlByte c \<longleftrightarrow> c \<notin> {CHR '' '', CHR 0x09, CHR 0x0A, CHR 0x0C, CHR 0x0D, CHR 0x27, CHR 0x22, CHR ''<'', CHR ''>''}"

definition matchAfter :: "string \<Rightarrow> string \<Rightarrow> nat option" where
  "matchAfter p s =
     (if hasPrefix s p \<and> takeWhile urlByte (drop (length p) s) \<noteq> []
      then Some (length p + length (takeWhile urlByte (drop (length p) s))) else None)"

definition matchPostgresURL :: "string \<Rightarrow> nat option" where
  "matchPostgresURL s =
     (case matchAfter ''postgresql://'' s of Some n \<Rightarrow> Some n | None \<Rightarrow> matchAfter ''postgres://'' s)"

lemma matchPostgresURL_pos: "matchPostgresURL s = Some n \<Longrightarrow> 0 < n \<and> n \<le> length s"
proof -
  have "matchAfter p s = Some n \<Longrightarrow> p \<noteq> [] \<Longrightarrow> 0 < n \<and> n \<le> length s" for p
    using hasPrefix_length [of s p] length_takeWhile_le [of urlByte "drop (length p) s"]
    by (auto simp: matchAfter_def split: if_splits)
  then show "matchPostgresURL s = Some n \<Longrightarrow> ?thesis"
    by (auto simp: matchPostgresURL_def split: option.splits)
qed

function redactLogMessage :: "urllib \<Rightarrow> string \<Rightarrow> string" where
  "redactLogMessage P s =
     (case matchPostgresURL s of
        Some n \<Rightarrow> redactURLPassword P (take n s) @ redactLogMessage P (drop n s)
      | None \<Rightarrow> (case s of [] \<Rightarrow> [] | c # cs \<Rightarrow> c # redactLogMessage P cs))"
  by pat_completeness auto
termination by (relation "measure (\<lambda>(P, s). length s)") (auto dest: matchPostgresURL_pos)

declare redactLogMessage.simps [simp del]

definition redactedPrefix :: "string \<Rightarrow> string" where
  "redactedPrefix value0 =
     (let v = trimSpace value0 in
      if v = [] then ''[redacted]'' else if length v \<le> 8 then v @ ''...'' else take 8 v @ ''...'')"


section \<open>The store\<close>

datatype openStore =
    JSONStore string
  | PostgresStore string

text \<open>What the machine provides: the operating system, the two codecs, the driver as the migrations and as the
  store use it, the migration files.\<close>

record ('w, 'db, 'mtx, 'tx) machine =
  mc_host :: "'w host"
  mc_files :: fileCodec
  mc_rows :: dbCodec
  mc_migrations :: "('db, 'mtx) migrationDB"
  mc_scripts :: migrationFS
  mc_sql :: "('db, 'tx) storeDB"

fun errorText :: "goError \<Rightarrow> string" where
  "errorText (GoErr s) = s"
| "errorText (NotExist s) = s"
| "errorText (StatusErr status code message) = message"
| "errorText (Panicked s) = s"

definition errorToText :: "goError + 'a \<Rightarrow> string + 'a" where
  "errorToText r = (case r of Inl err \<Rightarrow> Inl (errorText err) | Inr x \<Rightarrow> Inr x)"

text \<open>The store with the lines logged.\<close>

definition buildStore ::
  "golib \<Rightarrow> ('w, 'db, 'mtx, 'tx) machine \<Rightarrow> string \<Rightarrow> string \<Rightarrow> string \<Rightarrow> bool \<Rightarrow> string \<Rightarrow> 'w \<times> 'db
   \<Rightarrow> (string + openStore \<times> string list) \<times> 'w \<times> 'db" where
  "buildStore L M mode0 dataDir databaseURL autoMigrate migrationsDir st =
     (let mode = toLower L (trimSpace mode0); (w, db) = st in
      if mode = [] \<or> mode = ''json''
      then (case NewJSONStore (mc_host M) dataDir w of
              (r, w') \<Rightarrow> (map_sum errorText (\<lambda>path. (JSONStore path, [])) r, w', db))
      else if mode = ''postgres'' \<or> mode = ''postgresql''
      then
        (let opened = (\<lambda>lines. map_sum (\<lambda>err. err) (\<lambda>url. (PostgresStore url, lines))
               (NewPostgresStore (mc_sql M) databaseURL)) in
         if autoMigrate
         then (case RunPostgresMigrations (mc_migrations M) (mc_scripts M) databaseURL migrationsDir
                     \<lparr> mo_SeedDemo = False \<rparr> db of
                 (names, Some err, db') \<Rightarrow> (Inl err, w, db')
               | (names, None, db') \<Rightarrow>
                   (opened [''Applied PostgreSQL migrations: '' @ joinWith '', '' names], w, db'))
         else (opened [], w, db))
      else (Inl (''unsupported store backend '' @ lib_quote L mode0), w, db))"

definition storeName :: "dbCodec \<Rightarrow> openStore \<Rightarrow> string" where
  "storeName J store = (case store of JSONStore path \<Rightarrow> jsonStoreName path | PostgresStore url \<Rightarrow> postgresName J url)"

definition loadStore ::
  "('w, 'db, 'mtx, 'tx) machine \<Rightarrow> openStore \<Rightarrow> 'w \<times> 'db \<Rightarrow> string + Data option" where
  "loadStore M store st =
     (case store of
        JSONStore path \<Rightarrow> errorToText (jsonLoad (mc_files M) (mc_host M) path (fst st))
      | PostgresStore url \<Rightarrow> pgLoad (mc_sql M) (mc_rows M) (snd st))"

section \<open>main\<close>

record serverFlags =
  sf_addr :: string
  sf_dataDir :: string
  sf_keyDir :: string
  sf_adminDir :: string
  sf_store :: string
  sf_databaseURL :: string
  sf_autoMigrate :: bool
  sf_migrationsDir :: string
  sf_corsAllowedOrigins :: string
  sf_production :: bool
  sf_publicBaseURL :: string
  sf_bootstrapAccount :: string
  sf_bootstrapPassword :: string
  sf_bootstrapName :: string

text \<open>The flags that are not given on the command line, from the environment.\<close>

definition defaultFlags :: "golib \<Rightarrow> (string \<Rightarrow> string) \<Rightarrow> serverFlags" where
  "defaultFlags L getenv =
     \<lparr> sf_addr = ''127.0.0.1:8090'', sf_dataDir = ''./data'', sf_keyDir = [], sf_adminDir = ''./web/admin'',
       sf_store = envOrDefault (getenv ''LG_STORE'') ''json'', sf_databaseURL = getenv ''DATABASE_URL'',
       sf_autoMigrate = False, sf_migrationsDir = ''./migrations'',
       sf_corsAllowedOrigins = envOrDefault (getenv ''LG_CORS_ALLOWED_ORIGINS'') ''*'',
       sf_production = envBool L (getenv ''LG_PRODUCTION'') False,
       sf_publicBaseURL = envOrDefault (getenv ''LG_PUBLIC_BASE_URL'') (getenv ''LICENSEGUARD_PUBLIC_BASE_URL''),
       sf_bootstrapAccount = getenv ''LG_BOOTSTRAP_ADMIN_ACCOUNT'',
       sf_bootstrapPassword = getenv ''LG_BOOTSTRAP_ADMIN_PASSWORD'',
       sf_bootstrapName = envOrDefault (getenv ''LG_BOOTSTRAP_ADMIN_NAME'') ''Bootstrap Admin'' \<rparr>"

record running =
  run_api :: Server
  run_store :: openStore
  run_log :: "string list"

definition startupLog :: "dbCodec \<Rightarrow> serverFlags \<Rightarrow> openStore \<Rightarrow> string list" where
  "startupLog J flags store =
     [''License Guard API listening on http://'' @ sf_addr flags,
      ''License Guard Admin UI: http://'' @ sf_addr flags @ ''/admin-ui/'',
      ''Storage backend: '' @ storeName J store] @
     (if sf_production flags
      then [''Production mode enabled: demo seed data is disabled for production migrations'']
      else [''Demo admin: admin@example.com / [redacted]'', ''Demo app: '' @ DemoAppID,
            ''Demo license prefix: '' @ redactedPrefix DemoLicenseKey,
            ''Demo integrity hash: demo-main-binary-sha256''])"

definition serverOptions :: "serverFlags \<Rightarrow> BootstrapAdmin option \<Rightarrow> ServerOptions" where
  "serverOptions flags boot =
     \<lparr> opt_SeedDemoData = \<not> sf_production flags, opt_BootstrapAdmin = boot, opt_PublicBaseURL = sf_publicBaseURL flags \<rparr>"

text \<open>Until the listener is started; \<^term>\<open>Inl\<close> is the text of a \<^verbatim>\<open>log.Fatalf\<close>. What the start saves goes to
  the server's own \<^term>\<open>srv_store\<close>.\<close>

definition serverMain ::
  "golib \<Rightarrow> urllib \<Rightarrow> ('w, 'db, 'mtx, 'tx) machine \<Rightarrow> env \<Rightarrow> serverFlags \<Rightarrow> 'w \<times> 'db \<Rightarrow> (string + running) \<times> 'w \<times> 'db" where
  "serverMain L P M e flags st =
     (case validateProductionConfig L P (sf_production flags) (sf_store flags) (sf_keyDir flags)
             (sf_corsAllowedOrigins flags) (sf_publicBaseURL flags) of
        Some err \<Rightarrow> (Inl (''invalid production config: '' @ err), st)
      | None \<Rightarrow>
          (case bootstrapAdminFromConfig L (sf_production flags) (sf_bootstrapAccount flags)
                  (sf_bootstrapPassword flags) (sf_bootstrapName flags) of
             Inl err \<Rightarrow> (Inl (''invalid bootstrap admin config: '' @ err), st)
           | Inr boot \<Rightarrow>
               (let keyDir = (if sf_keyDir flags = [] then sf_dataDir flags else sf_keyDir flags) in
                case buildStore L M (sf_store flags) (sf_dataDir flags) (sf_databaseURL flags)
                       (sf_autoMigrate flags) (sf_migrationsDir flags) st of
                  (Inl err, st1) \<Rightarrow> (Inl (''init store: '' @ redactLogMessage P err), st1)
                | (Inr (store, lines), w1, db1) \<Rightarrow>
                    (case ioBind (os_mkdirAll (mc_host M) keyDir)
                            (\<lambda>_. LoadOrCreateSigningKey L (mc_files M) (mc_host M) keyDir) w1 of
                       (keys, w2) \<Rightarrow>
                         (case NewServerWithStoreOptions L e (errorToText keys) (loadStore M store (w2, db1))
                                 (serverOptions flags boot) of
                            Inl err \<Rightarrow> (Inl (''init license guard server: '' @ redactLogMessage P err), w2, db1)
                          | Inr api \<Rightarrow>
                              (Inr \<lparr> run_api =
                                       SetCORSAllowedOrigins (splitOn (CHR '','') (sf_corsAllowedOrigins flags)) api,
                                     run_store = store,
                                     run_log = lines @ startupLog (mc_rows M) flags store \<rparr>, w2, db1))))))"

section \<open>Routes\<close>

datatype reply =
    Redirected int string
  | StaticFile string
  | Answered "(string \<times> string) list" Response

text \<open>\<^verbatim>\<open>http.ServeMux\<close>: the longest of the patterns \<^verbatim>\<open>/admin-ui\<close>, \<^verbatim>\<open>/admin-ui/\<close> and \<^verbatim>\<open>/\<close> decides, and a
  path that is not in its canonical form (\<open>cleanPath\<close>) is redirected first. The page behind
  \<^verbatim>\<open>/admin-ui/\<close> is a file of the administration UI. The handler of \<^verbatim>\<open>/\<close> tests for \<^verbatim>\<open>/admin-ui/\<close> too, but
  never sees such a path.\<close>

definition serveMux ::
  "world \<Rightarrow> (string \<Rightarrow> string) \<Rightarrow> env \<Rightarrow> Request \<Rightarrow> Body \<Rightarrow> Server \<Rightarrow> Server \<times> reply" where
  "serveMux W cleanPath e r body s =
     (let path = req_Path r in
      if req_Method r \<noteq> ''CONNECT'' \<and> cleanPath path \<noteq> path then (s, Redirected 301 (cleanPath path))
      else if path = ''/admin-ui'' then (s, Redirected 307 ''/admin-ui/'')
      else if hasPrefix path ''/admin-ui/'' then (s, StaticFile (drop (length ''/admin-ui/'') path))
      else if path = ''/'' then (s, Redirected 307 ''/admin-ui/'')
      else (case ServeHTTP W e r body s of (s1, headers, resp) \<Rightarrow> (s1, Answered headers resp)))"

end
