(* ===== verification/PostgresProps.thy ===== *)
theory PostgresProps
  imports Postgres
begin

text \<open>
  What the PostgreSQL store promises. The behaviour of the server is stated once, as laws over a view of
  the rows of each table, in the database and in a transaction: what \<^verbatim>\<open>DELETE\<close>, \<^verbatim>\<open>INSERT\<close>, \<^verbatim>\<open>SELECT\<close> and \<^verbatim>\<open>COMMIT\<close>
  do to them, how a value is stored (instants to the microsecond), and the unique and foreign keys of
  \<^verbatim>\<open>src/migrations\<close>. A save followed by a load gives the data back, and only consistent data is saved.
\<close>

section \<open>Stored values\<close>

text \<open>\<^verbatim>\<open>timestamptz\<close> holds microseconds.\<close>

definition micro :: "time \<Rightarrow> time" where
  "micro t = t div 1000 * 1000"

definition entriesOf :: "gmap option \<Rightarrow> gmap" where
  "entriesOf m = (case m of None \<Rightarrow> [] | Some entries \<Rightarrow> entries)"

text \<open>\<open>jb\<close> is what \<^verbatim>\<open>jsonb\<close> makes of a JSON text.\<close>

fun storedValue :: "(string \<Rightarrow> string) \<Rightarrow> sqlValue \<Rightarrow> sqlValue" where
  "storedValue jb (STime t) = STime (micro t)"
| "storedValue jb (SJson s) = SJson (jb s)"
| "storedValue jb v = v"

definition storedRow :: "(string \<Rightarrow> string) \<Rightarrow> string list \<Rightarrow> sqlValue list \<Rightarrow> string \<rightharpoonup> sqlValue" where
  "storedRow jb columns args = map_of (zip columns (map (storedValue jb) args))"

text \<open>An item as it comes back; \<open>dec\<close> is what JSON makes of a map with dynamic values.\<close>

definition adminStored :: "Admin \<Rightarrow> Admin" where
  "adminStored x = x\<lparr> adm_CreatedAt := micro (adm_CreatedAt x), adm_UpdatedAt := micro (adm_UpdatedAt x) \<rparr>"

definition appStored :: "App \<Rightarrow> App" where
  "appStored x = x\<lparr> app_CreatedAt := micro (app_CreatedAt x), app_UpdatedAt := micro (app_UpdatedAt x) \<rparr>"

definition releaseStored :: "AppRelease \<Rightarrow> AppRelease" where
  "releaseStored x = x\<lparr> rel_CreatedAt := micro (rel_CreatedAt x) \<rparr>"

definition sdkKeyStored :: "SDKKey \<Rightarrow> SDKKey" where
  "sdkKeyStored x = x\<lparr> sdk_LastUsedAt := map_option micro (sdk_LastUsedAt x), sdk_CreatedAt := micro (sdk_CreatedAt x),
      sdk_RotatedAt := map_option micro (sdk_RotatedAt x) \<rparr>"

definition policyStored :: "(gmap \<Rightarrow> gmap) \<Rightarrow> CapabilityPolicy \<Rightarrow> CapabilityPolicy" where
  "policyStored dec x = x\<lparr> pol_LimitsJSON := Some (dec (entriesOf (pol_LimitsJSON x))),
      pol_CreatedAt := micro (pol_CreatedAt x), pol_UpdatedAt := micro (pol_UpdatedAt x) \<rparr>"

definition licenseStored :: "License \<Rightarrow> License" where
  "licenseStored x = x\<lparr> lic_ExpiresAt := micro (lic_ExpiresAt x), lic_CreatedAt := micro (lic_CreatedAt x),
      lic_UpdatedAt := micro (lic_UpdatedAt x) \<rparr>"

definition deviceStored :: "Device \<Rightarrow> Device" where
  "deviceStored x = x\<lparr> dev_FirstSeenAt := micro (dev_FirstSeenAt x), dev_LastSeenAt := micro (dev_LastSeenAt x) \<rparr>"

definition activationStored :: "Activation \<Rightarrow> Activation" where
  "activationStored x = x\<lparr> act_ActivatedAt := micro (act_ActivatedAt x), act_LastVerifiedAt := micro (act_LastVerifiedAt x),
      act_DeactivatedAt := map_option micro (act_DeactivatedAt x) \<rparr>"

definition reportStored :: "IntegrityReport \<Rightarrow> IntegrityReport" where
  "reportStored x = x\<lparr> ir_CreatedAt := micro (ir_CreatedAt x) \<rparr>"

definition riskEventStored :: "(gmap \<Rightarrow> gmap) \<Rightarrow> RiskEvent \<Rightarrow> RiskEvent" where
  "riskEventStored dec x = x\<lparr> risk_Metadata := noEmpty (map_option dec (risk_Metadata x)),
      risk_CreatedAt := micro (risk_CreatedAt x),
      risk_ResolvedAt := map_option micro (risk_ResolvedAt x) \<rparr>"

definition auditLogStored :: "(gmap \<Rightarrow> gmap) \<Rightarrow> AuditLog \<Rightarrow> AuditLog" where
  "auditLogStored dec x = x\<lparr> aud_Metadata := noEmpty (map_option dec (aud_Metadata x)),
      aud_CreatedAt := micro (aud_CreatedAt x) \<rparr>"

definition settingsStored :: "SystemSettings \<Rightarrow> SystemSettings" where
  "settingsStored x = x\<lparr> set_UpdatedAt := micro (set_UpdatedAt x) \<rparr>"

section \<open>The behaviour of the server\<close>

type_synonym rows = "string \<Rightarrow> (string \<rightharpoonup> sqlValue) multiset"

text \<open>A deletion may cascade to other tables, so that they can only shrink. A query returns the rows of the
  table in some order, an insert adds one row.\<close>

definition storeLaws ::
  "('db, 'tx) storeDB \<Rightarrow> (string \<Rightarrow> string) \<Rightarrow> ('tx \<Rightarrow> rows) \<Rightarrow> ('db \<Rightarrow> rows) \<Rightarrow> bool" where
  "storeLaws D jb R S \<longleftrightarrow>
     (\<forall>ro db tx. pg_begin D ro db = Inr tx \<longrightarrow> R tx = S db) \<and>
     (\<forall>t tx tx'. pg_delete D t tx = Inr tx' \<longrightarrow> R tx' t = {#} \<and> (\<forall>u. R tx' u \<subseteq># R tx u)) \<and>
     (\<forall>t columns args tx tx'. pg_insert D t columns args tx = Inr tx' \<longrightarrow>
        R tx' = (R tx)(t := add_mset (storedRow jb columns args) (R tx t))) \<and>
     (\<forall>t columns order tx rows. pg_select D t columns order tx = Inr rows \<longrightarrow>
        (\<exists>ms. mset ms = R tx t \<and> rows = map (\<lambda>m. map (\<lambda>c. the (m c)) columns) ms)) \<and>
     (\<forall>t columns c v tx row. pg_selectRow D t columns c v tx = Inr row \<longrightarrow>
        (case row of
           None \<Rightarrow> \<forall>m. m \<in># R tx t \<longrightarrow> m c \<noteq> Some v
         | Some r \<Rightarrow> \<exists>m. m \<in># R tx t \<and> m c = Some v \<and> r = map (\<lambda>c. the (m c)) columns)) \<and>
     (\<forall>tx db. pg_commit D tx = Inr db \<longrightarrow> S db = R tx)"

definition jsonLaws :: "dbCodec \<Rightarrow> (string \<Rightarrow> string) \<Rightarrow> (gmap \<Rightarrow> gmap) \<Rightarrow> bool" where
  "jsonLaws J jb dec \<longleftrightarrow>
     (\<forall>v p. dj_marshalStrings J v = Inr p \<longrightarrow>
        dj_unmarshalStrings J (jb p) = Inr v \<and> (p = ''null'' \<longrightarrow> v = [])) \<and>
     (\<forall>m p. dj_marshalMap J m = Inr p \<longrightarrow>
        dj_unmarshalMap J (jb p) = Inr (map_option dec m) \<and> (p = ''null'' \<longleftrightarrow> m = None)) \<and>
     (\<forall>m. dec m = [] \<longleftrightarrow> m = [])"

text \<open>The unique keys and the references of the schema (\<^verbatim>\<open>src/migrations\<close>).\<close>

definition schemaUnique :: "(string \<times> string list) list" where
  "schemaUnique =
     [(''admins'', [''id'']), (''admins'', [''account'']), (''apps'', [''id'']), (''apps'', [''app_key'']),
      (''app_releases'', [''id'']), (''app_releases'', [''app_id'', ''platform'', ''version'', ''channel'']),
      (''licenses'', [''id'']), (''licenses'', [''license_key_hash'']), (''sdk_keys'', [''id'']),
      (''capability_policies'', [''app_id'', ''capability'']), (''devices'', [''id'']),
      (''devices'', [''device_fingerprint_hash'']), (''activations'', [''id'']),
      (''activations'', [''license_id'', ''device_id'']), (''integrity_reports'', [''id'']),
      (''risk_events'', [''id'']), (''audit_logs'', [''id'']), (''system_settings'', [''id''])]"

definition schemaReferences :: "(string \<times> string \<times> string \<times> string) list" where
  "schemaReferences =
     [(''app_releases'', ''app_id'', ''apps'', ''app_key''), (''licenses'', ''app_id'', ''apps'', ''app_key''),
      (''sdk_keys'', ''app_id'', ''apps'', ''app_key''), (''capability_policies'', ''app_id'', ''apps'', ''app_key''),
      (''activations'', ''license_id'', ''licenses'', ''id''), (''activations'', ''device_id'', ''devices'', ''id''),
      (''activations'', ''app_id'', ''apps'', ''app_key''), (''integrity_reports'', ''app_id'', ''apps'', ''app_key''),
      (''integrity_reports'', ''device_id'', ''devices'', ''id''), (''risk_events'', ''app_id'', ''apps'', ''app_key'')]"

definition schemaLaws ::
  "('db, 'tx) storeDB \<Rightarrow> (string \<Rightarrow> string) \<Rightarrow> ('tx \<Rightarrow> rows) \<Rightarrow> bool" where
  "schemaLaws D jb R \<longleftrightarrow>
     (\<forall>t columns args tx tx'. pg_insert D t columns args tx = Inr tx' \<longrightarrow>
        (\<forall>key. (t, key) \<in> set schemaUnique \<longrightarrow>
           (\<forall>m. m \<in># R tx t \<longrightarrow> (\<exists>c \<in> set key. m c \<noteq> storedRow jb columns args c))) \<and>
        (\<forall>c p pc. (t, c, p, pc) \<in> set schemaReferences \<longrightarrow>
           (\<exists>m. m \<in># R tx p \<and> m pc = storedRow jb columns args c)))"

section \<open>Tables, inserted and queried\<close>

definition tableCodec :: "(string \<Rightarrow> string) \<Rightarrow> 'a table \<Rightarrow> ('a \<Rightarrow> 'a) \<Rightarrow> bool" where
  "tableCodec jb T canon \<longleftrightarrow>
     distinct (tb_columns T) \<and>
     (\<forall>x args. tb_row T x = Inr args \<longrightarrow>
        length args = length (tb_columns T) \<and> tb_scan T (map (storedValue jb) args) = Inr (canon x))"

text \<open>The rows a list of items becomes.\<close>

definition rowsOf :: "(string \<Rightarrow> string) \<Rightarrow> 'a table \<Rightarrow> 'a list \<Rightarrow> (string \<rightharpoonup> sqlValue) list" where
  "rowsOf jb T items =
     map (\<lambda>x. storedRow jb (tb_columns T) (case tb_row T x of Inl _ \<Rightarrow> [] | Inr args \<Rightarrow> args)) items"

lemma storeLaws_begin: "storeLaws D jb R S \<Longrightarrow> pg_begin D ro db = Inr tx \<Longrightarrow> R tx = S db"
  unfolding storeLaws_def by (elim conjE) (simp only:)

lemma storeLaws_delete:
  "storeLaws D jb R S \<Longrightarrow> pg_delete D t tx = Inr tx' \<Longrightarrow> R tx' t = {#} \<and> (\<forall>u. R tx' u \<subseteq># R tx u)"
  unfolding storeLaws_def by (elim conjE) simp

lemma storeLaws_insert:
  "storeLaws D jb R S \<Longrightarrow> pg_insert D t columns args tx = Inr tx' \<Longrightarrow>
   R tx' = (R tx)(t := add_mset (storedRow jb columns args) (R tx t))"
  unfolding storeLaws_def by (elim conjE) (simp only:)

lemma storeLaws_select:
  "storeLaws D jb R S \<Longrightarrow> pg_select D t columns order tx = Inr rs \<Longrightarrow>
   \<exists>ms. mset ms = R tx t \<and> rs = map (\<lambda>m. map (\<lambda>c. the (m c)) columns) ms"
  unfolding storeLaws_def by (elim conjE) (simp only:)

lemma storeLaws_selectRow:
  "storeLaws D jb R S \<Longrightarrow> pg_selectRow D t columns c v tx = Inr row \<Longrightarrow>
   (case row of
      None \<Rightarrow> \<forall>m. m \<in># R tx t \<longrightarrow> m c \<noteq> Some v
    | Some r \<Rightarrow> \<exists>m. m \<in># R tx t \<and> m c = Some v \<and> r = map (\<lambda>c. the (m c)) columns)"
  unfolding storeLaws_def by (elim conjE) (simp only:)

lemma storeLaws_commit: "storeLaws D jb R S \<Longrightarrow> pg_commit D tx = Inr db \<Longrightarrow> S db = R tx"
  unfolding storeLaws_def by (elim conjE) (simp only:)

lemma sumBind_InrD: "sumBind r f = Inr y \<Longrightarrow> \<exists>x. r = Inr x \<and> f x = Inr y"
  by (auto simp: sumBind_def split: sum.splits)

lemma insertTable_rows:
  assumes "storeLaws D jb R S" and "insertTable D T items tx = Inr tx'"
  shows "R tx' = (R tx)(tb_name T := R tx (tb_name T) + mset (rowsOf jb T items)) \<and>
    (\<forall>x \<in> set items. \<exists>args. tb_row T x = Inr args)"
  using assms(2)
proof (induction items arbitrary: tx)
  case (Cons x items)
  from Cons.prems obtain args tx1 where
    x: "tb_row T x = Inr args" "pg_insert D (tb_name T) (tb_columns T) args tx = Inr tx1"
    "insertTable D T items tx1 = Inr tx'"
    by (auto dest!: sumBind_InrD split: sum.splits)
  have r: "R tx1 = (R tx)(tb_name T := add_mset (storedRow jb (tb_columns T) args) (R tx (tb_name T)))"
    by (rule storeLaws_insert [OF assms(1) x(2)])
  show ?case using Cons.IH [OF x(3)] x(1) by (auto simp: r rowsOf_def fun_eq_iff)
qed (simp add: rowsOf_def)

lemma storedRow_columns:
  "distinct columns \<Longrightarrow> length args = length columns \<Longrightarrow>
   map (\<lambda>c. the (storedRow jb columns args c)) columns = map (storedValue jb) args"
  by (intro nth_equalityI) (auto simp: storedRow_def map_of_zip_nth)

lemma scanRows_map:
  "\<forall>x \<in> set items. scan (row x) = Inr (canon x) \<Longrightarrow> scanRows scan (map row items) = Inr (map canon items)"
  by (induction items) (simp_all add: sumBind_def)

lemma scanRows_perm:
  assumes "mset rows = mset rows'" and "scanRows scan rows' = Inr xs"
  shows "\<exists>ys. scanRows scan rows = Inr ys \<and> mset ys = mset xs"
proof -
  have all: "scanRows scan rows = Inr (map (\<lambda>r. projr (scan r)) rows)" if "\<forall>r \<in> set rows. \<exists>x. scan r = Inr x" for rows
    using that by (induction rows) (auto simp: sumBind_def)
  have each: "\<forall>r \<in> set rows'. \<exists>x. scan r = Inr x" using assms(2)
    by (induction rows' arbitrary: xs) (auto dest!: sumBind_InrD)
  then have "xs = map (\<lambda>r. projr (scan r)) rows'" using all assms(2) by fastforce
  moreover have "\<forall>r \<in> set rows. \<exists>x. scan r = Inr x" using each assms(1) by (metis set_mset_mset)
  ultimately show ?thesis using all assms(1) by (metis mset_map)
qed

lemma queryTable_items:
  assumes laws: "storeLaws D jb R S" and codec: "tableCodec jb T canon"
    and rows: "R tx (tb_name T) = mset (rowsOf jb T items)" and enc: "\<forall>x \<in> set items. \<exists>args. tb_row T x = Inr args"
    and rs: "pg_select D (tb_name T) (tb_columns T) (tb_order T) tx = Inr rs"
  shows "\<exists>ys. queryTable D T tx = Inr ys \<and> mset ys = mset (map canon items)"
proof -
  obtain ms where ms: "mset ms = R tx (tb_name T)" "rs = map (\<lambda>m. map (\<lambda>c. the (m c)) (tb_columns T)) ms"
    using storeLaws_select [OF laws rs] by blast
  let ?row = "\<lambda>x. map (\<lambda>c. the (storedRow jb (tb_columns T) (case tb_row T x of Inl _ \<Rightarrow> [] | Inr args \<Rightarrow> args) c)) (tb_columns T)"
  have "mset rs = mset (map ?row items)"
    using ms rows by (simp add: rowsOf_def comp_def mset_map [symmetric] del: mset_map) (simp add: multiset.map_comp comp_def)
  moreover have "scanRows (tb_scan T) (map ?row items) = Inr (map canon items)"
  proof (rule scanRows_map, intro ballI)
    fix x assume "x \<in> set items"
    then obtain args where a: "tb_row T x = Inr args" using enc by blast
    then show "tb_scan T (?row x) = Inr (canon x)"
      using codec by (simp add: tableCodec_def storedRow_columns)
  qed
  ultimately have "\<exists>ys. scanRows (tb_scan T) rs = Inr ys \<and> mset ys = mset (map canon items)"
    by (rule scanRows_perm)
  then show ?thesis by (simp add: queryTable_def sumBind_def rs)
qed

section \<open>The tables of the store\<close>

lemma jsonLaws_strings:
  assumes "jsonLaws J jb dec" and "jsonForDB (dj_marshalStrings J) v [] = Inr p"
  shows "dj_unmarshalStrings J (jb p) = Inr v"
proof -
  obtain q where q: "dj_marshalStrings J v = Inr q" using assms(2) by (auto simp: jsonForDB_def split: sum.splits)
  show ?thesis
  proof (cases "q = ''null''")
    case True
    then have "v = []" "dj_marshalStrings J [] = Inr p"
      using assms q by (auto simp: jsonLaws_def jsonForDB_def)
    then show ?thesis using assms(1) by (auto simp: jsonLaws_def)
  next
    case False
    then show ?thesis using assms q by (auto simp: jsonLaws_def jsonForDB_def)
  qed
qed

lemma jsonLaws_map:
  assumes "jsonLaws J jb dec" and "jsonForDB (dj_marshalMap J) m (Some []) = Inr p"
  shows "dj_unmarshalMap J (jb p) = Inr (Some (dec (entriesOf m)))"
proof -
  obtain q where q: "dj_marshalMap J m = Inr q" using assms(2) by (auto simp: jsonForDB_def split: sum.splits)
  show ?thesis
  proof (cases "q = ''null''")
    case True
    then have "m = None" "dj_marshalMap J (Some []) = Inr p"
      using assms q by (auto simp: jsonLaws_def jsonForDB_def)
    moreover from this have "dj_unmarshalMap J (jb p) = Inr (map_option dec (Some []))"
      using assms(1) unfolding jsonLaws_def by blast
    ultimately show ?thesis by (simp add: entriesOf_def)
  next
    case False
    then have p: "dj_marshalMap J m = Inr p" using assms q by (auto simp: jsonForDB_def)
    then have "dj_unmarshalMap J (jb p) = Inr (map_option dec m)" using assms(1) unfolding jsonLaws_def by blast
    moreover have "m \<noteq> None" using assms(1) q False unfolding jsonLaws_def by blast
    ultimately show ?thesis by (auto simp: entriesOf_def)
  qed
qed

lemma noEmpty_dec: "jsonLaws J jb dec \<Longrightarrow> noEmpty (Some (dec (entriesOf m))) = noEmpty (map_option dec m)"
proof -
  assume "jsonLaws J jb dec"
  then have "dec [] = []" unfolding jsonLaws_def by blast
  then show ?thesis by (cases m) (simp_all add: entriesOf_def noEmpty_def)
qed

lemma stored_null:
  "storedValue jb (sqlNullTime t) = sqlNullTime (map_option micro t)"
  "nullTimeOf (sqlNullTime t) = t" "hasKind KNullTime (sqlNullTime t)"
  "storedValue jb (sqlNullBool b) = sqlNullBool b" "nullBoolOf (sqlNullBool b) = b"
  "hasKind KNullBool (sqlNullBool b)"
  by (cases t; cases b; simp add: sqlNullTime_def sqlNullBool_def hasKind_def)+

lemmas codec_simps = tableCodec_def scanAs_def stored_null

lemma adminTable_codec: "tableCodec jb (adminTable J) adminStored"
  by (simp add: codec_simps adminTable_def adminColumns_def adminRow_def adminScan_def adminStored_def hasKind_def)

lemma appTable_codec: "tableCodec jb (appTable J) appStored"
  by (simp add: codec_simps appTable_def appColumns_def appRow_def appScan_def appStored_def hasKind_def)

lemma releaseTable_codec: "tableCodec jb (releaseTable J) releaseStored"
  by (simp add: codec_simps releaseTable_def releaseColumns_def releaseRow_def releaseScan_def releaseStored_def hasKind_def)

lemma sdkKeyTable_codec: "tableCodec jb (sdkKeyTable J) sdkKeyStored"
  by (simp add: codec_simps sdkKeyTable_def sdkKeyColumns_def sdkKeyRow_def sdkKeyScan_def sdkKeyStored_def)
     (simp add: hasKind_def)

lemma deviceTable_codec: "tableCodec jb (deviceTable J) deviceStored"
  by (simp add: codec_simps deviceTable_def deviceColumns_def deviceRow_def deviceScan_def deviceStored_def hasKind_def)

lemma activationTable_codec: "tableCodec jb (activationTable J) activationStored"
  by (simp add: codec_simps activationTable_def activationColumns_def activationRow_def activationScan_def
      activationStored_def) (simp add: hasKind_def)

lemma policyTable_codec: "jsonLaws J jb dec \<Longrightarrow> tableCodec jb (policyTable J) (policyStored dec)"
  by (auto simp: codec_simps policyTable_def policyColumns_def policyRow_def policyScan_def policyStored_def
      hasKind_def dest!: sumBind_InrD dest: jsonLaws_map) (simp add: sumBind_def jsonLaws_map)

lemma licenseTable_codec: "jsonLaws J jb dec \<Longrightarrow> tableCodec jb (licenseTable J) licenseStored"
  by (auto simp: codec_simps licenseTable_def licenseColumns_def licenseRow_def licenseScan_def licenseStored_def
      hasKind_def dest!: sumBind_InrD) (simp add: sumBind_def jsonLaws_strings)

lemma riskEventTable_codec: "jsonLaws J jb dec \<Longrightarrow> tableCodec jb (riskEventTable J) (riskEventStored dec)"
  by (auto simp: codec_simps riskEventTable_def riskEventColumns_def riskEventRow_def riskEventScan_def
      riskEventStored_def dest!: sumBind_InrD)
     (simp add: sumBind_def jsonLaws_map noEmpty_dec hasKind_def)+

lemma auditLogTable_codec: "jsonLaws J jb dec \<Longrightarrow> tableCodec jb (auditLogTable J) (auditLogStored dec)"
  by (auto simp: codec_simps auditLogTable_def auditLogColumns_def auditLogRow_def auditLogScan_def
      auditLogStored_def dest!: sumBind_InrD)
     (simp add: sumBind_def jsonLaws_map noEmpty_dec hasKind_def)+

lemma reportTable_codec: "jsonLaws J jb dec \<Longrightarrow> tableCodec jb (reportTable J) reportStored"
  by (auto simp: codec_simps reportTable_def reportColumns_def reportRow_def reportScan_def
      reportStored_def dest!: sumBind_InrD)
     (simp add: sumBind_def jsonLaws_strings hasKind_def)+

section \<open>Saving and loading\<close>

lemma deleteTables_empty:
  assumes "storeLaws D jb R S"
  shows "deleteTables D ts tx = Inr tx' \<Longrightarrow> (\<forall>t \<in> set ts. R tx' t = {#}) \<and> (\<forall>u. R tx' u \<subseteq># R tx u)"
proof (induction ts arbitrary: tx)
  case (Cons t ts)
  then obtain tx1 where tx1: "pg_delete D t tx = Inr tx1" "deleteTables D ts tx1 = Inr tx'"
    by (auto dest!: sumBind_InrD)
  note d = storeLaws_delete [OF assms tx1(1)] and ih = Cons.IH [OF tx1(2)]
  from ih d have "R tx' t = {#}" by (metis subset_mset.le_zero_eq)
  moreover have "R tx' u \<subseteq># R tx u" for u using ih d subset_mset.order_trans by blast
  ultimately show ?case using ih by simp
qed simp

text \<open>The rows of a transaction, and of the database it is committed to, hold the items.\<close>

definition holds :: "(string \<Rightarrow> string) \<Rightarrow> rows \<Rightarrow> 'a table \<Rightarrow> 'a list \<Rightarrow> bool" where
  "holds jb rows T items \<longleftrightarrow>
     rows (tb_name T) = mset (rowsOf jb T items) \<and> (\<forall>x \<in> set items. \<exists>args. tb_row T x = Inr args)"

definition holdsData :: "(string \<Rightarrow> string) \<Rightarrow> dbCodec \<Rightarrow> rows \<Rightarrow> time \<Rightarrow> Data \<Rightarrow> bool" where
  "holdsData jb J rows now d \<longleftrightarrow>
     rows ''system_settings'' = {#storedRow jb (''id'' # settingsColumns)
       (SText ''system'' # settingsRow (normalizeSystemSettings now (data_Settings d)))#} \<and>
     holds jb rows (adminTable J) (data_Admins d) \<and> holds jb rows (appTable J) (data_Apps d) \<and>
     holds jb rows (releaseTable J) (data_Releases d) \<and> holds jb rows (sdkKeyTable J) (data_SDKKeys d) \<and>
     holds jb rows (policyTable J) (data_CapabilityPolicies d) \<and>
     holds jb rows (licenseTable J) (data_Licenses d) \<and> holds jb rows (deviceTable J) (data_Devices d) \<and>
     holds jb rows (activationTable J) (data_Activations d) \<and>
     holds jb rows (reportTable J) (data_IntegrityReports d) \<and>
     holds jb rows (riskEventTable J) (data_RiskEvents d) \<and>
     holds jb rows (auditLogTable J) (data_AuditLogs d)"

lemmas table_names = adminTable_def appTable_def releaseTable_def sdkKeyTable_def policyTable_def licenseTable_def
  deviceTable_def activationTable_def reportTable_def riskEventTable_def auditLogTable_def

lemma tb_names [simp]:
  "tb_name (adminTable J) = ''admins''" "tb_name (appTable J) = ''apps''"
  "tb_name (releaseTable J) = ''app_releases''" "tb_name (sdkKeyTable J) = ''sdk_keys''"
  "tb_name (policyTable J) = ''capability_policies''" "tb_name (licenseTable J) = ''licenses''"
  "tb_name (deviceTable J) = ''devices''" "tb_name (activationTable J) = ''activations''"
  "tb_name (reportTable J) = ''integrity_reports''" "tb_name (riskEventTable J) = ''risk_events''"
  "tb_name (auditLogTable J) = ''audit_logs''"
  by (simp_all add: table_names)

lemma insertTable_step:
  assumes "storeLaws D jb R S" and "insertTable D T items tx = Inr tx'"
  shows "u \<noteq> tb_name T \<Longrightarrow> R tx' u = R tx u" and "R tx' (tb_name T) = R tx (tb_name T) + mset (rowsOf jb T items)"
    and "\<forall>x \<in> set items. \<exists>args. tb_row T x = Inr args"
  using insertTable_rows [OF assms] by simp_all

lemma insertSettings_holds:
  assumes "storeLaws D jb R S" and "insertSettings D st tx = Inr tx'"
  shows "R tx' = (R tx)(''system_settings'' := add_mset (storedRow jb (''id'' # settingsColumns)
    (SText ''system'' # settingsRow st)) (R tx ''system_settings''))"
  using assms(2) storeLaws_insert [OF assms(1)] by (auto simp: insertSettings_def split: sum.splits)

lemma sumBindE:
  assumes "sumBind r f = Inr y" obtains x where "r = Inr x" "f x = Inr y"
  using sumBind_InrD [OF assms] by blast

lemma insertPostgresData_steps:
  assumes "insertPostgresData D J now d tx = Inr tx'"
  obtains t0 t1 t2 t3 t4 t5 t6 t7 t8 t9 t10 where
    "insertSettings D (normalizeSystemSettings now (data_Settings d)) tx = Inr t0" and
    "insertTable D (adminTable J) (data_Admins d) t0 = Inr t1" and
    "insertTable D (appTable J) (data_Apps d) t1 = Inr t2" and
    "insertTable D (releaseTable J) (data_Releases d) t2 = Inr t3" and
    "insertTable D (sdkKeyTable J) (data_SDKKeys d) t3 = Inr t4" and
    "insertTable D (policyTable J) (data_CapabilityPolicies d) t4 = Inr t5" and
    "insertTable D (licenseTable J) (data_Licenses d) t5 = Inr t6" and
    "insertTable D (deviceTable J) (data_Devices d) t6 = Inr t7" and
    "insertTable D (activationTable J) (data_Activations d) t7 = Inr t8" and
    "insertTable D (reportTable J) (data_IntegrityReports d) t8 = Inr t9" and
    "insertTable D (riskEventTable J) (data_RiskEvents d) t9 = Inr t10" and
    "insertTable D (auditLogTable J) (data_AuditLogs d) t10 = Inr tx'"
  using assms unfolding insertPostgresData_def by (elim sumBindE)

lemma insertPostgresData_holds:
  assumes laws: "storeLaws D jb R S" and run: "insertPostgresData D J now d tx = Inr tx'"
    and empty: "\<forall>t \<in> set postgresTables. R tx t = {#}"
  shows "holdsData jb J (R tx') now d"
proof -
  from run obtain t0 t1 t2 t3 t4 t5 t6 t7 t8 t9 t10 where
    i: "insertSettings D (normalizeSystemSettings now (data_Settings d)) tx = Inr t0"
    "insertTable D (adminTable J) (data_Admins d) t0 = Inr t1"
    "insertTable D (appTable J) (data_Apps d) t1 = Inr t2"
    "insertTable D (releaseTable J) (data_Releases d) t2 = Inr t3"
    "insertTable D (sdkKeyTable J) (data_SDKKeys d) t3 = Inr t4"
    "insertTable D (policyTable J) (data_CapabilityPolicies d) t4 = Inr t5"
    "insertTable D (licenseTable J) (data_Licenses d) t5 = Inr t6"
    "insertTable D (deviceTable J) (data_Devices d) t6 = Inr t7"
    "insertTable D (activationTable J) (data_Activations d) t7 = Inr t8"
    "insertTable D (reportTable J) (data_IntegrityReports d) t8 = Inr t9"
    "insertTable D (riskEventTable J) (data_RiskEvents d) t9 = Inr t10"
    "insertTable D (auditLogTable J) (data_AuditLogs d) t10 = Inr tx'"
    by (rule insertPostgresData_steps)
  have none: "R tx ''system_settings'' = {#}" "R tx ''admins'' = {#}" "R tx ''apps'' = {#}" "R tx ''app_releases'' = {#}"
    "R tx ''sdk_keys'' = {#}" "R tx ''capability_policies'' = {#}" "R tx ''licenses'' = {#}" "R tx ''devices'' = {#}"
    "R tx ''activations'' = {#}" "R tx ''integrity_reports'' = {#}" "R tx ''risk_events'' = {#}" "R tx ''audit_logs'' = {#}"
    using empty by (simp_all add: postgresTables_def)
  note step = insertTable_step [OF laws]
  note filled = step [OF i(2), unfolded tb_names] step [OF i(3), unfolded tb_names] step [OF i(4), unfolded tb_names]
    step [OF i(5), unfolded tb_names] step [OF i(6), unfolded tb_names] step [OF i(7), unfolded tb_names]
    step [OF i(8), unfolded tb_names] step [OF i(9), unfolded tb_names] step [OF i(10), unfolded tb_names]
    step [OF i(11), unfolded tb_names] step [OF i(12), unfolded tb_names]
  have first: "R t0 = (R tx)(''system_settings'' := {#storedRow jb (''id'' # settingsColumns)
      (SText ''system'' # settingsRow (normalizeSystemSettings now (data_Settings d)))#})"
    by (simp add: insertSettings_holds [OF laws i(1)] none)
  show ?thesis unfolding holdsData_def holds_def tb_names by (simp add: filled first none)
qed

text \<open>A save that succeeds leaves exactly the rows of the data.\<close>

lemma pgSave_None_iff:
  "pgSave D J now d db = (None, db') \<longleftrightarrow>
   (\<exists>tx0 tx1 tx2. pg_begin D False db = Inr tx0 \<and> deletePostgresData D tx0 = Inr tx1 \<and>
      insertPostgresData D J now d tx1 = Inr tx2 \<and> pg_commit D tx2 = Inr db')"
  by (auto simp: pgSave_def sumBind_def split: sum.splits)

lemma pgSave_holds:
  assumes "storeLaws D jb R S" and "pgSave D J now d db = (None, db')"
  shows "holdsData jb J (S db') now d"
proof -
  obtain tx0 tx1 tx2 where run: "deletePostgresData D tx0 = Inr tx1"
      "insertPostgresData D J now d tx1 = Inr tx2" "pg_commit D tx2 = Inr db'"
    using assms(2) by (auto simp: pgSave_None_iff)
  have "\<forall>t \<in> set postgresTables. R tx1 t = {#}"
    using deleteTables_empty [OF assms(1)] run(1) by (simp add: deletePostgresData_def)
  from insertPostgresData_holds [OF assms(1) run(2) this] show ?thesis
    by (simp add: storeLaws_commit [OF assms(1) run(3)])
qed

text \<open>The driver answers: no query fails. What a load makes of the answers is then its own doing.\<close>

definition driverAnswers :: "('db, 'tx) storeDB \<Rightarrow> bool" where
  "driverAnswers D \<longleftrightarrow>
     (\<forall>db. \<exists>tx. pg_begin D True db = Inr tx) \<and> (\<forall>t columns order tx. \<exists>rows. pg_select D t columns order tx = Inr rows) \<and>
     (\<forall>t columns c v tx. \<exists>row. pg_selectRow D t columns c v tx = Inr row) \<and> (\<forall>tx. \<exists>db. pg_commit D tx = Inr db)"

lemma holds_query:
  assumes "storeLaws D jb R S" and "driverAnswers D" and "tableCodec jb T canon" and "holds jb (R tx) T items"
  shows "\<exists>ys. queryTable D T tx = Inr ys \<and> mset ys = mset (map canon items)"
  using assms queryTable_items [OF assms(1,3)] unfolding holds_def driverAnswers_def by metis

lemma settings_query:
  assumes laws: "storeLaws D jb R S" and answers: "driverAnswers D"
    and row: "R tx ''system_settings'' = {#storedRow jb (''id'' # settingsColumns) (SText ''system'' # settingsRow st)#}"
  shows "querySystemSettings D tx = Inr (settingsStored st)"
proof -
  let ?m = "storedRow jb (''id'' # settingsColumns) (SText ''system'' # settingsRow st)"
  obtain r where r: "pg_selectRow D ''system_settings'' settingsColumns ''id'' (SText ''system'') tx = Inr r"
    using answers unfolding driverAnswers_def by blast
  have "?m ''id'' = Some (SText ''system'')" by (simp add: storedRow_def)
  then have v: "r = Some (map (\<lambda>c. the (?m c)) settingsColumns)"
    using storeLaws_selectRow [OF laws r] by (cases r) (auto simp: row)
  have "map (\<lambda>c. the (?m c)) settingsColumns = map (storedValue jb) (settingsRow st)"
    by (simp add: storedRow_def settingsColumns_def settingsRow_def)
  moreover have "settingsScan (map (storedValue jb) (settingsRow st)) = Inr (settingsStored st)"
    by (simp add: settingsScan_def settingsRow_def scanAs_def hasKind_def settingsStored_def)
  ultimately show ?thesis by (simp add: querySystemSettings_def sumBind_def r v)
qed

text \<open>The data as it comes back, up to the order of the items within each table.\<close>

definition storedData :: "(gmap \<Rightarrow> gmap) \<Rightarrow> time \<Rightarrow> Data \<Rightarrow> Data" where
  "storedData dec now d =
     \<lparr> data_Admins = map adminStored (data_Admins d), data_Apps = map appStored (data_Apps d),
       data_Releases = map releaseStored (data_Releases d), data_SDKKeys = map sdkKeyStored (data_SDKKeys d),
       data_Licenses = map licenseStored (data_Licenses d),
       data_CapabilityPolicies = map (policyStored dec) (data_CapabilityPolicies d),
       data_Devices = map deviceStored (data_Devices d),
       data_Activations = map activationStored (data_Activations d),
       data_IntegrityReports = map reportStored (data_IntegrityReports d),
       data_RiskEvents = map (riskEventStored dec) (data_RiskEvents d),
       data_AuditLogs = map (auditLogStored dec) (data_AuditLogs d),
       data_Settings = settingsStored (normalizeSystemSettings now (data_Settings d)) \<rparr>"

definition sameItems :: "Data \<Rightarrow> Data \<Rightarrow> bool" where
  "sameItems d d' \<longleftrightarrow>
     mset (data_Admins d) = mset (data_Admins d') \<and> mset (data_Apps d) = mset (data_Apps d') \<and>
     mset (data_Releases d) = mset (data_Releases d') \<and> mset (data_SDKKeys d) = mset (data_SDKKeys d') \<and>
     mset (data_Licenses d) = mset (data_Licenses d') \<and>
     mset (data_CapabilityPolicies d) = mset (data_CapabilityPolicies d') \<and>
     mset (data_Devices d) = mset (data_Devices d') \<and> mset (data_Activations d) = mset (data_Activations d') \<and>
     mset (data_IntegrityReports d) = mset (data_IntegrityReports d') \<and>
     mset (data_RiskEvents d) = mset (data_RiskEvents d') \<and> mset (data_AuditLogs d) = mset (data_AuditLogs d') \<and>
     data_Settings d = data_Settings d'"

lemma pgRead_holds:
  assumes laws: "storeLaws D jb R S" and answers: "driverAnswers D" and json: "jsonLaws J jb dec"
    and rows: "holdsData jb J (R tx) now d"
  shows "\<exists>d'. pgRead D J tx = Inr d' \<and> sameItems d' (storedData dec now d)"
proof -
  note q = holds_query [OF laws answers]
  note h = rows [unfolded holdsData_def]
  have st: "querySystemSettings D tx = Inr (settingsStored (normalizeSystemSettings now (data_Settings d)))"
    by (rule settings_query [OF laws answers]) (use h in blast)
  obtain a where a: "queryTable D (adminTable J) tx = Inr a" "mset a = mset (map adminStored (data_Admins d))"
    using q [OF adminTable_codec] h by blast
  obtain b where b: "queryTable D (appTable J) tx = Inr b" "mset b = mset (map appStored (data_Apps d))"
    using q [OF appTable_codec] h by blast
  obtain c where c: "queryTable D (releaseTable J) tx = Inr c" "mset c = mset (map releaseStored (data_Releases d))"
    using q [OF releaseTable_codec] h by blast
  obtain e where e: "queryTable D (sdkKeyTable J) tx = Inr e" "mset e = mset (map sdkKeyStored (data_SDKKeys d))"
    using q [OF sdkKeyTable_codec] h by blast
  obtain f where f: "queryTable D (licenseTable J) tx = Inr f" "mset f = mset (map licenseStored (data_Licenses d))"
    using q [OF licenseTable_codec [OF json]] h by blast
  obtain g where g: "queryTable D (policyTable J) tx = Inr g"
      "mset g = mset (map (policyStored dec) (data_CapabilityPolicies d))"
    using q [OF policyTable_codec [OF json]] h by blast
  obtain k where k: "queryTable D (deviceTable J) tx = Inr k" "mset k = mset (map deviceStored (data_Devices d))"
    using q [OF deviceTable_codec] h by blast
  obtain l where l: "queryTable D (activationTable J) tx = Inr l" "mset l = mset (map activationStored (data_Activations d))"
    using q [OF activationTable_codec] h by blast
  obtain m where m: "queryTable D (reportTable J) tx = Inr m" "mset m = mset (map reportStored (data_IntegrityReports d))"
    using q [OF reportTable_codec [OF json]] h by blast
  obtain n where n: "queryTable D (riskEventTable J) tx = Inr n"
      "mset n = mset (map (riskEventStored dec) (data_RiskEvents d))"
    using q [OF riskEventTable_codec [OF json]] h by blast
  obtain p where p: "queryTable D (auditLogTable J) tx = Inr p"
      "mset p = mset (map (auditLogStored dec) (data_AuditLogs d))"
    using q [OF auditLogTable_codec [OF json]] h by blast
  note eqs = a b c e f g k l m n p st
  show ?thesis unfolding pgRead_def by (simp add: sumBind_def eqs) (simp add: sameItems_def storedData_def eqs)
qed

lemma sameItems_empty: "sameItems d d' \<Longrightarrow> dataIsEmpty d = dataIsEmpty d'"
  unfolding sameItems_def dataIsEmpty_def by (metis size_mset)

lemma dataIsEmpty_stored: "dataIsEmpty (storedData dec now d) = dataIsEmpty d"
  by (simp add: dataIsEmpty_def storedData_def)


section \<open>Keys and references\<close>

text \<open>What the unique keys and the references of the schema promise of the rows: an invariant of a
  transaction that starts from empty tables.\<close>

definition consistentRows :: "rows \<Rightarrow> bool" where
  "consistentRows rows \<longleftrightarrow>
     (\<forall>t key. (t, key) \<in> set schemaUnique \<longrightarrow> (\<exists>ms. mset ms = rows t \<and> distinct (map (\<lambda>m. map m key) ms))) \<and>
     (\<forall>t c p pc. (t, c, p, pc) \<in> set schemaReferences \<longrightarrow> (\<forall>r. r \<in># rows t \<longrightarrow> (\<exists>m. m \<in># rows p \<and> m pc = r c)))"

lemma schemaLaws_insert:
  assumes "schemaLaws D jb R" and "pg_insert D t columns args tx = Inr tx'"
  shows "(t, key) \<in> set schemaUnique \<Longrightarrow> m \<in># R tx t \<Longrightarrow> map m key \<noteq> map (storedRow jb columns args) key"
    and "(t, c, p, pc) \<in> set schemaReferences \<Longrightarrow> \<exists>m. m \<in># R tx p \<and> m pc = storedRow jb columns args c"
  using assms unfolding schemaLaws_def map_eq_conv by blast+

lemma consistentRows_insert:
  assumes laws: "storeLaws D jb R S" and schema: "schemaLaws D jb R"
    and run: "pg_insert D t columns args tx = Inr tx'" and inv: "consistentRows (R tx)"
  shows "consistentRows (R tx')"
proof -
  let ?r = "storedRow jb columns args"
  note rows = storeLaws_insert [OF laws run]
  have "\<exists>ms. mset ms = R tx' u \<and> distinct (map (\<lambda>m. map m key) ms)" if k: "(u, key) \<in> set schemaUnique" for u key
  proof -
    obtain ms where ms: "mset ms = R tx u" "distinct (map (\<lambda>m. map m key) ms)"
      using inv k unfolding consistentRows_def by blast
    show ?thesis
    proof (cases "u = t")
      case True
      have "map m key \<noteq> map ?r key" if "m \<in> set ms" for m
        using schemaLaws_insert(1) [OF schema run k [unfolded True]] that ms(1) True by (metis set_mset_mset)
      then have "distinct (map (\<lambda>m. map m key) (?r # ms))" using ms(2) by fastforce
      then show ?thesis using ms True rows by (intro exI [of _ "?r # ms"]) simp
    qed (use ms rows in auto)
  qed
  moreover have "\<exists>m. m \<in># R tx' p \<and> m pc = r c"
    if "(u, c, p, pc) \<in> set schemaReferences" "r \<in># R tx' u" for u c p pc r
  proof -
    have "\<exists>m. m \<in># R tx p \<and> m pc = r c"
      using that inv schemaLaws_insert(2) [OF schema run] rows unfolding consistentRows_def
      by (cases "u = t") auto
    then show ?thesis using rows by auto
  qed
  ultimately show ?thesis unfolding consistentRows_def by blast
qed

lemma consistentRows_insertTable:
  assumes "storeLaws D jb R S" and "schemaLaws D jb R"
  shows "insertTable D T items tx = Inr tx' \<Longrightarrow> consistentRows (R tx) \<Longrightarrow> consistentRows (R tx')"
proof (induction items arbitrary: tx)
  case (Cons x items)
  then obtain args tx1 where
    x: "pg_insert D (tb_name T) (tb_columns T) args tx = Inr tx1" "insertTable D T items tx1 = Inr tx'"
    by (auto dest!: sumBind_InrD split: sum.splits)
  show ?case by (rule Cons.IH [OF x(2) consistentRows_insert [OF assms x(1) Cons.prems(2)]])
qed simp

lemma consistentRows_insertSettings:
  assumes "storeLaws D jb R S" and "schemaLaws D jb R"
    and "insertSettings D st tx = Inr tx'" and "consistentRows (R tx)"
  shows "consistentRows (R tx')"
  using assms(3,4) by (auto simp: insertSettings_def split: sum.splits intro: consistentRows_insert [OF assms(1,2)])

lemma consistentRows_empty: "(\<And>t. t \<in> set postgresTables \<Longrightarrow> rows t = {#}) \<Longrightarrow> consistentRows rows"
  unfolding consistentRows_def schemaUnique_def schemaReferences_def postgresTables_def by fastforce

lemma pgSave_consistent:
  assumes laws: "storeLaws D jb R S" and schema: "schemaLaws D jb R" and save: "pgSave D J now d db = (None, db')"
  shows "consistentRows (S db')"
proof -
  obtain tx0 tx1 tx2 where run: "deletePostgresData D tx0 = Inr tx1"
      "insertPostgresData D J now d tx1 = Inr tx2" "pg_commit D tx2 = Inr db'"
    using save by (auto simp: pgSave_None_iff)
  have "consistentRows (R tx1)"
    using deleteTables_empty [OF laws] run(1) by (intro consistentRows_empty) (simp add: deletePostgresData_def)
  with run(2) have "consistentRows (R tx2)"
    by (elim insertPostgresData_steps)
      (rule consistentRows_insertTable [OF laws schema] consistentRows_insertSettings [OF laws schema], assumption)+
  then show ?thesis by (simp add: storeLaws_commit [OF laws run(3)])
qed


text \<open>A column that holds a text field of the item.\<close>

definition textColumn :: "(string \<Rightarrow> string) \<Rightarrow> 'a table \<Rightarrow> string \<Rightarrow> ('a \<Rightarrow> string) \<Rightarrow> bool" where
  "textColumn jb T c f \<longleftrightarrow>
     (\<forall>x args. tb_row T x = Inr args \<longrightarrow> storedRow jb (tb_columns T) args c = Some (SText (f x)))"

lemma rowsOf_columns:
  assumes "list_all2 (textColumn jb T) cs fs" and "\<forall>x \<in> set items. \<exists>args. tb_row T x = Inr args"
  shows "map (\<lambda>r. map r cs) (rowsOf jb T items) = map (\<lambda>x. map (\<lambda>f. Some (SText (f x))) fs) items"
proof -
  have "map r cs = map (\<lambda>f. Some (SText (f x))) fs"
    if "r = storedRow jb (tb_columns T) args" "tb_row T x = Inr args" for r x args
    using assms(1) that by (induction rule: list_all2_induct) (auto simp: textColumn_def)
  then show ?thesis using assms(2) by (fastforce simp: rowsOf_def)
qed

lemma keys_distinct:
  assumes inv: "consistentRows rows" and held: "holds jb rows T items" and key: "(tb_name T, cs) \<in> set schemaUnique"
    and cols: "list_all2 (textColumn jb T) cs fs"
  shows "distinct (map (\<lambda>x. map (\<lambda>f. f x) fs) items)"
proof -
  obtain ms where ms: "mset ms = rows (tb_name T)" "distinct (map (\<lambda>m. map m cs) ms)"
    using inv key unfolding consistentRows_def by blast
  have "mset (map (\<lambda>m. map m cs) ms) = mset (map (\<lambda>r. map r cs) (rowsOf jb T items))"
    using held ms(1) by (simp add: holds_def del: mset_map) (metis mset_map)
  then have "distinct (map (\<lambda>r. map r cs) (rowsOf jb T items))" using ms(2) mset_eq_imp_distinct_iff by blast
  then have "distinct (map (\<lambda>x. map (\<lambda>f. Some (SText (f x))) fs) items)"
    using rowsOf_columns [OF cols] held by (simp add: holds_def)
  then have "distinct (map (map (\<lambda>s. Some (SText s))) (map (\<lambda>x. map (\<lambda>f. f x) fs) items))"
    by (simp add: comp_def)
  then show ?thesis using distinct_map by blast
qed

lemma references_subset:
  assumes inv: "consistentRows rows" and held: "holds jb rows T items" and parents: "holds jb rows P parents"
    and ref: "(tb_name T, c, tb_name P, pc) \<in> set schemaReferences"
    and cols: "textColumn jb T c f" "textColumn jb P pc g"
  shows "f ` set items \<subseteq> g ` set parents"
proof (rule image_subsetI)
  fix x assume x: "x \<in> set items"
  then obtain args where a: "tb_row T x = Inr args" using held by (auto simp: holds_def)
  let ?r = "storedRow jb (tb_columns T) args"
  have "?r \<in># rows (tb_name T)" using held x a by (force simp: holds_def rowsOf_def)
  then obtain m where m: "m \<in># rows (tb_name P)" "m pc = ?r c"
    using inv ref unfolding consistentRows_def by blast
  then obtain y where y: "y \<in> set parents"
      "m = storedRow jb (tb_columns P) (case tb_row P y of Inl _ \<Rightarrow> [] | Inr args \<Rightarrow> args)"
    using parents by (auto simp: holds_def rowsOf_def)
  moreover obtain args' where "tb_row P y = Inr args'" using parents y(1) by (auto simp: holds_def)
  ultimately have "m pc = Some (SText (g y))" using cols(2) by (simp add: textColumn_def)
  then have "f x = g y" using cols(1) a m(2) by (simp add: textColumn_def)
  then show "f x \<in> g ` set parents" using y(1) by blast
qed

lemmas column_simps = textColumn_def storedRow_def

lemma app_textColumns: "textColumn jb (appTable J) ''app_key'' app_AppKey"
  by (simp add: column_simps appTable_def appColumns_def appRow_def)

lemma admin_textColumns: "textColumn jb (adminTable J) ''account'' adm_Account"
  by (simp add: column_simps adminTable_def adminColumns_def adminRow_def)

lemma release_textColumns:
  "textColumn jb (releaseTable J) ''app_id'' rel_AppID" "textColumn jb (releaseTable J) ''platform'' rel_Platform"
  "textColumn jb (releaseTable J) ''version'' rel_Version" "textColumn jb (releaseTable J) ''channel'' rel_Channel"
  by (simp_all add: column_simps releaseTable_def releaseColumns_def releaseRow_def)

lemma sdkKey_textColumns: "textColumn jb (sdkKeyTable J) ''app_id'' sdk_AppID"
  by (simp add: column_simps sdkKeyTable_def sdkKeyColumns_def sdkKeyRow_def)

lemma policy_textColumns:
  "textColumn jb (policyTable J) ''app_id'' pol_AppID" "textColumn jb (policyTable J) ''capability'' pol_Capability"
  by (auto simp: column_simps policyTable_def policyColumns_def policyRow_def elim!: sumBindE)

lemma license_textColumns:
  "textColumn jb (licenseTable J) ''id'' lic_ID" "textColumn jb (licenseTable J) ''app_id'' lic_AppID"
  "textColumn jb (licenseTable J) ''license_key_hash'' lic_LicenseKeyHash"
  by (auto simp: column_simps licenseTable_def licenseColumns_def licenseRow_def elim!: sumBindE)

lemma device_textColumns:
  "textColumn jb (deviceTable J) ''id'' dev_ID"
  "textColumn jb (deviceTable J) ''device_fingerprint_hash'' dev_DeviceFingerprintHash"
  by (simp_all add: column_simps deviceTable_def deviceColumns_def deviceRow_def)

lemma activation_textColumns:
  "textColumn jb (activationTable J) ''license_id'' act_LicenseID"
  "textColumn jb (activationTable J) ''device_id'' act_DeviceID" "textColumn jb (activationTable J) ''app_id'' act_AppID"
  by (simp_all add: column_simps activationTable_def activationColumns_def activationRow_def)

lemma report_textColumns:
  "textColumn jb (reportTable J) ''app_id'' ir_AppID" "textColumn jb (reportTable J) ''device_id'' ir_DeviceID"
  by (auto simp: column_simps reportTable_def reportColumns_def reportRow_def elim!: sumBindE)

lemma riskEvent_textColumns: "textColumn jb (riskEventTable J) ''app_id'' risk_AppID"
  by (auto simp: column_simps riskEventTable_def riskEventColumns_def riskEventRow_def elim!: sumBindE)

lemmas textColumns = app_textColumns admin_textColumns release_textColumns sdkKey_textColumns policy_textColumns
  license_textColumns device_textColumns activation_textColumns report_textColumns riskEvent_textColumns


lemma distinct_singletons: "distinct (map (\<lambda>x. [f x]) xs) \<longleftrightarrow> distinct (map f xs)"
  by (simp add: distinct_map inj_on_def)

lemma consistent_keys:
  assumes "consistentRows rows" and "holdsData jb J rows now d"
  shows "distinct (map app_AppKey (data_Apps d))" and "distinct (map adm_Account (data_Admins d))"
    and "distinct (map lic_LicenseKeyHash (data_Licenses d))"
    and "distinct (map dev_DeviceFingerprintHash (data_Devices d))"
    and "distinct (map (\<lambda>r. [rel_AppID r, rel_Platform r, rel_Version r, rel_Channel r]) (data_Releases d))"
    and "distinct (map (\<lambda>p. [pol_AppID p, pol_Capability p]) (data_CapabilityPolicies d))"
    and "distinct (map (\<lambda>a. [act_LicenseID a, act_DeviceID a]) (data_Activations d))"
proof -
  note h = assms(2) [unfolded holdsData_def]
  note key = keys_distinct [OF assms(1)]
  note keyed = schemaUnique_def textColumns distinct_singletons
  show "distinct (map app_AppKey (data_Apps d))"
    using key [of jb "appTable J" "data_Apps d" "[''app_key'']" "[app_AppKey]"] h by (simp add: keyed)
  show "distinct (map adm_Account (data_Admins d))"
    using key [of jb "adminTable J" "data_Admins d" "[''account'']" "[adm_Account]"] h by (simp add: keyed)
  show "distinct (map lic_LicenseKeyHash (data_Licenses d))"
    using key [of jb "licenseTable J" "data_Licenses d" "[''license_key_hash'']" "[lic_LicenseKeyHash]"] h
    by (simp add: keyed)
  show "distinct (map dev_DeviceFingerprintHash (data_Devices d))"
    using key [of jb "deviceTable J" "data_Devices d" "[''device_fingerprint_hash'']" "[dev_DeviceFingerprintHash]"] h
    by (simp add: keyed)
  show "distinct (map (\<lambda>r. [rel_AppID r, rel_Platform r, rel_Version r, rel_Channel r]) (data_Releases d))"
    using key [of jb "releaseTable J" "data_Releases d" "[''app_id'', ''platform'', ''version'', ''channel'']"
      "[rel_AppID, rel_Platform, rel_Version, rel_Channel]"] h by (simp add: keyed)
  show "distinct (map (\<lambda>p. [pol_AppID p, pol_Capability p]) (data_CapabilityPolicies d))"
    using key [of jb "policyTable J" "data_CapabilityPolicies d" "[''app_id'', ''capability'']"
      "[pol_AppID, pol_Capability]"] h by (simp add: keyed)
  show "distinct (map (\<lambda>a. [act_LicenseID a, act_DeviceID a]) (data_Activations d))"
    using key [of jb "activationTable J" "data_Activations d" "[''license_id'', ''device_id'']"
      "[act_LicenseID, act_DeviceID]"] h by (simp add: keyed)
qed

lemma consistent_references:
  assumes "consistentRows rows" and "holdsData jb J rows now d"
  shows "rel_AppID ` set (data_Releases d) \<subseteq> app_AppKey ` set (data_Apps d)"
    and "sdk_AppID ` set (data_SDKKeys d) \<subseteq> app_AppKey ` set (data_Apps d)"
    and "pol_AppID ` set (data_CapabilityPolicies d) \<subseteq> app_AppKey ` set (data_Apps d)"
    and "lic_AppID ` set (data_Licenses d) \<subseteq> app_AppKey ` set (data_Apps d)"
    and "act_AppID ` set (data_Activations d) \<subseteq> app_AppKey ` set (data_Apps d)"
    and "ir_AppID ` set (data_IntegrityReports d) \<subseteq> app_AppKey ` set (data_Apps d)"
    and "risk_AppID ` set (data_RiskEvents d) \<subseteq> app_AppKey ` set (data_Apps d)"
    and "act_LicenseID ` set (data_Activations d) \<subseteq> lic_ID ` set (data_Licenses d)"
    and "act_DeviceID ` set (data_Activations d) \<subseteq> dev_ID ` set (data_Devices d)"
    and "ir_DeviceID ` set (data_IntegrityReports d) \<subseteq> dev_ID ` set (data_Devices d)"
proof -
  from assms(2) have h: "holds jb rows (appTable J) (data_Apps d)" "holds jb rows (releaseTable J) (data_Releases d)"
    "holds jb rows (sdkKeyTable J) (data_SDKKeys d)" "holds jb rows (policyTable J) (data_CapabilityPolicies d)"
    "holds jb rows (licenseTable J) (data_Licenses d)" "holds jb rows (deviceTable J) (data_Devices d)"
    "holds jb rows (activationTable J) (data_Activations d)" "holds jb rows (reportTable J) (data_IntegrityReports d)"
    "holds jb rows (riskEventTable J) (data_RiskEvents d)"
    unfolding holdsData_def by blast+
  note ref = references_subset [OF assms(1)]
  note app = ref [OF _ h(1) _ _ app_textColumns, unfolded tb_names]
  show "rel_AppID ` set (data_Releases d) \<subseteq> app_AppKey ` set (data_Apps d)"
    by (rule app [OF h(2)]) (rule release_textColumns | simp add: schemaReferences_def)+
  show "sdk_AppID ` set (data_SDKKeys d) \<subseteq> app_AppKey ` set (data_Apps d)"
    by (rule app [OF h(3)]) (rule sdkKey_textColumns | simp add: schemaReferences_def)+
  show "pol_AppID ` set (data_CapabilityPolicies d) \<subseteq> app_AppKey ` set (data_Apps d)"
    by (rule app [OF h(4)]) (rule policy_textColumns | simp add: schemaReferences_def)+
  show "lic_AppID ` set (data_Licenses d) \<subseteq> app_AppKey ` set (data_Apps d)"
    by (rule app [OF h(5)]) (rule license_textColumns | simp add: schemaReferences_def)+
  show "act_AppID ` set (data_Activations d) \<subseteq> app_AppKey ` set (data_Apps d)"
    by (rule app [OF h(7)]) (rule activation_textColumns | simp add: schemaReferences_def)+
  show "ir_AppID ` set (data_IntegrityReports d) \<subseteq> app_AppKey ` set (data_Apps d)"
    by (rule app [OF h(8)]) (rule report_textColumns | simp add: schemaReferences_def)+
  show "risk_AppID ` set (data_RiskEvents d) \<subseteq> app_AppKey ` set (data_Apps d)"
    by (rule app [OF h(9)]) (rule riskEvent_textColumns | simp add: schemaReferences_def)+
  show "act_LicenseID ` set (data_Activations d) \<subseteq> lic_ID ` set (data_Licenses d)"
    by (rule ref [OF h(7) h(5)]) (rule activation_textColumns license_textColumns | simp add: schemaReferences_def)+
  show "act_DeviceID ` set (data_Activations d) \<subseteq> dev_ID ` set (data_Devices d)"
    by (rule ref [OF h(7) h(6)]) (rule activation_textColumns device_textColumns | simp add: schemaReferences_def)+
  show "ir_DeviceID ` set (data_IntegrityReports d) \<subseteq> dev_ID ` set (data_Devices d)"
    by (rule ref [OF h(8) h(6)]) (rule report_textColumns device_textColumns | simp add: schemaReferences_def)+
qed

end
