(* ===== verification/StoreProps.thy ===== *)
theory StoreProps
  imports PostgresProps AdminApps Samples
begin

text \<open>
  The properties of the PostgreSQL store: what is saved is what is loaded, only consistent data can be
  saved, and a release that the server accepts twice makes every later save fail. The witnesses run against
  a small database with the unique keys and the references of the schema.
\<close>

section \<open>A database in memory\<close>

type_synonym memDB = "string \<Rightarrow> (string \<rightharpoonup> sqlValue) list"

definition memInsert :: "string \<Rightarrow> string list \<Rightarrow> sqlValue list \<Rightarrow> memDB \<Rightarrow> string + memDB" where
  "memInsert t columns args tx =
     (let row = storedRow (\<lambda>s. s) columns args in
      if list_all (\<lambda>(u, key). u = t \<longrightarrow> list_all (\<lambda>m. map m key \<noteq> map row key) (tx t)) schemaUnique \<and>
         list_all (\<lambda>(u, c, p, pc). u = t \<longrightarrow> list_ex (\<lambda>m. m pc = row c) (tx p)) schemaReferences
      then Inr (tx(t := row # tx t))
      else Inl ''violates a constraint'')"

definition memDriver :: "(memDB, memDB) storeDB" where
  "memDriver =
     \<lparr> pg_connect = (\<lambda>url. None), pg_begin = (\<lambda>ro db. Inr db), pg_delete = (\<lambda>t tx. Inr (tx(t := []))),
       pg_insert = memInsert,
       pg_select = (\<lambda>t columns order tx. Inr (map (\<lambda>m. map (\<lambda>c. the (m c)) columns) (tx t))),
       pg_selectRow = (\<lambda>t columns c v tx.
         Inr (map_option (\<lambda>m. map (\<lambda>c. the (m c)) columns) (find (\<lambda>m. m c = Some v) (tx t)))),
       pg_commit = (\<lambda>tx. Inr tx) \<rparr>"

definition memRows :: "memDB \<Rightarrow> rows" where
  "memRows tx t = mset (tx t)"

text \<open>A list of strings is written one per line.\<close>

fun unlinesAux :: "string \<Rightarrow> string \<Rightarrow> string list" where
  "unlinesAux acc [] = []"
| "unlinesAux acc (c # s) = (if c = CHR ''~'' then rev acc # unlinesAux [] s else unlinesAux (c # acc) s)"

definition lineCodec :: dbCodec where
  "lineCodec =
     \<lparr> dj_marshalStrings = (\<lambda>v. if list_all (\<lambda>s. CHR ''~'' \<notin> set s) v then Inr (concat (map (\<lambda>s. s @ ''~'') v)) else Inl ''json''),
       dj_unmarshalStrings = (\<lambda>p. Inr (unlinesAux [] p)),
       dj_marshalMap = (\<lambda>m. case m of None \<Rightarrow> Inr ''null'' | Some [] \<Rightarrow> Inr ''{}'' | Some _ \<Rightarrow> Inl ''json''),
       dj_unmarshalMap = (\<lambda>p. Inr (if p = ''null'' then None else Some [])),
       dj_redactURL = (\<lambda>s. None) \<rparr>"

lemma unlinesAux_lines:
  "list_all (\<lambda>s. CHR ''~'' \<notin> set s) v \<Longrightarrow> unlinesAux [] (concat (map (\<lambda>s. s @ ''~'') v)) = v"
proof -
  have line: "CHR ''~'' \<notin> set s \<Longrightarrow> unlinesAux acc (s @ CHR ''~'' # rest) = (rev acc @ s) # unlinesAux [] rest" for s acc rest
    by (induction s arbitrary: acc) auto
  show "list_all (\<lambda>s. CHR ''~'' \<notin> set s) v \<Longrightarrow> ?thesis" by (induction v) (auto simp: line)
qed

lemma lineCodec_laws: "jsonLaws lineCodec (\<lambda>s. s) (\<lambda>m. m)"
proof -
  have "concat (map (\<lambda>s. s @ ''~'') v) \<noteq> ''null''" for v
  proof
    assume eq: "concat (map (\<lambda>s. s @ ''~'') v) = ''null''"
    then have "v \<noteq> []" by auto
    then have "CHR ''~'' \<in> set (concat (map (\<lambda>s. s @ ''~'') v))" by (cases v) auto
    then show False by (simp add: eq)
  qed
  then show ?thesis
    by (auto simp: jsonLaws_def lineCodec_def unlinesAux_lines split: if_splits option.splits list.splits)
qed

lemma memDriver_sel [simp]:
  "pg_begin memDriver ro db = Inr db" "pg_delete memDriver t tx = Inr (tx(t := []))" "pg_insert memDriver = memInsert"
  "pg_select memDriver t columns order tx = Inr (map (\<lambda>m. map (\<lambda>c. the (m c)) columns) (tx t))"
  "pg_selectRow memDriver t columns c v tx =
     Inr (map_option (\<lambda>m. map (\<lambda>c. the (m c)) columns) (find (\<lambda>m. m c = Some v) (tx t)))"
  "pg_commit memDriver tx = Inr tx"
  by (simp_all add: memDriver_def)

lemma memRows_update: "memRows (tx(t := ms)) = (memRows tx)(t := mset ms)"
  by (simp add: memRows_def fun_eq_iff)

lemma memInsert_InrD: "memInsert t columns args tx = Inr tx' \<Longrightarrow> tx' = tx(t := storedRow (\<lambda>s. s) columns args # tx t)"
  by (simp add: memInsert_def Let_def split: if_splits)

lemma memDriver_laws: "storeLaws memDriver (\<lambda>s. s) memRows memRows"
proof -
  have "case find (\<lambda>m. m c = Some v) (tx t) of
      None \<Rightarrow> \<forall>m. m \<in># memRows tx t \<longrightarrow> m c \<noteq> Some v
    | Some r \<Rightarrow> r \<in># memRows tx t \<and> r c = Some v" for t c v tx
    by (auto simp: memRows_def find_None_iff find_Some_iff split: option.split)
  note find = this
  have row: "case row of
      None \<Rightarrow> \<forall>m. m \<in># memRows tx t \<longrightarrow> m c \<noteq> Some v
    | Some r \<Rightarrow> \<exists>m. m \<in># memRows tx t \<and> m c = Some v \<and> r = map (\<lambda>c. the (m c)) columns"
    if "pg_selectRow memDriver t columns c v tx = Inr row" for t columns c v tx row
    using that find [where t = t and c = c and v = v and tx = tx] by (cases "find (\<lambda>m. m c = Some v) (tx t)") auto
  have ins: "memRows tx' = (memRows tx)(t := add_mset (storedRow (\<lambda>s. s) columns args) (memRows tx t))"
    if "pg_insert memDriver t columns args tx = Inr tx'" for t columns args tx tx'
    using memInsert_InrD that by (fastforce simp: memRows_update memRows_def)
  show ?thesis unfolding storeLaws_def
    by (intro conjI allI impI row ins) (auto simp: memRows_update memRows_def)
qed

lemma memDriver_answers: "driverAnswers memDriver"
  by (simp add: driverAnswers_def memDriver_def)

lemma memDriver_schema: "schemaLaws memDriver (\<lambda>s. s) memRows"
proof -
  have ins: "(\<forall>key. (t, key) \<in> set schemaUnique \<longrightarrow>
        (\<forall>m. m \<in># memRows tx t \<longrightarrow> (\<exists>c \<in> set key. m c \<noteq> storedRow (\<lambda>s. s) columns args c))) \<and>
      (\<forall>c p pc. (t, c, p, pc) \<in> set schemaReferences \<longrightarrow>
        (\<exists>m. m \<in># memRows tx p \<and> m pc = storedRow (\<lambda>s. s) columns args c))"
    if "memInsert t columns args tx = Inr tx'" for t columns args tx tx'
  proof -
    have k: "list_all (\<lambda>(u, key). u = t \<longrightarrow> list_all (\<lambda>m. map m key \<noteq> map (storedRow (\<lambda>s. s) columns args) key) (tx t)) schemaUnique"
      and f: "list_all (\<lambda>(u, c, p, pc). u = t \<longrightarrow> list_ex (\<lambda>m. m pc = storedRow (\<lambda>s. s) columns args c) (tx p)) schemaReferences"
      using that unfolding memInsert_def Let_def by (meson Inl_Inr_False)+
    show ?thesis
    proof (intro conjI allI impI)
      fix key m assume "(t, key) \<in> set schemaUnique" "m \<in># memRows tx t"
      then have "map m key \<noteq> map (storedRow (\<lambda>s. s) columns args) key"
        using k unfolding list_all_iff memRows_def set_mset_mset by fast
      then show "\<exists>c \<in> set key. m c \<noteq> storedRow (\<lambda>s. s) columns args c" unfolding map_eq_conv by blast
    next
      fix c p pc assume "(t, c, p, pc) \<in> set schemaReferences"
      then have "\<exists>m \<in> set (tx p). m pc = storedRow (\<lambda>s. s) columns args c"
        using f unfolding list_all_iff list_ex_iff by fast
      then show "\<exists>m. m \<in># memRows tx p \<and> m pc = storedRow (\<lambda>s. s) columns args c" by (auto simp: memRows_def)
    qed
  qed
  show ?thesis unfolding schemaLaws_def memDriver_sel by (intro allI impI) (rule ins)
qed

section \<open>What is saved is loaded\<close>

text \<open>C30: What a successful save wrote, the next load reads back: every table up to the order of its rows,
  instants to the microsecond, absent JSON values as the fallback of the column, the settings as normalised.
  Data without any item is reported as not found, whatever SDK keys it holds.\<close>

theorem pg_roundtrip:
  assumes "storeLaws D jb R S" and "jsonLaws J jb dec" and "driverAnswers D"
    and "pgSave D J now d db = (None, db')"
  shows "\<exists>loaded. pgLoad D J db' = Inr loaded \<and>
    (case loaded of
       None \<Rightarrow> dataIsEmpty d
     | Some d' \<Rightarrow> \<not> dataIsEmpty d \<and> sameItems d' (storedData dec now d))"
proof -
  obtain tx where tx: "pg_begin D True db' = Inr tx" using assms(3) unfolding driverAnswers_def by blast
  obtain u where u: "pg_commit D tx = Inr u" using assms(3) unfolding driverAnswers_def by blast
  have "holdsData jb J (R tx) now d"
    using pgSave_holds [OF assms(1,4)] by (simp add: storeLaws_begin [OF assms(1) tx])
  then obtain d' where d': "pgRead D J tx = Inr d'" "sameItems d' (storedData dec now d)"
    using pgRead_holds [OF assms(1,3,2)] by blast
  have "dataIsEmpty d' = dataIsEmpty d" using sameItems_empty [OF d'(2)] by (simp add: dataIsEmpty_stored)
  then show ?thesis using d' by (simp add: pgLoad_def sumBind_def tx u)
qed

definition rowlessDB :: memDB where
  "rowlessDB t = []"

lemma sample_saved:
  "fst (pgSave memDriver lineCodec 7 (sampleData [sampleDevice ''a''] [sampleActivation ''a'' ''active'']) rowlessDB) = None"
  by code_simp

lemma pg_roundtrip_witness:
  "\<exists>d'. pgLoad memDriver lineCodec (snd (pgSave memDriver lineCodec 7
       (sampleData [sampleDevice ''a''] [sampleActivation ''a'' ''active'']) rowlessDB)) = Inr (Some d') \<and>
     sameItems d' (storedData (\<lambda>m. m) 7 (sampleData [sampleDevice ''a''] [sampleActivation ''a'' ''active'']))"
proof -
  let ?d = "sampleData [sampleDevice ''a''] [sampleActivation ''a'' ''active'']"
  have "\<not> dataIsEmpty ?d" by (simp add: dataIsEmpty_def sampleData_def)
  with pg_roundtrip [OF memDriver_laws lineCodec_laws memDriver_answers, of 7 ?d rowlessDB
      "snd (pgSave memDriver lineCodec 7 ?d rowlessDB)"] sample_saved
  show ?thesis by (auto simp: prod_eq_iff split: option.splits)
qed


section \<open>Only consistent data is saved\<close>

text \<open>C31: A save succeeds only on data whose keys are unique and whose references resolve, as the schema
  demands: app keys, administrator accounts, license key hashes, device fingerprints, one release per app,
  platform, version and channel, one policy per app and capability, one activation per license and device;
  every item of an app names its key, every activation an existing license and device.\<close>

theorem saved_is_consistent:
  assumes "storeLaws D jb R S" and "schemaLaws D jb R" and "pgSave D J now d db = (None, db')"
  shows "distinct (map app_AppKey (data_Apps d)) \<and> distinct (map adm_Account (data_Admins d)) \<and>
    distinct (map lic_LicenseKeyHash (data_Licenses d)) \<and>
    distinct (map dev_DeviceFingerprintHash (data_Devices d)) \<and>
    distinct (map (\<lambda>r. [rel_AppID r, rel_Platform r, rel_Version r, rel_Channel r]) (data_Releases d)) \<and>
    distinct (map (\<lambda>p. [pol_AppID p, pol_Capability p]) (data_CapabilityPolicies d)) \<and>
    distinct (map (\<lambda>a. [act_LicenseID a, act_DeviceID a]) (data_Activations d)) \<and>
    (let apps = app_AppKey ` set (data_Apps d) in
       rel_AppID ` set (data_Releases d) \<subseteq> apps \<and> sdk_AppID ` set (data_SDKKeys d) \<subseteq> apps \<and>
       pol_AppID ` set (data_CapabilityPolicies d) \<subseteq> apps \<and> lic_AppID ` set (data_Licenses d) \<subseteq> apps \<and>
       act_AppID ` set (data_Activations d) \<subseteq> apps \<and> ir_AppID ` set (data_IntegrityReports d) \<subseteq> apps \<and>
       risk_AppID ` set (data_RiskEvents d) \<subseteq> apps) \<and>
    act_LicenseID ` set (data_Activations d) \<subseteq> lic_ID ` set (data_Licenses d) \<and>
    act_DeviceID ` set (data_Activations d) \<subseteq> dev_ID ` set (data_Devices d) \<and>
    ir_DeviceID ` set (data_IntegrityReports d) \<subseteq> dev_ID ` set (data_Devices d)"
proof -
  note inv = pgSave_consistent [OF assms] and h = pgSave_holds [OF assms(1,3)]
  from consistent_keys [OF inv h] consistent_references [OF inv h] show ?thesis by (simp only: Let_def)
qed

lemma saved_is_consistent_witness:
  "fst (pgSave memDriver lineCodec 7 (sampleData [sampleDevice ''a''] [sampleActivation ''a'' ''active'']) rowlessDB) = None \<and>
   act_DeviceID ` set [sampleActivation ''a'' ''active''] \<subseteq> dev_ID ` set [sampleDevice ''a'']"
proof -
  let ?d = "sampleData [sampleDevice ''a''] [sampleActivation ''a'' ''active'']"
  have "pgSave memDriver lineCodec 7 ?d rowlessDB = (None, snd (pgSave memDriver lineCodec 7 ?d rowlessDB))"
    by (simp add: prod_eq_iff sample_saved)
  from saved_is_consistent [OF memDriver_laws memDriver_schema this] sample_saved show ?thesis
    by (simp add: sampleData_def)
qed

section \<open>A release that cannot be saved\<close>

text \<open>C32: A release for the platform, version and channel of a stored one, or for an app addressed by its
  internal id, is accepted, kept in memory and cannot be saved: with the PostgreSQL store no save of the
  resulting data succeeds, nor of any later data that still has these releases and apps.\<close>

theorem release_blocks_saving:
  assumes laws: "storeLaws D jb R S" "schemaLaws D jb R"
    and create: "createRelease L e r appID adminID q s = (s', resp)"
    and found: "findAppLocked appID s \<noteq> None" and valid: "rel_Version (rlq_Release q) \<noteq> []"
      "rel_Platform (rlq_Release q) \<noteq> []" "\<not> rlq_ValidateIntegrityFields q"
    and clash: "(\<exists>x \<in> set (data_Releases (srv_data s)). rel_AppID x = appID \<and>
        rel_Platform x = rel_Platform (rlq_Release q) \<and> rel_Version x = rel_Version (rlq_Release q) \<and>
        rel_Channel x = (if rel_Channel (rlq_Release q) = [] then ''production'' else rel_Channel (rlq_Release q))) \<or>
      appID \<notin> app_AppKey ` set (data_Apps (srv_data s))"
    and later: "mset (data_Releases (srv_data s')) \<subseteq># mset (data_Releases d)"
      "app_AppKey ` set (data_Apps d) = app_AppKey ` set (data_Apps (srv_data s'))"
  shows "fst (pgSave D J now d db) \<noteq> None"
proof
  assume "fst (pgSave D J now d db) = None"
  then have save: "pgSave D J now d db = (None, snd (pgSave D J now d db))" by (simp add: prod_eq_iff)
  let ?new = "preparedRelease e appID (rlq_Release q)"
  let ?key = "\<lambda>r. [rel_AppID r, rel_Platform r, rel_Version r, rel_Channel r]"
  note inv = pgSave_consistent [OF laws save] and h = pgSave_holds [OF laws(1) save]
  have s': "data_Releases (srv_data s') = data_Releases (srv_data s) @ [?new]"
      "data_Apps (srv_data s') = data_Apps (srv_data s)"
    using create found valid by (auto simp: createRelease_def Let_def saveThen_def saveLocked_def split: option.splits)
  have new: "?key ?new = [appID, rel_Platform (rlq_Release q), rel_Version (rlq_Release q),
      if rel_Channel (rlq_Release q) = [] then ''production'' else rel_Channel (rlq_Release q)]"
    by (simp add: preparedRelease_def Let_def)
  have "?new \<in> set (data_Releases d)" using set_mset_mono [OF later(1)] s'(1) by simp
  then have "rel_AppID ?new \<in> app_AppKey ` set (data_Apps (srv_data s))"
    using consistent_references(1) [OF inv h] later(2) s'(2) by auto
  then have "appID \<in> app_AppKey ` set (data_Apps (srv_data s))" using new by simp
  with clash obtain x where x: "x \<in> set (data_Releases (srv_data s))" "?key x = ?key ?new" unfolding new by auto
  obtain rest where rest: "mset (data_Releases d) = mset (data_Releases (srv_data s') @ rest)"
    using later(1) by (metis ex_mset mset_append subset_mset.add_diff_inverse)
  then have "mset (map ?key (data_Releases d)) = mset (map ?key (data_Releases (srv_data s') @ rest))"
    by (metis mset_map)
  from mset_eq_imp_distinct_iff [OF this] consistent_keys(5) [OF inv h]
  have "distinct (map ?key (data_Releases (srv_data s')))" by (simp del: list.inject)
  then have "?key ?new \<notin> ?key ` set (data_Releases (srv_data s))" by (simp add: s'(1) del: list.inject)
  moreover have "?key ?new \<in> ?key ` set (data_Releases (srv_data s))" using imageI [OF x(1), of ?key] unfolding x(2) .
  ultimately show False by contradiction
qed

text \<open>The same release twice, on a server whose first one was saved.\<close>

definition sampleRelease :: ReleaseRequest where
  "sampleRelease =
     \<lparr> rlq_Release = \<lparr> rel_ID = [], rel_AppID = [], rel_Platform = ''windows'', rel_Version = ''1.0'', rel_BuildNumber = 1,
        rel_Channel = [], rel_Status = [], rel_SignerThumbprint = [], rel_MainBinaryHash = [],
        rel_ResourceManifestHash = [], rel_BusinessManifestSHA256 = [], rel_ProtectedDBSchemaHash = [],
        rel_ProtectedDBTablesHash = [], rel_AssetsManifestSHA256 = [], rel_WorkflowManifestSHA256 = [],
        rel_DownloadURL = [], rel_PackageSHA256 = [], rel_Mandatory = False, rel_MinSupportedVersion = [],
        rel_RolloutPercent = 0, rel_ReleaseNotes = [], rel_CreatedAt = 0 \<rparr>,
       rlq_ValidateIntegrityFields = False \<rparr>"

definition sampleFirst :: "Server \<times> Response" where
  "sampleFirst = createRelease sampleLib sampleEnv sampleRequest ''demo'' ''adm'' sampleRelease (sampleServer (sampleData [] []) ''a'')"

definition sampleSecond :: "Server \<times> Response" where
  "sampleSecond = createRelease sampleLib sampleEnv sampleRequest ''demo'' ''adm'' sampleRelease (fst sampleFirst)"

lemma release_blocks_saving_witness:
  "rsp_status (snd sampleSecond) = 201 \<and>
   fst (pgSave memDriver lineCodec 7 (srv_data (fst sampleSecond)) rowlessDB) \<noteq> None"
proof -
  have request: "rel_Platform (rlq_Release sampleRelease) = ''windows''" "rel_Version (rlq_Release sampleRelease) = ''1.0''"
      "rel_Channel (rlq_Release sampleRelease) = []" "\<not> rlq_ValidateIntegrityFields sampleRelease"
    by (simp_all add: sampleRelease_def)
  have server: "data_Apps (srv_data (sampleServer (sampleData [] []) ''a'')) = [sampleApp]"
      "data_Releases (srv_data (sampleServer (sampleData [] []) ''a'')) = []"
    by (simp_all add: sampleServer_def sampleData_def)
  then have found0: "findAppLocked ''demo'' (sampleServer (sampleData [] []) ''a'') \<noteq> None"
    by (simp add: findAppLocked_def sampleApp_def findIdx.simps)
  have first: "data_Releases (srv_data (fst sampleFirst)) = [preparedRelease sampleEnv ''demo'' (rlq_Release sampleRelease)]"
      "data_Apps (srv_data (fst sampleFirst)) = [sampleApp]"
    by (simp_all add: sampleFirst_def createRelease_def Let_def saveThen_def saveLocked_def request found0 sampleEnv_def
        server)
  have found: "findAppLocked ''demo'' (fst sampleFirst) \<noteq> None"
    using found0 by (simp add: findAppLocked_def first server)
  have status: "rsp_status (snd sampleSecond) = 201"
    by (simp add: sampleSecond_def createRelease_def Let_def saveThen_def saveLocked_def request found sampleEnv_def
        writeJSON_def)
  have keys: "rel_AppID (preparedRelease sampleEnv ''demo'' (rlq_Release sampleRelease)) = ''demo''"
      "rel_Platform (preparedRelease sampleEnv ''demo'' (rlq_Release sampleRelease)) = ''windows''"
      "rel_Version (preparedRelease sampleEnv ''demo'' (rlq_Release sampleRelease)) = ''1.0''"
      "rel_Channel (preparedRelease sampleEnv ''demo'' (rlq_Release sampleRelease)) = ''production''"
    by code_simp+
  have run: "createRelease sampleLib sampleEnv sampleRequest ''demo'' ''adm'' sampleRelease (fst sampleFirst) =
      (fst sampleSecond, snd sampleSecond)"
    by (simp add: sampleSecond_def)
  from release_blocks_saving [OF memDriver_laws memDriver_schema run found, of "srv_data (fst sampleSecond)"
      lineCodec 7 rowlessDB]
  have "fst (pgSave memDriver lineCodec 7 (srv_data (fst sampleSecond)) rowlessDB) \<noteq> None"
    by (simp add: request first keys)
  with status show ?thesis by simp
qed

end
