(* ===== verification/Sdk.thy ===== *)
theory Sdk
  imports Host
begin

text \<open>
  The Go SDK below its network calls (\<^verbatim>\<open>src/sdk/go/licenseguard\<close>): the install id and the device and
  integrity reports of \<^verbatim>\<open>device.go\<close>, the token cache of \<^verbatim>\<open>cache_windows.go\<close> and \<^verbatim>\<open>cache_other.go\<close>, and
  the offline authorization of \<^verbatim>\<open>token.go\<close>. The SDK declares the structs of the wire format again, field
  for field as \<^verbatim>\<open>internal/licensecore/types.go\<close> does; they are the records of the theory Types here.
\<close>

unbundle bit_operations_syntax

section \<open>Parameters\<close>

text \<open>JSON at the type of the cache, the layout \<^verbatim>\<open>2006-01-02T15:04:05Z07:00\<close> written and read back, and the
  Windows data protection API; \<^verbatim>\<open>sk_windows\<close> is the build tag that chooses between the two cache files.\<close>

record CachedToken =
  ct_LicenseToken :: string
  ct_ExpiresAt :: string
  ct_OfflineGraceUntil :: string
  ct_Entitlements :: "string list"
  ct_CapabilityPolicy :: "SignedCapabilityPolicyBundle option"

record sdkCodec =
  sk_marshalCache :: "CachedToken \<Rightarrow> string + string"
  sk_marshalCacheIndent :: "CachedToken \<Rightarrow> string + string"
  sk_unmarshalCache :: "string \<Rightarrow> string + CachedToken"
  sk_formatTime :: "time \<Rightarrow> string"
  sk_parseTime :: "string \<Rightarrow> time option"
  sk_dpapiProtect :: "string \<Rightarrow> string + string"
  sk_dpapiUnprotect :: "string \<Rightarrow> string + string"
  sk_windows :: bool

section \<open>device.go\<close>

definition hashText :: "golib \<Rightarrow> string \<Rightarrow> string" where
  "hashText L v = hexEncode (lib_sha256 L v)"

definition sanitizePathPart :: "string \<Rightarrow> string" where
  "sanitizePathPart v =
     (let v = trimSpace v;
          v = replaceByte (CHR ''/'') (CHR ''_'') v;
          v = replaceByte (CHR 0x5C) (CHR ''_'') v;
          v = replaceByte (CHR '':'') (CHR ''_'') v
      in if v = [] then ''default'' else v)"

text \<open>\<^verbatim>\<open>b[6] = (b[6] & 0x0f) | 0x40; b[8] = (b[8] & 0x3f) | 0x80\<close>, then the groups in hexadecimal.\<close>

definition newUUIDLike :: "string \<Rightarrow> string" where
  "newUUIDLike b =
     (let b = b[6 := char_of ((of_char (b ! 6) AND 0x0f) OR (0x40 :: nat))];
          b = b[8 := char_of ((of_char (b ! 8) AND 0x3f) OR (0x80 :: nat))]
      in hexEncode (take 4 b) @ ''-'' @ hexEncode (take 2 (drop 4 b)) @ ''-'' @ hexEncode (take 2 (drop 6 b)) @
         ''-'' @ hexEncode (take 2 (drop 8 b)) @ ''-'' @ hexEncode (take 6 (drop 10 b)))"

definition installIDPath :: "'w host \<Rightarrow> string \<Rightarrow> ('w, string) io" where
  "installIDPath H appID w =
     (let override = os_getenv H ''LG_INSTALL_ID_PATH'' w
      in if override \<noteq> [] then (Inr override, w)
         else (case os_userConfigDir H w of
                 Inl err \<Rightarrow> (Inl err, w)
               | Inr base \<Rightarrow>
                   (Inr (os_join H [base, ''LicenseGuard'', sanitizePathPart appID, ''install_id'']), w)))"

definition cachePath :: "'w host \<Rightarrow> string \<Rightarrow> ('w, string) io" where
  "cachePath H appID w =
     (let override = os_getenv H ''LG_TOKEN_CACHE_PATH'' w
      in if override \<noteq> [] then (Inr override, w)
         else (case os_userCacheDir H w of
                 Inl err \<Rightarrow> (Inl err, w)
               | Inr base \<Rightarrow>
                   (Inr (os_join H [base, ''LicenseGuard'', sanitizePathPart appID, ''license_token.json'']), w)))"

text \<open>A new id, after the file was found missing or blank. \<^verbatim>\<open>newUUIDLike\<close> panics when the random source
  fails.\<close>

definition createInstallID :: "'w host \<Rightarrow> string \<Rightarrow> ('w, string) io" where
  "createInstallID H path =
     ioBind (os_mkdirAll H (os_dir H path)) (\<lambda>_ w.
       case os_random H 16 w of
         (Inl err, w) \<Rightarrow> (Inl (Panicked ''crypto/rand''), w)
       | (Inr b, w) \<Rightarrow>
           (let installID = newUUIDLike b
            in ioBind (os_writeFile H path (installID @ [CHR 0x0A])) (\<lambda>_. ioReturn installID) w))"

definition LoadOrCreateInstallID :: "'w host \<Rightarrow> string \<Rightarrow> ('w, string) io" where
  "LoadOrCreateInstallID H appID =
     ioBind (installIDPath H appID) (\<lambda>path w.
       case os_readFile H path w of
         Inr raw \<Rightarrow>
           (let v = trimSpace raw in if v \<noteq> [] then (Inr v, w) else createInstallID H path w)
       | Inl err \<Rightarrow>
           (case err of NotExist _ \<Rightarrow> createInstallID H path w | _ \<Rightarrow> (Inl err, w)))"

definition CollectDeviceInfo :: "golib \<Rightarrow> 'w host \<Rightarrow> string \<Rightarrow> ('w, DeviceInfo) io" where
  "CollectDeviceInfo L H installID w =
     (let hostname = os_hostname H w
      in (Inr \<lparr> di_InstallID = installID,
             di_Fingerprint = hashText L (joinWith ''|'' [installID, hostname, os_GOOS H, os_GOARCH H]),
             di_OS = os_GOOS H, di_OSVersion = os_GOOS H @ ''/'' @ os_GOARCH H,
             di_MachineNameHash = hashText L hostname \<rparr>, w))"

definition FileSHA256 :: "golib \<Rightarrow> 'w host \<Rightarrow> string \<Rightarrow> ('w, string) io" where
  "FileSHA256 L H path = ioBind (readFile H path) (\<lambda>content. ioReturn (hexEncode (lib_sha256 L content)))"

definition CurrentExecutableHash :: "golib \<Rightarrow> 'w host \<Rightarrow> ('w, string) io" where
  "CurrentExecutableHash L H = ioBind (\<lambda>w. (os_executable H w, w)) (FileSHA256 L H)"

definition IsDebuggerPresent :: bool where
  "IsDebuggerPresent = False"

definition CollectIntegrity ::
  "golib \<Rightarrow> 'w host \<Rightarrow> string \<Rightarrow> string \<Rightarrow> string \<Rightarrow> ('w, IntegrityRequest) io" where
  "CollectIntegrity L H appVersion binaryHashOverride signerThumbprint =
     ioBind (if binaryHashOverride = [] then CurrentExecutableHash L H else ioReturn binaryHashOverride)
       (\<lambda>hash. ioReturn
          \<lparr> iq_AppVersion = appVersion, iq_MainBinaryHash = hash, iq_SignerThumbprint = signerThumbprint,
            iq_BusinessManifestSHA256 = [], iq_BusinessManifestSignatureValid = None,
            iq_ProtectedDBSchemaHash = [], iq_ProtectedDBTablesHash = [], iq_AssetsManifestSHA256 = [],
            iq_WorkflowManifestSHA256 = [], iq_BusinessIntegrityStatus = [], iq_BusinessIntegrityErrors = [],
            iq_DBEncryptionStatus = [], iq_DBEncryptionErrors = [], iq_DebuggerDetected = IsDebuggerPresent,
            iq_SuspiciousModules = [], iq_VMIndicators = [] \<rparr>)"

definition DeleteToken :: "'w host \<Rightarrow> string \<Rightarrow> ('w, unit) io" where
  "DeleteToken H appID =
     ioBind (cachePath H appID) (\<lambda>path w.
       case os_remove H path w of
         (Inl err, w) \<Rightarrow> (case err of NotExist _ \<Rightarrow> (Inr (), w) | _ \<Rightarrow> (Inl err, w))
       | (Inr _, w) \<Rightarrow> (Inr (), w))"

section \<open>cache_windows.go and cache_other.go\<close>

definition cacheOf :: "sdkCodec \<Rightarrow> VerifyResponse \<Rightarrow> CachedToken" where
  "cacheOf J result =
     \<lparr> ct_LicenseToken = vr_LicenseToken result,
       ct_ExpiresAt = (case vr_ExpiresAt result of None \<Rightarrow> [] | Some t \<Rightarrow> sk_formatTime J t),
       ct_OfflineGraceUntil = (case vr_OfflineGraceUntil result of None \<Rightarrow> [] | Some t \<Rightarrow> sk_formatTime J t),
       ct_Entitlements = vr_Entitlements result, ct_CapabilityPolicy = vr_CapabilityPolicy result \<rparr>"

definition saveTokenWindows :: "sdkCodec \<Rightarrow> 'w host \<Rightarrow> string \<Rightarrow> VerifyResponse \<Rightarrow> ('w, unit) io" where
  "saveTokenWindows J H appID result =
     ioBind (cachePath H appID) (\<lambda>path.
     ioBind (os_mkdirAll H (os_dir H path)) (\<lambda>_.
     ioBind (ioSum (sk_marshalCache J (cacheOf J result))) (\<lambda>payload.
     ioBind (ioSum (sk_dpapiProtect J payload)) (\<lambda>protected.
       os_writeFile H path protected))))"

definition saveTokenOther :: "sdkCodec \<Rightarrow> 'w host \<Rightarrow> string \<Rightarrow> VerifyResponse \<Rightarrow> ('w, unit) io" where
  "saveTokenOther J H appID result =
     ioBind (cachePath H appID) (\<lambda>path.
     ioBind (os_mkdirAll H (os_dir H path)) (\<lambda>_.
     ioBind (ioSum (sk_marshalCacheIndent J (cacheOf J result))) (\<lambda>payload.
       os_writeFile H path payload)))"

definition SaveToken :: "sdkCodec \<Rightarrow> 'w host \<Rightarrow> string \<Rightarrow> VerifyResponse \<Rightarrow> ('w, unit) io" where
  "SaveToken J H = (if sk_windows J then saveTokenWindows J H else saveTokenOther J H)"

definition loadTokenWindows :: "sdkCodec \<Rightarrow> 'w host \<Rightarrow> string \<Rightarrow> ('w, CachedToken) io" where
  "loadTokenWindows J H appID =
     ioBind (cachePath H appID) (\<lambda>path.
     ioBind (readFile H path) (\<lambda>raw.
     ioBind (ioSum (sk_dpapiUnprotect J raw)) (\<lambda>plain.
       ioSum (sk_unmarshalCache J plain))))"

definition loadTokenOther :: "sdkCodec \<Rightarrow> 'w host \<Rightarrow> string \<Rightarrow> ('w, CachedToken) io" where
  "loadTokenOther J H appID =
     ioBind (cachePath H appID) (\<lambda>path.
     ioBind (readFile H path) (\<lambda>raw.
       ioSum (sk_unmarshalCache J raw)))"

definition LoadToken :: "sdkCodec \<Rightarrow> 'w host \<Rightarrow> string \<Rightarrow> ('w, CachedToken) io" where
  "LoadToken J H = (if sk_windows J then loadTokenWindows J H else loadTokenOther J H)"

section \<open>token.go\<close>

record 'w clientOptions =
  co_AppID :: string
  co_Endpoint :: string
  co_PublicKey :: string
  co_AppVersion :: string
  co_BinaryHashOverride :: string
  co_SignerThumbprint :: string
  co_IntegrityHook :: "(IntegrityRequest \<Rightarrow> ('w, IntegrityRequest) io) option"

record CachedAuthorization =
  ca_Allowed :: bool
  ca_RequiresOnline :: bool
  ca_InOfflineGrace :: bool
  ca_ExpiresAt :: "time option"
  ca_OfflineGraceUntil :: "time option"
  ca_Entitlements :: "string list"
  ca_CapabilityPolicy :: "SignedCapabilityPolicyBundle option"
  ca_Claims :: "LicenseTokenClaims option"

definition errPublicKeyRequired :: goError where
  "errPublicKeyRequired = GoErr ''license guard public key is required''"

text \<open>\<^verbatim>\<open>ed25519.PublicKeySize\<close> is 32.\<close>

definition ParsePublicKey :: "golib \<Rightarrow> string \<Rightarrow> goError + string" where
  "ParsePublicKey L v =
     (let v = trimSpace v; v = trimPrefix v ''ed25519:''; v = trimPrefix v ''lgpk_''
      in if v = [] then Inl errPublicKeyRequired
         else (case (case stdDecode v of Some raw \<Rightarrow> Some raw | None \<Rightarrow> rawURLDecode v) of
                 None \<Rightarrow> Inl (GoErr (lib_base64_error L v))
               | Some raw \<Rightarrow>
                   if length raw \<noteq> 32
                   then Inl (GoErr (''invalid ed25519 public key length '' @ showNat (length raw)))
                   else Inr raw))"

text \<open>The SDK's \<^verbatim>\<open>VerifyLicenseToken\<close>. An expired token is an error that carries the claims.\<close>

definition sdkVerifyLicenseToken ::
  "golib \<Rightarrow> string \<Rightarrow> string \<Rightarrow> bool \<Rightarrow> time \<Rightarrow> (goError \<times> LicenseTokenClaims option) + LicenseTokenClaims" where
  "sdkVerifyLicenseToken L publicKeyValue token allowExpired now =
     (case ParsePublicKey L publicKeyValue of
        Inl err \<Rightarrow> Inl (err, None)
      | Inr publicKey \<Rightarrow>
          (case splitOn (CHR ''.'') token of
             [p0, p1, p2] \<Rightarrow>
               (let signingInput = p0 @ ''.'' @ p1 in
                case rawURLDecode p2 of
                  None \<Rightarrow> Inl (GoErr (lib_base64_error L p2), None)
                | Some signature \<Rightarrow>
                    if \<not> lib_verify L publicKey signingInput signature
                    then Inl (GoErr ''invalid token signature'', None)
                    else (case rawURLDecode p1 of
                            None \<Rightarrow> Inl (GoErr (lib_base64_error L p1), None)
                          | Some payload \<Rightarrow>
                              (case lib_unmarshal_claims L payload of
                                 Inl err \<Rightarrow> Inl (GoErr err, None)
                               | Inr claims \<Rightarrow>
                                   if \<not> allowExpired \<and> unixSeconds now > tok_ExpiresAt claims
                                   then Inl (GoErr errTokenExpired, Some claims)
                                   else Inr claims)))
           | _ \<Rightarrow> Inl (GoErr ''invalid token format'', None)))"

definition VerifyCapabilityPolicyBundle ::
  "golib \<Rightarrow> string \<Rightarrow> SignedCapabilityPolicyBundle \<Rightarrow> goError option" where
  "VerifyCapabilityPolicyBundle L publicKeyValue signed =
     (case ParsePublicKey L publicKeyValue of
        Inl err \<Rightarrow> Some err
      | Inr publicKey \<Rightarrow>
          if trimSpace (scb_Signature signed) = []
          then Some (GoErr ''capability policy signature is required'')
          else (case lib_marshal_bundle L (scb_Bundle signed) of
                  Inl err \<Rightarrow> Some (GoErr err)
                | Inr payload \<Rightarrow>
                    (case rawURLDecode (scb_Signature signed) of
                       None \<Rightarrow> Some (GoErr (lib_base64_error L (scb_Signature signed)))
                     | Some signature \<Rightarrow>
                         if \<not> lib_verify L publicKey payload signature
                         then Some (GoErr ''invalid capability policy signature'')
                         else None)))"

definition parseCacheTimePtr :: "sdkCodec \<Rightarrow> string \<Rightarrow> time option" where
  "parseCacheTimePtr J v = (if v = [] then None else sk_parseTime J v)"

definition cachedTokenTimeValid :: "sdkCodec \<Rightarrow> string \<Rightarrow> time \<Rightarrow> bool" where
  "cachedTokenTimeValid J v now = (case parseCacheTimePtr J v of None \<Rightarrow> False | Some t \<Rightarrow> now \<le> t)"

definition parseCacheUnix :: "sdkCodec \<Rightarrow> string \<Rightarrow> int" where
  "parseCacheUnix J v = (case parseCacheTimePtr J v of None \<Rightarrow> 0 | Some t \<Rightarrow> unixSeconds t)"

text \<open>\<^verbatim>\<open>time.Unix(secs, 0)\<close>.\<close>

definition fromUnix :: "int \<Rightarrow> time" where
  "fromUnix secs = secs * 1000000000"

text \<open>\<^verbatim>\<open>CachedAuthorization\<close> without a public key: the cached times decide.\<close>

definition unsignedAuthorization :: "sdkCodec \<Rightarrow> CachedToken \<Rightarrow> time \<Rightarrow> CachedAuthorization" where
  "unsignedAuthorization J cached now =
     (let allowed = cachedTokenTimeValid J (ct_ExpiresAt cached) now;
          grace = (\<not> allowed \<and> cachedTokenTimeValid J (ct_OfflineGraceUntil cached) now)
      in \<lparr> ca_Allowed = allowed \<or> grace, ca_RequiresOnline = \<not> allowed, ca_InOfflineGrace = grace,
           ca_ExpiresAt = parseCacheTimePtr J (ct_ExpiresAt cached),
           ca_OfflineGraceUntil = parseCacheTimePtr J (ct_OfflineGraceUntil cached),
           ca_Entitlements = ct_Entitlements cached, ca_CapabilityPolicy = None, ca_Claims = None \<rparr>)"

text \<open>With a verified token: its expiry, then the offline grace, from the token or else the cache.\<close>

definition signedAuthorization ::
  "sdkCodec \<Rightarrow> CachedToken \<Rightarrow> LicenseTokenClaims \<Rightarrow> time \<Rightarrow> CachedAuthorization" where
  "signedAuthorization J cached claims now =
     (let expiresAt = fromUnix (tok_ExpiresAt claims);
          auth = \<lparr> ca_Allowed = False, ca_RequiresOnline = False, ca_InOfflineGrace = False,
            ca_ExpiresAt = Some expiresAt, ca_OfflineGraceUntil = None,
            ca_Entitlements = tok_Entitlements claims, ca_CapabilityPolicy = ct_CapabilityPolicy cached,
            ca_Claims = Some claims \<rparr>
      in if now \<le> expiresAt then auth\<lparr> ca_Allowed := True \<rparr>
         else
           (let graceUnix = (if tok_OfflineGraceUntil claims = 0
                             then parseCacheUnix J (ct_OfflineGraceUntil cached)
                             else tok_OfflineGraceUntil claims)
            in if graceUnix > 0
               then (let graceUntil = fromUnix graceUnix;
                         auth = auth\<lparr> ca_OfflineGraceUntil := Some graceUntil \<rparr>
                     in if now \<le> graceUntil
                        then auth\<lparr> ca_Allowed := True, ca_RequiresOnline := True, ca_InOfflineGrace := True \<rparr>
                        else auth)
               else auth))"

definition policyRefusal ::
  "golib \<Rightarrow> 'w clientOptions \<Rightarrow> SignedCapabilityPolicyBundle option \<Rightarrow> goError option" where
  "policyRefusal L c policy =
     (case policy of
        None \<Rightarrow> None
      | Some signed \<Rightarrow>
          (case VerifyCapabilityPolicyBundle L (co_PublicKey c) signed of
             Some err \<Rightarrow> Some err
           | None \<Rightarrow>
               if cb_AppID (scb_Bundle signed) \<noteq> co_AppID c
               then Some (GoErr ''cached capability policy app mismatch'') else None))"

text \<open>What \<^verbatim>\<open>CachedAuthorization\<close> makes of the cache it loaded.\<close>

definition authorizeCached ::
  "golib \<Rightarrow> sdkCodec \<Rightarrow> 'w clientOptions \<Rightarrow> CachedToken \<Rightarrow> time \<Rightarrow> goError + CachedAuthorization" where
  "authorizeCached L J c cached now =
     (if co_PublicKey c = [] then Inr (unsignedAuthorization J cached now)
      else (case sdkVerifyLicenseToken L (co_PublicKey c) (ct_LicenseToken cached) True now of
              Inl (err, _) \<Rightarrow> Inl err
            | Inr claims \<Rightarrow>
                if tok_AppID claims \<noteq> co_AppID c then Inl (GoErr ''cached token app mismatch'')
                else (case policyRefusal L c (ct_CapabilityPolicy cached) of
                        Some err \<Rightarrow> Inl err
                      | None \<Rightarrow> Inr (signedAuthorization J cached claims now))))"

definition cachedAuthorization ::
  "golib \<Rightarrow> sdkCodec \<Rightarrow> 'w host \<Rightarrow> 'w clientOptions \<Rightarrow> ('w, CachedAuthorization) io" where
  "cachedAuthorization L J H c =
     ioBind (LoadToken J H (co_AppID c)) (\<lambda>cached w. (authorizeCached L J c cached (os_now H w), w))"

definition HasEntitlement :: "string list \<Rightarrow> string \<Rightarrow> bool" where
  "HasEntitlement entitlements required = list_ex (\<lambda>entitlement. entitlement = required) entitlements"

definition CurrentEntitlements ::
  "golib \<Rightarrow> sdkCodec \<Rightarrow> 'w host \<Rightarrow> 'w clientOptions \<Rightarrow> 'w \<Rightarrow> string list" where
  "CurrentEntitlements L J H c w =
     (case fst (cachedAuthorization L J H c w) of
        Inl _ \<Rightarrow> []
      | Inr auth \<Rightarrow> if \<not> ca_Allowed auth then [] else ca_Entitlements auth)"

definition IsAllowed ::
  "golib \<Rightarrow> sdkCodec \<Rightarrow> 'w host \<Rightarrow> 'w clientOptions \<Rightarrow> string \<Rightarrow> 'w \<Rightarrow> bool" where
  "IsAllowed L J H c feature w = HasEntitlement (CurrentEntitlements L J H c w) feature"

section \<open>Decisions of a bundle (client.go)\<close>

definition bundleDecision ::
  "SignedCapabilityPolicyBundle option \<Rightarrow> string \<Rightarrow> CapabilityDecision option" where
  "bundleDecision b capability =
     (case b of None \<Rightarrow> None
      | Some signed \<Rightarrow> List.find (\<lambda>d. dec_Capability d = capability) (cb_Decisions (scb_Bundle signed)))"

definition resultDecision :: "VerifyResponse option \<Rightarrow> string \<Rightarrow> CapabilityDecision option" where
  "resultDecision r capability =
     (case r of None \<Rightarrow> None
      | Some result \<Rightarrow>
          (case vr_CapabilityPolicy result of None \<Rightarrow> None
           | Some signed \<Rightarrow> bundleDecision (Some signed) capability))"

section \<open>Lemmas\<close>

lemma SaveToken_LoadToken:
  assumes laws: "fileLaws H"
    and path: "\<And>w. cachePath H appID w = (Inr path, w)"
    and indent: "\<And>t. sk_marshalCacheIndent J t = sk_marshalCache J t"
    and codec: "\<And>t payload. sk_marshalCache J t = Inr payload \<Longrightarrow> sk_unmarshalCache J payload = Inr t"
    and dpapi: "\<And>p q. sk_dpapiProtect J p = Inr q \<Longrightarrow> sk_dpapiUnprotect J q = Inr p"
    and saved: "SaveToken J H appID result w = (Inr (), w')"
  shows "LoadToken J H appID w' = (Inr (cacheOf J result), w')"
proof (cases "sk_windows J")
  case True
  then obtain payload q w1 where "sk_marshalCache J (cacheOf J result) = Inr payload"
      "sk_dpapiProtect J payload = Inr q" "os_writeFile H path q w1 = (Inr (), w')"
    using saved by (auto simp: SaveToken_def saveTokenWindows_def ioBind_def path ioSum_def split: sum.splits prod.splits)
  then show ?thesis
    using True codec dpapi fileLaws_write [OF laws]
    by (simp add: LoadToken_def loadTokenWindows_def ioBind_def path readFile_def)
next
  case False
  then obtain payload w1 where "sk_marshalCache J (cacheOf J result) = Inr payload"
      "os_writeFile H path payload w1 = (Inr (), w')"
    using saved indent
    by (auto simp: SaveToken_def saveTokenOther_def ioBind_def path ioSum_def split: sum.splits prod.splits)
  then show ?thesis
    using False codec fileLaws_write [OF laws]
    by (simp add: LoadToken_def loadTokenOther_def ioBind_def path readFile_def)
qed

end
