(* ===== verification/SdkClient.thy ===== *)
theory SdkClient
  imports Sdk
begin

text \<open>
  The network client of the Go SDK (\<^verbatim>\<open>src/sdk/go/licenseguard/client.go\<close>): the requests, the calls
  \<^verbatim>\<open>Challenge\<close>, \<^verbatim>\<open>Activate\<close>, \<^verbatim>\<open>VerifyWithToken\<close>, \<^verbatim>\<open>Heartbeat\<close>, \<^verbatim>\<open>Deactivate\<close> with the token cache they keep.
  The HTTP transport and JSON at the types of the requests and answers are parameters.
\<close>

section \<open>Requests and answers\<close>

record ChallengeRequest =
  sc_AppID :: string
  sc_Platform :: string
  sc_InstallID :: string
  sc_AppVersion :: string

record ChallengeResponse =
  cr_ChallengeID :: string
  cr_Nonce :: string
  cr_ExpiresAt :: time
  cr_ServerTime :: time

record PublicKeyResponse =
  pk_Algorithm :: string
  pk_KeyType :: string
  pk_PublicKey :: string

record ActivateRequest =
  sa_AppID :: string
  sa_Platform :: string
  sa_LicenseKey :: string
  sa_ChallengeID :: string
  sa_Nonce :: string
  sa_Device :: DeviceInfo
  sa_Integrity :: IntegrityRequest

record VerifyRequest =
  sv_AppID :: string
  sv_Platform :: string
  sv_LicenseKey :: string
  sv_LicenseToken :: string
  sv_ChallengeID :: string
  sv_Nonce :: string
  sv_Device :: DeviceInfo
  sv_Integrity :: IntegrityRequest

record HeartbeatRequest =
  sh_AppID :: string
  sh_LicenseToken :: string
  sh_InstallID :: string
  sh_AppVersion :: string
  sh_Integrity :: "IntegrityRequest option"
  sh_Runtime :: gmap

record DeactivateRequest =
  sd_AppID :: string
  sd_LicenseToken :: string
  sd_InstallID :: string

text \<open>The anonymous struct \<^verbatim>\<open>Heartbeat\<close> decodes into.\<close>

record heartbeatAnswer =
  ha_OK :: "bool option"
  ha_Code :: string
  ha_Message :: string

record httpCall =
  hc_Method :: string
  hc_URL :: string
  hc_Headers :: "(string \<times> string) list"
  hc_Body :: string

text \<open>\<^verbatim>\<open>http.NewRequestWithContext\<close> fails on some URLs; \<^verbatim>\<open>c.http.Do\<close> gives a status and a body. The error
  payload of an answer is decoded leniently: empty fields when it cannot be.\<close>

record 'w sdkNet =
  net_requestError :: "string \<Rightarrow> string \<Rightarrow> string option"
  net_do :: "httpCall \<Rightarrow> ('w, int \<times> string) io"
  net_errorPayload :: "string \<Rightarrow> string \<times> string"
  net_challengeRequest :: "ChallengeRequest \<Rightarrow> string + string"
  net_activateRequest :: "ActivateRequest \<Rightarrow> string + string"
  net_verifyRequest :: "VerifyRequest \<Rightarrow> string + string"
  net_heartbeatRequest :: "HeartbeatRequest \<Rightarrow> string + string"
  net_deactivateRequest :: "DeactivateRequest \<Rightarrow> string + string"
  net_challengeResponse :: "string \<Rightarrow> string + ChallengeResponse"
  net_publicKeyResponse :: "string \<Rightarrow> string + PublicKeyResponse"
  net_verifyResult :: "string \<Rightarrow> string + VerifyResponse"
  net_heartbeatAnswer :: "string \<Rightarrow> string + heartbeatAnswer"
  net_anyObject :: "string \<Rightarrow> string + gmap"

section \<open>Transport\<close>

definition apiErrorText :: "int \<Rightarrow> string \<Rightarrow> string \<Rightarrow> string" where
  "apiErrorText status code message =
     (if code = [] then ''license guard api returned status '' @ showInt status
      else code @ '': '' @ message)"

definition NewClient :: "'w clientOptions \<Rightarrow> string + 'w clientOptions" where
  "NewClient options =
     (if co_AppID options = [] then Inl ''AppID is required''
      else if co_Endpoint options = [] then Inl ''Endpoint is required''
      else
        (let options = (if co_AppVersion options = [] then options\<lparr> co_AppVersion := ''0.0.0'' \<rparr> else options)
         in Inr (options\<lparr> co_Endpoint := trimRightSet ''/'' (co_Endpoint options) \<rparr>)))"

definition sdkHeaders :: "'w clientOptions \<Rightarrow> (string \<times> string) list" where
  "sdkHeaders c = [(''X-LG-App-Id'', co_AppID c), (''X-LG-SDK-Version'', ''go-windows-0.1.0'')]"

text \<open>The common end of \<^verbatim>\<open>postJSON\<close> and \<^verbatim>\<open>getJSON\<close>: a status outside 200 to 299 is an \<^verbatim>\<open>*APIError\<close>.\<close>

definition readAnswer :: "'w sdkNet \<Rightarrow> (string \<Rightarrow> string + 'a) \<Rightarrow> int \<times> string \<Rightarrow> goError + 'a" where
  "readAnswer N decode answer =
     (case answer of (status, body) \<Rightarrow>
        if status < 200 \<or> status \<ge> 300
        then (case net_errorPayload N body of (code, message) \<Rightarrow> Inl (StatusErr status code message))
        else (case decode body of Inl err \<Rightarrow> Inl (GoErr err) | Inr v \<Rightarrow> Inr v))"

definition postJSON ::
  "'w sdkNet \<Rightarrow> 'w clientOptions \<Rightarrow> string \<Rightarrow> string + string \<Rightarrow> (string \<Rightarrow> string + 'a) \<Rightarrow> ('w, 'a) io" where
  "postJSON N c path marshalled decode =
     ioBind (ioSum marshalled) (\<lambda>body.
       let url = co_Endpoint c @ path in
       case net_requestError N ''POST'' url of
         Some err \<Rightarrow> ioFail (GoErr err)
       | None \<Rightarrow>
           ioBind (net_do N \<lparr> hc_Method = ''POST'', hc_URL = url,
               hc_Headers = (''Content-Type'', ''application/json'') # sdkHeaders c, hc_Body = body \<rparr>)
             (\<lambda>answer w. (readAnswer N decode answer, w)))"

definition getJSON ::
  "'w sdkNet \<Rightarrow> 'w clientOptions \<Rightarrow> string \<Rightarrow> (string \<Rightarrow> string + 'a) \<Rightarrow> ('w, 'a) io" where
  "getJSON N c path decode =
     (let url = co_Endpoint c @ path in
      case net_requestError N ''GET'' url of
        Some err \<Rightarrow> ioFail (GoErr err)
      | None \<Rightarrow>
          ioBind (net_do N \<lparr> hc_Method = ''GET'', hc_URL = url, hc_Headers = sdkHeaders c, hc_Body = [] \<rparr>)
            (\<lambda>answer w. (readAnswer N decode answer, w)))"

section \<open>Calls\<close>

definition requestChallenge ::
  "'w sdkNet \<Rightarrow> 'w clientOptions \<Rightarrow> string \<Rightarrow> ('w, ChallengeResponse) io" where
  "requestChallenge N c installID =
     postJSON N c ''/challenge''
       (net_challengeRequest N \<lparr> sc_AppID = co_AppID c, sc_Platform = ''windows'', sc_InstallID = installID,
          sc_AppVersion = co_AppVersion c \<rparr>)
       (net_challengeResponse N)"

definition FetchPublicKey :: "'w sdkNet \<Rightarrow> 'w clientOptions \<Rightarrow> ('w, PublicKeyResponse) io" where
  "FetchPublicKey N c = getJSON N c ''/public-key'' (net_publicKeyResponse N)"

definition clientIntegrity ::
  "golib \<Rightarrow> 'w host \<Rightarrow> 'w clientOptions \<Rightarrow> ('w, IntegrityRequest) io" where
  "clientIntegrity L H c =
     ioBind (CollectIntegrity L H (co_AppVersion c) (co_BinaryHashOverride c) (co_SignerThumbprint c))
       (\<lambda>integrity. case co_IntegrityHook c of None \<Rightarrow> ioReturn integrity | Some hook \<Rightarrow> hook integrity)"

text \<open>\<^verbatim>\<open>if result.Allowed && result.LicenseToken != "" { _ = SaveToken(...) }\<close>: the error is dropped.\<close>

definition keepToken ::
  "sdkCodec \<Rightarrow> 'w host \<Rightarrow> 'w clientOptions \<Rightarrow> VerifyResponse \<Rightarrow> ('w, VerifyResponse) io" where
  "keepToken J H c result w =
     (if vr_Allowed result \<and> vr_LicenseToken result \<noteq> []
      then (Inr result, snd (SaveToken J H (co_AppID c) result w))
      else (Inr result, w))"

definition Activate ::
  "golib \<Rightarrow> sdkCodec \<Rightarrow> 'w host \<Rightarrow> 'w sdkNet \<Rightarrow> 'w clientOptions \<Rightarrow> string \<Rightarrow> ('w, VerifyResponse) io" where
  "Activate L J H N c licenseKey =
     ioBind (LoadOrCreateInstallID H (co_AppID c)) (\<lambda>installID.
     ioBind (requestChallenge N c installID) (\<lambda>challenge.
     ioBind (CollectDeviceInfo L H installID) (\<lambda>device.
     ioBind (clientIntegrity L H c) (\<lambda>integrity.
     ioBind (postJSON N c ''/activate''
         (net_activateRequest N \<lparr> sa_AppID = co_AppID c, sa_Platform = ''windows'', sa_LicenseKey = licenseKey,
            sa_ChallengeID = cr_ChallengeID challenge, sa_Nonce = cr_Nonce challenge, sa_Device = device,
            sa_Integrity = integrity \<rparr>)
         (net_verifyResult N))
       (keepToken J H c)))))"

definition VerifyWithToken ::
  "golib \<Rightarrow> sdkCodec \<Rightarrow> 'w host \<Rightarrow> 'w sdkNet \<Rightarrow> 'w clientOptions \<Rightarrow> string \<Rightarrow> ('w, VerifyResponse) io" where
  "VerifyWithToken L J H N c token =
     ioBind (LoadOrCreateInstallID H (co_AppID c)) (\<lambda>installID.
     ioBind (requestChallenge N c installID) (\<lambda>challenge.
     ioBind (CollectDeviceInfo L H installID) (\<lambda>device.
     ioBind (clientIntegrity L H c) (\<lambda>integrity.
     ioBind (postJSON N c ''/verify''
         (net_verifyRequest N \<lparr> sv_AppID = co_AppID c, sv_Platform = ''windows'', sv_LicenseKey = [],
            sv_LicenseToken = token, sv_ChallengeID = cr_ChallengeID challenge, sv_Nonce = cr_Nonce challenge,
            sv_Device = device, sv_Integrity = integrity \<rparr>)
         (net_verifyResult N))
       (keepToken J H c)))))"

definition clientVerify ::
  "golib \<Rightarrow> sdkCodec \<Rightarrow> 'w host \<Rightarrow> 'w sdkNet \<Rightarrow> 'w clientOptions \<Rightarrow> ('w, VerifyResponse) io" where
  "clientVerify L J H N c =
     ioBind (LoadToken J H (co_AppID c)) (\<lambda>cached. VerifyWithToken L J H N c (ct_LicenseToken cached))"

definition Heartbeat ::
  "golib \<Rightarrow> sdkCodec \<Rightarrow> 'w host \<Rightarrow> 'w sdkNet \<Rightarrow> 'w clientOptions \<Rightarrow> ('w, unit) io" where
  "Heartbeat L J H N c =
     ioBind (LoadToken J H (co_AppID c)) (\<lambda>cached.
     ioBind (LoadOrCreateInstallID H (co_AppID c)) (\<lambda>installID w.
       let request = \<lparr> sh_AppID = co_AppID c, sh_LicenseToken = ct_LicenseToken cached,
             sh_InstallID = installID, sh_AppVersion = co_AppVersion c, sh_Integrity = None,
             sh_Runtime = [(''heartbeat_at'', GTime (os_now H w))] \<rparr>
       in ioBind
            (if co_IntegrityHook c \<noteq> None
             then ioBind (clientIntegrity L H c) (\<lambda>integrity. ioReturn (request\<lparr> sh_Integrity := Some integrity \<rparr>))
             else ioReturn request)
            (\<lambda>request.
               ioBind (postJSON N c ''/heartbeat'' (net_heartbeatRequest N request) (net_heartbeatAnswer N))
                 (\<lambda>resp. if ha_OK resp = Some False
                         then ioFail (StatusErr 200 (ha_Code resp) (ha_Message resp))
                         else ioReturn ()))
            w))"

definition Deactivate ::
  "sdkCodec \<Rightarrow> 'w host \<Rightarrow> 'w sdkNet \<Rightarrow> 'w clientOptions \<Rightarrow> ('w, unit) io" where
  "Deactivate J H N c =
     ioBind (LoadToken J H (co_AppID c)) (\<lambda>cached.
     ioBind (LoadOrCreateInstallID H (co_AppID c)) (\<lambda>installID.
     ioBind (postJSON N c ''/deactivate''
         (net_deactivateRequest N \<lparr> sd_AppID = co_AppID c, sd_LicenseToken = ct_LicenseToken cached,
            sd_InstallID = installID \<rparr>)
         (net_anyObject N))
       (\<lambda>_. DeleteToken H (co_AppID c))))"

end
