(* ===== verification/SdkProps.thy ===== *)
theory SdkProps
  imports SdkClient VerificationProps
begin

text \<open>
  What the SDK promises: the offline authorization accepts exactly what the server signed, for as
  long as the server said; the calls keep the token cache in step with the server's answers. The
  first theorem spans both programs: an allowed verification of the server model, saved by the SDK.
\<close>

text \<open>The SDK reads the key the server publishes.\<close>

lemma ParsePublicKey_published: "length pub = 32 \<Longrightarrow> ParsePublicKey L (stdEncode pub) = Inr pub"
proof -
  assume len: "length pub = 32"
  then have "stdEncode pub \<noteq> []" using b64std.dec_enc [of pub] by (auto simp: stdDecode_def rawDecode_def)
  then show ?thesis
    using len by (simp add: ParsePublicKey_def trimSpace_visible stdEncode_visible stdEncode_no_prefix b64std.dec_enc)
qed

section \<open>Tokens and policies of the server, read by the SDK\<close>

text \<open>The documented shape of Ed25519: signatures verify, public keys have 32 bytes, signatures are
  not empty.\<close>

definition ed25519 :: "golib \<Rightarrow> string \<Rightarrow> string \<Rightarrow> bool" where
  "ed25519 L priv pub \<longleftrightarrow> signatureScheme L priv pub \<and> length pub = 32 \<and> (\<forall>m. lib_sign L priv m \<noteq> [])"

lemma sdk_verifies_as_server:
  assumes "ParsePublicKey L key = Inr pub"
  shows "sdkVerifyLicenseToken L key token allowExpired now =
    (case VerifyLicenseToken L pub token allowExpired now of
       Inl (err, claims) \<Rightarrow> Inl (GoErr err, claims) | Inr claims \<Rightarrow> Inr claims)"
  unfolding sdkVerifyLicenseToken_def VerifyLicenseToken_def assms sum.case Let_def
  by (simp split: list.split option.split sum.split)

lemma sdk_accepts_policy:
  assumes "ed25519 L (srv_privateKey s) pub"
    and "signedCapabilityPolicyBundleLocked L e k app lic dev ents t s = Inr (Some sp)"
  shows "VerifyCapabilityPolicyBundle L (stdEncode pub) sp = None" "cb_AppID (scb_Bundle sp) = app"
proof -
  obtain payload where p: "lib_marshal_bundle L (scb_Bundle sp) = Inr payload"
      "scb_Signature sp = rawURLEncode (lib_sign L (srv_privateKey s) payload)"
      "cb_AppID (scb_Bundle sp) = app"
    using assms(2)
    by (auto simp: signedCapabilityPolicyBundleLocked_def signCapabilityPolicyBundle_def Let_def
        split: sum.splits if_splits)
  have "rawURLEncode (lib_sign L (srv_privateKey s) payload) \<noteq> []"
    using assms(1) b64url.dec_enc [of "lib_sign L (srv_privateKey s) payload"] b64url.dec_enc [of "[]"]
    by (metis ed25519_def option.inject rawURLEncode_def rawEncode_def list.simps(8) sextets.simps(1))
  then show "VerifyCapabilityPolicyBundle L (stdEncode pub) sp = None"
    using assms(1) p
    by (simp add: VerifyCapabilityPolicyBundle_def ParsePublicKey_published ed25519_def trimSpace_visible
        rawURLEncode_visible b64url.dec_enc signatureScheme_def)
  show "cb_AppID (scb_Bundle sp) = app" by (rule p(3))
qed

lemma verificationIssue_policy:
  assumes "verificationIssue L e k app lic device risk input s = (s', resp)" and "verificationAllowed resp"
    and "rsp_body resp = PVerify v"
  shows "signedCapabilityPolicyBundleLocked L e 54 (app_AppKey app) (lic_ID lic) (dev_ID device) (lic_Entitlements lic)
    (env_now e 51 + minutes (tokenTTLMinutes (settingsLocked (env_now e 50) s) risk)) s = Inr (vr_CapabilityPolicy v)"
  using assms unfolding verificationIssue_def Let_def
  by (auto split: sum.splits option.splits prod.splits)

section \<open>The offline authorization\<close>

text \<open>What the cached token of a given cache grants: until its expiry, then until the end of the grace
  period of the token or, when the token has none, of the cache file.\<close>

definition graceOf :: "sdkCodec \<Rightarrow> CachedToken \<Rightarrow> LicenseTokenClaims \<Rightarrow> int" where
  "graceOf J cached claims =
     (if tok_OfflineGraceUntil claims = 0 then parseCacheUnix J (ct_OfflineGraceUntil cached)
      else tok_OfflineGraceUntil claims)"

lemma signedAuthorization_sel:
  "ca_Allowed (signedAuthorization J cached claims now) \<longleftrightarrow>
     now \<le> fromUnix (tok_ExpiresAt claims) \<or>
     0 < graceOf J cached claims \<and> now \<le> fromUnix (graceOf J cached claims)"
  "ca_InOfflineGrace (signedAuthorization J cached claims now) \<longleftrightarrow>
     fromUnix (tok_ExpiresAt claims) < now \<and>
     0 < graceOf J cached claims \<and> now \<le> fromUnix (graceOf J cached claims)"
  "ca_RequiresOnline (signedAuthorization J cached claims now) =
     ca_InOfflineGrace (signedAuthorization J cached claims now)"
  "ca_Entitlements (signedAuthorization J cached claims now) = tok_Entitlements claims"
  "ca_CapabilityPolicy (signedAuthorization J cached claims now) = ct_CapabilityPolicy cached"
  by (auto simp: signedAuthorization_def graceOf_def Let_def)




text \<open>A token without a grace period takes one from the cache file, which nothing signs.\<close>

lemma unsigned_grace_extends:
  assumes "sdkVerifyLicenseToken L (co_PublicKey c) (ct_LicenseToken cached) True now = Inr claims"
    and "co_PublicKey c \<noteq> []" and "tok_AppID claims = co_AppID c" and "tok_OfflineGraceUntil claims = 0"
    and "policyRefusal L c (ct_CapabilityPolicy cached) = None"
    and "edited \<noteq> []" "sk_parseTime J edited = Some t" "0 < unixSeconds t" "now \<le> fromUnix (unixSeconds t)"
  shows "\<exists>auth. authorizeCached L J c (cached\<lparr>ct_OfflineGraceUntil := edited\<rparr>) now = Inr auth \<and> ca_Allowed auth"
  using assms
  by (simp add: authorizeCached_def signedAuthorization_sel graceOf_def parseCacheUnix_def parseCacheTimePtr_def)

text \<open>C7: Server and SDK agree: the answer of an allowed activation or verification, kept in the token cache of a
  client that knows the server's public key, authorizes that client offline, with exactly the entitlements of the
  license and the policy bundle the server sent, until the expiry the server announced and then, flagged as
  grace that needs a connection, until the announced end of the grace period, both to the second; not longer.\<close>

theorem offline_authorization:
  assumes run: "processClientVerification L e r input s = (s', resp)" "verificationAllowed resp"
    and found: "appFor input s = Some app" "licenseFor L e input s = Some lic"
    and crypto: "ed25519 L (srv_privateKey s) (srv_publicKey s)" and clock: "1000000000 \<le> env_now e 52"
    and client: "co_PublicKey c = publicKeyString s" "co_AppID c = app_AppKey app"
  shows "\<exists>v claims expiresAt graceUntil. rsp_body resp = PVerify v \<and>
    vr_ExpiresAt v = Some expiresAt \<and> vr_OfflineGraceUntil v = Some graceUntil \<and>
    expiresAt = env_now e 51 + minutes (tokenTTLMinutes (settingsLocked (env_now e 50) s) (vr_Risk v)) \<and>
    graceUntil = env_now e 52 + days (set_OfflineGraceDays (settingsLocked (env_now e 50) s)) \<and>
    claims = \<lparr>tok_Iss = ''license-guard'', tok_AppID = app_AppKey app, tok_LicenseID = lic_ID lic,
      tok_DeviceID = fst (deviceFor L e input s), tok_Entitlements = lic_Entitlements lic,
      tok_IssuedAt = unixSeconds (env_now e 53), tok_ExpiresAt = unixSeconds expiresAt,
      tok_OfflineGraceUntil = unixSeconds graceUntil\<rparr> \<and>
    (claimsRoundTrip L claims \<longrightarrow> (\<forall>now. \<exists>auth. authorizeCached L J c (cacheOf J v) now = Inr auth \<and>
      (ca_Allowed auth \<longleftrightarrow> now \<le> fromUnix (unixSeconds expiresAt) \<or> now \<le> fromUnix (unixSeconds graceUntil)) \<and>
      (ca_InOfflineGrace auth \<longleftrightarrow>
         fromUnix (unixSeconds expiresAt) < now \<and> now \<le> fromUnix (unixSeconds graceUntil)) \<and>
      ca_RequiresOnline auth = ca_InOfflineGrace auth \<and>
      ca_Entitlements auth = lic_Entitlements lic \<and> ca_CapabilityPolicy auth = vr_CapabilityPolicy v))"
proof -
  obtain app' lic' device i s2 s3 s4 risk where
    run': "appFor input s = Some app'" "licenseFor L e input s = Some lic'"
    "deviceFor L e input s = (dev_ID device, dev_Status device)"
    "passedGuards L e (clientVerificationRateLimitKey L input r) input s app' lic' (claimsFor L e input s) device i s2 s3"
    "verificationIntegrity L e app' lic' device i input s3 = (s4, risk, False)"
    "verificationIssue L e (clientVerificationRateLimitKey L input r) app' lic' device risk input s4 = (s', resp)"
    by (rule processClientVerification_allowedE [OF run])
  have same: "app' = app" "lic' = lic" using found run' by simp_all
  let ?settings = "settingsLocked (env_now e 50) s"
  have s4: "srv_privateKey s4 = srv_privateKey s" "settingsLocked (env_now e 50) s4 = ?settings"
    using verificationIntegrity_limits(5,7) [OF run'(4,5)] by (simp_all add: settingsLocked_def)
  let ?t = "env_now e 51 + minutes (tokenTTLMinutes ?settings risk)"
  let ?g = "env_now e 52 + days (set_OfflineGraceDays ?settings)"
  let ?claims = "verificationClaims e app lic device ?t ?g"
  obtain v where resp: "resp = writeJSON 200 (PVerify v)" "vr_Risk v = risk"
    and v: "SignLicenseToken L (srv_privateKey s) ?claims = Inr (vr_LicenseToken v)"
    "vr_ExpiresAt v = Some ?t" "vr_OfflineGraceUntil v = Some ?g"
    using verificationIssue_allowed [OF run'(6) run(2)] unfolding same s4 by blast
  then have body: "rsp_body resp = PVerify v" by simp
  have key: "ParsePublicKey L (co_PublicKey c) = Inr (srv_publicKey s)" "co_PublicKey c \<noteq> []"
  proof -
    show "ParsePublicKey L (co_PublicKey c) = Inr (srv_publicKey s)"
      using crypto by (simp add: client publicKeyString_def ParsePublicKey_published ed25519_def)
    then show "co_PublicKey c \<noteq> []" by (auto simp: ParsePublicKey_def trimPrefix_def)
  qed
  have token: "sdkVerifyLicenseToken L (co_PublicKey c) (ct_LicenseToken (cacheOf J v)) True now = Inr ?claims"
    if "claimsRoundTrip L ?claims" for now
    using verify_signed [OF v(1) _ that] crypto
    by (simp add: sdk_verifies_as_server [OF key(1)] cacheOf_def ed25519_def)
  have policy: "policyRefusal L c (vr_CapabilityPolicy v) = None"
  proof (cases "vr_CapabilityPolicy v")
    case (Some b)
    have "signedCapabilityPolicyBundleLocked L e 54 (app_AppKey app) (lic_ID lic) (dev_ID device)
        (lic_Entitlements lic) ?t s4 = Inr (Some b)"
      using verificationIssue_policy [OF run'(6) run(2) body] Some same s4 by simp
    from sdk_accepts_policy [OF _ this] crypto show ?thesis
      by (simp add: policyRefusal_def Some client publicKeyString_def s4)
  qed (simp add: policyRefusal_def)
  have grace: "0 < unixSeconds ?g"
  proof -
    have "0 \<le> set_OfflineGraceDays ?settings" using settingsLocked_in_range by (simp add: settingsInRange_def)
    then have "1000000000 \<le> ?g" using clock by (simp add: days_def)
    then show ?thesis by (simp add: unixSeconds_def)
  qed
  have "authorizeCached L J c (cacheOf J v) now = Inr (signedAuthorization J (cacheOf J v) ?claims now)"
    if "claimsRoundTrip L ?claims" for now
    using token [OF that] policy key client by (simp add: authorizeCached_def verificationClaims_def cacheOf_def)
  then show ?thesis
    using v grace body resp(2) run'(3)
    by (intro exI [of _ v] exI [of _ ?claims] exI [of _ ?t] exI [of _ ?g])
       (simp add: signedAuthorization_sel graceOf_def verificationClaims_def cacheOf_def)
qed

section \<open>Witnesses\<close>

definition sampleKey :: string where
  "sampleKey = replicate 32 (CHR ''k'')"

text \<open>The fresh deployment with a key of 32 bytes, and a client of it.\<close>

definition sampleSigning :: Server where
  "sampleSigning = sampleFresh\<lparr>srv_publicKey := sampleKey, srv_privateKey := sampleKey\<rparr>"

definition sampleClient :: "(string \<rightharpoonup> string) clientOptions" where
  "sampleClient = \<lparr> co_AppID = ''demo'', co_Endpoint = ''https://license.example/v1'',
     co_PublicKey = stdEncode sampleKey, co_AppVersion = ''1.0.0'', co_BinaryHashOverride = ''h'',
     co_SignerThumbprint = [], co_IntegrityHook = None \<rparr>"

lemma sampleSigning_spec: "verificationSpec sampleLib sampleEnv sampleRequest (sampleInput ''a'') sampleSigning"
  by (unfold sampleSigning_def sampleKey_def sampleFresh_def, code_simp)

lemma sampleSigning_lookups:
  "appFor (sampleInput ''a'') sampleSigning = Some sampleApp"
  "licenseFor sampleLib sampleEnv (sampleInput ''a'') sampleSigning = Some sampleLicense"
  "deviceFor sampleLib sampleEnv (sampleInput ''a'') sampleSigning = (''dev_a'', ''active'')"
  "srv_publicKey sampleSigning = sampleKey" "srv_privateKey sampleSigning = sampleKey"
  by (simp_all add: sampleSigning_def appFor_def findAppLocked_def licenseFor_def sample_defs
      findLicenseByKeyLocked_def deviceFor_def findDeviceByFingerprintLocked_def)

lemma sampleKey_ed25519: "ed25519 sampleLib sampleKey sampleKey"
  by (simp add: ed25519_def sample_signatures) (simp add: sampleKey_def sampleLib_def)

lemma sampleSigning_settings:
  "set_OfflineGraceDays (settingsLocked now sampleSigning) = 7"
  "tokenTTLMinutes (settingsLocked now sampleSigning) risk = 30"
proof -
  have "settingsLocked now sampleSigning = settingsLocked now sampleFresh"
    by (simp add: settingsLocked_def sampleSigning_def)
  then show "set_OfflineGraceDays (settingsLocked now sampleSigning) = 7"
    "tokenTTLMinutes (settingsLocked now sampleSigning) risk = 30"
    by (simp_all add: sample_settings sample_TTL)
qed

definition sampleCodec :: sdkCodec where
  "sampleCodec = \<lparr> sk_marshalCache = (\<lambda>t. Inr (ct_LicenseToken t)),
     sk_marshalCacheIndent = (\<lambda>t. Inr (ct_LicenseToken t)),
     sk_unmarshalCache = (\<lambda>raw. Inr \<lparr> ct_LicenseToken = raw, ct_ExpiresAt = [], ct_OfflineGraceUntil = [],
        ct_Entitlements = [''edited''], ct_CapabilityPolicy = None \<rparr>),
     sk_formatTime = (\<lambda>t. ''t''), sk_parseTime = (\<lambda>s. None),
     sk_dpapiProtect = (\<lambda>p. Inr (CHR ''#'' # p)), sk_dpapiUnprotect = (\<lambda>q. Inr (tl q)), sk_windows = True \<rparr>"

text \<open>The token lives from second 1000 to 2800, its grace ends at 605800; the clock stands at 5000.\<close>

lemma offline_authorization_witness:
  "\<exists>s' resp v auth.
     processClientVerification sampleLib sampleEnv sampleRequest (sampleInput ''a'') sampleSigning = (s', resp) \<and>
     rsp_body resp = PVerify v \<and> authorizeCached sampleLib sampleCodec sampleClient (cacheOf sampleCodec v) 5000000000000 = Inr auth \<and>
     ca_Allowed auth \<and> ca_InOfflineGrace auth \<and> ca_Entitlements auth = [''export'']"
proof -
  obtain s' resp where run: "processClientVerification sampleLib sampleEnv sampleRequest (sampleInput ''a'')
      sampleSigning = (s', resp)" "verificationAllowed resp"
    using sample_allowed [OF sampleSigning_spec] by (metis prod.collapse)
  have k: "ed25519 sampleLib (srv_privateKey sampleSigning) (srv_publicKey sampleSigning)"
    by (simp add: sampleSigning_lookups sampleKey_ed25519)
  have clock: "env_now sampleEnv j = 1000000000000" for j by (simp add: sampleEnv_def)
  have c: "1000000000 \<le> env_now sampleEnv 52" "co_PublicKey sampleClient = publicKeyString sampleSigning"
      "co_AppID sampleClient = app_AppKey sampleApp"
    by (simp_all add: clock sampleClient_def publicKeyString_def sampleSigning_lookups sampleApp_def)
  obtain v where v: "rsp_body resp = PVerify v" and
    auth: "\<forall>now. \<exists>auth. authorizeCached sampleLib sampleCodec sampleClient (cacheOf sampleCodec v) now = Inr auth \<and>
      ca_Allowed auth = (now \<le> 2800000000000 \<or> now \<le> 605800000000000) \<and>
      ca_InOfflineGrace auth = (2800000000000 < now \<and> now \<le> 605800000000000) \<and>
      ca_RequiresOnline auth = ca_InOfflineGrace auth \<and>
      ca_Entitlements auth = [''export''] \<and> ca_CapabilityPolicy auth = vr_CapabilityPolicy v"
    using offline_authorization [OF run sampleSigning_lookups(1,2) k c, where J = sampleCodec] sample_claims_roundTrip
    by (auto simp: clock sampleSigning_lookups sampleSigning_settings sampleClaims_def sampleApp_def
        sampleLicense_def minutes_def days_def unixSeconds_def fromUnix_def)
  from auth [THEN spec, of 5000000000000] obtain au where
    "authorizeCached sampleLib sampleCodec sampleClient (cacheOf sampleCodec v) 5000000000000 = Inr au" "ca_Allowed au"
    "ca_InOfflineGrace au" "ca_Entitlements au = [''export'']" by auto
  with run(1) v show ?thesis by blast
qed

text \<open>A machine whose world is its files; the cache file holds the token text, the clock stands at 5000.\<close>

definition sampleHost :: "(string \<rightharpoonup> string) host" where
  "sampleHost = \<lparr> os_readFile = (\<lambda>p files. case files p of None \<Rightarrow> Inl (NotExist p) | Some raw \<Rightarrow> Inr raw),
     os_writeFile = (\<lambda>p content files. (Inr (), files(p \<mapsto> content))),
     os_mkdirAll = (\<lambda>p files. (Inr (), files)),
     os_remove = (\<lambda>p files. (if files p = None then Inl (NotExist p) else Inr (), files(p := None))),
     os_getenv = (\<lambda>k files. []), os_userConfigDir = (\<lambda>files. Inr ''cfg''), os_userCacheDir = (\<lambda>files. Inr ''cache''),
     os_hostname = (\<lambda>files. ''host''), os_executable = (\<lambda>files. Inr ''app.exe''),
     os_now = (\<lambda>files. 5000000000000), os_random = (\<lambda>n files. (Inr (replicate n (CHR ''r'')), files)),
     os_join = joinWith ''/'', os_dir = (\<lambda>p. p), os_GOOS = ''windows'', os_GOARCH = ''amd64'' \<rparr>"

lemma sampleHost_laws: "fileLaws sampleHost"
  by (auto simp: fileLaws_def sampleHost_def)








end
