(* ===== verification/ServerMainProps.thy ===== *)
theory ServerMainProps
  imports ServerMain StoreProps SdkProps
begin

text \<open>
  What the server command promises: a production start runs on PostgreSQL with the configured HTTPS origins and
  without demo data, and a logged message does not depend on the password of a database URL in it.
\<close>

section \<open>Origins\<close>

lemma splitOn_pieces_split: "concat (map (splitOn c) (splitOn c s)) = splitOn c s"
proof -
  have "\<forall>p \<in> set ps. c \<notin> set p \<Longrightarrow> concat (map (splitOn c) ps) = ps" for ps
    by (induction ps) (simp_all add: splitOn_no_sep)
  then show ?thesis using splitOn_pieces by blast
qed

definition configuredOrigins :: "string \<Rightarrow> string list" where
  "configuredOrigins origins = filter (\<lambda>o1. o1 \<noteq> []) (map trimSpace (splitOn (CHR '','') origins))"

lemma corsParts_filter:
  "list_all (\<lambda>p. trimSpace p \<noteq> ''*'') parts \<Longrightarrow>
   corsParts parts = Some (map (trimRightSet ''/'') (filter (\<lambda>o1. o1 \<noteq> []) (map trimSpace parts)))"
  by (induction parts) (auto simp: Let_def)

lemma normalize_configured:
  assumes "\<not> corsAllowsWildcard origins"
  shows "normalizeCORSAllowedOrigins (splitOn (CHR '','') origins) =
    (if configuredOrigins origins = [] then [''*''] else map (trimRightSet ''/'') (configuredOrigins origins))"
proof -
  have "list_all (\<lambda>p. trimSpace p \<noteq> ''*'') (splitOn (CHR '','') origins)"
    using assms by (auto simp: corsAllowsWildcard_def list_all_iff list_ex_iff)
  from corsParts_filter [OF this] show ?thesis
    by (auto simp: normalizeCORSAllowedOrigins_def splitOn_pieces_split configuredOrigins_def split: list.split)
qed



section \<open>A production start\<close>









text \<open>A small URL library, and a machine with the database in memory.\<close>

definition sampleParse :: "string \<Rightarrow> url option" where
  "sampleParse s =
     (if hasPrefix s ''https://''
      then Some \<lparr> url_Scheme = ''https'', url_User = None, url_Host = takeWhile (\<lambda>c. c \<noteq> CHR ''/'') (drop 8 s),
                  url_Path = dropWhile (\<lambda>c. c \<noteq> CHR ''/'') (drop 8 s), url_RawQuery = [], url_Fragment = [] \<rparr>
      else if hasPrefix s ''postgres://''
      then (let rest = drop 11 s; info = takeWhile (\<lambda>c. c \<noteq> CHR ''@'') rest in
            if info = rest then None
            else Some \<lparr> url_Scheme = ''postgres'',
                   url_User = Some (takeWhile (\<lambda>c. c \<noteq> CHR '':'') info,
                     (let pw = dropWhile (\<lambda>c. c \<noteq> CHR '':'') info in if pw = [] then None else Some (tl pw))),
                   url_Host = drop (length info + 1) rest, url_Path = [], url_RawQuery = [], url_Fragment = [] \<rparr>)
      else None)"

definition sampleURLs :: urllib where
  "sampleURLs =
     \<lparr> ul_parse = sampleParse,
       ul_string = (\<lambda>u. url_Scheme u @ ''://'' @
         (case url_User u of
            None \<Rightarrow> [] | Some (name, None) \<Rightarrow> name @ ''@'' | Some (name, Some pw) \<Rightarrow> name @ '':'' @ pw @ ''@'') @
         url_Host u @ url_Path u) \<rparr>"







section \<open>Commas are no origin\<close>

text \<open>Nothing but commas and white space passes the checks of a production configuration, and allows every origin.\<close>

lemma production_wildcard:
  assumes "list_all (\<lambda>part. trimSpace part = []) (splitOn (CHR '','') origins)" and "trimSpace origins \<noteq> []"
    and "isPostgresStore L mode" and "trimSpace keyDir \<noteq> []" and "validateHTTPSPublicBaseURL L P base = None"
  shows "validateProductionConfig L P True mode keyDir origins base = None \<and>
    srv_corsAllowedOrigins (SetCORSAllowedOrigins (splitOn (CHR '','') origins) s) = [''*'']"
proof -
  have none: "list_all (\<lambda>part. trimSpace part = []) parts \<Longrightarrow> validateOriginParts L P parts = None" for parts
    by (induction parts) (simp_all add: Let_def)
  have wild: "\<not> corsAllowsWildcard origins"
    using assms(1,2) by (fastforce simp: corsAllowsWildcard_def list_all_iff list_ex_iff)
  have "configuredOrigins origins = []"
    using assms(1) by (auto simp: configuredOrigins_def list_all_iff filter_empty_conv)
  then show ?thesis
    using assms(3-5) none [OF assms(1)] wild
    by (simp add: validateProductionConfig_def validateHTTPSOrigins_def SetCORSAllowedOrigins_def normalize_configured)
qed

lemma production_wildcard_sample:
  "validateProductionConfig sampleLib sampleURLs True ''postgres'' ''keys'' '', ,'' ''https://lg.example'' = None \<and>
   srv_corsAllowedOrigins (SetCORSAllowedOrigins (splitOn (CHR '','') '', ,'') (sampleServer (sampleData [] []) ''a'')) = [''*'']"
  by (rule production_wildcard) (code_simp+)

section \<open>Redaction\<close>

text \<open>Before a URL stands nothing, or a byte that no URL holds; after it the same.\<close>

lemma takeWhile_stop: "list_all f p \<Longrightarrow> (rest = [] \<or> \<not> f (hd rest)) \<Longrightarrow> takeWhile f (p @ rest) = p"
  by (induction p) (auto simp: takeWhile_eq_Nil_iff list_all_iff)







definition postgresURL :: "string \<Rightarrow> bool" where
  "postgresURL raw \<longleftrightarrow>
     (\<exists>p tail. p \<in> {''postgres://'', ''postgresql://''} \<and> raw = p @ tail \<and> tail \<noteq> [] \<and> list_all urlByte tail)"

lemma hasPrefix_same: "hasPrefix (p @ s) p"
  by (auto simp: hasPrefix_iff)

lemma matchAfter_url:
  "tail \<noteq> [] \<Longrightarrow> list_all urlByte tail \<Longrightarrow> post = [] \<or> \<not> urlByte (hd post) \<Longrightarrow>
   matchAfter p (p @ tail @ post) = Some (length p + length tail)"
  by (simp add: matchAfter_def hasPrefix_same takeWhile_stop)

lemma matchPostgresURL_url:
  assumes "postgresURL raw" and "post = [] \<or> \<not> urlByte (hd post)"
  shows "matchPostgresURL (raw @ post) = Some (length raw)"
proof -
  obtain p tail where p: "p \<in> {''postgres://'', ''postgresql://''}" "raw = p @ tail" "tail \<noteq> []" "list_all urlByte tail"
    using assms(1) by (auto simp: postgresURL_def)
  have m: "matchAfter p (raw @ post) = Some (length raw)"
    using matchAfter_url [OF p(3,4) assms(2), of p] p(2) by simp
  show ?thesis
  proof (cases "p = ''postgresql://''")
    case True
    then show ?thesis using m by (simp add: matchPostgresURL_def)
  next
    case False
    then have pg: "p = ''postgres://''" using p(1) by blast
    then have "\<not> hasPrefix (raw @ post) ''postgresql://''" by (simp add: p(2))
    then have "matchAfter ''postgresql://'' (raw @ post) = None" unfolding matchAfter_def by simp
    then show ?thesis using m pg by (simp add: matchPostgresURL_def)
  qed
qed

lemma redact_url:
  assumes "postgresURL raw" and "post = [] \<or> \<not> urlByte (hd post)"
  shows "redactLogMessage P (raw @ post) = redactURLPassword P raw @ redactLogMessage P post"
  by (subst redactLogMessage.simps) (simp add: matchPostgresURL_url [OF assms])



text \<open>A quote in the password ends the match: when what stands before it does not parse, the message is logged
  as it is.\<close>

lemma redaction_stops_at_quote:
  assumes "postgresURL shown" and "ul_parse P shown = None"
  shows "redactLogMessage P (shown @ CHR 0x27 # rest) = shown @ CHR 0x27 # redactLogMessage P rest"
proof -
  have "redactLogMessage P (CHR 0x27 # rest) = CHR 0x27 # redactLogMessage P rest"
    by (subst redactLogMessage.simps) (simp add: matchPostgresURL_def matchAfter_def)
  then show ?thesis
    using redact_url [OF assms(1), of "CHR 0x27 # rest" P] assms(2) by (simp add: redactURLPassword_def urlByte_def)
qed

end
