(* ===== verification/Control.thy ===== *)
theory Control
  imports Host Releases
begin

text \<open>
  The control command (\<^verbatim>\<open>src/cmd/licenseguardctl/main.go\<close>): publishing a release with the hashes of its
  artifacts, and the bootstrap of a VisionFlow development installation over the server's administrative API.
  The operating system is \<^verbatim>\<open>host\<close>; sending a request, writing to the output, JSON at the types used, cleaning a
  path and formatting a date are the parameter \<^verbatim>\<open>ctl\<close>. Parsed flags are records.
\<close>

section \<open>Data\<close>

record releaseInput =
  ri_appID :: string
  ri_platform :: string
  ri_version :: string
  ri_buildNumber :: int
  ri_channel :: string
  ri_status :: string
  ri_mainBinary :: string
  ri_mainBinaryHash :: string
  ri_signerThumbprint :: string
  ri_packageFile :: string
  ri_packageSHA256 :: string
  ri_resourceManifestHash :: string
  ri_businessManifest :: string
  ri_businessManifestSHA256 :: string
  ri_protectedDBSchemaHash :: string
  ri_protectedDBTablesHash :: string
  ri_assetsManifestSHA256 :: string
  ri_workflowManifestSHA256 :: string
  ri_downloadURL :: string
  ri_releaseNotes :: string
  ri_releaseNotesFile :: string
  ri_mandatory :: bool
  ri_minSupportedVersion :: string
  ri_rolloutPercent :: int

record releasePayload =
  rp_AppID :: string
  rp_Platform :: string
  rp_Version :: string
  rp_BuildNumber :: int
  rp_Channel :: string
  rp_Status :: string
  rp_SignerThumbprint :: string
  rp_MainBinaryHash :: string
  rp_ResourceManifestHash :: string
  rp_BusinessManifestSHA256 :: string
  rp_ProtectedDBSchemaHash :: string
  rp_ProtectedDBTablesHash :: string
  rp_AssetsManifestSHA256 :: string
  rp_WorkflowManifestSHA256 :: string
  rp_DownloadURL :: string
  rp_PackageSHA256 :: string
  rp_Mandatory :: bool
  rp_MinSupportedVersion :: string
  rp_RolloutPercent :: int
  rp_ReleaseNotes :: string

record visionFlowTableDigest =
  vt_Name :: string
  vt_RowCount :: int
  vt_SHA256 :: string

record visionFlowFileDigest =
  vd_Path :: string
  vd_SHA256 :: string

record visionFlowBusinessFileSet =
  vs_Name :: string
  vs_Root :: string
  vs_FileCount :: int
  vs_SHA256 :: string
  vs_Files :: "visionFlowFileDigest list"

record visionFlowBusinessManifest =
  vm_SchemaVersion :: string
  vm_AppID :: string
  vm_Release :: string
  vm_RuntimeTables :: "visionFlowTableDigest list"
  vm_FileSets :: "visionFlowBusinessFileSet list"

record signedVisionFlowBusinessManifest =
  sm_Alg :: string
  sm_KeyType :: string
  sm_Manifest :: visionFlowBusinessManifest
  sm_Signature :: string

record visionFlowBootstrapInput =
  bi_server :: string
  bi_endpoint :: string
  bi_adminToken :: string
  bi_adminAccount :: string
  bi_adminPassword :: string
  bi_appID :: string
  bi_appName :: string
  bi_ownerTeam :: string
  bi_platform :: string
  bi_version :: string
  bi_buildNumber :: int
  bi_binaryHash :: string
  bi_signerThumbprint :: string
  bi_packageSHA256 :: string
  bi_downloadURL :: string
  bi_releaseNotes :: string
  bi_licenseOwner :: string
  bi_licenseDays :: int
  bi_expiresAt :: string
  bi_maxDevices :: int
  bi_entitlements :: "string list"
  bi_writeEnvPath :: string
  bi_format :: string

record visionFlowBootstrapResult =
  br_AppID :: string
  br_Endpoint :: string
  br_PublicKey :: string
  br_Version :: string
  br_BinaryHash :: string
  br_SignerThumbprint :: string
  br_LicenseKey :: string
  br_Entitlements :: "string list"
  br_AppCreated :: bool
  br_ReleaseID :: string
  br_ReleaseCreated :: bool
  br_ReleasePatched :: bool
  br_CapabilityPolicies :: int
  br_LicenseID :: string
  br_ExpiresAt :: string
  br_VisionFlowEnv :: "string \<rightharpoonup> string"

record adminApp =
  aa_ID :: string
  aa_AppKey :: string
  aa_Name :: string
  aa_Description :: string
  aa_OwnerTeam :: string
  aa_Status :: string

record adminRelease =
  ar_ID :: string
  ar_AppID :: string
  ar_Platform :: string
  ar_Version :: string
  ar_BuildNumber :: int
  ar_Channel :: string
  ar_Status :: string
  ar_SignerThumbprint :: string
  ar_MainBinaryHash :: string
  ar_ResourceManifestHash :: string
  ar_BusinessManifestSHA256 :: string
  ar_ProtectedDBSchemaHash :: string
  ar_ProtectedDBTablesHash :: string
  ar_AssetsManifestSHA256 :: string
  ar_WorkflowManifestSHA256 :: string
  ar_DownloadURL :: string
  ar_PackageSHA256 :: string
  ar_Mandatory :: bool
  ar_MinSupportedVersion :: string
  ar_RolloutPercent :: int
  ar_ReleaseNotes :: string

record adminLicense =
  al_ID :: string
  al_AppID :: string
  al_PlanName :: string
  al_OwnerRef :: string
  al_MaxDevices :: int
  al_Entitlements :: "string list"
  al_Status :: string

record adminAppDetail =
  ad_App :: adminApp
  ad_Releases :: "adminRelease list"
  ad_Licenses :: "adminLicense list"

record publicKeyResponse =
  pr_Algorithm :: string
  pr_KeyType :: string
  pr_PublicKey :: string

text \<open>The answers decoded into anonymous structs.\<close>

record defaultsAnswer =
  da_Items :: "gmap list"
  da_Added :: int

record licenseAnswer =
  la_License :: adminLicense
  la_LicenseKey :: string

section \<open>Parameters\<close>

text \<open>A request as it is sent: method, URL, headers, body. \<open>ct_send\<close> covers \<^verbatim>\<open>http.NewRequestWithContext\<close>,
  \<^verbatim>\<open>http.DefaultClient.Do\<close> and reading the body, the 30 s limit included.\<close>

record ctlRequest =
  cq_Method :: string
  cq_URL :: string
  cq_Headers :: "(string \<times> string) list"
  cq_Body :: string

record 'w ctl =
  ct_send :: "ctlRequest \<Rightarrow> ('w, int \<times> string) io"
  ct_write :: "string \<Rightarrow> ('w, unit) io"
  ct_clean :: "string \<Rightarrow> string"
  ct_date :: "time \<Rightarrow> string"
  ct_marshalMap :: "gmap \<Rightarrow> string + string"
  ct_marshalRelease :: "releasePayload \<Rightarrow> string + string"
  ct_marshalManifest :: "visionFlowBusinessManifest \<Rightarrow> string + string"
  ct_indentMap :: "gmap \<Rightarrow> string + string"
  ct_indentRelease :: "releasePayload \<Rightarrow> string + string"
  ct_indentResult :: "visionFlowBootstrapResult \<Rightarrow> string + string"
  ct_decodeMap :: "string \<Rightarrow> string + gmap"
  ct_decodeToken :: "string \<Rightarrow> string + string"
  ct_decodeApps :: "string \<Rightarrow> string + adminApp list"
  ct_decodeDetail :: "string \<Rightarrow> string + adminAppDetail"
  ct_decodeDefaults :: "string \<Rightarrow> string + defaultsAnswer"
  ct_decodeRelease :: "string \<Rightarrow> string + adminRelease"
  ct_decodeKey :: "string \<Rightarrow> string + publicKeyResponse"
  ct_decodeLicense :: "string \<Rightarrow> string + licenseAnswer"
  ct_decodeManifest :: "string \<Rightarrow> string + signedVisionFlowBusinessManifest"


section \<open>Strings\<close>

definition fallback :: "string \<Rightarrow> string \<Rightarrow> string" where
  "fallback v fallbackValue = (if v = [] then fallbackValue else v)"

text \<open>\<^verbatim>\<open>envOrDefault\<close> of this command trims; the variable's value is an argument.\<close>

definition ctlEnvOrDefault :: "string \<Rightarrow> string \<Rightarrow> string" where
  "ctlEnvOrDefault raw fallbackValue = (let v = trimSpace raw in if v = [] then fallbackValue else v)"

definition normalizeServerURL :: "string \<Rightarrow> string" where
  "normalizeServerURL v = trimRightSet ''/'' (trimSuffix (trimRightSet ''/'' (trimSpace v)) ''/v1'')"

definition normalizeClientEndpoint :: "string \<Rightarrow> string \<Rightarrow> string" where
  "normalizeClientEndpoint endpoint0 baseURL =
     (let endpoint = trimRightSet ''/'' (trimSpace endpoint0) in
      if endpoint \<noteq> [] then endpoint else trimRightSet ''/'' baseURL @ ''/v1'')"

text \<open>\<open>seen\<close> is the map of the values already taken.\<close>

fun normalizeListFrom :: "string list \<Rightarrow> string list \<Rightarrow> string list" where
  "normalizeListFrom seen [] = []"
| "normalizeListFrom seen (value0 # values) =
     (let v = trimSpace value0 in
      if v = [] \<or> v \<in> set seen then normalizeListFrom seen values
      else v # normalizeListFrom (v # seen) values)"

definition normalizeStringList :: "string list \<Rightarrow> string list" where
  "normalizeStringList values = normalizeListFrom [] values"

definition parseCSV :: "string \<Rightarrow> string list" where
  "parseCSV v = (if trimSpace v = [] then [] else normalizeStringList (splitOn (CHR '','') v))"

definition defaultVisionFlowEntitlements :: "string list" where
  "defaultVisionFlowEntitlements =
     [''visionflow.automation'', ''visionflow.batch'', ''visionflow.export'', ''visionflow.plugin'', ''visionflow.update'']"

text \<open>\<^verbatim>\<open>url.PathEscape\<close>: bytes that may stand in a path segment as they are, the others as \<^verbatim>\<open>%XX\<close>.\<close>

definition segmentByte :: "char \<Rightarrow> bool" where
  "segmentByte c \<longleftrightarrow>
     (let n = of_char c :: nat in
      (48 \<le> n \<and> n \<le> 57) \<or> (65 \<le> n \<and> n \<le> 90) \<or> (97 \<le> n \<and> n \<le> 122) \<or> c \<in> set ''-_.~$&+:=@'')"

definition pathEscape :: "string \<Rightarrow> string" where
  "pathEscape s = concat (map (\<lambda>c. if segmentByte c then [c] else ''%'' @ map upperByte (hexEncode [c])) s)"

section \<open>Files\<close>

definition fileSHA256Hex :: "golib \<Rightarrow> 'w host \<Rightarrow> 'w ctl \<Rightarrow> string \<Rightarrow> ('w, string) io" where
  "fileSHA256Hex L H C path =
     ioBind (readFile H (ct_clean C path)) (\<lambda>content. ioReturn (hexEncode (lib_sha256 L content)))"

definition hashOrOverride ::
  "golib \<Rightarrow> 'w host \<Rightarrow> 'w ctl \<Rightarrow> string \<Rightarrow> string \<Rightarrow> string \<Rightarrow> ('w, string) io" where
  "hashOrOverride L H C path0 override label =
     (let v = trimSpace override; path = trimSpace path0 in
      if v \<noteq> [] then ioReturn (toLower L v)
      else if path = [] then ioFail (GoErr (label @ '' path or '' @ label @ ''-hash is required''))
      else fileSHA256Hex L H C path)"

text \<open>\<^verbatim>\<open>fmt.Errorf("...: %w", err)\<close>.\<close>

definition wrapError :: "string \<Rightarrow> ('w, 'a) io \<Rightarrow> ('w, 'a) io" where
  "wrapError prefix m w =
     (case m w of
        (Inl (NotExist s), w') \<Rightarrow> (Inl (NotExist (prefix @ s)), w')
      | (Inl (GoErr s), w') \<Rightarrow> (Inl (GoErr (prefix @ s)), w')
      | (r, w') \<Rightarrow> (r, w'))"

definition visionFlowBusinessManifestSHA256 :: "golib \<Rightarrow> 'w host \<Rightarrow> 'w ctl \<Rightarrow> string \<Rightarrow> ('w, string) io" where
  "visionFlowBusinessManifestSHA256 L H C path0 =
     (let path = trimSpace path0 in
      if path = [] then ioFail (GoErr ''business-manifest path is required'')
      else
        ioBind (wrapError ''read VisionFlow business manifest: '' (readFile H (ct_clean C path))) (\<lambda>data.
        ioBind (wrapError ''decode VisionFlow business manifest: '' (ioSum (ct_decodeManifest C data))) (\<lambda>signed1.
          if sm_Alg signed1 \<noteq> ''EdDSA'' \<or> sm_KeyType signed1 \<noteq> ''Ed25519''
          then ioFail (GoErr (''unsupported VisionFlow business manifest signature type '' @ sm_Alg signed1 @ ''/'' @
                 sm_KeyType signed1))
          else if trimSpace (sm_Signature signed1) = []
          then ioFail (GoErr ''VisionFlow business manifest signature is required'')
          else if vm_SchemaVersion (sm_Manifest signed1) \<noteq> ''visionflow.business.v1''
          then ioFail (GoErr (''unsupported VisionFlow business manifest schema '' @
                 lib_quote L (vm_SchemaVersion (sm_Manifest signed1))))
          else
            ioBind (wrapError ''encode VisionFlow business manifest signing payload: ''
                (ioSum (ct_marshalManifest C (sm_Manifest signed1)))) (\<lambda>payload.
              ioReturn (hexEncode (lib_sha256 L payload))))))"

definition releaseNotesValue :: "'w host \<Rightarrow> 'w ctl \<Rightarrow> string \<Rightarrow> string \<Rightarrow> ('w, string) io" where
  "releaseNotesValue H C notes path =
     (if trimSpace path = [] then ioReturn (trimSpace notes)
      else ioBind (readFile H (ct_clean C path)) (\<lambda>raw. ioReturn (trimSpace raw)))"

section \<open>The release payload\<close>

definition clampRollout :: "int \<Rightarrow> int" where
  "clampRollout n = (let n = (if n < 0 then 0 else n) in if n > 100 then 100 else n)"

definition buildReleasePayload ::
  "golib \<Rightarrow> 'w host \<Rightarrow> 'w ctl \<Rightarrow> releaseInput \<Rightarrow> ('w, releasePayload) io" where
  "buildReleasePayload L H C input =
     (let appID = trimSpace (ri_appID input); version = trimSpace (ri_version input) in
      if appID = [] then ioFail (GoErr ''app-id is required'')
      else if version = [] then ioFail (GoErr ''version is required'')
      else if ri_buildNumber input \<le> 0 then ioFail (GoErr ''build-number must be greater than zero'')
      else
        ioBind (hashOrOverride L H C (ri_mainBinary input) (ri_mainBinaryHash input) ''main-binary'') (\<lambda>mainHash.
        ioBind (hashOrOverride L H C (ri_packageFile input) (ri_packageSHA256 input) ''package'') (\<lambda>packageHash.
        ioBind (let given = toLower L (trimSpace (ri_businessManifestSHA256 input)) in
                if given = [] \<and> trimSpace (ri_businessManifest input) \<noteq> []
                then visionFlowBusinessManifestSHA256 L H C (ri_businessManifest input)
                else ioReturn given) (\<lambda>businessManifestHash.
        ioBind (releaseNotesValue H C (ri_releaseNotes input) (ri_releaseNotesFile input)) (\<lambda>notes.
          if trimSpace (ri_signerThumbprint input) = [] then ioFail (GoErr ''signer-thumbprint is required'')
          else if trimSpace (ri_downloadURL input) = [] then ioFail (GoErr ''download-url is required'')
          else
            ioReturn
              \<lparr> rp_AppID = appID, rp_Platform = fallback (trimSpace (ri_platform input)) ''windows'',
                rp_Version = version, rp_BuildNumber = ri_buildNumber input,
                rp_Channel = fallback (trimSpace (ri_channel input)) ''production'',
                rp_Status = fallback (trimSpace (ri_status input)) ''active'',
                rp_SignerThumbprint = trimSpace (ri_signerThumbprint input), rp_MainBinaryHash = mainHash,
                rp_ResourceManifestHash =
                  (let given = trimSpace (ri_resourceManifestHash input) in
                   if given = [] \<and> businessManifestHash \<noteq> [] then businessManifestHash else given),
                rp_BusinessManifestSHA256 = businessManifestHash,
                rp_ProtectedDBSchemaHash = toLower L (trimSpace (ri_protectedDBSchemaHash input)),
                rp_ProtectedDBTablesHash = toLower L (trimSpace (ri_protectedDBTablesHash input)),
                rp_AssetsManifestSHA256 = toLower L (trimSpace (ri_assetsManifestSHA256 input)),
                rp_WorkflowManifestSHA256 = toLower L (trimSpace (ri_workflowManifestSHA256 input)),
                rp_DownloadURL = trimSpace (ri_downloadURL input), rp_PackageSHA256 = packageHash,
                rp_Mandatory = ri_mandatory input,
                rp_MinSupportedVersion = trimSpace (ri_minSupportedVersion input),
                rp_RolloutPercent = clampRollout (ri_rolloutPercent input), rp_ReleaseNotes = notes \<rparr>)))))"

section \<open>Requests\<close>

definition requestJSON ::
  "'w ctl \<Rightarrow> string \<Rightarrow> string \<Rightarrow> string \<Rightarrow> (string + string) option \<Rightarrow> (string \<Rightarrow> string + 'a) \<Rightarrow> ('w, 'a) io" where
  "requestJSON C meth target token payload decode =
     ioBind (case payload of None \<Rightarrow> ioReturn [] | Some marshalled \<Rightarrow> ioSum marshalled) (\<lambda>body.
     ioBind (ct_send C
         \<lparr> cq_Method = meth, cq_URL = target,
           cq_Headers =
             (if payload \<noteq> None then [(''Content-Type'', ''application/json'')] else []) @
             (if trimSpace token \<noteq> [] then [(''Authorization'', ''Bearer '' @ trimSpace token)] else []),
           cq_Body = body \<rparr>) (\<lambda>(status, raw).
       if status < 200 \<or> status \<ge> 300
       then ioFail (GoErr (''license guard returned status '' @ showInt status @ '': '' @ trimSpace (take 4096 raw)))
       else ioSum (decode raw)))"

definition getCtlJSON :: "'w ctl \<Rightarrow> string \<Rightarrow> string \<Rightarrow> (string \<Rightarrow> string + 'a) \<Rightarrow> ('w, 'a) io" where
  "getCtlJSON C target token decode = requestJSON C ''GET'' target token None decode"

definition patchCtlJSON ::
  "'w ctl \<Rightarrow> string \<Rightarrow> string \<Rightarrow> string + string \<Rightarrow> (string \<Rightarrow> string + 'a) \<Rightarrow> ('w, 'a) io" where
  "patchCtlJSON C target token payload decode = requestJSON C ''PATCH'' target token (Some payload) decode"

definition postCtlJSON ::
  "'w ctl \<Rightarrow> string \<Rightarrow> string \<Rightarrow> string + string \<Rightarrow> (string \<Rightarrow> string + 'a) \<Rightarrow> ('w, 'a) io" where
  "postCtlJSON C target token payload decode = requestJSON C ''POST'' target token (Some payload) decode"

definition postAdminJSON :: "'w ctl \<Rightarrow> string \<Rightarrow> string \<Rightarrow> string \<Rightarrow> string + string \<Rightarrow> ('w, gmap) io" where
  "postAdminJSON C baseURL token path payload = postCtlJSON C (baseURL @ path) token payload (ct_decodeMap C)"

definition getAdminJSON ::
  "'w ctl \<Rightarrow> string \<Rightarrow> string \<Rightarrow> string \<Rightarrow> (string \<Rightarrow> string + 'a) \<Rightarrow> ('w, 'a) io" where
  "getAdminJSON C baseURL token path decode = getCtlJSON C (baseURL @ path) token decode"

definition patchAdminJSON ::
  "'w ctl \<Rightarrow> string \<Rightarrow> string \<Rightarrow> string \<Rightarrow> string + string \<Rightarrow> (string \<Rightarrow> string + 'a) \<Rightarrow> ('w, 'a) io" where
  "patchAdminJSON C baseURL token path payload decode = patchCtlJSON C (baseURL @ path) token payload decode"

definition loginAdmin :: "'w ctl \<Rightarrow> string \<Rightarrow> string \<Rightarrow> string \<Rightarrow> ('w, string) io" where
  "loginAdmin C baseURL account password =
     (if account = [] \<or> password = []
      then ioFail (GoErr ''admin-token or admin-account/admin-password is required'')
      else
        ioBind (postCtlJSON C (baseURL @ ''/admin/login'') []
            (ct_marshalMap C [(''account'', GStr account), (''password'', GStr password)]) (ct_decodeToken C)) (\<lambda>token.
          if token = [] then ioFail (GoErr ''admin login returned no token'') else ioReturn token))"


section \<open>The steps of the VisionFlow bootstrap\<close>

definition appPath :: "string \<Rightarrow> string" where
  "appPath appID = ''/admin/apps/'' @ pathEscape appID"

definition ensureVisionFlowApp ::
  "'w ctl \<Rightarrow> string \<Rightarrow> string \<Rightarrow> visionFlowBootstrapInput \<Rightarrow> ('w, bool) io" where
  "ensureVisionFlowApp C baseURL token input =
     ioBind (getAdminJSON C baseURL token ''/admin/apps'' (ct_decodeApps C)) (\<lambda>apps.
       if list_ex (\<lambda>app. aa_AppKey app = bi_appID input) apps then ioReturn False
       else
         ioBind (postAdminJSON C baseURL token ''/admin/apps''
             (ct_marshalMap C
                [(''app_key'', GStr (bi_appID input)), (''name'', GStr (bi_appName input)),
                 (''description'', GStr ''VisionFlow Windows client''), (''owner_team'', GStr (bi_ownerTeam input)),
                 (''platform'', GStr (bi_platform input)), (''version'', GStr (bi_version input))]))
           (\<lambda>_. ioReturn True))"

definition fetchAppDetail :: "'w ctl \<Rightarrow> string \<Rightarrow> string \<Rightarrow> string \<Rightarrow> ('w, adminAppDetail) io" where
  "fetchAppDetail C baseURL token appID = getAdminJSON C baseURL token (appPath appID) (ct_decodeDetail C)"

definition ensureVisionFlowCapabilityDefaults :: "'w ctl \<Rightarrow> string \<Rightarrow> string \<Rightarrow> string \<Rightarrow> ('w, int) io" where
  "ensureVisionFlowCapabilityDefaults C baseURL token appID =
     ioBind (postCtlJSON C (baseURL @ appPath appID @ ''/capability-policies/visionflow-defaults'') token
         (ct_marshalMap C []) (ct_decodeDefaults C)) (\<lambda>response.
       if da_Added response > 0 then ioReturn (da_Added response)
       else ioReturn (int (length (da_Items response))))"

definition visionFlowReleasePayload :: "visionFlowBootstrapInput \<Rightarrow> gmap" where
  "visionFlowReleasePayload input =
     [(''platform'', GStr (bi_platform input)), (''version'', GStr (bi_version input)),
      (''build_number'', GInt (bi_buildNumber input)), (''channel'', GStr ''production''), (''status'', GStr ''active''),
      (''signer_thumbprint'', GStr (bi_signerThumbprint input)), (''main_binary_hash'', GStr (bi_binaryHash input)),
      (''download_url'', GStr (bi_downloadURL input)), (''package_sha256'', GStr (bi_packageSHA256 input)),
      (''mandatory'', GBool False), (''rollout_percent'', GInt 100), (''release_notes'', GStr (bi_releaseNotes input))]"

text \<open>The release with whether it was created and whether it was patched.\<close>

definition ensureVisionFlowRelease ::
  "'w ctl \<Rightarrow> string \<Rightarrow> string \<Rightarrow> visionFlowBootstrapInput \<Rightarrow> adminRelease list \<Rightarrow> ('w, adminRelease \<times> bool \<times> bool) io" where
  "ensureVisionFlowRelease C baseURL token input releases =
     (let payload = ct_marshalMap C (visionFlowReleasePayload input) in
      case find (\<lambda>r. ar_Platform r = bi_platform input \<and> ar_Version r = bi_version input) releases of
        Some existing \<Rightarrow>
          ioBind (patchAdminJSON C baseURL token
              (appPath (bi_appID input) @ ''/releases/'' @ pathEscape (ar_ID existing)) payload (ct_decodeRelease C))
            (\<lambda>release. ioReturn (release, False, True))
      | None \<Rightarrow>
          ioBind (postCtlJSON C (baseURL @ appPath (bi_appID input) @ ''/releases'') token payload (ct_decodeRelease C))
            (\<lambda>release. ioReturn (release, True, False)))"

definition fetchClientPublicKey :: "'w ctl \<Rightarrow> string \<Rightarrow> ('w, string) io" where
  "fetchClientPublicKey C endpoint =
     ioBind (getCtlJSON C (trimRightSet ''/'' endpoint @ ''/public-key'') [] (ct_decodeKey C)) (\<lambda>response.
       if trimSpace (pr_PublicKey response) = []
       then ioFail (GoErr ''public-key endpoint returned no public_key'')
       else ioReturn (trimSpace (pr_PublicKey response)))"

text \<open>\<^verbatim>\<open>time.Duration(days) * 24 * time.Hour\<close> in 64 bits.\<close>

definition daysDuration :: "int \<Rightarrow> duration" where
  "daysDuration n = sint (of_int (n * 24 * 3600000000000) :: 64 word)"

definition licenseExpiry :: "'w host \<Rightarrow> 'w ctl \<Rightarrow> visionFlowBootstrapInput \<Rightarrow> 'w \<Rightarrow> string" where
  "licenseExpiry H C input w =
     (let expiresAt = trimSpace (bi_expiresAt input) in
      if expiresAt \<noteq> [] then expiresAt
      else (let n = (if bi_licenseDays input \<le> 0 then 30 else bi_licenseDays input)
            in ct_date C (os_now H w + daysDuration n)))"

text \<open>The key, the id and the expiry of the license.\<close>

definition createVisionFlowLicense ::
  "'w host \<Rightarrow> 'w ctl \<Rightarrow> string \<Rightarrow> string \<Rightarrow> visionFlowBootstrapInput \<Rightarrow> ('w, string \<times> string \<times> string) io" where
  "createVisionFlowLicense H C baseURL token input w =
     (let expiresAt = licenseExpiry H C input w in
      ioBind (postCtlJSON C (baseURL @ ''/admin/licenses'') token
          (ct_marshalMap C
             [(''app_id'', GStr (bi_appID input)), (''plan_name'', GStr ''VisionFlow Dev''),
              (''owner_ref'', GStr (bi_licenseOwner input)), (''max_devices'', GInt (bi_maxDevices input)),
              (''expires_at'', GStr expiresAt), (''entitlements'', GStrs (bi_entitlements input))])
          (ct_decodeLicense C)) (\<lambda>response.
        if trimSpace (la_LicenseKey response) = []
        then ioFail (GoErr ''license creation returned no license_key'')
        else ioReturn (trimSpace (la_LicenseKey response), al_ID (la_License response), expiresAt)) w)"

section \<open>The bootstrap\<close>

definition normalizedInput :: "string \<Rightarrow> visionFlowBootstrapInput \<Rightarrow> visionFlowBootstrapInput" where
  "normalizedInput baseURL input =
     input\<lparr>
       bi_endpoint := normalizeClientEndpoint (bi_endpoint input) baseURL,
       bi_appID := trimSpace (bi_appID input),
       bi_appName := fallback (trimSpace (bi_appName input)) ''VisionFlow Windows'',
       bi_ownerTeam := fallback (trimSpace (bi_ownerTeam input)) ''VisionFlow'',
       bi_platform := fallback (trimSpace (bi_platform input)) ''windows'',
       bi_version := fallback (trimSpace (bi_version input)) ''0.1.0'',
       bi_binaryHash := fallback (trimSpace (bi_binaryHash input)) ''dev-visionflow-main-binary-sha256'',
       bi_signerThumbprint := fallback (trimSpace (bi_signerThumbprint input)) ''dev-visionflow-signer-thumbprint'',
       bi_packageSHA256 := fallback (trimSpace (bi_packageSHA256 input)) ''dev-visionflow-package-sha256'',
       bi_downloadURL := fallback (trimSpace (bi_downloadURL input)) (baseURL @ ''/downloads/VisionFlowSetup.exe''),
       bi_releaseNotes :=
         fallback (trimSpace (bi_releaseNotes input)) ''VisionFlow local development bootstrap release'',
       bi_licenseOwner := fallback (trimSpace (bi_licenseOwner input)) ''visionflow-local-dev'',
       bi_entitlements := normalizeStringList (bi_entitlements input) \<rparr>"

definition adminTokenFor :: "'w ctl \<Rightarrow> string \<Rightarrow> string \<Rightarrow> string \<Rightarrow> string \<Rightarrow> ('w, string) io" where
  "adminTokenFor C baseURL adminToken account password =
     (let token = trimSpace adminToken in
      if token = [] then loginAdmin C baseURL (trimSpace account) (trimSpace password) else ioReturn token)"

definition visionFlowEnv :: "visionFlowBootstrapInput \<Rightarrow> string \<Rightarrow> string \<Rightarrow> string \<rightharpoonup> string" where
  "visionFlowEnv input publicKey licenseKey =
     [''LICENSE_GUARD_ENDPOINT'' \<mapsto> bi_endpoint input, ''LICENSE_GUARD_APP_ID'' \<mapsto> bi_appID input,
      ''LICENSE_GUARD_PUBLIC_KEY'' \<mapsto> publicKey, ''LICENSE_GUARD_APP_VERSION'' \<mapsto> bi_version input,
      ''LICENSE_GUARD_BINARY_HASH'' \<mapsto> bi_binaryHash input,
      ''LICENSE_GUARD_SIGNER_THUMBPRINT'' \<mapsto> bi_signerThumbprint input, ''VISIONFLOW_LICENSE_KEY'' \<mapsto> licenseKey]"

definition bootstrapVisionFlow ::
  "'w host \<Rightarrow> 'w ctl \<Rightarrow> visionFlowBootstrapInput \<Rightarrow> ('w, visionFlowBootstrapResult) io" where
  "bootstrapVisionFlow H C input0 =
     (let baseURL = normalizeServerURL (bi_server input0) in
      if baseURL = [] then ioFail (GoErr ''server URL is required'')
      else
        (let input1 = normalizedInput baseURL input0 in
         if bi_appID input1 = [] then ioFail (GoErr ''app-id is required'')
         else if bi_buildNumber input1 \<le> 0 then ioFail (GoErr ''build-number must be greater than zero'')
         else if bi_maxDevices input1 \<le> 0 then ioFail (GoErr ''max-devices must be greater than zero'')
         else
           (let input = (if length (bi_entitlements input1) = 0
                         then input1\<lparr> bi_entitlements := defaultVisionFlowEntitlements \<rparr> else input1) in
            ioBind (adminTokenFor C baseURL (bi_adminToken input) (bi_adminAccount input) (bi_adminPassword input)) (\<lambda>token.
            ioBind (ensureVisionFlowApp C baseURL token input) (\<lambda>appCreated.
            ioBind (ensureVisionFlowCapabilityDefaults C baseURL token (bi_appID input)) (\<lambda>capabilityPolicies.
            ioBind (fetchAppDetail C baseURL token (bi_appID input)) (\<lambda>detail.
            ioBind (ensureVisionFlowRelease C baseURL token input (ad_Releases detail))
              (\<lambda>(release, releaseCreated, releasePatched).
            ioBind (fetchClientPublicKey C (bi_endpoint input)) (\<lambda>publicKey.
            ioBind (createVisionFlowLicense H C baseURL token input) (\<lambda>(licenseKey, licenseID, expiresAt).
              ioReturn
                \<lparr> br_AppID = bi_appID input, br_Endpoint = bi_endpoint input, br_PublicKey = publicKey,
                  br_Version = bi_version input, br_BinaryHash = bi_binaryHash input,
                  br_SignerThumbprint = bi_signerThumbprint input, br_LicenseKey = licenseKey,
                  br_Entitlements = bi_entitlements input, br_AppCreated = appCreated,
                  br_ReleaseID = ar_ID release, br_ReleaseCreated = releaseCreated,
                  br_ReleasePatched = releasePatched, br_CapabilityPolicies = capabilityPolicies,
                  br_LicenseID = licenseID, br_ExpiresAt = expiresAt,
                  br_VisionFlowEnv = visionFlowEnv input publicKey licenseKey \<rparr>))))))))))"

section \<open>Output\<close>

definition envKeys :: "string list" where
  "envKeys =
     [''LICENSE_GUARD_ENDPOINT'', ''LICENSE_GUARD_APP_ID'', ''LICENSE_GUARD_PUBLIC_KEY'', ''LICENSE_GUARD_APP_VERSION'',
      ''LICENSE_GUARD_BINARY_HASH'', ''LICENSE_GUARD_SIGNER_THUMBPRINT'', ''VISIONFLOW_LICENSE_KEY'']"

text \<open>A key that is not in the map reads as the empty string.\<close>

definition renderVisionFlowBootstrapResult ::
  "golib \<Rightarrow> 'w ctl \<Rightarrow> visionFlowBootstrapResult \<Rightarrow> string \<Rightarrow> string + string" where
  "renderVisionFlowBootstrapResult L C result format0 =
     (let format = toLower L (trimSpace format0) in
      if format = [] \<or> format = ''env''
      then Inr (concat (map (\<lambda>key. key @ ''='' @
             (case br_VisionFlowEnv result key of None \<Rightarrow> [] | Some v \<Rightarrow> v) @ [CHR 0x0A]) envKeys))
      else if format = ''json'' then ct_indentResult C result
      else Inl (''unsupported format '' @ lib_quote L format0))"

definition writeIndented :: "'w ctl \<Rightarrow> string + string \<Rightarrow> ('w, unit) io" where
  "writeIndented C encoded = ioBind (ioSum encoded) (ct_write C)"

section \<open>Commands\<close>

record publishFlags =
  pf_server :: string
  pf_adminToken :: string
  pf_adminAccount :: string
  pf_adminPassword :: string
  pf_input :: releaseInput
  pf_dryRun :: bool

definition defaultPublishFlags :: "(string \<Rightarrow> string) \<Rightarrow> publishFlags" where
  "defaultPublishFlags getenv =
     \<lparr> pf_server = ctlEnvOrDefault (getenv ''LICENSE_GUARD_ADMIN_URL'') [],
       pf_adminToken = getenv ''LICENSE_GUARD_ADMIN_TOKEN'', pf_adminAccount = getenv ''LICENSE_GUARD_ADMIN_ACCOUNT'',
       pf_adminPassword = getenv ''LICENSE_GUARD_ADMIN_PASSWORD'',
       pf_input =
         \<lparr> ri_appID = [], ri_platform = ''windows'', ri_version = [], ri_buildNumber = 0, ri_channel = ''production'',
           ri_status = ''active'', ri_mainBinary = [], ri_mainBinaryHash = [], ri_signerThumbprint = [],
           ri_packageFile = [], ri_packageSHA256 = [], ri_resourceManifestHash = [], ri_businessManifest = [],
           ri_businessManifestSHA256 = [], ri_protectedDBSchemaHash = [], ri_protectedDBTablesHash = [],
           ri_assetsManifestSHA256 = [], ri_workflowManifestSHA256 = [], ri_downloadURL = [], ri_releaseNotes = [],
           ri_releaseNotesFile = [], ri_mandatory = False, ri_minSupportedVersion = [], ri_rolloutPercent = 100 \<rparr>,
       pf_dryRun = False \<rparr>"

text \<open>\<open>parsed\<close> is what \<^verbatim>\<open>fs.Parse\<close> makes of the arguments. The first line is written with \<^verbatim>\<open>fmt.Fprintf\<close>,
  whose error is dropped.\<close>

definition runReleasePublishWithIO ::
  "golib \<Rightarrow> 'w host \<Rightarrow> 'w ctl \<Rightarrow> string + publishFlags \<Rightarrow> ('w, unit) io" where
  "runReleasePublishWithIO L H C parsed =
     ioBind (ioSum parsed) (\<lambda>flags.
     ioBind (buildReleasePayload L H C (pf_input flags)) (\<lambda>payload.
       if pf_dryRun flags then writeIndented C (ct_indentRelease C payload)
       else
         (let baseURL = normalizeServerURL (pf_server flags) in
          if baseURL = [] then ioFail (GoErr ''server URL is required'')
          else
            ioBind (adminTokenFor C baseURL (pf_adminToken flags) (pf_adminAccount flags) (pf_adminPassword flags)) (\<lambda>token.
            ioBind (postAdminJSON C baseURL token (appPath (rp_AppID payload) @ ''/releases'')
                (ct_marshalRelease C payload)) (\<lambda>response w.
              writeIndented C (ct_indentMap C response)
                (snd (ct_write C (''published release '' @ rp_AppID payload @ '' '' @ rp_Version payload @ '' build '' @
                   showInt (rp_BuildNumber payload) @ [CHR 0x0A]) w)))))))"

definition defaultBootstrapInput :: "(string \<Rightarrow> string) \<Rightarrow> visionFlowBootstrapInput" where
  "defaultBootstrapInput getenv =
     \<lparr> bi_server = ctlEnvOrDefault (getenv ''LICENSE_GUARD_ADMIN_URL'') [], bi_endpoint = [],
       bi_adminToken = getenv ''LICENSE_GUARD_ADMIN_TOKEN'', bi_adminAccount = getenv ''LICENSE_GUARD_ADMIN_ACCOUNT'',
       bi_adminPassword = getenv ''LICENSE_GUARD_ADMIN_PASSWORD'', bi_appID = ''app_visionflow_windows_prod'',
       bi_appName = ''VisionFlow Windows'', bi_ownerTeam = ''VisionFlow'', bi_platform = ''windows'',
       bi_version = ''0.1.0'', bi_buildNumber = 1, bi_binaryHash = ''dev-visionflow-main-binary-sha256'',
       bi_signerThumbprint = ''dev-visionflow-signer-thumbprint'', bi_packageSHA256 = ''dev-visionflow-package-sha256'',
       bi_downloadURL = ''http://127.0.0.1:8090/downloads/VisionFlowSetup.exe'',
       bi_releaseNotes = ''VisionFlow local development bootstrap release'', bi_licenseOwner = ''visionflow-local-dev'',
       bi_licenseDays = 30, bi_expiresAt = [], bi_maxDevices = 1,
       bi_entitlements = parseCSV (joinWith '','' defaultVisionFlowEntitlements), bi_writeEnvPath = [],
       bi_format = ''env'' \<rparr>"

text \<open>The parsed flags, with the entitlements as \<^verbatim>\<open>parseCSV\<close> reads them.\<close>

definition runVisionFlowBootstrapWithIO ::
  "golib \<Rightarrow> 'w host \<Rightarrow> 'w ctl \<Rightarrow> string + visionFlowBootstrapInput \<times> string \<Rightarrow> ('w, unit) io" where
  "runVisionFlowBootstrapWithIO L H C parsed =
     ioBind (ioSum parsed) (\<lambda>(flags, entitlements).
       let input = flags\<lparr> bi_entitlements := parseCSV entitlements \<rparr> in
     ioBind (bootstrapVisionFlow H C input) (\<lambda>result.
     ioBind (ioSum (renderVisionFlowBootstrapResult L C result (bi_format input))) (\<lambda>rendered.
     ioBind (if bi_writeEnvPath input = [] then ioReturn ()
             else
               (let path = ct_clean C (bi_writeEnvPath input) in
                ioBind (\<lambda>w. case os_mkdirAll H (os_dir H path) w of
                          (Inl err, w') \<Rightarrow> (if os_dir H path = ''.'' then (Inr (), w') else (Inl err, w'))
                        | (Inr _, w') \<Rightarrow> (Inr (), w'))
                  (\<lambda>_. os_writeFile H path rendered))) (\<lambda>_.
       ct_write C rendered))))"

text \<open>\<open>publish\<close> and \<open>bootstrap\<close> are what \<^verbatim>\<open>flag\<close> makes of the remaining arguments.\<close>

definition runCtl ::
  "golib \<Rightarrow> 'w host \<Rightarrow> 'w ctl \<Rightarrow> (string list \<Rightarrow> string + publishFlags) \<Rightarrow>
   (string list \<Rightarrow> string + visionFlowBootstrapInput \<times> string) \<Rightarrow> string list \<Rightarrow> ('w, unit) io" where
  "runCtl L H C publish bootstrap args =
     (if length args \<ge> 2 \<and> args ! 0 = ''release'' \<and> args ! 1 = ''publish''
      then runReleasePublishWithIO L H C (publish (drop 2 args))
      else if length args \<ge> 2 \<and> args ! 0 = ''visionflow'' \<and> args ! 1 = ''bootstrap''
      then runVisionFlowBootstrapWithIO L H C (bootstrap (drop 2 args))
      else ioFail (GoErr (''usage: licenseguardctl release publish [flags]'' @ [CHR 0x0A] @
             ''       licenseguardctl visionflow bootstrap [flags]'')))"

end
