(* ===== verification/ControlProps.thy ===== *)
theory ControlProps
  imports Control StoreProps SdkProps
begin

text \<open>
  What the control command promises: where its requests go and what they carry, and what the server makes of a
  release it publishes.
\<close>

section \<open>Lists of entitlements\<close>

lemma normalizeListFrom_set: "set (normalizeListFrom seen vals) = set (map trimSpace vals) - {[]} - set seen"
  by (induction seen vals rule: normalizeListFrom.induct) (auto simp: Let_def)

lemma normalizeListFrom_distinct: "distinct (normalizeListFrom seen vals)"
  by (induction seen vals rule: normalizeListFrom.induct) (auto simp: Let_def normalizeListFrom_set)

text \<open>The first occurrences of the trimmed values that are not empty.\<close>

lemma normalizeStringList_spec:
  "set (normalizeStringList vals) = set (map trimSpace vals) - {[]} \<and> distinct (normalizeStringList vals)"
  by (simp add: normalizeStringList_def normalizeListFrom_set normalizeListFrom_distinct)

lemma normalizeListFrom_fixed:
  "distinct vals \<Longrightarrow> set vals \<inter> set seen = {} \<Longrightarrow> [] \<notin> set vals \<Longrightarrow> (\<forall>v \<in> set vals. trimSpace v = v) \<Longrightarrow>
   normalizeListFrom seen vals = vals"
  by (induction vals arbitrary: seen) (auto simp: Let_def)

lemma normalizeStringList_idem: "normalizeStringList (normalizeStringList vals) = normalizeStringList vals"
  unfolding normalizeStringList_def
  by (rule normalizeListFrom_fixed) (auto simp: normalizeListFrom_set normalizeListFrom_distinct)

lemma pathEscape_no_slash: "CHR ''/'' \<notin> set (pathEscape s)"
proof -
  have "list_all (\<lambda>n. CHR ''/'' \<noteq> upperByte (hexDigit n)) [0..<16]" by code_simp
  then have hex: "CHR ''/'' \<noteq> upperByte (hexDigit n)" if "n < 16" for n using that by (simp add: list_all_iff del: upt_rec_numeral)
  have "CHR ''/'' \<notin> set (map upperByte (hexEncode [c]))" for c
    using hex [of "of_char c div 16"] hex [of "of_char c mod 16"]
    by (auto simp: less_mult_imp_div_less of_char_def)
  moreover have "\<not> segmentByte (CHR ''/'')" by code_simp
  ultimately show ?thesis by (auto simp: pathEscape_def)
qed

section \<open>The requests of a command\<close>






























text \<open>What only reads leaves the world as it is.\<close>

definition quiet :: "('w, 'a) io \<Rightarrow> bool" where
  "quiet m \<longleftrightarrow> (\<forall>w. snd (m w) = w)"

lemma quiet_basic: "quiet (ioReturn x)" "quiet (ioFail e)" "quiet (ioSum r)" "quiet (readFile H path)"
  by (simp_all add: quiet_def ioReturn_def ioFail_def ioSum_def readFile_def)

lemma quiet_bind: "quiet m \<Longrightarrow> (\<And>x. quiet (f x)) \<Longrightarrow> quiet (ioBind m f)"
  by (auto simp: quiet_def ioBind_def split: prod.split sum.split) (metis snd_conv)+

lemma quiet_if: "quiet m \<Longrightarrow> quiet m' \<Longrightarrow> quiet (if b then m else m')"
  by simp

lemma quiet_wrap: "quiet m \<Longrightarrow> quiet (wrapError prefix m)"
proof -
  have "snd (wrapError prefix m w) = snd (m w)" for w
    by (auto simp: wrapError_def split: prod.split sum.split goError.split)
  then show "quiet m \<Longrightarrow> ?thesis" by (simp add: quiet_def)
qed

lemmas quiet_intros = quiet_basic quiet_bind quiet_if quiet_wrap

lemma quiet_payload: "quiet (buildReleasePayload L H C input)"
  unfolding buildReleasePayload_def hashOrOverride_def fileSHA256Hex_def visionFlowBusinessManifestSHA256_def
    releaseNotesValue_def Let_def
  by (intro quiet_intros)








text \<open>A world of the requests sent, a server that answers each path with a text naming it, and a decoder that
  makes something plausible of every text.\<close>

definition ctlHost :: "ctlRequest list host" where
  "ctlHost = \<lparr> os_readFile = (\<lambda>p w. Inr p), os_writeFile = (\<lambda>p content w. (Inr (), w)),
     os_mkdirAll = (\<lambda>p w. (Inr (), w)), os_remove = (\<lambda>p w. (Inr (), w)),
     os_getenv = (\<lambda>k w. []), os_userConfigDir = (\<lambda>w. Inr ''cfg''), os_userCacheDir = (\<lambda>w. Inr ''cache''),
     os_hostname = (\<lambda>w. ''host''), os_executable = (\<lambda>w. Inr ''app.exe''),
     os_now = (\<lambda>w. 0), os_random = (\<lambda>n w. (Inr (replicate n (CHR ''r'')), w)),
     os_join = joinWith ''/'', os_dir = (\<lambda>p. p), os_GOOS = ''linux'', os_GOARCH = ''amd64'' \<rparr>"

definition noRelease :: adminRelease where
  "noRelease = \<lparr> ar_ID = ''rel_1'', ar_AppID = [], ar_Platform = ''windows'', ar_Version = ''0.1.0'', ar_BuildNumber = 1,
     ar_Channel = [], ar_Status = [], ar_SignerThumbprint = [], ar_MainBinaryHash = [], ar_ResourceManifestHash = [],
     ar_BusinessManifestSHA256 = [], ar_ProtectedDBSchemaHash = [], ar_ProtectedDBTablesHash = [],
     ar_AssetsManifestSHA256 = [], ar_WorkflowManifestSHA256 = [], ar_DownloadURL = [], ar_PackageSHA256 = [],
     ar_Mandatory = False, ar_MinSupportedVersion = [], ar_RolloutPercent = 0, ar_ReleaseNotes = [] \<rparr>"

definition recordingCtl :: "ctlRequest list ctl" where
  "recordingCtl =
     \<lparr> ct_send = (\<lambda>q w. (Inr (200, cq_URL q), w @ [q])), ct_write = (\<lambda>text w. (Inr (), w)), ct_clean = (\<lambda>p. p),
       ct_date = (\<lambda>t. ''2026-01-01''), ct_marshalMap = (\<lambda>m. Inr (concat (map fst m))),
       ct_marshalRelease = (\<lambda>p. Inr (rp_Version p)), ct_marshalManifest = (\<lambda>m. Inr (vm_AppID m)),
       ct_indentMap = (\<lambda>m. Inr []), ct_indentRelease = (\<lambda>p. Inr (rp_Version p)), ct_indentResult = (\<lambda>r. Inr (br_AppID r)),
       ct_decodeMap = (\<lambda>s. Inr []), ct_decodeToken = (\<lambda>s. Inr ''adm_token''), ct_decodeApps = (\<lambda>s. Inr []),
       ct_decodeDetail = (\<lambda>s. Inr \<lparr> ad_App = \<lparr> aa_ID = [], aa_AppKey = [], aa_Name = [], aa_Description = [],
         aa_OwnerTeam = [], aa_Status = [] \<rparr>, ad_Releases = [noRelease], ad_Licenses = [] \<rparr>),
       ct_decodeDefaults = (\<lambda>s. Inr \<lparr> da_Items = [], da_Added = 3 \<rparr>), ct_decodeRelease = (\<lambda>s. Inr noRelease),
       ct_decodeKey = (\<lambda>s. Inr \<lparr> pr_Algorithm = ''EdDSA'', pr_KeyType = ''Ed25519'', pr_PublicKey = ''key'' \<rparr>),
       ct_decodeLicense = (\<lambda>s. Inr \<lparr> la_License = \<lparr> al_ID = ''lic_1'', al_AppID = [], al_PlanName = [], al_OwnerRef = [],
         al_MaxDevices = 1, al_Entitlements = [], al_Status = [] \<rparr>, la_LicenseKey = ''LG-1'' \<rparr>),
       ct_decodeManifest = (\<lambda>s. Inl ''json'') \<rparr>"


definition samplePublish :: publishFlags where
  "samplePublish = (defaultPublishFlags (\<lambda>k. []))
     \<lparr> pf_server := ''http://lg/'', pf_adminToken := ''adm'',
       pf_input := (pf_input (defaultPublishFlags (\<lambda>k. [])))
         \<lparr> ri_appID := ''demo'', ri_version := ''2.0'', ri_buildNumber := 7, ri_mainBinary := ''app.exe'',
           ri_packageSHA256 := ''AB'', ri_signerThumbprint := ''t'', ri_downloadURL := ''https://dl'',
           ri_rolloutPercent := 0 \<rparr> \<rparr>"


section \<open>A published release\<close>

text \<open>What the server's decoder makes of the payload: the fields have the same JSON names.\<close>

definition releaseOf :: "releasePayload \<Rightarrow> AppRelease" where
  "releaseOf p =
     \<lparr> rel_ID = [], rel_AppID = rp_AppID p, rel_Platform = rp_Platform p, rel_Version = rp_Version p,
       rel_BuildNumber = rp_BuildNumber p, rel_Channel = rp_Channel p, rel_Status = rp_Status p,
       rel_SignerThumbprint = rp_SignerThumbprint p, rel_MainBinaryHash = rp_MainBinaryHash p,
       rel_ResourceManifestHash = rp_ResourceManifestHash p, rel_BusinessManifestSHA256 = rp_BusinessManifestSHA256 p,
       rel_ProtectedDBSchemaHash = rp_ProtectedDBSchemaHash p, rel_ProtectedDBTablesHash = rp_ProtectedDBTablesHash p,
       rel_AssetsManifestSHA256 = rp_AssetsManifestSHA256 p, rel_WorkflowManifestSHA256 = rp_WorkflowManifestSHA256 p,
       rel_DownloadURL = rp_DownloadURL p, rel_PackageSHA256 = rp_PackageSHA256 p, rel_Mandatory = rp_Mandatory p,
       rel_MinSupportedVersion = rp_MinSupportedVersion p, rel_RolloutPercent = rp_RolloutPercent p,
       rel_ReleaseNotes = rp_ReleaseNotes p, rel_CreatedAt = zeroTime \<rparr>"

text \<open>The hash of an artifact: as given, lowered, or of the content of the file.\<close>

definition artifactHash :: "golib \<Rightarrow> 'w host \<Rightarrow> 'w ctl \<Rightarrow> string \<Rightarrow> string \<Rightarrow> 'w \<Rightarrow> string \<Rightarrow> bool" where
  "artifactHash L H C path override w h \<longleftrightarrow>
     (if trimSpace override \<noteq> [] then h = toLower L (trimSpace override)
      else trimSpace path \<noteq> [] \<and>
        (\<exists>content. os_readFile H (ct_clean C (trimSpace path)) w = Inr content \<and> h = hexEncode (lib_sha256 L content)))"

lemma hashOrOverride_InrD:
  "hashOrOverride L H C path override label w = (Inr h, w') \<Longrightarrow> w' = w \<and> artifactHash L H C path override w h"
  by (auto simp: hashOrOverride_def fileSHA256Hex_def readFile_def artifactHash_def Let_def split: if_splits
      dest!: ioBind_InrD)

text \<open>C40: A published release reaches the store as it was built: the payload's fields, the hashes of the artifacts read
  or given, its rollout percentage between 0 and 100 - except that the server takes 0 percent for a missing
  value and rolls the release out to everyone.\<close>

theorem published_release:
  assumes build: "buildReleasePayload L H C input w = (Inr p, w')"
    and create: "createRelease S e r (rp_AppID p) adminID
      \<lparr> rlq_Release = releaseOf p, rlq_ValidateIntegrityFields = False \<rparr> s = (s', resp)"
    and app: "findAppLocked (rp_AppID p) s \<noteq> None" and saved: "env_save e 5 = None"
  shows "w' = w \<and> rsp_status resp = 201 \<and>
    artifactHash L H C (ri_mainBinary input) (ri_mainBinaryHash input) w (rp_MainBinaryHash p) \<and>
    artifactHash L H C (ri_packageFile input) (ri_packageSHA256 input) w (rp_PackageSHA256 p) \<and>
    rp_RolloutPercent p = max 0 (min 100 (ri_rolloutPercent input)) \<and> 0 < rp_BuildNumber p \<and>
    data_Releases (srv_data s') = data_Releases (srv_data s) @
      [(releaseOf p)\<lparr> rel_ID := newID e 1 ''rel'', rel_CreatedAt := env_now e 2,
         rel_RolloutPercent := (if ri_rolloutPercent input \<le> 0 then 100 else rp_RolloutPercent p) \<rparr>]"
proof -
  have w: "w' = w" using quiet_payload [of L H C input] build unfolding quiet_def by (metis snd_conv)
  obtain mainHash packageHash w1 w2 where steps:
    "hashOrOverride L H C (ri_mainBinary input) (ri_mainBinaryHash input) ''main-binary'' w = (Inr mainHash, w1)"
    "hashOrOverride L H C (ri_packageFile input) (ri_packageSHA256 input) ''package'' w1 = (Inr packageHash, w2)"
    "0 < ri_buildNumber input" "trimSpace (ri_version input) \<noteq> []"
    "rp_Version p = trimSpace (ri_version input)" "rp_AppID p = trimSpace (ri_appID input)"
    "rp_Platform p = fallback (trimSpace (ri_platform input)) ''windows''"
    "rp_Channel p = fallback (trimSpace (ri_channel input)) ''production''"
    "rp_Status p = fallback (trimSpace (ri_status input)) ''active''"
    "rp_MainBinaryHash p = mainHash" "rp_PackageSHA256 p = packageHash" "rp_BuildNumber p = ri_buildNumber input"
    "rp_RolloutPercent p = clampRollout (ri_rolloutPercent input)"
    using build unfolding buildReleasePayload_def Let_def
    by (auto simp: ioReturn_def ioFail_def split: if_splits dest!: ioBind_InrD)
  note main = hashOrOverride_InrD [OF steps(1)]
  note package = hashOrOverride_InrD [OF steps(2)]
  have rollout: "rp_RolloutPercent p = max 0 (min 100 (ri_rolloutPercent input))"
    by (simp add: steps(13) clampRollout_def Let_def)
  have filled: "rp_Platform p \<noteq> []" "rp_Channel p \<noteq> []" "rp_Status p \<noteq> []" "rp_Version p \<noteq> []"
    using steps(4) by (simp_all add: steps(5,7,8,9) fallback_def)
  then have "preparedRelease e (rp_AppID p) (releaseOf p) =
      (releaseOf p)\<lparr> rel_ID := newID e 1 ''rel'', rel_CreatedAt := env_now e 2,
         rel_RolloutPercent := (if ri_rolloutPercent input \<le> 0 then 100 else rp_RolloutPercent p) \<rparr>"
    by (auto simp: preparedRelease_def releaseOf_def Let_def rollout clampPercent_def)
  then have "rsp_status resp = 201 \<and> data_Releases (srv_data s') = data_Releases (srv_data s) @
      [(releaseOf p)\<lparr> rel_ID := newID e 1 ''rel'', rel_CreatedAt := env_now e 2,
         rel_RolloutPercent := (if ri_rolloutPercent input \<le> 0 then 100 else rp_RolloutPercent p) \<rparr>]"
    using create app saved filled
    by (auto simp: createRelease_def Let_def saveThen_def saveLocked_def releaseOf_def writeJSON_def)
  then show ?thesis using w main package rollout steps by simp
qed


definition samplePayload :: releasePayload where
  "samplePayload = projr (fst (buildReleasePayload sampleLib ctlHost recordingCtl (pf_input samplePublish) []))"

text \<open>The release published with a rollout of 0 percent is stored with 100.\<close>

lemma published_release_witness:
  "map (\<lambda>x. (rel_Version x, rel_MainBinaryHash x, rel_RolloutPercent x))
     (data_Releases (srv_data (fst (createRelease sampleLib sampleEnv sampleRequest ''demo'' ''adm''
        \<lparr> rlq_Release = releaseOf samplePayload, rlq_ValidateIntegrityFields = False \<rparr>
        (sampleServer (sampleData [] []) ''a''))))) =
   [(''2.0'', hexEncode ''app.exe'', 100)]"
proof -
  let ?input = "pf_input samplePublish" and ?s = "sampleServer (sampleData [] []) ''a''"
  have ok: "\<not> isl (fst (buildReleasePayload sampleLib ctlHost recordingCtl ?input []))" by code_simp
  then have build: "buildReleasePayload sampleLib ctlHost recordingCtl ?input [] =
      (Inr samplePayload, snd (buildReleasePayload sampleLib ctlHost recordingCtl ?input []))"
    unfolding samplePayload_def by (metis prod.collapse sum.collapse(2))
  have p: "rp_AppID samplePayload = ''demo''" "rp_Version samplePayload = ''2.0''" "ri_rolloutPercent ?input \<le> 0"
      "rp_MainBinaryHash samplePayload = hexEncode ''app.exe''"
    by code_simp+
  have server: "data_Releases (srv_data ?s) = []" "findAppLocked ''demo'' ?s \<noteq> None"
    by (simp_all add: sampleServer_def sampleData_def findAppLocked_def sampleApp_def findIdx.simps)
  have saved: "env_save sampleEnv 5 = None" by (simp add: sampleEnv_def)
  have "data_Releases (srv_data (fst (createRelease sampleLib sampleEnv sampleRequest ''demo'' ''adm''
        \<lparr> rlq_Release = releaseOf samplePayload, rlq_ValidateIntegrityFields = False \<rparr> ?s))) =
      [] @ [(releaseOf samplePayload)\<lparr> rel_ID := newID sampleEnv 1 ''rel'', rel_CreatedAt := env_now sampleEnv 2,
         rel_RolloutPercent := (if ri_rolloutPercent ?input \<le> 0 then 100 else rp_RolloutPercent samplePayload) \<rparr>]"
    using published_release [OF build, of sampleLib sampleEnv sampleRequest "''adm''" ?s, unfolded p(1),
        OF surjective_pairing server(2) saved]
    unfolding server(1) by (elim conjE)
  moreover have "rel_Version (releaseOf samplePayload) = ''2.0''"
      "rel_MainBinaryHash (releaseOf samplePayload) = hexEncode ''app.exe''"
    by (simp_all only: releaseOf_def AppRelease.select_convs p(2,4))
  ultimately show ?thesis using p(3) by (simp del: hexEncode.simps)
qed

text \<open>A patch changes neither the build number nor what identifies the release, whatever the request carries; so a
  bootstrap of an app that has the release registers no new build number.\<close>

lemma patch_keeps_build:
  "rel_BuildNumber (patchedRelease q x) = rel_BuildNumber x \<and> rel_Channel (patchedRelease q x) = rel_Channel x \<and>
   rel_Version (patchedRelease q x) = rel_Version x \<and> rel_Platform (patchedRelease q x) = rel_Platform x"
  by (simp add: patchedRelease_def)

end
