(* ===== verification/Demo.thy ===== *)
theory Demo
  imports SdkClient
begin

text \<open>
  The demo program (\<^verbatim>\<open>src/examples/windows-go-demo/main.go\<close>): one call of the SDK per mode, the answer printed as
  JSON, the exit status telling whether the application may run.
\<close>

record demoFlags =
  df_mode :: string
  df_endpoint :: string
  df_appID :: string
  df_version :: string
  df_licenseKey :: string
  df_binaryHash :: string
  df_signer :: string
  df_publicKey :: string

definition defaultDemoFlags :: demoFlags where
  "defaultDemoFlags =
     \<lparr> df_mode = ''activate'', df_endpoint = ''http://127.0.0.1:8090/v1'', df_appID = ''app_nax_desktop_prod'',
       df_version = ''1.4.2'', df_licenseKey = ''LG-DEMO-2026-WINDOWS'', df_binaryHash = ''demo-main-binary-sha256'',
       df_signer = ''demo-signer-thumbprint'', df_publicKey = [] \<rparr>"

text \<open>\<^verbatim>\<open>json.MarshalIndent\<close> at the types printed.\<close>

record demoJSON =
  dj_key :: "PublicKeyResponse \<Rightarrow> string + string"
  dj_result :: "VerifyResponse \<Rightarrow> string + string"
  dj_auth :: "CachedAuthorization \<Rightarrow> string + string"

text \<open>How the process ends: the lines printed to the output, the text of a \<^verbatim>\<open>log.Fatal\<close>, the exit status.\<close>

record demoExit =
  dx_lines :: "string list"
  dx_fatal :: "goError option"
  dx_status :: int

definition demoFails :: "goError \<Rightarrow> demoExit" where
  "demoFails err = \<lparr> dx_lines = [], dx_fatal = Some err, dx_status = 1 \<rparr>"

definition demoEnds :: "string list \<Rightarrow> int \<Rightarrow> demoExit" where
  "demoEnds lines status = \<lparr> dx_lines = lines, dx_fatal = None, dx_status = status \<rparr>"

text \<open>\<^verbatim>\<open>if err != nil { log.Fatal(err) }\<close>, then \<^verbatim>\<open>printJSON\<close> of what was returned.\<close>

definition demoPrint ::
  "('w, 'a) io \<Rightarrow> ('a \<Rightarrow> string + string) \<Rightarrow> ('a \<Rightarrow> string \<Rightarrow> 'w \<Rightarrow> demoExit) \<Rightarrow> 'w \<Rightarrow> demoExit \<times> 'w" where
  "demoPrint call marshal continue w =
     (case call w of
        (Inl err, w') \<Rightarrow> (demoFails err, w')
      | (Inr x, w') \<Rightarrow>
          (case marshal x of
             Inl err \<Rightarrow> (demoFails (GoErr err), w')
           | Inr payload \<Rightarrow> (continue x payload w', w')))"

definition demoLine ::
  "golib \<Rightarrow> sdkCodec \<Rightarrow> 'w host \<Rightarrow> 'w clientOptions \<Rightarrow> 'w \<Rightarrow> string" where
  "demoLine L J H c w = ''export.enabled: '' @ (if IsAllowed L J H c ''export.enabled'' w then ''true'' else ''false'')"

definition demoDone :: "('w, unit) io \<Rightarrow> string \<Rightarrow> 'w \<Rightarrow> demoExit \<times> 'w" where
  "demoDone call message w =
     (case call w of (Inl err, w') \<Rightarrow> (demoFails err, w') | (Inr _, w') \<Rightarrow> (demoEnds [message] 0, w'))"

definition demoMain ::
  "golib \<Rightarrow> sdkCodec \<Rightarrow> demoJSON \<Rightarrow> 'w host \<Rightarrow> 'w sdkNet \<Rightarrow> demoFlags \<Rightarrow> 'w \<Rightarrow> demoExit \<times> 'w" where
  "demoMain L J D H N flags w =
     (case NewClient \<lparr> co_AppID = df_appID flags, co_Endpoint = df_endpoint flags, co_PublicKey = df_publicKey flags,
             co_AppVersion = df_version flags, co_BinaryHashOverride = df_binaryHash flags,
             co_SignerThumbprint = df_signer flags, co_IntegrityHook = None \<rparr> of
        Inl err \<Rightarrow> (demoFails (GoErr err), w)
      | Inr c \<Rightarrow>
          (if df_mode flags = ''public-key''
           then demoPrint (FetchPublicKey N c) (dj_key D) (\<lambda>key payload w. demoEnds [payload] 0) w
           else if df_mode flags = ''activate''
           then demoPrint (Activate L J H N c (df_licenseKey flags)) (dj_result D)
                  (\<lambda>result payload w. if \<not> vr_Allowed result then demoEnds [payload] 2
                                      else demoEnds [payload, demoLine L J H c w] 0) w
           else if df_mode flags = ''verify''
           then demoPrint (clientVerify L J H N c) (dj_result D)
                  (\<lambda>result payload w. demoEnds [payload] (if \<not> vr_Allowed result then 2 else 0)) w
           else if df_mode flags = ''heartbeat'' then demoDone (Heartbeat L J H N c) ''heartbeat ok'' w
           else if df_mode flags = ''deactivate'' then demoDone (Deactivate J H N c) ''deactivate ok'' w
           else if df_mode flags = ''local''
           then demoPrint (cachedAuthorization L J H c) (dj_auth D)
                  (\<lambda>auth payload w. if \<not> ca_Allowed auth then demoEnds [payload] 2
                                    else demoEnds [payload, demoLine L J H c w] 0) w
           else (demoFails (GoErr (''unknown mode '' @ lib_quote L (df_mode flags))), w)))"

text \<open>A local run ends with status 0 exactly when the cached authorization allows, and changes nothing.\<close>

lemma demo_local:
  assumes "df_mode flags = ''local''" and "demoMain L J D H N flags w = (x, w')" and "dx_status x = 0"
  shows "\<exists>c auth. fst (cachedAuthorization L J H c w) = Inr auth \<and> ca_Allowed auth \<and>
    co_PublicKey c = df_publicKey flags \<and> co_AppID c = df_appID flags"
proof (cases "NewClient \<lparr> co_AppID = df_appID flags, co_Endpoint = df_endpoint flags, co_PublicKey = df_publicKey flags,
             co_AppVersion = df_version flags, co_BinaryHashOverride = df_binaryHash flags,
             co_SignerThumbprint = df_signer flags, co_IntegrityHook = None \<rparr> :: string + 'a clientOptions")
  case (Inl err)
  then show ?thesis using assms(2,3) by (simp add: demoMain_def demoFails_def split: sum.splits) auto
next
  case (Inr c)
  then have "co_PublicKey c = df_publicKey flags \<and> co_AppID c = df_appID flags"
    by (auto simp: NewClient_def Let_def split: if_splits)
  moreover have "\<exists>auth. fst (cachedAuthorization L J H c w) = Inr auth \<and> ca_Allowed auth"
    using assms Inr
    by (auto simp: demoMain_def demoPrint_def demoFails_def demoEnds_def split: prod.splits sum.splits if_splits)
  ultimately show ?thesis by blast
qed

end
