(* ===== verification/Spec2Isabelle.thy ===== *)
theory Spec2Isabelle
  imports ComponentProps ServiceProps AdminProps ServerMainProps ControlProps Demo
begin

text \<open>
  License Guard: a license server for desktop applications and the programs around it.

  \<^bold>\<open>The program.\<close> A server (\<^verbatim>\<open>src/internal/licensecore\<close>, command
  \<^verbatim>\<open>src/cmd/licenseguard-server\<close>) keeps apps, releases, licenses, devices and activations. A client fetches
  a challenge, presents it with a license key or a token, its device and an integrity report, and gets a signed
  license token with a lifetime and an offline grace period, a signed bundle of capability decisions and update
  advice. Administrators log in and manage everything over \<^verbatim>\<open>/admin\<close>. The data is saved as a whole after
  every change, to a JSON file or to PostgreSQL, whose schema the migration runner installs
  (\<^verbatim>\<open>src/cmd/licenseguard-migrate\<close>). The Go SDK (\<^verbatim>\<open>src/sdk/go/licenseguard\<close>) makes the client's calls,
  caches the token and authorizes offline from the cache. \<^verbatim>\<open>src/cmd/licenseguardctl\<close> publishes releases and
  bootstraps a development installation over the administrative API; \<^verbatim>\<open>src/examples/windows-go-demo\<close> shows
  the SDK.

  \<^bold>\<open>How the model reads.\<close> A Go struct is a record with the fields in the source's order behind a
  short prefix, a slice a list, a pointer into a slice the index found by the scan, a string a list of bytes, an
  instant a number of nanoseconds. A handler is one function from the server before the request to the server
  after it and the response, because it runs under the server's mutex; a login, a password change and the
  challenge handler, which release it in between, are split into their sections. Every call of
  \<^verbatim>\<open>time.Now\<close>, \<^verbatim>\<open>rand.Read\<close> and \<^verbatim>\<open>store.Save\<close> on a path of a handler has a number of its own, in
  program order: \<^term>\<open>env_now e k\<close>, \<^term>\<open>env_rand e k\<close> and \<^term>\<open>env_save e k\<close> are
  what the k-th one gives, so that clocks may run backwards between two readings and every save may fail, before
  or after it wrote. Go's \<^verbatim>\<open>int\<close> is an integer where the code bounds it and a 64-bit word where it
  accumulates without a check (version components, license days). Errors are the left side of a sum. The programs
  that call the operating system or the network are functions of a world that is a type variable
  (\<^verbatim>\<open>Host.io\<close>), with the calls as fields of a record.

  \<^bold>\<open>Theories and sources.\<close>
  \<^item> \<^verbatim>\<open>Prelude\<close>, \<^verbatim>\<open>GoStrings\<close>, \<^verbatim>\<open>Codec\<close>: slices and their order, the functions of
    \<^verbatim>\<open>strings\<close> and base64, with the interfaces \<^verbatim>\<open>slice_order\<close>, \<^verbatim>\<open>normaliser\<close>,
    \<^verbatim>\<open>text_codec\<close>.
  \<^item> \<^verbatim>\<open>Types\<close>: \<^verbatim>\<open>types.go\<close>. \<^verbatim>\<open>ServerState\<close>: \<^verbatim>\<open>Server\<close>, requests, responses, saving
    (\<^verbatim>\<open>data_store\<close>). \<^verbatim>\<open>Entities\<close>: the lookups.
  \<^item> \<^verbatim>\<open>RateLimit\<close> (\<^verbatim>\<open>keyed_limiter\<close>), \<^verbatim>\<open>Challenges\<close> (\<^verbatim>\<open>one_time_ticket\<close>,
    \<^verbatim>\<open>strict_ticket\<close>), \<^verbatim>\<open>Settings\<close>, \<^verbatim>\<open>Policies\<close> (\<^verbatim>\<open>keyed_table\<close>),
    \<^verbatim>\<open>Releases\<close>, \<^verbatim>\<open>Integrity\<close>, \<^verbatim>\<open>Tokens\<close>: the components the handlers of
    \<^verbatim>\<open>server.go\<close> are built from, and \<^verbatim>\<open>token.go\<close>.
  \<^item> \<^verbatim>\<open>Verification\<close>: \<^verbatim>\<open>processClientVerification\<close> and its specification; \<^verbatim>\<open>ClientApi\<close>:
    challenge, heartbeat, capability check, deactivation.
  \<^item> \<^verbatim>\<open>AuditLog\<close>, \<^verbatim>\<open>AdminAuth\<close>, \<^verbatim>\<open>AdminApps\<close>, \<^verbatim>\<open>AdminLicenses\<close>, \<^verbatim>\<open>Diagnostics\<close>,
    \<^verbatim>\<open>Bundle\<close>: administration. \<^verbatim>\<open>Seed\<close>: construction, loading and seeding. \<^verbatim>\<open>Http\<close>:
    \<^verbatim>\<open>ServeHTTP\<close> and its routes. \<^verbatim>\<open>Invariants\<close>: what every request keeps, over the step relation
    \<^verbatim>\<open>serving\<close> of \<^verbatim>\<open>ServiceProps\<close> (\<^verbatim>\<open>invariant_service\<close>).
  \<^item> \<^verbatim>\<open>Host\<close>: the key file and \<^verbatim>\<open>store.go\<close>. \<^verbatim>\<open>Postgres\<close>: \<^verbatim>\<open>postgres_store.go\<close>, one
    codec per table. \<^verbatim>\<open>SqlSplit\<close>, \<^verbatim>\<open>Migration\<close>: \<^verbatim>\<open>migration.go\<close> and its command.
  \<^item> \<^verbatim>\<open>ServerMain\<close>, \<^verbatim>\<open>Control\<close>, \<^verbatim>\<open>Demo\<close>: the other three programs. \<^verbatim>\<open>Sdk\<close>,
    \<^verbatim>\<open>SdkClient\<close>: \<^verbatim>\<open>device.go\<close>, \<^verbatim>\<open>cache_*.go\<close>, \<^verbatim>\<open>token.go\<close>, \<^verbatim>\<open>client.go\<close>.
  \<^item> \<^verbatim>\<open>Samples\<close>: concrete parameters and a small deployment, for the witnesses.

  \<^bold>\<open>What is shown.\<close>
  \<^item> \<^verbatim>\<open>VerificationProps\<close>: an allowed request met every condition of a declarative specification, and a
    request that meets it is allowed; challenges are single use over every sequence of requests; the device limit
    with the one way around it; the number of failing requests evaluated per window; token, lifetimes and effects.
  \<^item> \<^verbatim>\<open>ComponentProps\<close>: token round trip, integrity verdicts against a declarative list of violations,
    release lookup, version order, rollout, update advice, settings, policies, limiter.
  \<^item> \<^verbatim>\<open>ServiceProps\<close>, \<^verbatim>\<open>AdminProps\<close>: the invariant of every reachable state of a started server,
    sessions, the effect of administrative actions on the clients' next requests, key rotation, license creation.
  \<^item> \<^verbatim>\<open>SdkProps\<close>: offline, the SDK authorizes what the server signed and for as long; the theorem runs the
    server's answer through the client's cache.
  \<^item> \<^verbatim>\<open>StoreProps\<close> (over \<^verbatim>\<open>PostgresProps\<close>): a save followed by a load, the keys and references every saved
    database satisfies, and a release the server accepts that makes saving impossible.
  \<^item> \<^verbatim>\<open>Migration\<close>: the splitter against a definition by whole tokens, termination, atomic files, a second run.
  \<^item> \<^verbatim>\<open>ServerMainProps\<close>: production starts and the redaction of logged URLs. \<^verbatim>\<open>ControlProps\<close>: where
    credentials go, and the path of a published release from the artifact to the server's data.

  \<^bold>\<open>Termination.\<close> Recursion is structural or has a measure, with one exception: the loop of the SQL
  splitter, which is a \<^verbatim>\<open>partial_function\<close>; it is shown to return on every input, so nothing rests on fuel.

  \<^bold>\<open>Parameters.\<close> SHA-256, Ed25519, bcrypt, Unicode case mapping beyond ASCII and \<^verbatim>\<open>encoding/json\<close> at the
  types used (\<^verbatim>\<open>golib\<close>, \<^verbatim>\<open>fileCodec\<close>, \<^verbatim>\<open>dbCodec\<close>, \<^verbatim>\<open>sdkCodec\<close>, \<^verbatim>\<open>ctl\<close>), \<^verbatim>\<open>net/url\<close>
  (\<^verbatim>\<open>urllib\<close>), the operating system (\<^verbatim>\<open>host\<close>), HTTP transports (\<^verbatim>\<open>sdkNet\<close>, \<^verbatim>\<open>ctl\<close>), the database
  driver (\<^verbatim>\<open>migrationDB\<close>, \<^verbatim>\<open>storeDB\<close>) and the zip writer. What a theorem needs of one is a named hypothesis on
  it: \<^verbatim>\<open>ed25519\<close>, \<^verbatim>\<open>claimsRoundTrip\<close>, \<^verbatim>\<open>fileLaws\<close>, \<^verbatim>\<open>storeLaws\<close>, \<^verbatim>\<open>schemaLaws\<close>,
  \<^verbatim>\<open>jsonLaws\<close>, \<^verbatim>\<open>driverAnswers\<close>, \<^verbatim>\<open>recordsRequests\<close>; each witness instantiates it. Time limits of
  contexts are failures of the driver or the transport.

  \<^bold>\<open>Not modelled.\<close> The decoding of a request body from its JSON text (a handler takes the decoded value or
  the error), the parsing of command line flags (the programs take the parsed flags), the files of the
  administration UI (\<^verbatim>\<open>src/web/admin\<close>), the memory layout of the Windows data protection calls in
  \<^verbatim>\<open>cache_windows.go\<close>, connection pools, shell scripts and deployment files. The SQL of the schema appears as
  its unique keys and references (\<^verbatim>\<open>schemaUnique\<close>, \<^verbatim>\<open>schemaReferences\<close>).
\<close>

end
